(* ===== verification/Psbc_Prelude.thy ===== *)
theory Psbc_Prelude
  imports Main "HOL-Library.Word"
begin

text \<open>
  Shared vocabulary of the development: names for the C integer types, little-endian
  encodings of the fixed-width integers that the emitter copies into its output buffer, the bit
  helpers of \<^verbatim>\<open>src/src/util/macros.h\<close> and \<^verbatim>\<open>src/src/util/bitscan.h\<close>, and the generic lemmas on words and
  lists that the component theories use.  The collections \<open>byte_simps\<close> and \<open>guard_simps\<close>
  gather the facts that \<open>simp add:\<close> carries into the component proofs.
\<close>

unbundle bit_operations_syntax

named_theorems byte_simps "lengths and round trips of byte encodings"
named_theorems guard_simps "what an accepted guard of the code says"

type_synonym u8 = "8 word"
type_synonym u16 = "16 word"
type_synonym u32 = "32 word"
type_synonym u64 = "64 word"
type_synonym bytes = "8 word list"

section \<open>Definitions\<close>

definition le16 :: "u16 \<Rightarrow> bytes" where
  "le16 w = [ucast w, ucast (drop_bit 8 w)]"

definition le32 :: "u32 \<Rightarrow> bytes" where
  "le32 w = [ucast w, ucast (drop_bit 8 w), ucast (drop_bit 16 w), ucast (drop_bit 24 w)]"

definition de16 :: "bytes \<Rightarrow> u16" where
  "de16 bs = ucast (bs ! 0) OR push_bit 8 (ucast (bs ! 1))"

definition de32 :: "bytes \<Rightarrow> u32" where
  "de32 bs = ucast (bs ! 0) OR push_bit 8 (ucast (bs ! 1)) OR
             push_bit 16 (ucast (bs ! 2)) OR push_bit 24 (ucast (bs ! 3))"

text \<open>The \<open>n\<close> elements of a buffer from index \<open>off\<close> on: what a read of an \<open>n\<close>-byte object at
  the address \<^verbatim>\<open>buf + off\<close> sees.\<close>

definition slice_at :: "nat \<Rightarrow> nat \<Rightarrow> 'a list \<Rightarrow> 'a list" where
  "slice_at off n buf = take n (drop off buf)"

definition bool_word :: "bool \<Rightarrow> u32" where
  "bool_word b = (if b then 1 else 0)"

text \<open>The bit-field macros for 32-bit and 64-bit operands.  The shift amounts are kept below the
  width by their callers; C leaves a wider shift undefined.\<close>

definition BITFIELD_BIT :: "nat \<Rightarrow> u32" where
  "BITFIELD_BIT b = push_bit b 1"

definition BITFIELD_MASK :: "nat \<Rightarrow> u32" where
  "BITFIELD_MASK b = (if b = 32 then NOT 0 else BITFIELD_BIT (b mod 32) - 1)"

definition BITFIELD_RANGE :: "nat \<Rightarrow> nat \<Rightarrow> u32" where
  "BITFIELD_RANGE b count = BITFIELD_MASK (b + count) AND NOT (BITFIELD_MASK b)"

definition BITFIELD64_BIT :: "nat \<Rightarrow> u64" where
  "BITFIELD64_BIT b = push_bit b 1"

definition BITFIELD64_MASK :: "nat \<Rightarrow> u64" where
  "BITFIELD64_MASK b = (if b = 64 then NOT 0 else BITFIELD64_BIT (b mod 64) - 1)"

lemma clear_lsb_less: "n \<noteq> 0 \<Longrightarrow> n AND (n - 1) < (n :: 'a::len word)"
  using word_and_le1 [of n "n - 1"]
  by (simp add: word_less_nat_alt word_le_nat_alt unat_minus_one)
    (metis One_nat_def Suc_pred le_imp_less_Suc unat_gt_0)

text \<open>\<^verbatim>\<open>util_bitcount\<close> and \<^verbatim>\<open>util_bitcount64\<close>: the loop clears the lowest set bit until none is
  left.\<close>

function util_bitcount :: "'a::len word \<Rightarrow> nat" where
  "util_bitcount n = (if n = 0 then 0 else util_bitcount (n AND (n - 1)) + 1)"
  by auto
termination
  by (relation "measure unat") (auto simp: clear_lsb_less unat_mono)

declare util_bitcount.simps [simp del]

definition popcount :: "'a::len word \<Rightarrow> nat" where
  "popcount w = length (filter (bit w) [0..<LENGTH('a)])"

section \<open>Bit counting\<close>

lemma clear_lsb_eq_unset_bit:
  fixes n :: "'a::len word"
  assumes "bit n k" and below: "\<And>i. i < k \<Longrightarrow> \<not> bit n i"
  shows "n AND (n - 1) = unset_bit k n"
proof -
  let ?u = "unset_bit k n"
  have k: "k < LENGTH('a)" using assms(1) bit_imp_le_length by blast
  have "?u + 2 ^ k = ?u OR 2 ^ k"
    by (rule disjunctive_add) (auto simp: bit_simps)
  also have "\<dots> = n"
    by (rule bit_eqI) (use assms(1) in \<open>auto simp: bit_simps\<close>)
  finally have "n - 1 = ?u + mask k"
    by (simp add: mask_eq_decr_exp algebra_simps)
  also have "\<dots> = ?u OR mask k"
    by (rule disjunctive_add) (use below in \<open>auto simp: bit_simps\<close>)
  finally show ?thesis
    by (intro bit_eqI) (use below in \<open>auto simp: bit_simps\<close>)
qed

lemma popcount_card: "popcount (w :: 'a::len word) = card {i. bit w i}"
proof -
  have "{i. bit w i} = set (filter (bit w) [0..<LENGTH('a)])"
    by (auto dest: bit_imp_le_length)
  then show ?thesis
    unfolding popcount_def by (simp only: distinct_card distinct_filter distinct_upt)
qed

lemma finite_bits [simp]: "finite {i. bit (w :: 'a::len word) i}"
  by (rule finite_subset [of _ "{..<LENGTH('a)}"]) (auto dest: bit_imp_le_length)

lemma popcount_clear_lsb:
  assumes "(n :: 'a::len word) \<noteq> 0"
  shows "popcount n = Suc (popcount (n AND (n - 1)))"
proof -
  obtain j where "bit n j" using assms bit_word_eqI [of n 0] by auto
  define k where "k = (LEAST i. bit n i)"
  have k: "bit n k" and below: "\<And>i. i < k \<Longrightarrow> \<not> bit n i"
    unfolding k_def using \<open>bit n j\<close> by (auto intro: LeastI dest: not_less_Least)
  have eq: "n AND (n - 1) = unset_bit k n"
    by (rule clear_lsb_eq_unset_bit [OF k below])
  have "{i. bit n i} = insert k {i. bit (unset_bit k n) i}"
    using k by (auto simp: bit_unset_bit_iff)
  moreover have "\<not> bit (unset_bit k n) k"
    by (simp add: bit_unset_bit_iff)
  ultimately show ?thesis unfolding popcount_card eq by simp
qed

lemma util_bitcount_popcount: "util_bitcount n = popcount n"
proof (induction n rule: util_bitcount.induct)
  case (1 n)
  show ?case
  proof (cases "n = 0")
    case True
    then show ?thesis by (simp add: util_bitcount.simps popcount_card)
  next
    case False
    then show ?thesis using 1 by (simp add: util_bitcount.simps [of n] popcount_clear_lsb [of n])
  qed
qed

lemma util_bitcount_le: "util_bitcount (w :: 'a::len word) \<le> LENGTH('a)"
  unfolding util_bitcount_popcount popcount_def
  by (metis length_filter_le length_upt minus_nat.diff_0)

section \<open>Small words\<close>

lemma take_bit_small: "unat w < 2 ^ n \<Longrightarrow> take_bit n w = (w :: 'a::len word)"
  by (simp add: word_unat_eq_iff unsigned_take_bit_eq take_bit_nat_eq_self)

lemma not_bit_small: "unat w < 2 ^ n \<Longrightarrow> n \<le> i \<Longrightarrow> \<not> bit (w :: 'a::len word) i"
  by (metis bit_take_bit_iff not_le take_bit_small)

lemma unat_of_nat_small: "n < 2 ^ LENGTH('a) \<Longrightarrow> unat (of_nat n :: 'a::len word) = n"
  by (simp add: unsigned_of_nat take_bit_nat_eq_self)

lemma unat_ucast_small: "unat w < 2 ^ LENGTH('b) \<Longrightarrow> unat (ucast (w :: 'a::len word) :: 'b::len word) = unat w"
  by (simp add: unsigned_ucast_eq unsigned_take_bit_eq take_bit_nat_eq_self)

lemma unat_ucast_wider: "LENGTH('a) \<le> LENGTH('b) \<Longrightarrow> unat (ucast (w :: 'a::len word) :: 'b::len word) = unat w"
  by (rule unat_ucast_small) (meson order.strict_trans2 one_le_numeral power_increasing unsigned_less)

lemma unat_mult_small: "unat a * unat b < 2 ^ LENGTH('a) \<Longrightarrow> unat (a * b :: 'a::len word) = unat a * unat b"
  by (simp add: unat_word_ariths)

lemma unat_add_small: "unat a + unat b < 2 ^ LENGTH('a) \<Longrightarrow> unat (a + b :: 'a::len word) = unat a + unat b"
  by (simp add: unat_word_ariths)

lemma unat_min: "unat (min a b) = min (unat a) (unat (b :: 'a::len word))"
  by (simp add: min_def word_le_nat_alt)

lemma unat_max: "unat (max a b) = max (unat a) (unat (b :: 'a::len word))"
  by (simp add: max_def word_le_nat_alt)

lemma factor_less: "0 < (a :: nat) \<Longrightarrow> a * n < m \<Longrightarrow> n < m"
  by (rule le_less_trans [of _ "a * n"]) simp_all

section \<open>Byte encodings\<close>

lemma length_le16 [simp, byte_simps]: "length (le16 w) = 2"
  by (simp add: le16_def)

lemma length_le32 [simp, byte_simps]: "length (le32 w) = 4"
  by (simp add: le32_def)

lemma de16_le16 [simp, byte_simps]: "de16 (le16 w @ r) = w"
proof (rule bit_word_eqI)
  fix n assume "n < LENGTH(16)"
  then have "n < 8 \<or> (8 \<le> n \<and> n < 16)" by auto
  then show "bit (de16 (le16 w @ r)) n = bit w n"
    by (auto simp: de16_def le16_def bit_simps)
qed

lemma de32_le32 [simp, byte_simps]: "de32 (le32 w @ r) = w"
proof (rule bit_word_eqI)
  fix n assume "n < LENGTH(32)"
  then have "n < 8 \<or> (8 \<le> n \<and> n < 16) \<or> (16 \<le> n \<and> n < 24) \<or> (24 \<le> n \<and> n < 32)" by auto
  then show "bit (de32 (le32 w @ r)) n = bit w n"
    by (auto simp: de32_def le32_def bit_simps)
qed

lemma length_slice_at [simp, byte_simps]: "length (slice_at off n buf) = min n (length buf - off)"
  by (simp add: slice_at_def)

lemma slice_at_append_left: "off + n \<le> length xs \<Longrightarrow> slice_at off n (xs @ ys) = slice_at off n xs"
  by (simp add: slice_at_def)

lemma slice_at_append_right: "length xs \<le> off \<Longrightarrow> slice_at off n (xs @ ys) = slice_at (off - length xs) n ys"
  by (simp add: slice_at_def)

lemma slice_at_whole: "n = length xs \<Longrightarrow> slice_at 0 n (xs @ ys) = xs"
  by (simp add: slice_at_def)

lemma slice_at_middle: "off = length xs \<Longrightarrow> n = length ys \<Longrightarrow> slice_at off n (xs @ ys @ zs) = ys"
  by (simp add: slice_at_def)

section \<open>Stores that refuse contradicting entries\<close>

text \<open>Several routines fill a table from many program points and fail when two points disagree about
  an entry.  \<open>put_list\<close> enters a list of pairs; the locale is the contract of one entry.\<close>

fun put_list :: "('k \<Rightarrow> 'v \<Rightarrow> 's \<Rightarrow> 's option) \<Rightarrow> ('k \<times> 'v) list \<Rightarrow> 's \<Rightarrow> 's option" where
  "put_list put [] s = Some s"
| "put_list put ((k, v) # kvs) s = (case put k v s of None \<Rightarrow> None | Some s' \<Rightarrow> put_list put kvs s')"

lemma put_list_append:
  "put_list put (xs @ ys) s = (case put_list put xs s of None \<Rightarrow> None | Some s' \<Rightarrow> put_list put ys s')"
  by (induction put xs s rule: put_list.induct) (auto split: option.splits)

locale consistent_store =
  fixes put :: "'k \<Rightarrow> 'v \<Rightarrow> 's \<Rightarrow> 's option"
    and look :: "'s \<Rightarrow> 'k \<Rightarrow> 'v option"
  assumes put_look: "put k v s = Some s' \<Longrightarrow> look s' k' = Some v' \<longleftrightarrow> look s k' = Some v' \<or> (k' = k \<and> v' = v)"
    and put_fails: "put k v s = None \<longleftrightarrow> (\<exists>v'. look s k = Some v' \<and> v' \<noteq> v)"
begin

lemma put_list_look:
  "put_list put kvs s = Some s' \<Longrightarrow> look s' k = Some v \<longleftrightarrow> look s k = Some v \<or> (k, v) \<in> set kvs"
proof (induction kvs arbitrary: s)
  case (Cons kv kvs)
  then show ?case by (cases kv) (auto split: option.splits simp: put_look)
qed simp

lemma put_list_functional:
  assumes "put_list put kvs s = Some s'" "(k, v) \<in> set kvs" "(k, v') \<in> set kvs"
  shows "v = v'"
  using put_list_look [OF assms(1), of k] assms(2,3) by (metis option.inject)

lemma put_list_conflict:
  assumes "put_list put kvs s = None"
  shows "\<exists>k v v'. v \<noteq> v' \<and> (k, v) \<in> set kvs \<and> (look s k = Some v' \<or> (k, v') \<in> set kvs)"
  using assms
proof (induction kvs arbitrary: s)
  case (Cons kv kvs)
  obtain k v where kv: "kv = (k, v)" by (cases kv)
  show ?case
  proof (cases "put k v s")
    case None
    then show ?thesis using kv by (auto simp: put_fails) metis
  next
    case (Some s1)
    then have "put_list put kvs s1 = None" using Cons.prems kv by simp
    from Cons.IH [OF this] obtain k' w w' where w: "w \<noteq> w'" "(k', w) \<in> set kvs"
      and c: "look s1 k' = Some w' \<or> (k', w') \<in> set kvs" by blast
    from c have "look s k' = Some w' \<or> (k', w') \<in> set (kv # kvs)"
      using put_look [OF Some] kv by auto
    then show ?thesis using w by (metis list.set_intros(2))
  qed
qed simp

end

end
