(* ===== verification/Crc32.thy ===== *)
theory Crc32
  imports Psbc_Prelude
begin

text \<open>
  The checksum of the shader binary, \<^verbatim>\<open>src/cmd/psbc/crc32_sb.c\<close> and \<^verbatim>\<open>crc32_sb.h\<close>.  The routine is a
  table-driven CRC-32 whose table index is not the low byte of the state but a folded value.  The
  locale \<open>byte_hash\<close> is the interface the emitter relies on: a checksum fed in several
  pieces equals the checksum of the concatenation.
\<close>

section \<open>Definitions\<close>

definition crc32_table :: "u32 list" where
  "crc32_table = [
    0x00000000, 0x77073096, 0xee0e612c, 0x990951ba, 0x076dc419, 0x706af48f,
    0xe963a535, 0x9e6495a3, 0x0edb8832, 0x79dcb8a4, 0xe0d5e91e, 0x97d2d988,
    0x09b64c2b, 0x7eb17cbd, 0xe7b82d07, 0x90bf1d91, 0x1db71064, 0x6ab020f2,
    0xf3b97148, 0x84be41de, 0x1adad47d, 0x6ddde4eb, 0xf4d4b551, 0x83d385c7,
    0x136c9856, 0x646ba8c0, 0xfd62f97a, 0x8a65c9ec, 0x14015c4f, 0x63066cd9,
    0xfa0f3d63, 0x8d080df5, 0x3b6e20c8, 0x4c69105e, 0xd56041e4, 0xa2677172,
    0x3c03e4d1, 0x4b04d447, 0xd20d85fd, 0xa50ab56b, 0x35b5a8fa, 0x42b2986c,
    0xdbbbc9d6, 0xacbcf940, 0x32d86ce3, 0x45df5c75, 0xdcd60dcf, 0xabd13d59,
    0x26d930ac, 0x51de003a, 0xc8d75180, 0xbfd06116, 0x21b4f4b5, 0x56b3c423,
    0xcfba9599, 0xb8bda50f, 0x2802b89e, 0x5f058808, 0xc60cd9b2, 0xb10be924,
    0x2f6f7c87, 0x58684c11, 0xc1611dab, 0xb6662d3d, 0x76dc4190, 0x01db7106,
    0x98d220bc, 0xefd5102a, 0x71b18589, 0x06b6b51f, 0x9fbfe4a5, 0xe8b8d433,
    0x7807c9a2, 0x0f00f934, 0x9609a88e, 0xe10e9818, 0x7f6a0dbb, 0x086d3d2d,
    0x91646c97, 0xe6635c01, 0x6b6b51f4, 0x1c6c6162, 0x856530d8, 0xf262004e,
    0x6c0695ed, 0x1b01a57b, 0x8208f4c1, 0xf50fc457, 0x65b0d9c6, 0x12b7e950,
    0x8bbeb8ea, 0xfcb9887c, 0x62dd1ddf, 0x15da2d49, 0x8cd37cf3, 0xfbd44c65,
    0x4db26158, 0x3ab551ce, 0xa3bc0074, 0xd4bb30e2, 0x4adfa541, 0x3dd895d7,
    0xa4d1c46d, 0xd3d6f4fb, 0x4369e96a, 0x346ed9fc, 0xad678846, 0xda60b8d0,
    0x44042d73, 0x33031de5, 0xaa0a4c5f, 0xdd0d7cc9, 0x5005713c, 0x270241aa,
    0xbe0b1010, 0xc90c2086, 0x5768b525, 0x206f85b3, 0xb966d409, 0xce61e49f,
    0x5edef90e, 0x29d9c998, 0xb0d09822, 0xc7d7a8b4, 0x59b33d17, 0x2eb40d81,
    0xb7bd5c3b, 0xc0ba6cad, 0xedb88320, 0x9abfb3b6, 0x03b6e20c, 0x74b1d29a,
    0xead54739, 0x9dd277af, 0x04db2615, 0x73dc1683, 0xe3630b12, 0x94643b84,
    0x0d6d6a3e, 0x7a6a5aa8, 0xe40ecf0b, 0x9309ff9d, 0x0a00ae27, 0x7d079eb1,
    0xf00f9344, 0x8708a3d2, 0x1e01f268, 0x6906c2fe, 0xf762575d, 0x806567cb,
    0x196c3671, 0x6e6b06e7, 0xfed41b76, 0x89d32be0, 0x10da7a5a, 0x67dd4acc,
    0xf9b9df6f, 0x8ebeeff9, 0x17b7be43, 0x60b08ed5, 0xd6d6a3e8, 0xa1d1937e,
    0x38d8c2c4, 0x4fdff252, 0xd1bb67f1, 0xa6bc5767, 0x3fb506dd, 0x48b2364b,
    0xd80d2bda, 0xaf0a1b4c, 0x36034af6, 0x41047a60, 0xdf60efc3, 0xa867df55,
    0x316e8eef, 0x4669be79, 0xcb61b38c, 0xbc66831a, 0x256fd2a0, 0x5268e236,
    0xcc0c7795, 0xbb0b4703, 0x220216b9, 0x5505262f, 0xc5ba3bbe, 0xb2bd0b28,
    0x2bb45a92, 0x5cb36a04, 0xc2d7ffa7, 0xb5d0cf31, 0x2cd99e8b, 0x5bdeae1d,
    0x9b64c2b0, 0xec63f226, 0x756aa39c, 0x026d930a, 0x9c0906a9, 0xeb0e363f,
    0x72076785, 0x05005713, 0x95bf4a82, 0xe2b87a14, 0x7bb12bae, 0x0cb61b38,
    0x92d28e9b, 0xe5d5be0d, 0x7cdcefb7, 0x0bdbdf21, 0x86d3d2d4, 0xf1d4e242,
    0x68ddb3f8, 0x1fda836e, 0x81be16cd, 0xf6b9265b, 0x6fb077e1, 0x18b74777,
    0x88085ae6, 0xff0f6a70, 0x66063bca, 0x11010b5c, 0x8f659eff, 0xf862ae69,
    0x616bffd3, 0x166ccf45, 0xa00ae278, 0xd70dd2ee, 0x4e048354, 0x3903b3c2,
    0xa7672661, 0xd06016f7, 0x4969474d, 0x3e6e77db, 0xaed16a4a, 0xd9d65adc,
    0x40df0b66, 0x37d83bf0, 0xa9bcae53, 0xdebb9ec5, 0x47b2cf7f, 0x30b5ffe9,
    0xbdbdf21c, 0xcabac28a, 0x53b39330, 0x24b4a3a6, 0xbad03605, 0xcdd70693,
    0x54de5729, 0x23d967bf, 0xb3667a2e, 0xc4614ab8, 0x5d681b02, 0x2a6f2b94,
    0xb40bbe37, 0xc30c8ea1, 0x5a05df1b, 0x2d02ef8d]"

text \<open>The index computation, in 32-bit arithmetic: the product with \<open>-6\<close> wraps.\<close>

definition crc32_index :: "u8 \<Rightarrow> u32 \<Rightarrow> u32" where
  "crc32_index p crc =
     (let index = (ucast p XOR crc) AND 0xff in
      if index < 0xe0
      then index + drop_bit 2 (drop_bit 1 (index - index div 7) + index div 7) * (- 6)
      else 0)"

definition crc32_step :: "u32 \<Rightarrow> u8 \<Rightarrow> u32" where
  "crc32_step crc p = crc32_table ! unat (crc32_index p crc) XOR drop_bit 8 crc"

primrec crc32_sb :: "bytes \<Rightarrow> u32 \<Rightarrow> u32" where
  "crc32_sb [] crc = crc"
| "crc32_sb (p # ps) crc = crc32_sb ps (crc32_step crc p)"

definition crc32_sb_begin :: u32 where
  "crc32_sb_begin = 0xffffffff"

definition crc32_sb_end :: "u32 \<Rightarrow> u32" where
  "crc32_sb_end crc = NOT crc"

text \<open>The reference for the table: eight steps of the reflected CRC-32 shift register with the
  polynomial \<open>0xEDB88320\<close>.\<close>

definition crc_bit_step :: "u32 \<Rightarrow> u32" where
  "crc_bit_step c = (if bit c 0 then drop_bit 1 c XOR 0xEDB88320 else drop_bit 1 c)"

definition crc_entry :: "u32 \<Rightarrow> u32" where
  "crc_entry c =
     crc_bit_step (crc_bit_step (crc_bit_step (crc_bit_step
       (crc_bit_step (crc_bit_step (crc_bit_step (crc_bit_step c)))))))"

section \<open>The interface of a byte-wise checksum\<close>

locale byte_hash =
  fixes step :: "'h \<Rightarrow> u8 \<Rightarrow> 'h"
    and hash :: "bytes \<Rightarrow> 'h \<Rightarrow> 'h"
  assumes hash_Nil: "hash [] h = h"
    and hash_Cons: "hash (b # bs) h = hash bs (step h b)"
begin

lemma hash_append: "hash (xs @ ys) h = hash ys (hash xs h)"
  by (induction xs arbitrary: h) (simp_all add: hash_Nil hash_Cons)

lemma hash_concat: "hash (concat xss) h = foldl (\<lambda>a xs. hash xs a) h xss"
  by (induction xss arbitrary: h) (simp_all add: hash_Nil hash_append)

lemma hash_fold: "hash xs h = foldl step h xs"
  by (induction xs arbitrary: h) (simp_all add: hash_Nil hash_Cons)

lemma hash_inj:
  assumes "\<And>b. inj (\<lambda>h. step h b)"
  shows "inj (hash xs)"
proof (induction xs)
  case Nil
  show ?case by (simp add: inj_def hash_Nil)
next
  case (Cons b bs)
  have "hash (b # bs) = hash bs \<circ> (\<lambda>h. step h b)"
    by (simp add: fun_eq_iff hash_Cons)
  then show ?case using Cons assms inj_compose by metis
qed

end

interpretation crc: byte_hash crc32_step crc32_sb
  by unfold_locales simp_all

section \<open>The table and its index\<close>

lemma length_crc32_table [simp]: "length crc32_table = 256"
  by (simp add: crc32_table_def)

lemma div7_by_shifts: "((i - i div 7) div 2 + i div 7) div 4 = i div (7::nat)"
proof -
  define q r where "q = i div 7" and "r = i mod 7"
  have i: "i = 7 * q + r" and r: "r < 7" by (simp_all add: q_def r_def)
  have "(i - q) div 2 = 3 * q + r div 2" unfolding i by simp
  then show ?thesis using r unfolding q_def [symmetric] by simp
qed

lemma times7_minus6: "(q :: u32) * 7 + r + q * (- 6) = q + r"
proof -
  have "q * 7 + q * (- 6) = q * (7 + (- 6))" by (simp only: distrib_left)
  then show ?thesis by (simp add: ac_simps)
qed

lemma crc32_index_eq:
  "crc32_index p crc = (let i = (ucast p XOR crc) AND 0xff in if i < 0xe0 then i div 7 + i mod 7 else 0)"
proof -
  define i where "i = (ucast p XOR crc) AND (0xff::u32)"
  have "i \<le> 0xff" unfolding i_def by (rule word_and_le1)
  then have le: "unat i \<le> 255" by (simp add: word_le_nat_alt)
  have d: "unat (i div 7) = unat i div 7" by (simp add: unat_div)
  have s: "unat (i - i div 7) = unat i - unat i div 7"
    by (simp add: unat_sub word_le_nat_alt d)
  have "unat (drop_bit 1 (i - i div 7)) = (unat i - unat i div 7) div 2"
    by (simp add: drop_bit_eq_div unat_div s)
  then have "unat (drop_bit 1 (i - i div 7) + i div 7) = (unat i - unat i div 7) div 2 + unat i div 7"
    using le by (subst unat_add_lem [THEN iffD1]) (simp_all add: d)
  then have "unat (drop_bit 2 (drop_bit 1 (i - i div 7) + i div 7)) = unat (i div 7)"
    by (simp add: drop_bit_eq_div unat_div div7_by_shifts)
  then have q: "drop_bit 2 (drop_bit 1 (i - i div 7) + i div 7) = i div 7"
    by (simp only: word_unat_eq_iff)
  have "i + (i div 7) * (- 6) = (i div 7) * 7 + i mod 7 + (i div 7) * (- 6)"
    by (simp only: div_mult_mod_eq)
  also have "\<dots> = i div 7 + i mod 7"
    by (rule times7_minus6)
  finally have "i + (i div 7) * (- 6) = i div 7 + i mod 7" .
  then show ?thesis
    unfolding crc32_index_def i_def [symmetric] Let_def q by simp
qed

lemma folded_index_less:
  assumes "(i :: u32) < 0xe0" shows "unat (i div 7 + i mod 7) < 38"
proof -
  have "unat i < 224" using assms by (simp add: word_less_nat_alt)
  then have "unat i div 7 \<le> 31" and "unat i mod 7 \<le> 6" by auto
  then show ?thesis by (simp add: unat_word_ariths unat_div unat_mod)
qed

text \<open>The shift register is linear over exclusive or, so the entries of the upper half of every
  power-of-two prefix follow from those of the lower half.\<close>

lemma crc_bit_step_xor: "crc_bit_step (a XOR b) = crc_bit_step a XOR crc_bit_step b"
  by (auto simp: crc_bit_step_def bit_simps drop_bit_xor xor.assoc xor.commute xor.left_commute)

lemma crc_entry_xor: "crc_entry (a XOR b) = crc_entry a XOR crc_entry b"
  by (simp add: crc_entry_def crc_bit_step_xor)

lemma of_nat_add_xor: "j < 2 ^ k \<Longrightarrow> k < 32 \<Longrightarrow> of_nat (2 ^ k + j) = (2 ^ k XOR of_nat j :: u32)"
proof -
  assume j: "j < 2 ^ k" and k: "k < 32"
  have small: "unat (of_nat j :: u32) < 2 ^ k"
    using j by (simp add: unat_of_nat le_less_trans [OF mod_less_eq_dividend])
  have "2 ^ k + of_nat j = (2 ^ k OR of_nat j :: u32)"
    by (rule disjunctive_add) (use not_bit_small [OF small] in \<open>auto simp: bit_simps\<close>)
  also have "\<dots> = 2 ^ k XOR of_nat j"
    by (intro bit_eqI) (use not_bit_small [OF small] in \<open>auto simp: bit_simps\<close>)
  finally show ?thesis by simp
qed

definition crc_prefix :: "nat \<Rightarrow> u32 list" where
  "crc_prefix n = map (crc_entry \<circ> of_nat) [0..<n]"

lemma crc_prefix_double:
  assumes "k < 32"
  shows "crc_prefix (2 ^ Suc k) = crc_prefix (2 ^ k) @ map (\<lambda>x. crc_entry (2 ^ k) XOR x) (crc_prefix (2 ^ k))"
proof -
  have "[0..<2 ^ Suc k] = [0..<2 ^ k] @ map (\<lambda>j. 2 ^ k + j) [0..<2 ^ k]"
    using upt_add_eq_append [of 0 "2 ^ k" "2 ^ k"] by (simp add: map_add_upt mult_2 ac_simps)
  then show ?thesis
    by (auto simp: crc_prefix_def of_nat_add_xor [OF _ assms] crc_entry_xor simp del: of_nat_add)
qed

text \<open>The constant table is the CRC-32 table of the reflected polynomial \<open>0xEDB88320\<close>: entry \<open>i\<close>
  is what eight steps of the shift register make of \<open>i\<close>.\<close>

theorem crc32_table_is_standard: "crc32_table = map (crc_entry \<circ> of_nat) [0..<256]"
proof -
  note eval = crc32_table_def crc_entry_def crc_bit_step_def
  have p0: "crc_prefix 1 = take 1 crc32_table"
    by (simp add: crc_prefix_def eval)
  have p1: "crc_prefix 2 = take 2 crc32_table"
    using crc_prefix_double [of 0] by (simp add: p0 [simplified] eval)
  have p2: "crc_prefix 4 = take 4 crc32_table"
    using crc_prefix_double [of 1] by (simp add: p1 [simplified] eval)
  have p3: "crc_prefix 8 = take 8 crc32_table"
    using crc_prefix_double [of 2] by (simp add: p2 [simplified] eval)
  have p4: "crc_prefix 16 = take 16 crc32_table"
    using crc_prefix_double [of 3] by (simp add: p3 [simplified] eval)
  have p5: "crc_prefix 32 = take 32 crc32_table"
    using crc_prefix_double [of 4] by (simp add: p4 [simplified] eval)
  have p6: "crc_prefix 64 = take 64 crc32_table"
    using crc_prefix_double [of 5] by (simp add: p5 [simplified] eval)
  have p7: "crc_prefix 128 = take 128 crc32_table"
    using crc_prefix_double [of 6] by (simp add: p6 [simplified] eval)
  have p8: "crc_prefix 256 = take 256 crc32_table"
    using crc_prefix_double [of 7] by (simp add: p7 [simplified] eval)
  have "take 256 crc32_table = crc32_table" by (rule take_all) simp
  then show ?thesis using p8 unfolding crc_prefix_def by simp
qed

text \<open>The shift-and-multiply index of the checksum loop is the sum of quotient and remainder by
  seven for a low byte below \<open>0xe0\<close> and zero for the rest, so every table access stays below
  entry 38 of the 256-entry table.\<close>

theorem crc32_index_folds:
  "crc32_index p crc =
     (let i = (ucast p XOR crc) AND 0xff in if i < 0xe0 then i div 7 + i mod 7 else 0) \<and>
   unat (crc32_index p crc) < 38 \<and> unat (crc32_index p crc) < length crc32_table"
proof -
  have "unat (crc32_index p crc) < 38"
    unfolding crc32_index_eq Let_def by (simp add: folded_index_less)
  then show ?thesis by (simp add: crc32_index_eq)
qed

end
