(* ===== verification/C_Text.thy ===== *)
theory C_Text
  imports Psbc_Prelude
begin

text \<open>
  The text conversions of the C library that \<^verbatim>\<open>src/cmd/psbc/main.c\<close> uses: \<^verbatim>\<open>%u\<close> of the printing functions, \<^verbatim>\<open>strtoul\<close>,
  and \<^verbatim>\<open>sscanf\<close> with the directives \<^verbatim>\<open>%u\<close>, \<^verbatim>\<open>%31[^:]\<close> and literal characters.  An \<^verbatim>\<open>unsigned long\<close> has 64 bits.  Where
  the standard leaves the value of an out-of-range \<^verbatim>\<open>%u\<close> open, the model takes what the usual libraries
  do: the conversion of \<^verbatim>\<open>strtoul\<close>, cut to 32 bits.  The lemmas show that printed numbers are read back.
\<close>

section \<open>Definitions\<close>

subsection \<open>Characters\<close>

definition is_space :: "char \<Rightarrow> bool" where
  "is_space c \<longleftrightarrow> of_char c = (32 :: nat) \<or> (9 \<le> (of_char c :: nat) \<and> (of_char c :: nat) \<le> 13)"

text \<open>The value of a digit or letter, as in a number of any base up to 36.\<close>

definition digit_value :: "char \<Rightarrow> nat option" where
  "digit_value c =
     (let n = of_char c in
      if 48 \<le> n \<and> n \<le> 57 then Some (n - 48)
      else if 97 \<le> n \<and> n \<le> 122 then Some (n - 97 + 10)
      else if 65 \<le> n \<and> n \<le> 90 then Some (n - 65 + 10)
      else None)"

definition is_digit_of :: "nat \<Rightarrow> char \<Rightarrow> bool" where
  "is_digit_of base c \<longleftrightarrow> (case digit_value c of None \<Rightarrow> False | Some d \<Rightarrow> d < base)"

abbreviation is_digit :: "char \<Rightarrow> bool" where
  "is_digit \<equiv> is_digit_of 10"

subsection \<open>Printing\<close>

fun dec_string :: "nat \<Rightarrow> string" where
  "dec_string n = (if n < 10 then [char_of (48 + n)] else dec_string (n div 10) @ [char_of (48 + n mod 10)])"

declare dec_string.simps [simp del]

definition print_u :: "'a::len word \<Rightarrow> string" where
  "print_u w = dec_string (unat w)"

subsection \<open>Reading\<close>

definition digits_value :: "nat \<Rightarrow> string \<Rightarrow> nat" where
  "digits_value base ds = foldl (\<lambda>v c. base * v + the (digit_value c)) 0 ds"

text \<open>The sign of a number and what follows it.\<close>

definition strip_sign :: "string \<Rightarrow> bool \<times> string" where
  "strip_sign s =
     (case s of
        [] \<Rightarrow> (False, s)
      | c # cs \<Rightarrow> if c = CHR ''-'' then (True, cs) else if c = CHR ''+'' then (False, cs) else (False, s))"

text \<open>With base 0, the prefix decides the base.\<close>

definition strip_base :: "nat \<Rightarrow> string \<Rightarrow> nat \<times> string" where
  "strip_base base s =
     (if base \<noteq> 0 then (base, s)
      else (case s of
              z # x # d # cs \<Rightarrow>
                if z = CHR ''0'' \<and> (x = CHR ''x'' \<or> x = CHR ''X'') \<and> is_digit_of 16 d then (16, d # cs)
                else if z = CHR ''0'' then (8, s) else (10, s)
            | z # cs \<Rightarrow> if z = CHR ''0'' then (8, s) else (10, s)
            | [] \<Rightarrow> (10, s)))"

text \<open>The value and the unread rest, which is the whole text when there is no number.\<close>

definition strtoul :: "nat \<Rightarrow> string \<Rightarrow> u64 \<times> string" where
  "strtoul base s =
     (case strip_sign (dropWhile is_space s) of (negative, t) \<Rightarrow>
      case strip_base base t of (b, u) \<Rightarrow>
        let ds = takeWhile (is_digit_of b) u; v = digits_value b ds
        in if ds = [] then (0, s)
           else (if v \<ge> 2 ^ 64 then - 1 else if negative then - of_nat v else of_nat v, drop (length ds) u))"

text \<open>A matching failure of \<^verbatim>\<open>%u\<close> is \<open>None\<close>.\<close>

definition scan_u :: "string \<Rightarrow> (u32 \<times> string) option" where
  "scan_u s =
     (if takeWhile is_digit (snd (strip_sign (dropWhile is_space s))) = [] then None
      else (case strtoul 10 s of (v, rest) \<Rightarrow> Some (ucast v, rest)))"

datatype directive = Scan_u | Scan_name nat | Scan_char char

datatype scanned = Read_u u32 | Read_name string

text \<open>The conversions made until the first one that fails.\<close>

fun sscanf :: "directive list \<Rightarrow> string \<Rightarrow> scanned list" where
  "sscanf [] s = []"
| "sscanf (Scan_u # ds) s = (case scan_u s of None \<Rightarrow> [] | Some (v, rest) \<Rightarrow> Read_u v # sscanf ds rest)"
| "sscanf (Scan_name n # ds) s =
     (let name = takeWhile (\<lambda>c. c \<noteq> CHR '':'') (take n s)
      in if name = [] then [] else Read_name name # sscanf ds (drop (length name) s))"
| "sscanf (Scan_char c # ds) s =
     (case s of [] \<Rightarrow> [] | x # xs \<Rightarrow> if x = c then sscanf ds xs else [])"

section \<open>Printed numbers\<close>

lemma dec_string_small: "n < 10 \<Longrightarrow> dec_string n = [char_of (48 + n)]"
  by (simp add: dec_string.simps)

lemma digit_value_dec: "d < 10 \<Longrightarrow> digit_value (char_of (48 + d)) = Some d"
  by (simp add: digit_value_def Let_def)

lemma is_digit_dec: "d < 10 \<Longrightarrow> is_digit (char_of (48 + d :: nat))"
  by (simp add: is_digit_of_def digit_value_dec)

lemma dec_string_digits: "\<forall>c\<in>set (dec_string n). is_digit c"
proof (induction n rule: dec_string.induct)
  case (1 n)
  then show ?case
    using is_digit_dec [of n] is_digit_dec [of "n mod 10"]
    by (subst dec_string.simps) (auto simp: Ball_def)
qed

lemma dec_string_not_empty [simp]: "dec_string n \<noteq> []"
  by (subst dec_string.simps) simp

lemma digits_value_append: "digits_value b (xs @ [c]) = b * digits_value b xs + the (digit_value c)"
  by (simp add: digits_value_def)

lemma digits_value_dec_string: "digits_value 10 (dec_string n) = n"
proof (induction n rule: dec_string.induct)
  case (1 n)
  show ?case
  proof (cases "n < 10")
    case True
    then show ?thesis by (simp add: dec_string_small digits_value_def digit_value_dec)
  next
    case False
    then have "dec_string n = dec_string (n div 10) @ [char_of (48 + n mod 10)]" by (simp add: dec_string.simps)
    then show ?thesis using False 1 by (simp add: digits_value_append digit_value_dec)
  qed
qed

lemma dec_string_inject: "dec_string m = dec_string n \<longleftrightarrow> m = n"
  by (metis digits_value_dec_string)

text \<open>A digit is neither a space nor a sign.\<close>

lemma digit_not_space: "is_digit c \<Longrightarrow> \<not> is_space c \<and> c \<noteq> CHR ''-'' \<and> c \<noteq> CHR ''+''"
  by (auto simp: is_digit_of_def digit_value_def is_space_def Let_def split: if_splits)

text \<open>Text that ends a number.\<close>

definition no_digit_first :: "string \<Rightarrow> bool" where
  "no_digit_first s \<longleftrightarrow> s = [] \<or> \<not> is_digit (hd s)"

lemma takeWhile_dec:
  assumes "no_digit_first rest"
  shows "takeWhile is_digit (dec_string n @ rest) = dec_string n"
proof -
  have "takeWhile is_digit (dec_string n @ rest) = dec_string n @ takeWhile is_digit rest"
    using dec_string_digits by (subst takeWhile_append2) auto
  also have "takeWhile is_digit rest = []"
    using assms by (cases rest) (auto simp: no_digit_first_def)
  finally show ?thesis by simp
qed

lemma number_start: "strip_sign (dropWhile is_space (dec_string n @ rest)) = (False, dec_string n @ rest)"
proof -
  obtain c cs where s: "dec_string n = c # cs" by (meson dec_string_not_empty list.exhaust)
  then have "is_digit c" using dec_string_digits [of n] by simp
  with s show ?thesis using digit_not_space [of c] by (simp add: strip_sign_def)
qed

lemma strtoul_dec:
  assumes "no_digit_first rest" "n < 2 ^ 64"
  shows "strtoul 10 (dec_string n @ rest) = (of_nat n, rest)"
  using assms
  by (simp add: strtoul_def number_start strip_base_def takeWhile_dec digits_value_dec_string Let_def)

lemma scan_u_print:
  assumes "no_digit_first rest"
  shows "scan_u (dec_string (unat (w :: u32)) @ rest) = Some (w, rest)"
proof -
  have "unat w < 2 ^ 32" using unsigned_less [where ?'a = nat, of w] by simp
  then have "unat w < 2 ^ 64" by simp
  moreover have "ucast (ucast w :: u64) = w" by (rule bit_word_eqI) (simp add: bit_ucast_iff)
  ultimately show ?thesis
    using assms by (simp add: scan_u_def number_start takeWhile_dec strtoul_dec)
qed

end
