(* ===== verification/Psbc_Types.thy ===== *)
theory Psbc_Types
  imports Psbc_Prelude
begin

text \<open>
  The public data of the library, \<^verbatim>\<open>src/libpsbc/psbc_compile.h\<close>: the enumerations, the limits, the
  descriptor, vertex-attribute and specialization records, the compile options, and the metadata and
  output structures.  A C array with a separate element counter is the list of its live elements
  where the library itself fills it (registers, semantics); where the caller fills it (attributes,
  bindings, specialization constants) the counter is kept as its own 32-bit field, because the
  library checks it.
\<close>

section \<open>Definitions\<close>

datatype PsbcTarget
  = PSBC_TARGET_PS4_BASE | PSBC_TARGET_PS4_NEO | PSBC_TARGET_PS5

datatype PsbcStage
  = PSBC_STAGE_NONE | PSBC_STAGE_VERTEX | PSBC_STAGE_TESS_CTRL | PSBC_STAGE_TESS_EVAL
  | PSBC_STAGE_GEOMETRY | PSBC_STAGE_FRAGMENT | PSBC_STAGE_COMPUTE | PSBC_STAGE_TASK
  | PSBC_STAGE_EXPORT | PSBC_STAGE_LOCAL

datatype PsbcResult
  = PSBC_RESULT_OK | PSBC_RESULT_INVALID_SPIRV | PSBC_RESULT_UNSUPPORTED_STAGE
  | PSBC_RESULT_COMPILE_NIR | PSBC_RESULT_COMPILE_ACO | PSBC_RESULT_OUT_OF_MEMORY
  | PSBC_RESULT_INTERNAL_ERROR | PSBC_RESULT_UNSUPPORTED_CAPABILITY

abbreviation (input) PSBC_MAX_CONTEXT_REGISTERS :: nat where
  "PSBC_MAX_CONTEXT_REGISTERS \<equiv> 16"

abbreviation (input) PSBC_MAX_SHADER_REGISTERS :: nat where
  "PSBC_MAX_SHADER_REGISTERS \<equiv> 8"

abbreviation (input) PSBC_MAX_SEMANTICS :: nat where
  "PSBC_MAX_SEMANTICS \<equiv> 32"

abbreviation (input) PSBC_MAX_VERTEX_ATTRIBUTES :: nat where
  "PSBC_MAX_VERTEX_ATTRIBUTES \<equiv> 32"

abbreviation (input) PSBC_MAX_DESCRIPTOR_BINDINGS :: nat where
  "PSBC_MAX_DESCRIPTOR_BINDINGS \<equiv> 64"

abbreviation (input) PSBC_MAX_DESCRIPTOR_SETS :: nat where
  "PSBC_MAX_DESCRIPTOR_SETS \<equiv> 4"

abbreviation (input) PSBC_MAX_SPECIALIZATION_CONSTANTS :: nat where
  "PSBC_MAX_SPECIALIZATION_CONSTANTS \<equiv> 64"

abbreviation (input) PSBC_MAX_SPECIALIZATION_BYTES :: nat where
  "PSBC_MAX_SPECIALIZATION_BYTES \<equiv> 8"

definition PSBC_SEMANTIC_PRIMITIVE_ID :: u32 where
  "PSBC_SEMANTIC_PRIMITIVE_ID = 47"

definition PSBC_SEMANTIC_DISTANCE_REGISTER :: u32 where
  "PSBC_SEMANTIC_DISTANCE_REGISTER = 48"

definition PSBC_SEMANTIC_VIEWPORT_INDEX :: u32 where
  "PSBC_SEMANTIC_VIEWPORT_INDEX = 49"

definition PSBC_GALLIUM_UBO_BINDING_BASE :: u32 where
  "PSBC_GALLIUM_UBO_BINDING_BASE = 32"

definition PSBC_SHADER_METADATA_VERSION :: u32 where
  "PSBC_SHADER_METADATA_VERSION = 21"

datatype PsbcVertexFormat
  = PSBC_VERTEX_FORMAT_NONE | PSBC_VERTEX_FORMAT_R32_FLOAT | PSBC_VERTEX_FORMAT_R32G32_FLOAT
  | PSBC_VERTEX_FORMAT_R32G32B32_FLOAT | PSBC_VERTEX_FORMAT_R32G32B32A32_FLOAT
  | PSBC_VERTEX_FORMAT_B8G8R8A8_UNORM | PSBC_VERTEX_FORMAT_R10G10B10A2_UNORM
  | PSBC_VERTEX_FORMAT_B10G10R10A2_UNORM | PSBC_VERTEX_FORMAT_R10G10B10A2_SNORM
  | PSBC_VERTEX_FORMAT_B10G10R10A2_SNORM | PSBC_VERTEX_FORMAT_R10G10B10A2_USCALED
  | PSBC_VERTEX_FORMAT_B10G10R10A2_USCALED | PSBC_VERTEX_FORMAT_R10G10B10A2_SSCALED
  | PSBC_VERTEX_FORMAT_B10G10R10A2_SSCALED | PSBC_VERTEX_FORMAT_R32_SINT
  | PSBC_VERTEX_FORMAT_R32G32_SINT | PSBC_VERTEX_FORMAT_R32G32B32_SINT
  | PSBC_VERTEX_FORMAT_R32G32B32A32_SINT | PSBC_VERTEX_FORMAT_R32_UINT
  | PSBC_VERTEX_FORMAT_R32G32_UINT | PSBC_VERTEX_FORMAT_R32G32B32_UINT
  | PSBC_VERTEX_FORMAT_R32G32B32A32_UINT | PSBC_VERTEX_FORMAT_R8G8B8A8_UNORM
  | PSBC_VERTEX_FORMAT_R8_UNORM | PSBC_VERTEX_FORMAT_R8_SNORM | PSBC_VERTEX_FORMAT_R8_UINT
  | PSBC_VERTEX_FORMAT_R8_SINT | PSBC_VERTEX_FORMAT_R8G8_UNORM | PSBC_VERTEX_FORMAT_R8G8_SNORM
  | PSBC_VERTEX_FORMAT_R8G8_UINT | PSBC_VERTEX_FORMAT_R8G8_SINT
  | PSBC_VERTEX_FORMAT_R8G8B8A8_SNORM | PSBC_VERTEX_FORMAT_R8G8B8A8_UINT
  | PSBC_VERTEX_FORMAT_R8G8B8A8_SINT | PSBC_VERTEX_FORMAT_R16_UNORM
  | PSBC_VERTEX_FORMAT_R16_SNORM | PSBC_VERTEX_FORMAT_R16_UINT | PSBC_VERTEX_FORMAT_R16_SINT
  | PSBC_VERTEX_FORMAT_R16_FLOAT | PSBC_VERTEX_FORMAT_R16G16_UNORM
  | PSBC_VERTEX_FORMAT_R16G16_SNORM | PSBC_VERTEX_FORMAT_R16G16_UINT
  | PSBC_VERTEX_FORMAT_R16G16_SINT | PSBC_VERTEX_FORMAT_R16G16_FLOAT
  | PSBC_VERTEX_FORMAT_R16G16B16A16_UNORM | PSBC_VERTEX_FORMAT_R16G16B16A16_SNORM
  | PSBC_VERTEX_FORMAT_R16G16B16A16_UINT | PSBC_VERTEX_FORMAT_R16G16B16A16_SINT
  | PSBC_VERTEX_FORMAT_R16G16B16A16_FLOAT

record PsbcVertexAttribute =
  va_location :: u8
  va_binding :: u8
  va_format :: PsbcVertexFormat
  va_offset :: u32
  va_stride :: u32
  va_alignment :: u32
  va_instance_divisor :: u32

datatype PsbcDescriptorType
  = PSBC_DESCRIPTOR_NONE | PSBC_DESCRIPTOR_UNIFORM_BUFFER | PSBC_DESCRIPTOR_UNIFORM_TEXEL_BUFFER
  | PSBC_DESCRIPTOR_COMBINED_IMAGE_SAMPLER | PSBC_DESCRIPTOR_STORAGE_BUFFER
  | PSBC_DESCRIPTOR_INPUT_ATTACHMENT | PSBC_DESCRIPTOR_STORAGE_IMAGE | PSBC_DESCRIPTOR_SAMPLER
  | PSBC_DESCRIPTOR_SAMPLED_IMAGE | PSBC_DESCRIPTOR_STORAGE_TEXEL_BUFFER

record PsbcDescriptorBinding =
  db_set :: u8
  db_binding :: u8
  db_type :: PsbcDescriptorType
  db_array_size :: u32
  db_offset :: u32
  db_stride :: u32

record PsbcSpecializationConstant =
  sc_constant_id :: u32
  sc_size :: u32
  sc_data :: bytes

record PsbcLinkedStageParameters =
  lp_enabled :: bool
  lp_entrypoint :: "string option"
  lp_specialization_constant_count :: u32
  lp_specialization_constants :: "PsbcSpecializationConstant list"

datatype PsbcHardwareStage
  = PSBC_HW_STAGE_UNKNOWN | PSBC_HW_STAGE_VERTEX | PSBC_HW_STAGE_PIXEL | PSBC_HW_STAGE_NGG
  | PSBC_HW_STAGE_HULL

text \<open>The bits of \<^verbatim>\<open>PsbcUnresolvedField\<close>.\<close>

definition PSBC_UNRESOLVED_PROGRAM_CHECKSUM :: u32 where
  "PSBC_UNRESOLVED_PROGRAM_CHECKSUM = 1"

definition PSBC_UNRESOLVED_NGG_ESGS_RING_ITEMSIZE :: u32 where
  "PSBC_UNRESOLVED_NGG_ESGS_RING_ITEMSIZE = 2"

definition PSBC_UNRESOLVED_AGC_LINKAGE :: u32 where
  "PSBC_UNRESOLVED_AGC_LINKAGE = 4"

definition PSBC_UNRESOLVED_TESS_PIPELINE :: u32 where
  "PSBC_UNRESOLVED_TESS_PIPELINE = 8"

record PsbcRegisterWrite =
  rw_offset :: u16
  rw_value :: u32

record PsbcShaderMetadata =
  md_version :: u32
  md_target :: PsbcTarget
  md_source_stage :: PsbcStage
  md_hardware_stage :: PsbcHardwareStage
  md_unresolved_fields :: u32
  md_context_registers :: "PsbcRegisterWrite list"
  md_shader_registers :: "PsbcRegisterWrite list"
  md_linkage_valid :: bool
  md_linkage_ge_cntl :: PsbcRegisterWrite
  md_linkage_stages_en :: PsbcRegisterWrite
  md_linkage_user_vgpr_en :: PsbcRegisterWrite
  md_merged_geometry :: bool
  md_merged_es_source_stage :: PsbcStage
  md_merged_es_itemsize :: u32
  md_merged_esgs_ring_itemsize :: u32
  md_linkage_ge_pc_alloc_valid :: bool
  md_linkage_ge_pc_alloc :: PsbcRegisterWrite
  md_hull_ls_valid :: bool
  md_hull_ls_code_size :: u32
  md_hull_ls_code_offset :: u32
  md_hull_ls_pgm_lo :: PsbcRegisterWrite
  md_hull_ls_pgm_hi :: PsbcRegisterWrite
  md_hull_ls_rsrc1 :: PsbcRegisterWrite
  md_hull_ls_rsrc2 :: PsbcRegisterWrite
  md_hull_tess_wg_valid :: bool
  md_hull_num_patches_per_wg :: u32
  md_hull_tcs_lds_size :: u32
  md_hull_workgroup_size :: u32
  md_ps_clip_distance_reads :: u32
  md_ps_cull_distance_reads :: u32
  md_esgs_system_sgprs_valid :: bool
  md_esgs_gs_tg_info_sgpr :: u32
  md_esgs_merged_wave_info_sgpr :: u32
  md_esgs_es_verts_per_subgroup :: u32
  md_esgs_gs_inst_prims_per_subgroup :: u32
  md_esgs_prim_amp_factor :: u32
  md_esgs_workgroup_size :: u32
  md_user_data_window_base :: u32
  md_input_semantics :: "u32 list"
  md_output_semantics :: "u32 list"
  md_clip_distance_mask :: u32
  md_cull_distance_mask :: u32
  md_address32_hi :: u32
  md_user_sgpr_count :: u32
  md_vertex_buffer_table_valid :: bool
  md_vertex_buffer_table_user_data_dword :: u32
  md_descriptor_set0_valid :: bool
  md_descriptor_set0_user_data_dword :: u32
  md_descriptor_set_valid :: "bool list"
  md_descriptor_set_user_data_dword :: "u32 list"
  md_push_constants_valid :: bool
  md_push_constants_user_data_dword :: u32
  md_push_constant_size :: u32
  md_push_use_valid :: bool
  md_stage_push_dwords :: u64
  md_previous_stage_push_dwords :: u64
  md_hull_push_use_valid :: bool
  md_hull_vertex_push_dwords :: u64
  md_hull_control_push_dwords :: u64
  md_descriptor_binding_count :: u32
  md_descriptor_bindings :: "PsbcDescriptorBinding list"
  md_descriptor_used_binding_mask :: "u64 list"
  md_base_vertex_valid :: bool
  md_base_vertex_user_data_dword :: u32
  md_draw_id_valid :: bool
  md_draw_id_user_data_dword :: u32
  md_view_index_valid :: bool
  md_view_index_user_data_dword :: u32
  md_start_instance_valid :: bool
  md_start_instance_user_data_dword :: u32
  md_streamout_valid :: bool
  md_streamout_buffer_table_user_data_dword :: u32
  md_streamout_enabled_stream_buffers_mask :: u32
  md_streamout_strides_dwords :: "u32 list"
  md_streamout_config_sgpr :: u32
  md_streamout_write_index_sgpr :: u32
  md_streamout_offset_sgprs :: "u32 list"
  md_scratch_valid :: bool
  md_scratch_bytes_per_wave :: u32
  md_scratch_size_per_thread :: u32
  md_scratch_buffer_table_user_data_dword :: u32
  md_ps5_ring_table_valid :: bool
  md_ps5_ring_table_user_data_dword :: u32
  md_ngg_lds_layout_valid :: bool
  md_ngg_lds_layout_user_data_dword :: u32
  md_ngg_lds_layout :: u32
  md_vertex_buffer_usage_mask :: u32
  md_vertex_buffer_per_attribute :: bool

record PsbcShaderOutput =
  out_data :: "bytes option"
  out_size :: nat
  out_machine_code :: "bytes option"
  out_machine_code_size :: nat
  out_metadata :: PsbcShaderMetadata

record PsbcCompileOptions =
  opt_target :: PsbcTarget
  opt_stage :: PsbcStage
  opt_entrypoint :: "string option"
  opt_optimise :: bool
  opt_ngg :: bool
  opt_omit_implicit_primitive_id :: bool
  opt_primitive_id_per_primitive :: bool
  opt_fragment_distance_layout_valid :: bool
  opt_fragment_clip_distance_count :: u32
  opt_ps5_global_streamout :: bool
  opt_force_accelerated_dot :: bool
  opt_primitive_type :: u32
  opt_provoking_vtx_last :: bool
  opt_address32_hi :: u32
  opt_vertex_attribute_count :: u32
  opt_vertex_attributes :: "PsbcVertexAttribute list"
  opt_descriptor_binding_count :: u32
  opt_descriptor_bindings :: "PsbcDescriptorBinding list"
  opt_specialization_constant_count :: u32
  opt_specialization_constants :: "PsbcSpecializationConstant list"
  opt_previous_parameters :: PsbcLinkedStageParameters
  opt_next_link_parameters :: PsbcLinkedStageParameters
  opt_force_indirect_push_constants :: bool
  opt_rasterization_samples :: u32
  opt_sample_shading_enable :: bool
  opt_patch_control_points :: u32
  opt_spi_shader_col_format :: u32
  opt_color_is_int8 :: u32
  opt_color_is_int10 :: u32
  opt_enable_int8 :: bool
  opt_enable_int16 :: bool
  opt_enable_storage_buffer_8bit_access :: bool
  opt_enable_uniform_and_storage_buffer_8bit_access :: bool
  opt_enable_storage_buffer_16bit_access :: bool
  opt_enable_uniform_and_storage_buffer_16bit_access :: bool
  opt_enable_physical_storage_buffer_addresses :: bool
  opt_enable_vulkan_memory_model :: bool
  opt_enable_vulkan_memory_model_device_scope :: bool
  opt_static_descriptor_use :: bool
  opt_ngg_no_passthrough :: bool
  opt_ngg_device_facts :: bool
  opt_ngg_pc_lines :: u32
  opt_ngg_min_good_cu_per_sa :: u32
  opt_ngg_culling :: bool
  opt_ngg_uses_scratch :: bool
  opt_robust_buffer_access2 :: bool

text \<open>Zero-initialised structures, as \<^verbatim>\<open>memset\<close> and \<^verbatim>\<open>= {0}\<close> leave them.\<close>

definition zero_write :: PsbcRegisterWrite where
  "zero_write =
    \<lparr>rw_offset = 0, rw_value = 0\<rparr>"

definition zero_binding :: PsbcDescriptorBinding where
  "zero_binding =
    \<lparr>db_set = 0, db_binding = 0, db_type = PSBC_DESCRIPTOR_NONE, db_array_size = 0,
     db_offset = 0, db_stride = 0\<rparr>"

definition zero_metadata :: PsbcShaderMetadata where
  "zero_metadata =
    \<lparr>md_version = 0, md_target = PSBC_TARGET_PS4_BASE, md_source_stage = PSBC_STAGE_NONE,
     md_hardware_stage = PSBC_HW_STAGE_UNKNOWN, md_unresolved_fields = 0,
     md_context_registers = [], md_shader_registers = [], md_linkage_valid = False,
     md_linkage_ge_cntl = zero_write, md_linkage_stages_en = zero_write,
     md_linkage_user_vgpr_en = zero_write, md_merged_geometry = False,
     md_merged_es_source_stage = PSBC_STAGE_NONE, md_merged_es_itemsize = 0,
     md_merged_esgs_ring_itemsize = 0, md_linkage_ge_pc_alloc_valid = False,
     md_linkage_ge_pc_alloc = zero_write, md_hull_ls_valid = False, md_hull_ls_code_size = 0,
     md_hull_ls_code_offset = 0, md_hull_ls_pgm_lo = zero_write, md_hull_ls_pgm_hi = zero_write,
     md_hull_ls_rsrc1 = zero_write, md_hull_ls_rsrc2 = zero_write, md_hull_tess_wg_valid = False,
     md_hull_num_patches_per_wg = 0, md_hull_tcs_lds_size = 0, md_hull_workgroup_size = 0,
     md_ps_clip_distance_reads = 0, md_ps_cull_distance_reads = 0,
     md_esgs_system_sgprs_valid = False, md_esgs_gs_tg_info_sgpr = 0,
     md_esgs_merged_wave_info_sgpr = 0, md_esgs_es_verts_per_subgroup = 0,
     md_esgs_gs_inst_prims_per_subgroup = 0, md_esgs_prim_amp_factor = 0,
     md_esgs_workgroup_size = 0, md_user_data_window_base = 0, md_input_semantics = [],
     md_output_semantics = [], md_clip_distance_mask = 0, md_cull_distance_mask = 0,
     md_address32_hi = 0, md_user_sgpr_count = 0, md_vertex_buffer_table_valid = False,
     md_vertex_buffer_table_user_data_dword = 0, md_descriptor_set0_valid = False,
     md_descriptor_set0_user_data_dword = 0, md_descriptor_set_valid = replicate 4 False,
     md_descriptor_set_user_data_dword = replicate 4 0, md_push_constants_valid = False,
     md_push_constants_user_data_dword = 0, md_push_constant_size = 0, md_push_use_valid = False,
     md_stage_push_dwords = 0, md_previous_stage_push_dwords = 0, md_hull_push_use_valid = False,
     md_hull_vertex_push_dwords = 0, md_hull_control_push_dwords = 0,
     md_descriptor_binding_count = 0, md_descriptor_bindings = replicate 64 zero_binding,
     md_descriptor_used_binding_mask = replicate 4 0, md_base_vertex_valid = False,
     md_base_vertex_user_data_dword = 0, md_draw_id_valid = False, md_draw_id_user_data_dword = 0,
     md_view_index_valid = False, md_view_index_user_data_dword = 0,
     md_start_instance_valid = False, md_start_instance_user_data_dword = 0,
     md_streamout_valid = False, md_streamout_buffer_table_user_data_dword = 0,
     md_streamout_enabled_stream_buffers_mask = 0, md_streamout_strides_dwords = replicate 4 0,
     md_streamout_config_sgpr = 0, md_streamout_write_index_sgpr = 0,
     md_streamout_offset_sgprs = replicate 4 0, md_scratch_valid = False,
     md_scratch_bytes_per_wave = 0, md_scratch_size_per_thread = 0,
     md_scratch_buffer_table_user_data_dword = 0, md_ps5_ring_table_valid = False,
     md_ps5_ring_table_user_data_dword = 0, md_ngg_lds_layout_valid = False,
     md_ngg_lds_layout_user_data_dword = 0, md_ngg_lds_layout = 0,
     md_vertex_buffer_usage_mask = 0, md_vertex_buffer_per_attribute = False\<rparr>"

definition zero_output :: PsbcShaderOutput where
  "zero_output =
    \<lparr>out_data = None, out_size = 0, out_machine_code = None, out_machine_code_size = 0,
     out_metadata = zero_metadata\<rparr>"

definition zero_linked_parameters :: PsbcLinkedStageParameters where
  "zero_linked_parameters =
    \<lparr>lp_enabled = False, lp_entrypoint = None, lp_specialization_constant_count = 0,
     lp_specialization_constants = []\<rparr>"

definition zero_options :: PsbcCompileOptions where
  "zero_options =
    \<lparr>opt_target = PSBC_TARGET_PS4_BASE, opt_stage = PSBC_STAGE_NONE, opt_entrypoint = None,
     opt_optimise = False, opt_ngg = False, opt_omit_implicit_primitive_id = False,
     opt_primitive_id_per_primitive = False, opt_fragment_distance_layout_valid = False,
     opt_fragment_clip_distance_count = 0, opt_ps5_global_streamout = False,
     opt_force_accelerated_dot = False, opt_primitive_type = 0, opt_provoking_vtx_last = False,
     opt_address32_hi = 0, opt_vertex_attribute_count = 0, opt_vertex_attributes = [],
     opt_descriptor_binding_count = 0, opt_descriptor_bindings = [],
     opt_specialization_constant_count = 0, opt_specialization_constants = [],
     opt_previous_parameters = zero_linked_parameters,
     opt_next_link_parameters = zero_linked_parameters, opt_force_indirect_push_constants = False,
     opt_rasterization_samples = 0, opt_sample_shading_enable = False,
     opt_patch_control_points = 0, opt_spi_shader_col_format = 0, opt_color_is_int8 = 0,
     opt_color_is_int10 = 0, opt_enable_int8 = False, opt_enable_int16 = False,
     opt_enable_storage_buffer_8bit_access = False,
     opt_enable_uniform_and_storage_buffer_8bit_access = False,
     opt_enable_storage_buffer_16bit_access = False,
     opt_enable_uniform_and_storage_buffer_16bit_access = False,
     opt_enable_physical_storage_buffer_addresses = False, opt_enable_vulkan_memory_model = False,
     opt_enable_vulkan_memory_model_device_scope = False, opt_static_descriptor_use = False,
     opt_ngg_no_passthrough = False, opt_ngg_device_facts = False, opt_ngg_pc_lines = 0,
     opt_ngg_min_good_cu_per_sa = 0, opt_ngg_culling = False, opt_ngg_uses_scratch = False,
     opt_robust_buffer_access2 = False\<rparr>"

end
