(* ===== verification/Mesa_Types.thy ===== *)
theory Mesa_Types
  imports Psbc_Types
begin

text \<open>
  The part of Mesa's data that \<^verbatim>\<open>libpsbc\<close> reads and writes: shader stages and chip generations
  (\<^verbatim>\<open>src/src/compiler/shader_enums.h\<close>, \<^verbatim>\<open>src/src/amd/common/amd_family.h\<close>), the shader information and
  argument structures of RADV (\<^verbatim>\<open>src/src/amd/vulkan/radv_shader_info.h\<close>, \<^verbatim>\<open>radv_shader_args.h\<close>), the
  register configuration of a compiled binary (\<^verbatim>\<open>src/src/amd/common/ac_binary.h\<close>), and the NIR
  instructions (\<^verbatim>\<open>src/src/compiler/nir/nir.h\<close>) with the indices the passes of \<^verbatim>\<open>libpsbc\<close> look at.
  The records hold the members the library uses.
\<close>

section \<open>Definitions\<close>

subsection \<open>Enumerations\<close>

datatype mesa_shader_stage
  = MESA_SHADER_NONE | MESA_SHADER_VERTEX | MESA_SHADER_TESS_CTRL | MESA_SHADER_TESS_EVAL
  | MESA_SHADER_GEOMETRY | MESA_SHADER_FRAGMENT | MESA_SHADER_COMPUTE | MESA_SHADER_TASK
  | MESA_SHADER_MESH

datatype amd_gfx_level
  = CLASS_UNKNOWN | R300 | R400 | R500 | R600 | R700 | EVERGREEN | CAYMAN | GFX6 | GFX7 | GFX8 | GFX9
  | GFX10 | GFX10_3 | GFX11 | GFX11_5 | GFX11_7 | GFX12 | GFX12_1

primrec gfx_rank :: "amd_gfx_level \<Rightarrow> nat" where
  "gfx_rank CLASS_UNKNOWN = 0" | "gfx_rank R300 = 1" | "gfx_rank R400 = 2" | "gfx_rank R500 = 3"
| "gfx_rank R600 = 4" | "gfx_rank R700 = 5" | "gfx_rank EVERGREEN = 6" | "gfx_rank CAYMAN = 7"
| "gfx_rank GFX6 = 8" | "gfx_rank GFX7 = 9" | "gfx_rank GFX8 = 10" | "gfx_rank GFX9 = 11"
| "gfx_rank GFX10 = 12" | "gfx_rank GFX10_3 = 13" | "gfx_rank GFX11 = 14" | "gfx_rank GFX11_5 = 15"
| "gfx_rank GFX11_7 = 16" | "gfx_rank GFX12 = 17" | "gfx_rank GFX12_1 = 18"

lemma gfx_rank_inj: "gfx_rank a = gfx_rank b \<Longrightarrow> a = b"
  by (cases a; cases b) simp_all

instantiation amd_gfx_level :: linorder
begin

definition less_eq_amd_gfx_level :: "amd_gfx_level \<Rightarrow> amd_gfx_level \<Rightarrow> bool" where
  "less_eq_amd_gfx_level a b \<longleftrightarrow> gfx_rank a \<le> gfx_rank b"

definition less_amd_gfx_level :: "amd_gfx_level \<Rightarrow> amd_gfx_level \<Rightarrow> bool" where
  "less_amd_gfx_level a b \<longleftrightarrow> gfx_rank a < gfx_rank b"

instance
  by standard (auto simp: less_eq_amd_gfx_level_def less_amd_gfx_level_def intro: gfx_rank_inj)

end

text \<open>The chips the library and the helpers it calls distinguish.\<close>

datatype radeon_family = CHIP_UNKNOWN | CHIP_KAVERI | CHIP_TONGA | CHIP_NAVI14 | CHIP_NAVI21

datatype tess_primitive_mode
  = TESS_PRIMITIVE_UNSPECIFIED | TESS_PRIMITIVE_TRIANGLES | TESS_PRIMITIVE_QUADS
  | TESS_PRIMITIVE_ISOLINES

datatype gl_tess_spacing
  = TESS_SPACING_UNSPECIFIED | TESS_SPACING_EQUAL | TESS_SPACING_FRACTIONAL_ODD
  | TESS_SPACING_FRACTIONAL_EVEN

datatype gl_frag_depth_layout
  = FRAG_DEPTH_LAYOUT_NONE | FRAG_DEPTH_LAYOUT_ANY | FRAG_DEPTH_LAYOUT_GREATER
  | FRAG_DEPTH_LAYOUT_LESS | FRAG_DEPTH_LAYOUT_UNCHANGED

datatype mesa_prim
  = MESA_PRIM_POINTS | MESA_PRIM_LINES | MESA_PRIM_LINE_LOOP | MESA_PRIM_LINE_STRIP
  | MESA_PRIM_TRIANGLES | MESA_PRIM_TRIANGLE_STRIP | MESA_PRIM_TRIANGLE_FAN | MESA_PRIM_QUADS
  | MESA_PRIM_QUAD_STRIP | MESA_PRIM_POLYGON | MESA_PRIM_LINES_ADJACENCY
  | MESA_PRIM_LINE_STRIP_ADJACENCY | MESA_PRIM_TRIANGLES_ADJACENCY
  | MESA_PRIM_TRIANGLE_STRIP_ADJACENCY | MESA_PRIM_PATCHES | MESA_PRIM_UNKNOWN

text \<open>Varying slots that the library names.\<close>

abbreviation (input) VARYING_SLOT_CLIP_DIST0 :: nat where
  "VARYING_SLOT_CLIP_DIST0 \<equiv> 17"

abbreviation (input) VARYING_SLOT_CLIP_DIST1 :: nat where
  "VARYING_SLOT_CLIP_DIST1 \<equiv> 18"

abbreviation (input) VARYING_SLOT_CULL_DIST0 :: nat where
  "VARYING_SLOT_CULL_DIST0 \<equiv> 19"

abbreviation (input) VARYING_SLOT_CULL_DIST1 :: nat where
  "VARYING_SLOT_CULL_DIST1 \<equiv> 20"

abbreviation (input) VARYING_SLOT_PRIMITIVE_ID :: nat where
  "VARYING_SLOT_PRIMITIVE_ID \<equiv> 21"

abbreviation (input) VARYING_SLOT_VIEWPORT :: nat where
  "VARYING_SLOT_VIEWPORT \<equiv> 23"

abbreviation (input) VARYING_SLOT_TESS_LEVEL_OUTER :: nat where
  "VARYING_SLOT_TESS_LEVEL_OUTER \<equiv> 26"

abbreviation (input) VARYING_SLOT_TESS_LEVEL_INNER :: nat where
  "VARYING_SLOT_TESS_LEVEL_INNER \<equiv> 27"

abbreviation (input) FRAG_RESULT_DUAL_SRC_BLEND :: nat where
  "FRAG_RESULT_DUAL_SRC_BLEND \<equiv> 12"

abbreviation (input) VARYING_SLOT_VAR0 :: nat where
  "VARYING_SLOT_VAR0 \<equiv> 32"

subsection \<open>RADV shader information\<close>

record radv_vs_output_info =
  oi_vs_output_param_offset :: "u8 list"
  oi_clip_dist_mask :: u8
  oi_cull_dist_mask :: u8
  oi_param_exports :: u8
  oi_prim_param_exports :: u8
  oi_writes_pointsize :: bool
  oi_writes_layer :: bool
  oi_writes_viewport_index :: bool
  oi_writes_primitive_shading_rate :: bool
  oi_export_prim_id :: bool
  oi_export_prim_id_per_primitive :: bool

record radv_streamout_info =
  so_strides :: "u16 list"
  so_enabled_stream_buffers_mask :: u32

record gfx10_ngg_info =
  ng_hw_max_esverts :: u32
  ng_max_gsprims :: u32
  ng_max_out_verts :: u32
  ng_prim_amp_factor :: u32
  ng_vgt_esgs_ring_itemsize :: u32
  ng_esgs_ring_size :: u32
  ng_lds_size :: u32
  ng_max_vert_out_per_gs_instance :: bool

record radv_vs_info =
  vs_vb_desc_usage_mask :: u32
  vs_num_linked_outputs :: u8
  vs_as_ls :: bool
  vs_use_per_attribute_vb_descs :: bool
  vs_has_prolog :: bool

record radv_gs_info =
  gs_vertices_out :: u32
  gs_output_prim :: mesa_prim
  gs_invocations :: u32
  gs_num_linked_inputs :: u8

record radv_tes_info =
  te_num_linked_inputs :: u8
  te_num_linked_patch_inputs :: u8
  te_num_linked_outputs :: u8
  te_primitive_mode :: tess_primitive_mode

record radv_tcs_info =
  tc_tes_inputs_read :: u64
  tc_tes_patch_inputs_read :: u64
  tc_lds_size :: u32
  tc_num_linked_inputs :: u8
  tc_tes_reads_tess_factors :: bool

record radv_ps_info =
  ps_input_mask :: u32
  ps_input_per_primitive_mask :: u32
  ps_explicit_shaded_mask :: u32
  ps_explicit_strict_shaded_mask :: u32
  ps_float16_shaded_mask :: u32
  ps_float16_hi_shaded_mask :: u32
  ps_num_inputs :: u32
  ps_writes_memory :: bool
  ps_writes_z :: bool
  ps_writes_stencil :: bool
  ps_writes_sample_mask :: bool
  ps_writes_mrt0_alpha :: bool
  ps_prim_id_input :: bool
  ps_can_discard :: bool
  ps_early_fragment_test :: bool
  ps_post_depth_coverage :: bool
  ps_depth_layout :: gl_frag_depth_layout
  ps_pops :: bool
  ps_spi_shader_col_format :: u32

record radv_shader_info =
  ri_workgroup_size :: u32
  ri_inline_push_constant_mask :: u64
  ri_push_constant_size :: u32
  ri_desc_set_used_mask :: u32
  ri_num_tess_patches :: u32
  ri_esgs_itemsize :: u32
  ri_outinfo :: radv_vs_output_info
  ri_wave_size :: u8
  ri_stage :: mesa_shader_stage
  ri_can_inline_all_push_constants :: bool
  ri_loads_push_constants :: bool
  ri_is_ngg :: bool
  ri_is_ngg_passthrough :: bool
  ri_has_ngg_culling :: bool
  ri_inputs_linked :: bool
  ri_outputs_linked :: bool
  ri_merged_shader_compiled_separately :: bool
  ri_force_indirect_descriptors :: bool
  ri_ngg_wave_id_en :: bool
  ri_vs :: radv_vs_info
  ri_gs :: radv_gs_info
  ri_tes :: radv_tes_info
  ri_ps :: radv_ps_info
  ri_tcs :: radv_tcs_info
  ri_so :: radv_streamout_info
  ri_ngg_info :: gfx10_ngg_info
  ri_nir_shared_size :: u32
  ri_shader_data :: "u8 list"
  ri_descriptor_sets :: "u8 list"

subsection \<open>Shader arguments and register configuration\<close>

record ac_arg =
  arg_index :: nat
  arg_used :: bool

text \<open>\<open>sa_arg_offset\<close> and \<open>sa_arg_size\<close> are the \<^verbatim>\<open>offset\<close> and \<^verbatim>\<open>size\<close> members of \<^verbatim>\<open>ac_shader_args::args\<close>; \<open>sa_shader_data\<close> and
  \<open>sa_descriptor_sets\<close> are the \<^verbatim>\<open>sgpr_idx\<close> members of the user-data locations, signed bytes with
  \<open>-1\<close> for a location that was not assigned.  \<open>ri_shader_data\<close> and \<open>ri_descriptor_sets\<close> are the copy of
  these locations in the shader information.\<close>

record radv_shader_args =
  sa_arg_offset :: "u8 list"
  sa_arg_size :: "u8 list"
  sa_push_constants :: ac_arg
  sa_vertex_buffers :: ac_arg
  sa_base_vertex :: ac_arg
  sa_draw_id :: ac_arg
  sa_start_instance :: ac_arg
  sa_view_index :: ac_arg
  sa_streamout_config :: ac_arg
  sa_streamout_write_index :: ac_arg
  sa_streamout_offset :: "ac_arg list"
  sa_gs_tg_info :: ac_arg
  sa_merged_wave_info :: ac_arg
  sa_descriptors :: "ac_arg list"
  sa_streamout_buffers :: ac_arg
  sa_ngg_lds_layout :: ac_arg
  sa_ps5_ring_table :: ac_arg
  sa_prolog_inputs :: ac_arg
  sa_vs_inputs :: "ac_arg list"
  sa_shader_data :: "u8 list"
  sa_descriptor_sets :: "u8 list"
  sa_num_user_sgprs :: u32
  sa_inline_push_const_mask :: u64

abbreviation (input) AC_UD_SCRATCH_RING_OFFSETS :: nat where
  "AC_UD_SCRATCH_RING_OFFSETS \<equiv> 0"

abbreviation (input) AC_UD_PUSH_CONSTANTS :: nat where
  "AC_UD_PUSH_CONSTANTS \<equiv> 1"

abbreviation (input) AC_UD_VIEW_INDEX :: nat where
  "AC_UD_VIEW_INDEX \<equiv> 4"

abbreviation (input) AC_UD_STREAMOUT_BUFFERS :: nat where
  "AC_UD_STREAMOUT_BUFFERS \<equiv> 5"

abbreviation (input) AC_UD_NGG_LDS_LAYOUT :: nat where
  "AC_UD_NGG_LDS_LAYOUT \<equiv> 10"

abbreviation (input) AC_UD_PS5_RING_TABLE :: nat where
  "AC_UD_PS5_RING_TABLE \<equiv> 15"

abbreviation (input) AC_UD_VS_VERTEX_BUFFERS :: nat where
  "AC_UD_VS_VERTEX_BUFFERS \<equiv> 20"

abbreviation (input) AC_UD_VS_BASE_VERTEX_START_INSTANCE :: nat where
  "AC_UD_VS_BASE_VERTEX_START_INSTANCE \<equiv> 21"

record ac_shader_config =
  cfg_num_sgprs :: u32
  cfg_num_vgprs :: u32
  cfg_lds_size :: u32
  cfg_spi_ps_input_ena :: u32
  cfg_spi_ps_input_addr :: u32
  cfg_float_mode :: u32
  cfg_scratch_bytes_per_wave :: u32
  cfg_rsrc1 :: u32
  cfg_rsrc2 :: u32

subsection \<open>NIR\<close>

text \<open>The intrinsics the passes test for; every other intrinsic is \<open>nir_intrinsic_other\<close>.\<close>

datatype nir_intrinsic_op
  = nir_intrinsic_load_input | nir_intrinsic_load_input_vertex
  | nir_intrinsic_load_interpolated_input | nir_intrinsic_load_push_constant
  | nir_intrinsic_load_ubo | nir_intrinsic_vulkan_resource_index
  | nir_intrinsic_image_deref_load | nir_intrinsic_image_deref_sparse_load
  | nir_intrinsic_image_deref_store | nir_intrinsic_image_deref_atomic
  | nir_intrinsic_image_deref_atomic_swap | nir_intrinsic_image_deref_size
  | nir_intrinsic_image_deref_samples | nir_intrinsic_load_subgroup_id
  | nir_intrinsic_load_local_invocation_index | nir_intrinsic_load_num_subgroups
  | nir_intrinsic_load_use_float_frag_coord_xy_amd | nir_intrinsic_other

record nir_io_semantics =
  io_location :: nat
  io_num_slots :: nat

text \<open>A source operand: a constant with its unsigned value, the three-component result of a
  resource-index intrinsic (its set and binding), or any other value; each with the number of
  components of its definition.\<close>

datatype nir_src
  = Src_const nat | Src_resource nat nat | Src_ssa nat

text \<open>\<open>nii_var\<close> is the descriptor set and binding of the variable that an image dereference names, if
  it names one.\<close>

record nir_intrinsic_instr =
  nii_intrinsic :: nir_intrinsic_op
  nii_src0 :: nir_src
  nii_offset :: "nir_src option"
  nii_vertex :: "nat option"
  nii_num_components :: nat
  nii_bit_size :: nat
  nii_base :: u32
  nii_range :: u32
  nii_component :: nat
  nii_io :: nir_io_semantics
  nii_desc_set :: u32
  nii_binding :: u32
  nii_var :: "(u32 \<times> u32) option"

datatype nir_tex_src_type = nir_tex_src_texture_deref | nir_tex_src_sampler_deref | nir_tex_src_other

record nir_tex_src =
  tex_src_type :: nir_tex_src_type
  tex_var :: "(u32 \<times> u32) option"

datatype nir_instr
  = Instr_intrinsic nir_intrinsic_instr | Instr_tex "nir_tex_src list" | Instr_other

record nir_tess_info =
  ti_primitive_mode :: tess_primitive_mode
  ti_spacing :: gl_tess_spacing
  ti_ccw :: bool
  ti_point_mode :: bool
  ti_tcs_vertices_out :: u8
  ti_tcs_outputs_read_by_tes :: u64
  ti_tcs_patch_outputs_read_by_tes :: u32

record shader_info =
  si_stage :: mesa_shader_stage
  si_inputs_read :: u64
  si_outputs_written :: u64
  si_patch_inputs_read :: u32
  si_clip_distance_array_size :: u32
  si_cull_distance_array_size :: u32
  si_tess :: nir_tess_info
  si_gs_output_primitive :: mesa_prim
  si_workgroup_size :: "u16 list"
  si_workgroup_size_variable :: bool
  si_fs_uses_sample_shading :: bool

text \<open>A shader with the instructions of all its functions and blocks in program order.\<close>

record nir_shader =
  nir_info :: shader_info
  nir_instrs :: "nir_instr list"
  nir_scratch_size :: u32

subsection \<open>Zero-initialised structures\<close>

definition zero_outinfo :: radv_vs_output_info where
  "zero_outinfo =
    \<lparr>oi_vs_output_param_offset = replicate 64 0, oi_clip_dist_mask = 0,
     oi_cull_dist_mask = 0, oi_param_exports = 0, oi_prim_param_exports = 0,
     oi_writes_pointsize = False, oi_writes_layer = False, oi_writes_viewport_index = False,
     oi_writes_primitive_shading_rate = False, oi_export_prim_id = False,
     oi_export_prim_id_per_primitive = False\<rparr>"

definition zero_so :: radv_streamout_info where
  "zero_so =
    \<lparr>so_strides = replicate 4 0, so_enabled_stream_buffers_mask = 0\<rparr>"

definition zero_ngg :: gfx10_ngg_info where
  "zero_ngg =
    \<lparr>ng_hw_max_esverts = 0, ng_max_gsprims = 0, ng_max_out_verts = 0,
     ng_prim_amp_factor = 0, ng_vgt_esgs_ring_itemsize = 0, ng_esgs_ring_size = 0,
     ng_lds_size = 0, ng_max_vert_out_per_gs_instance = False\<rparr>"

definition zero_vs :: radv_vs_info where
  "zero_vs =
    \<lparr>vs_vb_desc_usage_mask = 0, vs_num_linked_outputs = 0, vs_as_ls = False,
     vs_use_per_attribute_vb_descs = False, vs_has_prolog = False\<rparr>"

definition zero_gs :: radv_gs_info where
  "zero_gs =
    \<lparr>gs_vertices_out = 0, gs_output_prim = MESA_PRIM_POINTS, gs_invocations = 0,
     gs_num_linked_inputs = 0\<rparr>"

definition zero_tes :: radv_tes_info where
  "zero_tes =
    \<lparr>te_num_linked_inputs = 0, te_num_linked_patch_inputs = 0, te_num_linked_outputs = 0,
     te_primitive_mode = TESS_PRIMITIVE_UNSPECIFIED\<rparr>"

definition zero_tcs :: radv_tcs_info where
  "zero_tcs =
    \<lparr>tc_tes_inputs_read = 0, tc_tes_patch_inputs_read = 0, tc_lds_size = 0,
     tc_num_linked_inputs = 0, tc_tes_reads_tess_factors = False\<rparr>"

definition zero_ps :: radv_ps_info where
  "zero_ps =
    \<lparr>ps_input_mask = 0, ps_input_per_primitive_mask = 0, ps_explicit_shaded_mask = 0,
     ps_explicit_strict_shaded_mask = 0, ps_float16_shaded_mask = 0,
     ps_float16_hi_shaded_mask = 0, ps_num_inputs = 0, ps_writes_memory = False,
     ps_writes_z = False, ps_writes_stencil = False, ps_writes_sample_mask = False,
     ps_writes_mrt0_alpha = False, ps_prim_id_input = False, ps_can_discard = False,
     ps_early_fragment_test = False, ps_post_depth_coverage = False,
     ps_depth_layout = FRAG_DEPTH_LAYOUT_NONE, ps_pops = False,
     ps_spi_shader_col_format = 0\<rparr>"

definition zero_info :: radv_shader_info where
  "zero_info =
    \<lparr>ri_workgroup_size = 0, ri_inline_push_constant_mask = 0, ri_push_constant_size = 0,
     ri_desc_set_used_mask = 0, ri_num_tess_patches = 0, ri_esgs_itemsize = 0,
     ri_outinfo = zero_outinfo, ri_wave_size = 0, ri_stage = MESA_SHADER_VERTEX,
     ri_can_inline_all_push_constants = False, ri_loads_push_constants = False, ri_is_ngg = False,
     ri_is_ngg_passthrough = False, ri_has_ngg_culling = False, ri_inputs_linked = False,
     ri_outputs_linked = False, ri_merged_shader_compiled_separately = False,
     ri_force_indirect_descriptors = False, ri_ngg_wave_id_en = False, ri_vs = zero_vs,
     ri_gs = zero_gs, ri_tes = zero_tes, ri_ps = zero_ps, ri_tcs = zero_tcs, ri_so = zero_so,
     ri_ngg_info = zero_ngg, ri_nir_shared_size = 0, ri_shader_data = replicate 28 0,
     ri_descriptor_sets = replicate 32 0\<rparr>"

definition zero_arg :: ac_arg where
  "zero_arg =
    \<lparr>arg_index = 0, arg_used = False\<rparr>"

definition zero_args :: radv_shader_args where
  "zero_args =
    \<lparr>sa_arg_offset = replicate 384 0, sa_arg_size = replicate 384 0, sa_push_constants = zero_arg,
     sa_vertex_buffers = zero_arg, sa_base_vertex = zero_arg, sa_draw_id = zero_arg,
     sa_start_instance = zero_arg, sa_view_index = zero_arg, sa_streamout_config = zero_arg,
     sa_streamout_write_index = zero_arg, sa_streamout_offset = replicate 4 zero_arg,
     sa_gs_tg_info = zero_arg, sa_merged_wave_info = zero_arg,
     sa_descriptors = replicate 32 zero_arg, sa_streamout_buffers = zero_arg,
     sa_ngg_lds_layout = zero_arg, sa_ps5_ring_table = zero_arg, sa_prolog_inputs = zero_arg,
     sa_vs_inputs = replicate 32 zero_arg, sa_shader_data = replicate 28 0,
     sa_descriptor_sets = replicate 32 0, sa_num_user_sgprs = 0,
     sa_inline_push_const_mask = 0\<rparr>"

definition zero_config :: ac_shader_config where
  "zero_config =
    \<lparr>cfg_num_sgprs = 0, cfg_num_vgprs = 0, cfg_lds_size = 0, cfg_spi_ps_input_ena = 0,
     cfg_spi_ps_input_addr = 0, cfg_float_mode = 0, cfg_scratch_bytes_per_wave = 0, cfg_rsrc1 = 0,
     cfg_rsrc2 = 0\<rparr>"

definition zero_tess :: nir_tess_info where
  "zero_tess =
    \<lparr>ti_primitive_mode = TESS_PRIMITIVE_UNSPECIFIED, ti_spacing = TESS_SPACING_UNSPECIFIED,
     ti_ccw = False, ti_point_mode = False, ti_tcs_vertices_out = 0,
     ti_tcs_outputs_read_by_tes = 0, ti_tcs_patch_outputs_read_by_tes = 0\<rparr>"

definition zero_shader_info :: shader_info where
  "zero_shader_info =
    \<lparr>si_stage = MESA_SHADER_VERTEX, si_inputs_read = 0, si_outputs_written = 0,
     si_patch_inputs_read = 0, si_clip_distance_array_size = 0, si_cull_distance_array_size = 0,
     si_tess = zero_tess, si_gs_output_primitive = MESA_PRIM_POINTS,
     si_workgroup_size = replicate 3 0, si_workgroup_size_variable = False,
     si_fs_uses_sample_shading = False\<rparr>"

definition zero_nir :: nir_shader where
  "zero_nir =
    \<lparr>nir_info = zero_shader_info, nir_instrs = [], nir_scratch_size = 0\<rparr>"

end
