(* ===== verification/Spirv_Check.thy ===== *)
theory Spirv_Check
  imports Psbc_Types
begin

text \<open>
  The checks that \<^verbatim>\<open>src/libpsbc/psbc_compile.c\<close> makes on its inputs before Mesa sees them: the walk over
  a SPIR-V module that refuses capabilities the caller did not enable
  (\<^verbatim>\<open>validate_spirv_capabilities\<close>), the specialization constants (\<^verbatim>\<open>specialization_parameters_valid\<close>)
  and the choice of the parameters of a linked stage (\<^verbatim>\<open>select_linked_parameters\<close>).  A module is the
  list of its words with a size in bytes, \<open>None\<close> a null pointer.  The lemmas relate the walk to the
  instruction structure of SPIR-V: a module is accepted exactly when its words after the header
  are a sequence of well-formed instructions that ask for no disabled capability.
\<close>

section \<open>Definitions\<close>

abbreviation (input) SpvMagicNumber :: u32 where
  "SpvMagicNumber \<equiv> 0x07230203"

abbreviation (input) SpvOpCapability :: u32 where
  "SpvOpCapability \<equiv> 17"

text \<open>The switch over the capability: the options that gate one, and every other one enabled.\<close>

definition capability_enabled :: "PsbcCompileOptions \<Rightarrow> u32 \<Rightarrow> bool" where
  "capability_enabled opts capability =
     (if capability = 39 then opt_enable_int8 opts
      else if capability = 22 then opt_enable_int16 opts
      else if capability = 4448 then opt_enable_storage_buffer_8bit_access opts
      else if capability = 4449 then opt_enable_uniform_and_storage_buffer_8bit_access opts
      else if capability = 4433 then opt_enable_storage_buffer_16bit_access opts
      else if capability = 4434 then opt_enable_uniform_and_storage_buffer_16bit_access opts
      else if capability = 5347 then opt_enable_physical_storage_buffer_addresses opts
      else if capability = 5345 then opt_enable_vulkan_memory_model opts
      else if capability = 5346 then opt_enable_vulkan_memory_model_device_scope opts
      else True)"

function scan_instructions :: "PsbcCompileOptions \<Rightarrow> u32 list \<Rightarrow> nat \<Rightarrow> nat \<Rightarrow> PsbcResult" where
  "scan_instructions opts spirv word_count offset =
     (if offset < word_count
      then (let instruction = spirv ! offset;
                words = unat (ucast (drop_bit 16 instruction) :: u16);
                opcode = instruction AND 0xFFFF
            in if words = 0 \<or> words > word_count - offset then PSBC_RESULT_INVALID_SPIRV
               else if opcode = SpvOpCapability \<and> words = 2 \<and>
                       \<not> capability_enabled opts (spirv ! (offset + 1))
               then PSBC_RESULT_UNSUPPORTED_CAPABILITY
               else scan_instructions opts spirv word_count (offset + words))
      else PSBC_RESULT_OK)"
  by pat_completeness auto
termination
  by (relation "measure (\<lambda>(_, _, word_count, offset). word_count - offset)") auto

declare scan_instructions.simps [simp del]

definition validate_spirv_capabilities ::
  "u32 list option \<Rightarrow> nat \<Rightarrow> PsbcCompileOptions \<Rightarrow> PsbcResult" where
  "validate_spirv_capabilities spirv spirv_size opts =
     (case spirv of None \<Rightarrow> PSBC_RESULT_INVALID_SPIRV
      | Some ws \<Rightarrow>
          if spirv_size < 5 * 4 \<or> spirv_size mod 4 \<noteq> 0 \<or> ws ! 0 \<noteq> SpvMagicNumber
          then PSBC_RESULT_INVALID_SPIRV
          else scan_instructions opts ws (spirv_size div 4) 5)"

definition specialization_parameters_valid :: "u32 \<Rightarrow> PsbcSpecializationConstant list \<Rightarrow> bool" where
  "specialization_parameters_valid count entries =
     (unat count \<le> PSBC_MAX_SPECIALIZATION_CONSTANTS \<and>
      list_all (\<lambda>i. sc_size (entries ! i) \<noteq> 0 \<and>
                    unat (sc_size (entries ! i)) \<le> PSBC_MAX_SPECIALIZATION_BYTES \<and>
                    list_all (\<lambda>j. sc_constant_id (entries ! j) \<noteq> sc_constant_id (entries ! i)) [0..<i])
               [0..<unat count])"

definition select_linked_parameters ::
  "PsbcCompileOptions \<Rightarrow> PsbcLinkedStageParameters \<Rightarrow> PsbcCompileOptions" where
  "select_linked_parameters base source =
     (if \<not> lp_enabled source then base
      else base\<lparr>opt_entrypoint := lp_entrypoint source,
                opt_specialization_constant_count := lp_specialization_constant_count source,
                opt_specialization_constants := lp_specialization_constants source\<rparr>)"

text \<open>The specialization map that \<^verbatim>\<open>prepare_stage_nir\<close> builds: for each constant its id, the offset of
  its bytes and their number, and the bytes of all constants.\<close>

fun spec_entries :: "PsbcSpecializationConstant list \<Rightarrow> nat \<Rightarrow> (u32 \<times> nat \<times> nat) list" where
  "spec_entries [] data_size = []"
| "spec_entries (c # cs) data_size =
     (sc_constant_id c, data_size, unat (sc_size c)) # spec_entries cs (data_size + unat (sc_size c))"

definition spec_data :: "PsbcSpecializationConstant list \<Rightarrow> bytes" where
  "spec_data cs = concat (map (\<lambda>c. take (unat (sc_size c)) (sc_data c)) cs)"

definition specialization_map :: "PsbcCompileOptions \<Rightarrow> (u32 \<times> nat \<times> nat) list \<times> bytes" where
  "specialization_map opts =
     (let cs = take (unat (opt_specialization_constant_count opts)) (opt_specialization_constants opts)
      in (spec_entries cs 0, spec_data cs))"

section \<open>Modules as instruction sequences\<close>

text \<open>A SPIR-V instruction: an opcode and its operand words.  The first word of its encoding holds the
  number of its words in the high half and the opcode in the low half.\<close>

type_synonym spv_instr = "u16 \<times> u32 list"

definition instr_ok :: "spv_instr \<Rightarrow> bool" where
  "instr_ok i \<longleftrightarrow> Suc (length (snd i)) < 2 ^ 16"

definition encode_instr :: "spv_instr \<Rightarrow> u32 list" where
  "encode_instr i = (push_bit 16 (of_nat (Suc (length (snd i)))) OR ucast (fst i)) # snd i"

definition encode_module :: "u32 list \<Rightarrow> spv_instr list \<Rightarrow> u32 list" where
  "encode_module header is = header @ concat (map encode_instr is)"

definition instr_enabled :: "PsbcCompileOptions \<Rightarrow> spv_instr \<Rightarrow> bool" where
  "instr_enabled opts i \<longleftrightarrow>
     (case i of (opcode, [capability]) \<Rightarrow> opcode = 17 \<longrightarrow> capability_enabled opts capability | _ \<Rightarrow> True)"

lemma length_encode_instr [simp]: "length (encode_instr i) = Suc (length (snd i))"
  by (simp add: encode_instr_def)

lemma encode_instr_fields:
  assumes "instr_ok i"
  shows "unat (ucast (drop_bit 16 (hd (encode_instr i))) :: u16) = Suc (length (snd i))"
    and "hd (encode_instr i) AND 0xFFFF = ucast (fst i)"
proof -
  let ?n = "of_nat (Suc (length (snd i))) :: u32" and ?op = "ucast (fst i) :: u32"
  have n: "unat ?n = Suc (length (snd i))"
    using assms unfolding instr_ok_def by (intro unat_of_nat_small) simp
  have "drop_bit 16 (push_bit 16 ?n OR ?op) = take_bit 16 ?n"
    by (rule bit_eqI) (auto simp: bit_simps dest: bit_imp_le_length)
  also have "\<dots> = ?n" by (rule take_bit_small) (use assms n in \<open>simp add: instr_ok_def\<close>)
  finally have "drop_bit 16 (hd (encode_instr i)) = ?n" by (simp add: encode_instr_def)
  moreover have "unat (ucast ?n :: u16) = unat ?n"
    by (rule unat_ucast_small) (use assms n in \<open>simp add: instr_ok_def\<close>)
  ultimately show "unat (ucast (drop_bit 16 (hd (encode_instr i))) :: u16) = Suc (length (snd i))"
    using n by simp
  have mask: "(0xFFFF :: u32) = mask 16" by (simp add: mask_eq_exp_minus_1)
  show "hd (encode_instr i) AND 0xFFFF = ucast (fst i)"
    unfolding mask
    by (intro bit_eqI) (auto simp: encode_instr_def bit_simps dest: bit_imp_le_length)
qed

lemma scan_instr:
  assumes "instr_ok i"
  shows "scan_instructions opts (pre @ encode_instr i @ post) (length (pre @ encode_instr i @ post)) (length pre) =
     (if instr_enabled opts i
      then scan_instructions opts (pre @ encode_instr i @ post) (length (pre @ encode_instr i @ post))
             (length (pre @ encode_instr i))
      else PSBC_RESULT_UNSUPPORTED_CAPABILITY)"
proof -
  let ?ws = "pre @ encode_instr i @ post"
  have hd: "?ws ! length pre = hd (encode_instr i)"
    by (simp add: nth_append encode_instr_def)
  have cap: "?ws ! (length pre + 1) = hd (snd i)" if "length (snd i) = 1"
    using that by (cases "snd i") (auto simp: nth_append encode_instr_def)
  have op: "(ucast (fst i) :: u32) = 17 \<longleftrightarrow> fst i = 17"
    by (simp add: word_unat_eq_iff unat_ucast_wider)
  have en: "instr_enabled opts i \<longleftrightarrow>
      \<not> (fst i = 17 \<and> length (snd i) = 1 \<and> \<not> capability_enabled opts (hd (snd i)))"
    by (cases i; cases "snd i"; cases "tl (snd i)") (auto simp: instr_enabled_def)
  show ?thesis
    by (subst scan_instructions.simps)
      (use cap in \<open>auto simp: Let_def hd encode_instr_fields [OF assms] op en\<close>)
qed

lemma scan_module:
  assumes "\<forall>i\<in>set is. instr_ok i"
  shows "scan_instructions opts (pre @ concat (map encode_instr is))
           (length (pre @ concat (map encode_instr is))) (length pre) =
     (if \<forall>i\<in>set is. instr_enabled opts i then PSBC_RESULT_OK else PSBC_RESULT_UNSUPPORTED_CAPABILITY)"
  using assms
proof (induction "is" arbitrary: pre)
  case Nil
  show ?case by (subst scan_instructions.simps) simp
next
  case (Cons i "is")
  from Cons.IH [of "pre @ encode_instr i"] Cons.prems
  have rest: "scan_instructions opts (pre @ encode_instr i @ concat (map encode_instr is))
        (length (pre @ encode_instr i @ concat (map encode_instr is))) (length (pre @ encode_instr i)) =
      (if \<forall>i\<in>set is. instr_enabled opts i then PSBC_RESULT_OK else PSBC_RESULT_UNSUPPORTED_CAPABILITY)"
    by simp
  show ?case
    using scan_instr [of i opts pre "concat (map encode_instr is)"] Cons.prems rest by simp
qed

lemma decode_first_word:
  fixes w :: u32
  assumes "n = unat (ucast (drop_bit 16 w) :: u16)"
  shows "push_bit 16 (of_nat n :: u32) OR ucast (ucast w :: u16) = w"
proof (rule bit_word_eqI)
  fix k assume "k < LENGTH(32)"
  have n: "(of_nat n :: u32) = ucast (ucast (drop_bit 16 w) :: u16)" unfolding assms by simp
  show "bit (push_bit 16 (of_nat n :: u32) OR ucast (ucast w :: u16)) k = bit w k"
    unfolding n using \<open>k < LENGTH(32)\<close> by (auto simp: bit_simps)
qed

lemma scan_ok_decodes:
  "scan_instructions opts ws (length ws) offset = PSBC_RESULT_OK \<Longrightarrow> offset \<le> length ws \<Longrightarrow>
   \<exists>is. drop offset ws = concat (map encode_instr is) \<and> (\<forall>i\<in>set is. instr_ok i)"
proof (induction opts ws "length ws" offset rule: scan_instructions.induct)
  case (1 opts ws offset)
  show ?case
  proof (cases "offset < length ws")
    case False
    then show ?thesis by (intro exI [of _ "[]"]) simp
  next
    case True
    define w where "w = ws ! offset"
    define n where "n = unat (ucast (drop_bit 16 w) :: u16)"
    have step: "n \<noteq> 0" "n \<le> length ws - offset"
      "scan_instructions opts ws (length ws) (offset + n) = PSBC_RESULT_OK"
      using 1(2) True by (auto simp: scan_instructions.simps [of opts ws "length ws" offset] Let_def w_def n_def
          split: if_splits)
    have "\<exists>is. drop (offset + n) ws = concat (map encode_instr is) \<and> (\<forall>i\<in>set is. instr_ok i)"
      by (rule 1(1) [OF True w_def _ refl, of n])
        (use step True 1(2) in \<open>auto simp: scan_instructions.simps [of opts ws "length ws" offset] Let_def w_def n_def
            split: if_splits\<close>)
    then obtain "is" where rest: "drop (offset + n) ws = concat (map encode_instr is)"
      and ok: "\<forall>i\<in>set is. instr_ok i" by blast
    let ?i = "(ucast w :: u16, take (n - 1) (drop (offset + 1) ws))"
    have "n < 2 ^ 16" unfolding n_def using unsigned_less [of "ucast (drop_bit 16 w) :: u16"] by simp
    moreover have len: "Suc (length (snd ?i)) = n" using step True by simp
    ultimately have "instr_ok ?i" by (simp add: instr_ok_def)
    have "encode_instr ?i = w # take (n - 1) (drop (offset + 1) ws)"
      unfolding encode_instr_def len using decode_first_word [OF n_def] by simp
    also have "\<dots> = take n (drop offset ws)"
      using step(1) True by (cases n) (auto simp: w_def Cons_nth_drop_Suc [symmetric])
    finally have "drop offset ws = encode_instr ?i @ concat (map encode_instr is)"
      unfolding rest [symmetric] by (simp add: add.commute flip: drop_drop)
    then show ?thesis using ok \<open>instr_ok ?i\<close> by (intro exI [of _ "?i # is"]) simp
  qed
qed

lemma validate_words:
  "validate_spirv_capabilities (Some ws) (4 * length ws) opts =
     (if 5 \<le> length ws \<and> ws ! 0 = SpvMagicNumber then scan_instructions opts ws (length ws) 5
      else PSBC_RESULT_INVALID_SPIRV)"
  by (auto simp: validate_spirv_capabilities_def)

lemma module_words:
  assumes "length header = 5" "hd header = SpvMagicNumber" "\<forall>i\<in>set is. instr_ok i"
  shows "validate_spirv_capabilities (Some (encode_module header is)) (4 * length (encode_module header is)) opts =
     (if \<forall>i\<in>set is. instr_enabled opts i then PSBC_RESULT_OK else PSBC_RESULT_UNSUPPORTED_CAPABILITY)"
proof -
  have "encode_module header is ! 0 = SpvMagicNumber"
    using assms(1,2) by (cases header) (auto simp: encode_module_def)
  moreover have "5 \<le> length (encode_module header is)" using assms(1) by (simp add: encode_module_def)
  ultimately show ?thesis
    unfolding validate_words using scan_module [OF assms(3), of opts header] assms(1)
    by (simp add: encode_module_def)
qed

text \<open>C4. A module is accepted exactly when it is a module and asks for nothing that is disabled: its
  words are a five-word header that starts with the SPIR-V magic number, followed by complete
  instructions, none of which is an \<^verbatim>\<open>OpCapability\<close> of a capability whose option is off.\<close>
theorem validate_spirv_accepts_iff:
  "validate_spirv_capabilities (Some ws) (4 * length ws) opts = PSBC_RESULT_OK \<longleftrightarrow>
     (\<exists>header is. ws = encode_module header is \<and> length header = 5 \<and> hd header = SpvMagicNumber \<and>
        (\<forall>i\<in>set is. instr_ok i \<and> instr_enabled opts i))"
proof
  assume ok: "validate_spirv_capabilities (Some ws) (4 * length ws) opts = PSBC_RESULT_OK"
  then have len: "5 \<le> length ws" and magic: "ws ! 0 = SpvMagicNumber"
    and scan: "scan_instructions opts ws (length ws) 5 = PSBC_RESULT_OK"
    unfolding validate_words by (auto split: if_splits)
  obtain "is" where d: "drop 5 ws = concat (map encode_instr is)" and i: "\<forall>i\<in>set is. instr_ok i"
    using scan_ok_decodes [OF scan len] by blast
  have ws: "ws = encode_module (take 5 ws) is"
    unfolding encode_module_def d [symmetric] by simp
  have h: "length (take 5 ws) = 5" using len by simp
  have m: "hd (take 5 ws) = SpvMagicNumber" using len magic by (cases ws) auto
  have "\<forall>i\<in>set is. instr_enabled opts i"
    using module_words [OF h m i, of opts] ok ws by (simp split: if_splits)
  then show "\<exists>header is. ws = encode_module header is \<and> length header = 5 \<and> hd header = SpvMagicNumber \<and>
        (\<forall>i\<in>set is. instr_ok i \<and> instr_enabled opts i)"
    using ws h m i by blast
next
  assume "\<exists>header is. ws = encode_module header is \<and> length header = 5 \<and> hd header = SpvMagicNumber \<and>
        (\<forall>i\<in>set is. instr_ok i \<and> instr_enabled opts i)"
  then show "validate_spirv_capabilities (Some ws) (4 * length ws) opts = PSBC_RESULT_OK"
    using module_words by (metis (no_types, lifting))
qed

definition sample_module :: "u32 list" where
  "sample_module = [SpvMagicNumber, 0x10000, 0, 1, 0, 0x20011, 39, 0x3000E, 0, 1]"

theorem validate_spirv_accepts_iff_witness:
  "validate_spirv_capabilities (Some sample_module) (4 * length sample_module)
     (zero_options\<lparr>opt_enable_int8 := True\<rparr>) = PSBC_RESULT_OK"
proof -
  have "sample_module = encode_module [SpvMagicNumber, 0x10000, 0, 1, 0] [(17, [39]), (14, [0, 1])]"
    by (simp add: sample_module_def encode_module_def encode_instr_def push_bit_eq_mult)
  moreover have "\<forall>i\<in>set [(17, [39]), (14, [0, 1])]. instr_ok i \<and>
      instr_enabled (zero_options\<lparr>opt_enable_int8 := True\<rparr>) i"
    by (simp add: instr_ok_def instr_enabled_def capability_enabled_def)
  ultimately show ?thesis
    unfolding validate_spirv_accepts_iff
    by (intro exI [of _ "[SpvMagicNumber, 0x10000, 0, 1, 0]"] exI [of _ "[(17, [39]), (14, [0, 1])]"]) simp
qed

text \<open>The walk fails closed and blames the right thing: for a well-formed module the result is
  \<^verbatim>\<open>PSBC_RESULT_UNSUPPORTED_CAPABILITY\<close> as soon as one instruction asks for a disabled capability,
  whatever follows it, and \<^verbatim>\<open>PSBC_RESULT_OK\<close> otherwise; it is never reported as malformed.\<close>
theorem validate_spirv_fails_closed:
  assumes "length header = 5" "hd header = SpvMagicNumber" "\<forall>i\<in>set is. instr_ok i"
  shows "validate_spirv_capabilities (Some (encode_module header is))
            (4 * length (encode_module header is)) opts =
     (if \<exists>i\<in>set is. \<not> instr_enabled opts i then PSBC_RESULT_UNSUPPORTED_CAPABILITY else PSBC_RESULT_OK)"
  using module_words [OF assms, of opts] by auto

theorem validate_spirv_fails_closed_witness:
  "validate_spirv_capabilities (Some (encode_module [SpvMagicNumber, 0x10000, 0, 1, 0] [(17, [22]), (17, [1])]))
     (4 * length (encode_module [SpvMagicNumber, 0x10000, 0, 1, 0] [(17, [22]), (17, [1])])) zero_options =
   PSBC_RESULT_UNSUPPORTED_CAPABILITY"
proof -
  have "\<not> instr_enabled zero_options (17, [22])"
    by (simp add: instr_enabled_def capability_enabled_def zero_options_def)
  then show ?thesis
    using validate_spirv_fails_closed [of "[SpvMagicNumber, 0x10000, 0, 1, 0]" "[(17, [22]), (17, [1])]" zero_options]
    by (simp add: instr_ok_def)
qed

section \<open>Specialization constants\<close>

lemma specialization_parameters_valid_iff:
  assumes "unat count \<le> length entries"
  shows "specialization_parameters_valid count entries \<longleftrightarrow>
     unat count \<le> 64 \<and> (\<forall>c\<in>set (take (unat count) entries). 0 < unat (sc_size c) \<and> unat (sc_size c) \<le> 8) \<and>
     distinct (map sc_constant_id (take (unat count) entries))"
proof -
  let ?n = "unat count" and ?cs = "take (unat count) entries"
  have sizes: "(\<forall>c\<in>set ?cs. P c) \<longleftrightarrow> (\<forall>i<?n. P (entries ! i))" for P
    using assms by (auto simp: all_set_conv_all_nth)
  have ids: "distinct (map sc_constant_id ?cs) \<longleftrightarrow>
      (\<forall>i<?n. \<forall>j<i. sc_constant_id (entries ! j) \<noteq> sc_constant_id (entries ! i))"
    using assms by (fastforce simp: distinct_conv_nth nat_neq_iff)
  show ?thesis
    unfolding specialization_parameters_valid_def list_all_iff sizes ids
    by (auto simp: unat_gt_0 [symmetric])
qed

lemma spec_entries_nth:
  "i < length cs \<Longrightarrow> spec_entries cs d ! i =
     (sc_constant_id (cs ! i), d + sum_list (map (\<lambda>c. unat (sc_size c)) (take i cs)), unat (sc_size (cs ! i)))"
proof (induction cs arbitrary: d i)
  case (Cons c cs)
  then show ?case by (cases i) simp_all
qed simp

lemma length_spec_entries [simp]: "length (spec_entries cs d) = length cs"
  by (induction cs arbitrary: d) simp_all

lemma length_spec_data:
  "\<forall>c\<in>set cs. unat (sc_size c) \<le> length (sc_data c) \<Longrightarrow>
   length (spec_data cs) = sum_list (map (\<lambda>c. unat (sc_size c)) cs)"
  unfolding spec_data_def by (induction cs) simp_all

lemma spec_data_append: "spec_data (xs @ ys) = spec_data xs @ spec_data ys"
  by (simp add: spec_data_def)

lemma sum_list_bound: "\<forall>x\<in>set xs. f x \<le> (b :: nat) \<Longrightarrow> sum_list (map f xs) \<le> b * length xs"
  by (induction xs) auto

text \<open>C23. The specialization map that Mesa receives is well-formed. For constants that pass the check
  and carry eight bytes of data each, the ids of the map are distinct, every entry selects exactly
  the declared bytes of its constant out of the data block, and the block fits the 512-byte
  buffer that the source fills.\<close>
theorem specialization_map_selects:
  assumes "specialization_parameters_valid (opt_specialization_constant_count opts) (opt_specialization_constants opts)"
    and "unat (opt_specialization_constant_count opts) \<le> length (opt_specialization_constants opts)"
    and "\<forall>c\<in>set (opt_specialization_constants opts). length (sc_data c) = PSBC_MAX_SPECIALIZATION_BYTES"
    and "specialization_map opts = (entries, data)"
  shows "length entries = unat (opt_specialization_constant_count opts) \<and>
     distinct (map fst entries) \<and>
     length data \<le> PSBC_MAX_SPECIALIZATION_CONSTANTS * PSBC_MAX_SPECIALIZATION_BYTES \<and>
     (\<forall>i < length entries. case entries ! i of (cid, off, sz) \<Rightarrow>
        cid = sc_constant_id (opt_specialization_constants opts ! i) \<and> off + sz \<le> length data \<and>
        slice_at off sz data = take sz (sc_data (opt_specialization_constants opts ! i)))"
proof -
  let ?n = "unat (opt_specialization_constant_count opts)" and ?all = "opt_specialization_constants opts"
  define cs where "cs = take ?n ?all"
  note valid = assms(1) [unfolded specialization_parameters_valid_iff [OF assms(2)], folded cs_def]
  have e: "entries = spec_entries cs 0" and d: "data = spec_data cs"
    using assms(4) by (auto simp: specialization_map_def cs_def Let_def)
  have fits: "\<forall>c\<in>set cs. unat (sc_size c) \<le> length (sc_data c)"
  proof
    fix c assume "c \<in> set cs"
    moreover from this have "c \<in> set ?all" unfolding cs_def by (rule in_set_takeD)
    ultimately show "unat (sc_size c) \<le> length (sc_data c)" using valid assms(3) by simp
  qed
  have len: "length cs = ?n" using assms(2) by (simp add: cs_def)
  have ids: "map fst entries = map sc_constant_id cs"
    unfolding e by (rule nth_equalityI) (simp_all add: spec_entries_nth)
  have "sum_list (map (\<lambda>c. unat (sc_size c)) cs) \<le> 8 * length cs"
    using valid by (intro sum_list_bound) simp
  then have total: "length data \<le> 64 * 8"
    using length_spec_data [OF fits] valid len d by simp
  have entry: "case entries ! i of (cid, off, sz) \<Rightarrow> cid = sc_constant_id (?all ! i) \<and> off + sz \<le> length data \<and>
        slice_at off sz data = take sz (sc_data (?all ! i))" if "i < length cs" for i
  proof -
    have split: "cs = take i cs @ cs ! i # drop (Suc i) cs" using that by (rule id_take_nth_drop)
    have pre: "length (spec_data (take i cs)) = sum_list (map (\<lambda>c. unat (sc_size c)) (take i cs))"
      using fits by (intro length_spec_data) (auto dest: in_set_takeD)
    have data: "data = spec_data (take i cs) @ take (unat (sc_size (cs ! i))) (sc_data (cs ! i)) @ spec_data (drop (Suc i) cs)"
      unfolding d by (subst split) (simp add: spec_data_def)
    have sz: "length (take (unat (sc_size (cs ! i))) (sc_data (cs ! i))) = unat (sc_size (cs ! i))"
      using fits that by simp
    have "slice_at (length (spec_data (take i cs))) (unat (sc_size (cs ! i))) data =
        take (unat (sc_size (cs ! i))) (sc_data (cs ! i))"
      unfolding data by (rule slice_at_middle) (use sz in simp_all)
    moreover have "length (spec_data (take i cs)) + unat (sc_size (cs ! i)) \<le> length data"
      unfolding data using sz by simp
    moreover have "cs ! i = ?all ! i" using that len by (simp add: cs_def)
    ultimately show ?thesis
      unfolding e spec_entries_nth [OF that] using pre by simp
  qed
  show ?thesis using ids valid total entry len by (simp add: e)
qed

definition sample_constants :: "PsbcSpecializationConstant list" where
  "sample_constants = [\<lparr>sc_constant_id = 3, sc_size = 4, sc_data = [1, 2, 3, 4, 0, 0, 0, 0]\<rparr>,
                       \<lparr>sc_constant_id = 7, sc_size = 1, sc_data = [9, 0, 0, 0, 0, 0, 0, 0]\<rparr>]"

theorem specialization_map_selects_witness:
  "let opts = zero_options\<lparr>opt_specialization_constant_count := 2, opt_specialization_constants := sample_constants\<rparr>
   in slice_at 4 1 (snd (specialization_map opts)) = [9]"
proof -
  let ?opts = "zero_options\<lparr>opt_specialization_constant_count := 2, opt_specialization_constants := sample_constants\<rparr>"
  have valid: "specialization_parameters_valid 2 sample_constants"
    by (simp add: specialization_parameters_valid_iff sample_constants_def)
  have map: "specialization_map ?opts = ([(3, 0, 4), (7, 4, 1)], snd (specialization_map ?opts))"
    by (simp add: specialization_map_def sample_constants_def)
  have hyps: "specialization_parameters_valid (opt_specialization_constant_count ?opts) (opt_specialization_constants ?opts)"
    "unat (opt_specialization_constant_count ?opts) \<le> length (opt_specialization_constants ?opts)"
    "\<forall>c\<in>set (opt_specialization_constants ?opts). length (sc_data c) = 8"
    using valid by (simp_all add: sample_constants_def)
  from specialization_map_selects [OF hyps map]
  have "\<forall>i < length [(3 :: u32, 0 :: nat, 4 :: nat), (7, 4, 1)]. case [(3, 0, 4), (7, 4, 1)] ! i of (cid, off, sz) \<Rightarrow>
      cid = sc_constant_id (opt_specialization_constants ?opts ! i) \<and>
      off + sz \<le> length (snd (specialization_map ?opts)) \<and>
      slice_at off sz (snd (specialization_map ?opts)) = take sz (sc_data (opt_specialization_constants ?opts ! i))"
    by (elim conjE)
  from this [rule_format, of 1] show ?thesis by (simp add: Let_def sample_constants_def)
qed

end
