(* ===== verification/Target_Setup.thy ===== *)
theory Target_Setup
  imports Mesa_Types Spirv_Check
begin

text \<open>
  What \<^verbatim>\<open>src/libpsbc/psbc_compile.c\<close> sets up around a compilation: the Mesa stage of a shader stage, the
  reference-counted initialisation of the library on top of Mesa's type cache
  (\<^verbatim>\<open>src/src/compiler/glsl_types.c\<close>), the description of the GPU of each target, and the compiler
  information handed to RADV.  The initialisation functions run under a mutex, so the concurrent
  behaviour of their callers is a sequence of atomic steps; a step relation interleaves them with
  other users of the type cache.
\<close>

section \<open>Definitions\<close>

subsection \<open>Stages\<close>

primrec psbc_to_mesa_stage :: "PsbcStage \<Rightarrow> mesa_shader_stage" where
  "psbc_to_mesa_stage PSBC_STAGE_VERTEX = MESA_SHADER_VERTEX"
| "psbc_to_mesa_stage PSBC_STAGE_TESS_CTRL = MESA_SHADER_TESS_CTRL"
| "psbc_to_mesa_stage PSBC_STAGE_TESS_EVAL = MESA_SHADER_TESS_EVAL"
| "psbc_to_mesa_stage PSBC_STAGE_GEOMETRY = MESA_SHADER_GEOMETRY"
| "psbc_to_mesa_stage PSBC_STAGE_FRAGMENT = MESA_SHADER_FRAGMENT"
| "psbc_to_mesa_stage PSBC_STAGE_COMPUTE = MESA_SHADER_COMPUTE"
| "psbc_to_mesa_stage PSBC_STAGE_TASK = MESA_SHADER_TASK"
| "psbc_to_mesa_stage PSBC_STAGE_EXPORT = MESA_SHADER_VERTEX"
| "psbc_to_mesa_stage PSBC_STAGE_LOCAL = MESA_SHADER_VERTEX"
| "psbc_to_mesa_stage PSBC_STAGE_NONE = MESA_SHADER_NONE"

text \<open>The stage that follows in a stand-alone compilation, and the stage whose arguments are declared in
  front of it.\<close>

definition next_stage_of :: "mesa_shader_stage \<Rightarrow> mesa_shader_stage" where
  "next_stage_of s =
     (case s of
        MESA_SHADER_VERTEX \<Rightarrow> MESA_SHADER_FRAGMENT
      | MESA_SHADER_TESS_CTRL \<Rightarrow> MESA_SHADER_TESS_EVAL
      | MESA_SHADER_TESS_EVAL \<Rightarrow> MESA_SHADER_FRAGMENT
      | MESA_SHADER_GEOMETRY \<Rightarrow> MESA_SHADER_FRAGMENT
      | _ \<Rightarrow> MESA_SHADER_NONE)"

definition previous_stage_of :: "bool \<Rightarrow> mesa_shader_stage \<Rightarrow> mesa_shader_stage" where
  "previous_stage_of paired_tess_geometry s =
     (case s of
        MESA_SHADER_TESS_CTRL \<Rightarrow> MESA_SHADER_VERTEX
      | MESA_SHADER_TESS_EVAL \<Rightarrow> MESA_SHADER_TESS_CTRL
      | MESA_SHADER_GEOMETRY \<Rightarrow> (if paired_tess_geometry then MESA_SHADER_TESS_EVAL else MESA_SHADER_VERTEX)
      | _ \<Rightarrow> MESA_SHADER_NONE)"

subsection \<open>Initialisation\<close>

text \<open>Mesa's type cache: its number of users and whether its memory is allocated.\<close>

record glsl_type_cache =
  gtc_users :: nat
  gtc_live :: bool

definition glsl_type_singleton_init_or_ref :: "glsl_type_cache \<Rightarrow> glsl_type_cache" where
  "glsl_type_singleton_init_or_ref c =
     c\<lparr>gtc_live := (if gtc_users c = 0 then True else gtc_live c), gtc_users := gtc_users c + 1\<rparr>"

text \<open>\<open>None\<close>: the assertion that the cache has a user fails.\<close>

definition glsl_type_singleton_decref :: "glsl_type_cache \<Rightarrow> glsl_type_cache option" where
  "glsl_type_singleton_decref c =
     (if gtc_users c = 0 then None
      else if gtc_users c - 1 \<noteq> 0 then Some (c\<lparr>gtc_users := gtc_users c - 1\<rparr>)
      else Some \<lparr>gtc_users = 0, gtc_live = False\<rparr>)"

record psbc_library =
  g_init_refcount :: nat
  g_type_cache :: glsl_type_cache

definition psbc_init :: "psbc_library \<Rightarrow> psbc_library" where
  "psbc_init l =
     (let l' = l\<lparr>g_init_refcount := g_init_refcount l + 1\<rparr> in
      if g_init_refcount l = 0
      then l'\<lparr>g_type_cache := glsl_type_singleton_init_or_ref (g_type_cache l)\<rparr> else l')"

definition psbc_shutdown :: "psbc_library \<Rightarrow> psbc_library option" where
  "psbc_shutdown l =
     (if g_init_refcount l > 0
      then (let l' = l\<lparr>g_init_refcount := g_init_refcount l - 1\<rparr> in
            if g_init_refcount l' = 0
            then map_option (\<lambda>c. l'\<lparr>g_type_cache := c\<rparr>) (glsl_type_singleton_decref (g_type_cache l'))
            else Some l')
      else Some l)"

definition library_start :: psbc_library where
  "library_start = \<lparr>g_init_refcount = 0, g_type_cache = \<lparr>gtc_users = 0, gtc_live = False\<rparr>\<rparr>"

subsection \<open>Targets\<close>

record ac_compiler_info =
  ac_gfx_level :: amd_gfx_level
  ac_max_waves_per_simd :: u32
  ac_num_physical_sgprs_per_simd :: u32
  ac_num_physical_wave64_vgprs_per_simd :: u32
  ac_num_simd_per_compute_unit :: u32
  ac_min_sgpr_alloc :: u32
  ac_max_sgpr_alloc :: u32
  ac_sgpr_alloc_granularity :: u32
  ac_min_wave64_vgpr_alloc :: u32
  ac_max_vgpr_alloc :: u32
  ac_wave64_vgpr_alloc_granularity :: u32
  ac_lds_size_per_workgroup :: u32
  ac_has_fma_mix :: bool
  ac_has_packed_math_16bit :: bool
  ac_has_accelerated_dot_product :: bool

definition setup_ac_info :: "amd_gfx_level \<Rightarrow> ac_compiler_info" where
  "setup_ac_info gfxlevel =
     (let lds = (if gfxlevel \<ge> GFX7 then 64 * 1024 else 32 * 1024) in
      if gfxlevel \<ge> GFX10_3 then
        \<lparr>ac_gfx_level = gfxlevel, ac_max_waves_per_simd = 16, ac_num_physical_sgprs_per_simd = 108 * 16,
         ac_num_physical_wave64_vgprs_per_simd = 512, ac_num_simd_per_compute_unit = 2,
         ac_min_sgpr_alloc = 108, ac_max_sgpr_alloc = 108, ac_sgpr_alloc_granularity = 108,
         ac_min_wave64_vgpr_alloc = 8, ac_max_vgpr_alloc = 256, ac_wave64_vgpr_alloc_granularity = 8,
         ac_lds_size_per_workgroup = lds, ac_has_fma_mix = True, ac_has_packed_math_16bit = True,
         ac_has_accelerated_dot_product = False\<rparr>
      else if gfxlevel = GFX10 then
        \<lparr>ac_gfx_level = gfxlevel, ac_max_waves_per_simd = 20, ac_num_physical_sgprs_per_simd = 128 * 20,
         ac_num_physical_wave64_vgprs_per_simd = 256, ac_num_simd_per_compute_unit = 2,
         ac_min_sgpr_alloc = 1, ac_max_sgpr_alloc = 128, ac_sgpr_alloc_granularity = 1,
         ac_min_wave64_vgpr_alloc = 4, ac_max_vgpr_alloc = 256, ac_wave64_vgpr_alloc_granularity = 4,
         ac_lds_size_per_workgroup = lds, ac_has_fma_mix = False, ac_has_packed_math_16bit = True,
         ac_has_accelerated_dot_product = False\<rparr>
      else if gfxlevel = GFX8 then
        \<lparr>ac_gfx_level = gfxlevel, ac_max_waves_per_simd = 10, ac_num_physical_sgprs_per_simd = 16 * 10,
         ac_num_physical_wave64_vgprs_per_simd = 128, ac_num_simd_per_compute_unit = 1,
         ac_min_sgpr_alloc = 1, ac_max_sgpr_alloc = 16, ac_sgpr_alloc_granularity = 1,
         ac_min_wave64_vgpr_alloc = 4, ac_max_vgpr_alloc = 128, ac_wave64_vgpr_alloc_granularity = 4,
         ac_lds_size_per_workgroup = lds, ac_has_fma_mix = False, ac_has_packed_math_16bit = False,
         ac_has_accelerated_dot_product = False\<rparr>
      else
        \<lparr>ac_gfx_level = gfxlevel, ac_max_waves_per_simd = 10, ac_num_physical_sgprs_per_simd = 12 * 10,
         ac_num_physical_wave64_vgprs_per_simd = 64, ac_num_simd_per_compute_unit = 1,
         ac_min_sgpr_alloc = 1, ac_max_sgpr_alloc = 12, ac_sgpr_alloc_granularity = 1,
         ac_min_wave64_vgpr_alloc = 4, ac_max_vgpr_alloc = 64, ac_wave64_vgpr_alloc_granularity = 4,
         ac_lds_size_per_workgroup = lds, ac_has_fma_mix = False, ac_has_packed_math_16bit = False,
         ac_has_accelerated_dot_product = False\<rparr>)"

definition setup_target :: "PsbcTarget \<Rightarrow> amd_gfx_level \<times> radeon_family \<times> bool" where
  "setup_target target =
     (case target of
        PSBC_TARGET_PS5 \<Rightarrow> (GFX10_3, CHIP_NAVI21, False)
      | PSBC_TARGET_PS4_NEO \<Rightarrow> (GFX8, CHIP_TONGA, True)
      | PSBC_TARGET_PS4_BASE \<Rightarrow> (GFX7, CHIP_KAVERI, False))"

text \<open>The SPIR-V capabilities Mesa's reader is told to accept, and the members of
  \<^verbatim>\<open>radv_compiler_info\<close> that the library sets.\<close>

record spirv_capabilities =
  cap_Shader :: bool
  cap_MultiView :: bool
  cap_Geometry :: bool
  cap_TransformFeedback :: bool
  cap_DotProduct :: bool
  cap_DotProductInput4x8BitPacked :: bool
  cap_DotProductInputAll :: bool
  cap_Int8 :: bool
  cap_Int16 :: bool
  cap_StorageBuffer8BitAccess :: bool
  cap_UniformAndStorageBuffer8BitAccess :: bool
  cap_StorageUniformBufferBlock16 :: bool
  cap_StorageUniform16 :: bool
  cap_PhysicalStorageBufferAddresses :: bool
  cap_VulkanMemoryModel :: bool
  cap_VulkanMemoryModelDeviceScope :: bool

record radv_compiler_info =
  ci_ac :: ac_compiler_info
  ci_spirv_caps :: spirv_capabilities
  ci_address32_hi :: u32
  ci_sampled_image_desc_size :: u32
  ci_combined_image_sampler_desc_size :: u32
  ci_combined_image_sampler_offset :: u32
  ci_sampler_descriptor_size :: u32
  ci_sampler_descriptor_alignment :: u32
  ci_image_descriptor_size :: u32
  ci_image_descriptor_alignment :: u32
  ci_buffer_descriptor_size :: u32
  ci_buffer_descriptor_alignment :: u32
  ci_ge_wave_size :: u8
  ci_ps_wave_size :: u8
  ci_cs_wave_size :: u8
  ci_rt_wave_size :: u8
  ci_subgroup_size :: u32
  ci_min_subgroup_size :: u32
  ci_max_subgroup_size :: u32
  ci_family :: radeon_family
  ci_load_grid_size_from_user_sgpr :: bool
  ci_use_ngg :: bool
  ci_ps5_global_streamout :: bool
  ci_ps5_fragment_view_index :: bool
  ci_ps5_tess_ring_table :: bool
  ci_debug_family :: radeon_family

definition compile_spirv_caps :: "PsbcCompileOptions \<Rightarrow> mesa_shader_stage \<Rightarrow> spirv_capabilities" where
  "compile_spirv_caps opts mesa_stage =
     \<lparr>cap_Shader = True,
      cap_MultiView = (opt_target opts = PSBC_TARGET_PS5 \<and>
                       (mesa_stage = MESA_SHADER_VERTEX \<or> mesa_stage = MESA_SHADER_FRAGMENT)),
      cap_Geometry = True, cap_TransformFeedback = True, cap_DotProduct = True,
      cap_DotProductInput4x8BitPacked = True,
      cap_DotProductInputAll = opt_force_accelerated_dot opts,
      cap_Int8 = opt_enable_int8 opts,
      cap_Int16 = (if opt_force_accelerated_dot opts then True else opt_enable_int16 opts),
      cap_StorageBuffer8BitAccess = opt_enable_storage_buffer_8bit_access opts,
      cap_UniformAndStorageBuffer8BitAccess = opt_enable_uniform_and_storage_buffer_8bit_access opts,
      cap_StorageUniformBufferBlock16 = opt_enable_storage_buffer_16bit_access opts,
      cap_StorageUniform16 = opt_enable_uniform_and_storage_buffer_16bit_access opts,
      cap_PhysicalStorageBufferAddresses = opt_enable_physical_storage_buffer_addresses opts,
      cap_VulkanMemoryModel = opt_enable_vulkan_memory_model opts,
      cap_VulkanMemoryModelDeviceScope = opt_enable_vulkan_memory_model_device_scope opts\<rparr>"

definition compile_compiler_info :: "PsbcCompileOptions \<Rightarrow> mesa_shader_stage \<Rightarrow> radv_compiler_info" where
  "compile_compiler_info opts mesa_stage =
     (case setup_target (opt_target opts) of (gfxlevel, chipfamily, neo) \<Rightarrow>
      (let ac = setup_ac_info gfxlevel;
           ac = (if opt_force_accelerated_dot opts then ac\<lparr>ac_has_accelerated_dot_product := True\<rparr> else ac);
           subgroup = (if opt_target opts = PSBC_TARGET_PS5 \<and> opt_stage opts = PSBC_STAGE_COMPUTE then 32 else 0)
       in \<lparr>ci_ac = ac, ci_spirv_caps = compile_spirv_caps opts mesa_stage,
           ci_address32_hi = opt_address32_hi opts, ci_sampled_image_desc_size = 32,
           ci_combined_image_sampler_desc_size = 48, ci_combined_image_sampler_offset = 32,
           ci_sampler_descriptor_size = 16, ci_sampler_descriptor_alignment = 16,
           ci_image_descriptor_size = 32, ci_image_descriptor_alignment = 16,
           ci_buffer_descriptor_size = 16, ci_buffer_descriptor_alignment = 16,
           ci_ge_wave_size = 64, ci_ps_wave_size = (if gfxlevel \<ge> GFX10_3 then 32 else 64),
           ci_cs_wave_size = (if gfxlevel \<ge> GFX10_3 then 32 else 64), ci_rt_wave_size = 64,
           ci_subgroup_size = subgroup, ci_min_subgroup_size = subgroup, ci_max_subgroup_size = subgroup,
           ci_family = chipfamily, ci_load_grid_size_from_user_sgpr = (gfxlevel \<ge> GFX10_3),
           ci_use_ngg = opt_ngg opts, ci_ps5_global_streamout = opt_ps5_global_streamout opts,
           ci_ps5_fragment_view_index = (opt_target opts = PSBC_TARGET_PS5),
           ci_ps5_tess_ring_table = (opt_target opts = PSBC_TARGET_PS5),
           ci_debug_family = chipfamily\<rparr>))"

text \<open>The Mesa stage whose compiler options \<^verbatim>\<open>psbc_get_nir_options\<close> returns; the stages the map yields are
  all below \<^verbatim>\<open>MESA_VULKAN_SHADER_STAGES\<close>.\<close>

definition psbc_get_nir_options :: "(mesa_shader_stage \<Rightarrow> 'o) \<Rightarrow> PsbcStage \<Rightarrow> 'o option" where
  "psbc_get_nir_options nir_options stage =
     (let mesa_stage = psbc_to_mesa_stage stage in
      if mesa_stage = MESA_SHADER_NONE then None else Some (nir_options mesa_stage))"

section \<open>Initialisation as a state machine\<close>

text \<open>Atomic steps on the library and the type cache it shares with other users in the process; the
  first component counts the references those users hold.\<close>

datatype library_event = Ev_init | Ev_shutdown | Ev_ref | Ev_unref

inductive library_step :: "nat \<times> psbc_library \<Rightarrow> library_event \<Rightarrow> nat \<times> psbc_library \<Rightarrow> bool" where
  step_init: "library_step (e, l) Ev_init (e, psbc_init l)"
| step_shutdown: "psbc_shutdown l = Some l' \<Longrightarrow> library_step (e, l) Ev_shutdown (e, l')"
| step_ref: "library_step (e, l) Ev_ref
    (Suc e, l\<lparr>g_type_cache := glsl_type_singleton_init_or_ref (g_type_cache l)\<rparr>)"
| step_unref: "glsl_type_singleton_decref (g_type_cache l) = Some c \<Longrightarrow>
    library_step (Suc e, l) Ev_unref (e, l\<lparr>g_type_cache := c\<rparr>)"

inductive_cases library_stepE: "library_step s ev s'"
inductive_simps library_step_simps:
  "library_step (e, l) Ev_init s'" "library_step (e, l) Ev_shutdown s'"

inductive library_run :: "nat \<times> psbc_library \<Rightarrow> library_event list \<Rightarrow> nat \<times> psbc_library \<Rightarrow> bool" where
  run_nil: "library_run s [] s"
| run_snoc: "library_run s evs s' \<Longrightarrow> library_step s' ev s'' \<Longrightarrow> library_run s (evs @ [ev]) s''"

definition library_inv :: "nat \<times> psbc_library \<Rightarrow> bool" where
  "library_inv s \<longleftrightarrow>
     gtc_users (g_type_cache (snd s)) = fst s + (if g_init_refcount (snd s) > 0 then 1 else 0) \<and>
     (gtc_live (g_type_cache (snd s)) \<longleftrightarrow> gtc_users (g_type_cache (snd s)) > 0)"

text \<open>The references a sequence of calls leaves: a shutdown without a matching initialisation is
  ignored.\<close>

definition open_inits :: "library_event list \<Rightarrow> nat" where
  "open_inits evs = fold (\<lambda>ev n. case ev of Ev_init \<Rightarrow> n + 1 | Ev_shutdown \<Rightarrow> n - 1 | _ \<Rightarrow> n) evs 0"

lemmas library_ops = psbc_init_def psbc_shutdown_def glsl_type_singleton_init_or_ref_def
  glsl_type_singleton_decref_def

lemma library_step_inv: "library_step s ev s' \<Longrightarrow> library_inv s \<Longrightarrow> library_inv s'"
  by (erule library_stepE) (auto simp: library_inv_def library_ops Let_def split: if_splits)

lemma library_step_refcount:
  "library_step s ev s' \<Longrightarrow> g_init_refcount (snd s') =
     (case ev of Ev_init \<Rightarrow> g_init_refcount (snd s) + 1 | Ev_shutdown \<Rightarrow> g_init_refcount (snd s) - 1
      | _ \<Rightarrow> g_init_refcount (snd s))"
  by (erule library_stepE) (auto simp: library_ops Let_def split: if_splits)

lemma library_run_inv: "library_run s evs s' \<Longrightarrow> library_inv s \<Longrightarrow> library_inv s'"
  by (induction rule: library_run.induct) (auto intro: library_step_inv)

lemma library_run_refcount:
  "library_run s evs s' \<Longrightarrow> g_init_refcount (snd s) = 0 \<Longrightarrow> g_init_refcount (snd s') = open_inits evs"
proof (induction rule: library_run.induct)
  case (run_snoc s evs s' ev s'')
  then show ?case
    using library_step_refcount [OF run_snoc.hyps(2)] by (cases ev) (simp_all add: open_inits_def)
qed (simp add: open_inits_def)

lemma shutdown_defined: "library_inv (e, l) \<Longrightarrow> \<exists>l'. psbc_shutdown l = Some l'"
  by (auto simp: library_inv_def library_ops Let_def split: if_splits)



section \<open>Targets\<close>

text \<open>The register-file description of every GPU generation admits full occupancy: the largest SGPR
  allocation of the maximal number of waves is exactly the register file, allocations are
  multiples of their granularity, no VGPR allocation limit exceeds the file, and a chip of
  generation GFX7 or later gets 64 KiB of local data share.\<close>
theorem setup_ac_info_full_occupancy:
  "let ac = setup_ac_info gfxlevel in
     unat (ac_max_waves_per_simd ac) * unat (ac_max_sgpr_alloc ac) = unat (ac_num_physical_sgprs_per_simd ac) \<and>
     unat (ac_sgpr_alloc_granularity ac) dvd unat (ac_max_sgpr_alloc ac) \<and>
     unat (ac_sgpr_alloc_granularity ac) dvd unat (ac_min_sgpr_alloc ac) \<and>
     unat (ac_wave64_vgpr_alloc_granularity ac) dvd unat (ac_max_vgpr_alloc ac) \<and>
     unat (ac_wave64_vgpr_alloc_granularity ac) dvd unat (ac_min_wave64_vgpr_alloc ac) \<and>
     ac_min_wave64_vgpr_alloc ac \<le> ac_max_vgpr_alloc ac \<and>
     ac_max_vgpr_alloc ac \<le> ac_num_physical_wave64_vgprs_per_simd ac \<and>
     (GFX7 \<le> gfxlevel \<longleftrightarrow> ac_lds_size_per_workgroup ac = 65536)"
  by (simp add: setup_ac_info_def Let_def)

section \<open>Capabilities\<close>

text \<open>The capability bit that Mesa's reader consults for a SPIR-V capability number which the library
  gates.\<close>

definition mesa_capability :: "spirv_capabilities \<Rightarrow> u32 \<Rightarrow> bool option" where
  "mesa_capability caps c =
     map_of [(39, cap_Int8 caps), (22, cap_Int16 caps), (4448, cap_StorageBuffer8BitAccess caps),
             (4449, cap_UniformAndStorageBuffer8BitAccess caps), (4433, cap_StorageUniformBufferBlock16 caps),
             (4434, cap_StorageUniform16 caps), (5347, cap_PhysicalStorageBufferAddresses caps),
             (5345, cap_VulkanMemoryModel caps), (5346, cap_VulkanMemoryModelDeviceScope caps)] c"

text \<open>C35. The two gates agree. For each of the nine capabilities that the caller opts into, what the
  library's own walk over the module admits is what Mesa's reader is told to accept: a capability
  is admitted exactly when Mesa's bit for it is set, except that the diagnostic dot-product option
  sets Mesa's 16-bit integer bit without admitting modules that declare it.\<close>
theorem capability_gates_agree:
  assumes "mesa_capability (compile_spirv_caps opts stage) c = Some enabled"
  shows "(capability_enabled opts c \<longrightarrow> enabled) \<and>
         (enabled \<longrightarrow> capability_enabled opts c \<or> (c = 22 \<and> opt_force_accelerated_dot opts))"
  using assms
  by (auto simp: mesa_capability_def compile_spirv_caps_def capability_enabled_def split: if_splits)

theorem capability_gates_agree_witness:
  "mesa_capability (compile_spirv_caps (zero_options\<lparr>opt_enable_int8 := True\<rparr>) MESA_SHADER_VERTEX) 39 = Some True \<and>
   capability_enabled (zero_options\<lparr>opt_enable_int8 := True\<rparr>) 39"
proof -
  let ?opts = "zero_options\<lparr>opt_enable_int8 := True\<rparr>"
  have m: "mesa_capability (compile_spirv_caps ?opts MESA_SHADER_VERTEX) 39 = Some True"
    by (simp add: mesa_capability_def compile_spirv_caps_def)
  then show ?thesis using capability_gates_agree [OF m] by simp
qed

end
