(* ===== verification/Hw_Regs.thy ===== *)
theory Hw_Regs
  imports Psbc_Types
begin

text \<open>
  Register addresses, field setters and enumerators of the graphics block.  The C macros
  \<^verbatim>\<open>S_...\<close>, \<^verbatim>\<open>G_...\<close>, \<^verbatim>\<open>C_...\<close>, \<^verbatim>\<open>V_...\<close> and \<^verbatim>\<open>R_...\<close> are generated by
  \<^verbatim>\<open>src/src/amd/registers/makeregheader.py\<close> from the bit ranges of \<^verbatim>\<open>src/src/amd/registers/gfx10.json\<close>
  and \<^verbatim>\<open>gfx103.json\<close>; a field with the bits \<open>[lo, hi]\<close> becomes \<open>reg_S lo hi\<close>, \<open>reg_G lo hi\<close> and
  \<open>reg_C lo hi\<close>.  The locale \<open>reg_field\<close> is the contract of one field; the functions that
  assemble and combine register words rely on it.  Then come the register-word builders
  of \<^verbatim>\<open>src/libpsbc/psbc_compile.c\<close>.
\<close>

section \<open>Register fields\<close>

named_theorems reg_defs "the fields of the registers, as bit ranges"

definition reg_S :: "nat \<Rightarrow> nat \<Rightarrow> u32 \<Rightarrow> u32" where
  "reg_S lo hi x = push_bit lo (x AND mask (hi + 1 - lo))"

definition reg_G :: "nat \<Rightarrow> nat \<Rightarrow> u32 \<Rightarrow> u32" where
  "reg_G lo hi x = drop_bit lo x AND mask (hi + 1 - lo)"

definition reg_C :: "nat \<Rightarrow> nat \<Rightarrow> u32" where
  "reg_C lo hi = NOT (push_bit lo (mask (hi + 1 - lo)))"

definition S_00B104_CU_EN :: "u32 \<Rightarrow> u32" where [reg_defs]:
  "S_00B104_CU_EN = reg_S 0 15"

definition S_00B118_CU_EN :: "u32 \<Rightarrow> u32" where [reg_defs]:
  "S_00B118_CU_EN = reg_S 0 15"

definition S_00B118_WAVE_LIMIT :: "u32 \<Rightarrow> u32" where [reg_defs]:
  "S_00B118_WAVE_LIMIT = reg_S 16 21"

definition S_00B11C_LIMIT :: "u32 \<Rightarrow> u32" where [reg_defs]:
  "S_00B11C_LIMIT = reg_S 0 5"

definition S_00B204_CU_EN_GFX10 :: "u32 \<Rightarrow> u32" where [reg_defs]:
  "S_00B204_CU_EN_GFX10 = reg_S 0 15"

definition S_00B204_SPI_SHADER_LATE_ALLOC_GS_GFX10 :: "u32 \<Rightarrow> u32" where [reg_defs]:
  "S_00B204_SPI_SHADER_LATE_ALLOC_GS_GFX10 = reg_S 16 22"

definition S_00B21C_CU_EN :: "u32 \<Rightarrow> u32" where [reg_defs]:
  "S_00B21C_CU_EN = reg_S 0 15"

definition S_00B21C_WAVE_LIMIT :: "u32 \<Rightarrow> u32" where [reg_defs]:
  "S_00B21C_WAVE_LIMIT = reg_S 16 21"

definition S_0286C4_NO_PC_EXPORT :: "u32 \<Rightarrow> u32" where [reg_defs]:
  "S_0286C4_NO_PC_EXPORT = reg_S 7 7"

definition S_0286C4_PRIM_EXPORT_COUNT :: "u32 \<Rightarrow> u32" where [reg_defs]:
  "S_0286C4_PRIM_EXPORT_COUNT = reg_S 8 12"

definition S_0286C4_VS_EXPORT_COUNT :: "u32 \<Rightarrow> u32" where [reg_defs]:
  "S_0286C4_VS_EXPORT_COUNT = reg_S 1 5"

definition S_0286D8_NUM_INTERP :: "u32 \<Rightarrow> u32" where [reg_defs]:
  "S_0286D8_NUM_INTERP = reg_S 0 5"

definition S_0286D8_NUM_PRIM_INTERP :: "u32 \<Rightarrow> u32" where [reg_defs]:
  "S_0286D8_NUM_PRIM_INTERP = reg_S 9 13"

definition S_0286D8_PARAM_GEN :: "u32 \<Rightarrow> u32" where [reg_defs]:
  "S_0286D8_PARAM_GEN = reg_S 6 6"

definition S_0286D8_PS_W32_EN :: "u32 \<Rightarrow> u32" where [reg_defs]:
  "S_0286D8_PS_W32_EN = reg_S 15 15"

definition S_0286E0_FRONT_FACE_ALL_BITS :: "u32 \<Rightarrow> u32" where [reg_defs]:
  "S_0286E0_FRONT_FACE_ALL_BITS = reg_S 24 24"

definition S_028708_IDX0_EXPORT_FORMAT :: "u32 \<Rightarrow> u32" where [reg_defs]:
  "S_028708_IDX0_EXPORT_FORMAT = reg_S 0 3"

definition S_02870C_POS0_EXPORT_FORMAT :: "u32 \<Rightarrow> u32" where [reg_defs]:
  "S_02870C_POS0_EXPORT_FORMAT = reg_S 0 3"

definition S_02870C_POS1_EXPORT_FORMAT :: "u32 \<Rightarrow> u32" where [reg_defs]:
  "S_02870C_POS1_EXPORT_FORMAT = reg_S 4 7"

definition S_02870C_POS2_EXPORT_FORMAT :: "u32 \<Rightarrow> u32" where [reg_defs]:
  "S_02870C_POS2_EXPORT_FORMAT = reg_S 8 11"

definition S_02870C_POS3_EXPORT_FORMAT :: "u32 \<Rightarrow> u32" where [reg_defs]:
  "S_02870C_POS3_EXPORT_FORMAT = reg_S 12 15"

definition S_0287FC_MAX_VERTS_PER_SUBGROUP :: "u32 \<Rightarrow> u32" where [reg_defs]:
  "S_0287FC_MAX_VERTS_PER_SUBGROUP = reg_S 0 9"

definition S_02880C_CONSERVATIVE_Z_EXPORT :: "u32 \<Rightarrow> u32" where [reg_defs]:
  "S_02880C_CONSERVATIVE_Z_EXPORT = reg_S 13 14"

definition S_02880C_DEPTH_BEFORE_SHADER :: "u32 \<Rightarrow> u32" where [reg_defs]:
  "S_02880C_DEPTH_BEFORE_SHADER = reg_S 12 12"

definition S_02880C_EXEC_ON_HIER_FAIL :: "u32 \<Rightarrow> u32" where [reg_defs]:
  "S_02880C_EXEC_ON_HIER_FAIL = reg_S 9 9"

definition S_02880C_EXEC_ON_NOOP :: "u32 \<Rightarrow> u32" where [reg_defs]:
  "S_02880C_EXEC_ON_NOOP = reg_S 10 10"

definition S_02880C_KILL_ENABLE :: "u32 \<Rightarrow> u32" where [reg_defs]:
  "S_02880C_KILL_ENABLE = reg_S 6 6"

definition S_02880C_MASK_EXPORT_ENABLE :: "u32 \<Rightarrow> u32" where [reg_defs]:
  "S_02880C_MASK_EXPORT_ENABLE = reg_S 8 8"

definition S_02880C_PRE_SHADER_DEPTH_COVERAGE_ENABLE :: "u32 \<Rightarrow> u32" where [reg_defs]:
  "S_02880C_PRE_SHADER_DEPTH_COVERAGE_ENABLE = reg_S 23 23"

definition S_02880C_PRIMITIVE_ORDERED_PIXEL_SHADER :: "u32 \<Rightarrow> u32" where [reg_defs]:
  "S_02880C_PRIMITIVE_ORDERED_PIXEL_SHADER = reg_S 16 16"

definition S_02880C_STENCIL_TEST_VAL_EXPORT_ENABLE :: "u32 \<Rightarrow> u32" where [reg_defs]:
  "S_02880C_STENCIL_TEST_VAL_EXPORT_ENABLE = reg_S 1 1"

definition S_02880C_Z_EXPORT_ENABLE :: "u32 \<Rightarrow> u32" where [reg_defs]:
  "S_02880C_Z_EXPORT_ENABLE = reg_S 0 0"

definition S_02880C_Z_ORDER :: "u32 \<Rightarrow> u32" where [reg_defs]:
  "S_02880C_Z_ORDER = reg_S 4 5"

definition S_02881C_USE_VTX_POINT_SIZE :: "u32 \<Rightarrow> u32" where [reg_defs]:
  "S_02881C_USE_VTX_POINT_SIZE = reg_S 16 16"

definition S_02881C_USE_VTX_RENDER_TARGET_INDX :: "u32 \<Rightarrow> u32" where [reg_defs]:
  "S_02881C_USE_VTX_RENDER_TARGET_INDX = reg_S 18 18"

definition S_02881C_USE_VTX_VIEWPORT_INDX :: "u32 \<Rightarrow> u32" where [reg_defs]:
  "S_02881C_USE_VTX_VIEWPORT_INDX = reg_S 19 19"

definition S_02881C_USE_VTX_VRS_RATE :: "u32 \<Rightarrow> u32" where [reg_defs]:
  "S_02881C_USE_VTX_VRS_RATE = reg_S 28 28"

definition S_02881C_VS_OUT_CCDIST0_VEC_ENA :: "u32 \<Rightarrow> u32" where [reg_defs]:
  "S_02881C_VS_OUT_CCDIST0_VEC_ENA = reg_S 22 22"

definition S_02881C_VS_OUT_CCDIST1_VEC_ENA :: "u32 \<Rightarrow> u32" where [reg_defs]:
  "S_02881C_VS_OUT_CCDIST1_VEC_ENA = reg_S 23 23"

definition S_02881C_VS_OUT_MISC_SIDE_BUS_ENA :: "u32 \<Rightarrow> u32" where [reg_defs]:
  "S_02881C_VS_OUT_MISC_SIDE_BUS_ENA = reg_S 24 24"

definition S_02881C_VS_OUT_MISC_VEC_ENA :: "u32 \<Rightarrow> u32" where [reg_defs]:
  "S_02881C_VS_OUT_MISC_VEC_ENA = reg_S 21 21"

definition S_028A44_ES_VERTS_PER_SUBGRP :: "u32 \<Rightarrow> u32" where [reg_defs]:
  "S_028A44_ES_VERTS_PER_SUBGRP = reg_S 0 10"

definition S_028A44_GS_INST_PRIMS_IN_SUBGRP :: "u32 \<Rightarrow> u32" where [reg_defs]:
  "S_028A44_GS_INST_PRIMS_IN_SUBGRP = reg_S 22 31"

definition S_028A44_GS_PRIMS_PER_SUBGRP :: "u32 \<Rightarrow> u32" where [reg_defs]:
  "S_028A44_GS_PRIMS_PER_SUBGRP = reg_S 11 21"

definition S_028A6C_OUTPRIM_TYPE :: "u32 \<Rightarrow> u32" where [reg_defs]:
  "S_028A6C_OUTPRIM_TYPE = reg_S 0 5"

definition S_028A84_NGG_DISABLE_PROVOK_REUSE :: "u32 \<Rightarrow> u32" where [reg_defs]:
  "S_028A84_NGG_DISABLE_PROVOK_REUSE = reg_S 2 2"

definition S_028B4C_PRIM_AMP_FACTOR :: "u32 \<Rightarrow> u32" where [reg_defs]:
  "S_028B4C_PRIM_AMP_FACTOR = reg_S 0 8"

definition S_028B4C_THDS_PER_SUBGRP :: "u32 \<Rightarrow> u32" where [reg_defs]:
  "S_028B4C_THDS_PER_SUBGRP = reg_S 9 17"

definition S_028B54_DYNAMIC_HS :: "u32 \<Rightarrow> u32" where [reg_defs]:
  "S_028B54_DYNAMIC_HS = reg_S 8 8"

definition S_028B54_ES_EN :: "u32 \<Rightarrow> u32" where [reg_defs]:
  "S_028B54_ES_EN = reg_S 3 4"

definition S_028B54_GS_EN :: "u32 \<Rightarrow> u32" where [reg_defs]:
  "S_028B54_GS_EN = reg_S 5 5"

definition S_028B54_GS_W32_EN :: "u32 \<Rightarrow> u32" where [reg_defs]:
  "S_028B54_GS_W32_EN = reg_S 22 22"

definition S_028B54_HS_EN :: "u32 \<Rightarrow> u32" where [reg_defs]:
  "S_028B54_HS_EN = reg_S 2 2"

definition S_028B54_LS_EN :: "u32 \<Rightarrow> u32" where [reg_defs]:
  "S_028B54_LS_EN = reg_S 0 1"

definition S_028B54_MAX_PRIMGRP_IN_WAVE :: "u32 \<Rightarrow> u32" where [reg_defs]:
  "S_028B54_MAX_PRIMGRP_IN_WAVE = reg_S 15 18"

definition S_028B54_NGG_WAVE_ID_EN :: "u32 \<Rightarrow> u32" where [reg_defs]:
  "S_028B54_NGG_WAVE_ID_EN = reg_S 24 24"

definition S_028B54_PRIMGEN_EN :: "u32 \<Rightarrow> u32" where [reg_defs]:
  "S_028B54_PRIMGEN_EN = reg_S 13 13"

definition S_028B54_PRIMGEN_PASSTHRU_EN :: "u32 \<Rightarrow> u32" where [reg_defs]:
  "S_028B54_PRIMGEN_PASSTHRU_EN = reg_S 25 25"

definition S_028B54_VS_EN :: "u32 \<Rightarrow> u32" where [reg_defs]:
  "S_028B54_VS_EN = reg_S 6 7"

definition S_028B54_VS_W32_EN :: "u32 \<Rightarrow> u32" where [reg_defs]:
  "S_028B54_VS_W32_EN = reg_S 23 23"

definition S_028B6C_PARTITIONING :: "u32 \<Rightarrow> u32" where [reg_defs]:
  "S_028B6C_PARTITIONING = reg_S 2 4"

definition S_028B6C_TOPOLOGY :: "u32 \<Rightarrow> u32" where [reg_defs]:
  "S_028B6C_TOPOLOGY = reg_S 5 7"

definition S_028B6C_TYPE :: "u32 \<Rightarrow> u32" where [reg_defs]:
  "S_028B6C_TYPE = reg_S 0 1"

definition S_028B90_CNT :: "u32 \<Rightarrow> u32" where [reg_defs]:
  "S_028B90_CNT = reg_S 2 8"

definition S_028B90_ENABLE :: "u32 \<Rightarrow> u32" where [reg_defs]:
  "S_028B90_ENABLE = reg_S 0 0"

definition S_028B90_EN_MAX_VERT_OUT_PER_GS_INSTANCE :: "u32 \<Rightarrow> u32" where [reg_defs]:
  "S_028B90_EN_MAX_VERT_OUT_PER_GS_INSTANCE = reg_S 31 31"

definition S_03096C_PRIM_GRP_SIZE_GFX10 :: "u32 \<Rightarrow> u32" where [reg_defs]:
  "S_03096C_PRIM_GRP_SIZE_GFX10 = reg_S 0 8"

definition S_03096C_VERT_GRP_SIZE :: "u32 \<Rightarrow> u32" where [reg_defs]:
  "S_03096C_VERT_GRP_SIZE = reg_S 9 17"

definition S_030980_NUM_PC_LINES :: "u32 \<Rightarrow> u32" where [reg_defs]:
  "S_030980_NUM_PC_LINES = reg_S 1 10"

definition S_030980_OVERSUB_EN :: "u32 \<Rightarrow> u32" where [reg_defs]:
  "S_030980_OVERSUB_EN = reg_S 0 0"

definition G_00B228_SGPRS :: "u32 \<Rightarrow> u32" where [reg_defs]:
  "G_00B228_SGPRS = reg_G 6 9"

definition G_00B428_LS_VGPR_COMP_CNT :: "u32 \<Rightarrow> u32" where [reg_defs]:
  "G_00B428_LS_VGPR_COMP_CNT = reg_G 28 29"

definition G_00B848_VGPRS :: "u32 \<Rightarrow> u32" where [reg_defs]:
  "G_00B848_VGPRS = reg_G 0 5"

definition C_00B12C_SCRATCH_EN :: u32 where [reg_defs]:
  "C_00B12C_SCRATCH_EN = reg_C 0 0"

definition C_00B228_SGPRS :: u32 where [reg_defs]:
  "C_00B228_SGPRS = reg_C 6 9"

definition C_00B428_LS_VGPR_COMP_CNT :: u32 where [reg_defs]:
  "C_00B428_LS_VGPR_COMP_CNT = reg_C 28 29"

definition C_00B848_VGPRS :: u32 where [reg_defs]:
  "C_00B848_VGPRS = reg_C 0 5"

text \<open>Field enumerators and register byte addresses.\<close>

abbreviation (input) V_008958_DI_PT_LINELIST :: u32 where
  "V_008958_DI_PT_LINELIST \<equiv> 2"

abbreviation (input) V_008958_DI_PT_LINELIST_ADJ :: u32 where
  "V_008958_DI_PT_LINELIST_ADJ \<equiv> 10"

abbreviation (input) V_008958_DI_PT_LINESTRIP :: u32 where
  "V_008958_DI_PT_LINESTRIP \<equiv> 3"

abbreviation (input) V_008958_DI_PT_LINESTRIP_ADJ :: u32 where
  "V_008958_DI_PT_LINESTRIP_ADJ \<equiv> 11"

abbreviation (input) V_008958_DI_PT_POINTLIST :: u32 where
  "V_008958_DI_PT_POINTLIST \<equiv> 1"

abbreviation (input) V_008958_DI_PT_TRIFAN :: u32 where
  "V_008958_DI_PT_TRIFAN \<equiv> 5"

abbreviation (input) V_008958_DI_PT_TRILIST :: u32 where
  "V_008958_DI_PT_TRILIST \<equiv> 4"

abbreviation (input) V_008958_DI_PT_TRILIST_ADJ :: u32 where
  "V_008958_DI_PT_TRILIST_ADJ \<equiv> 12"

abbreviation (input) V_008958_DI_PT_TRISTRIP :: u32 where
  "V_008958_DI_PT_TRISTRIP \<equiv> 6"

abbreviation (input) V_008958_DI_PT_TRISTRIP_ADJ :: u32 where
  "V_008958_DI_PT_TRISTRIP_ADJ \<equiv> 13"

abbreviation (input) V_028708_SPI_SHADER_1COMP :: u32 where
  "V_028708_SPI_SHADER_1COMP \<equiv> 1"

abbreviation (input) V_02870C_SPI_SHADER_4COMP :: u32 where
  "V_02870C_SPI_SHADER_4COMP \<equiv> 4"

abbreviation (input) V_02870C_SPI_SHADER_NONE :: u32 where
  "V_02870C_SPI_SHADER_NONE \<equiv> 0"

abbreviation (input) V_028714_SPI_SHADER_32_ABGR :: u32 where
  "V_028714_SPI_SHADER_32_ABGR \<equiv> 9"

abbreviation (input) V_028714_SPI_SHADER_FP16_ABGR :: u32 where
  "V_028714_SPI_SHADER_FP16_ABGR \<equiv> 4"

abbreviation (input) V_02880C_EARLY_Z_THEN_LATE_Z :: u32 where
  "V_02880C_EARLY_Z_THEN_LATE_Z \<equiv> 1"

abbreviation (input) V_02880C_EXPORT_ANY_Z :: u32 where
  "V_02880C_EXPORT_ANY_Z \<equiv> 0"

abbreviation (input) V_02880C_EXPORT_GREATER_THAN_Z :: u32 where
  "V_02880C_EXPORT_GREATER_THAN_Z \<equiv> 2"

abbreviation (input) V_02880C_EXPORT_LESS_THAN_Z :: u32 where
  "V_02880C_EXPORT_LESS_THAN_Z \<equiv> 1"

abbreviation (input) V_02880C_LATE_Z :: u32 where
  "V_02880C_LATE_Z \<equiv> 0"

abbreviation (input) V_028A6C_LINESTRIP :: u32 where
  "V_028A6C_LINESTRIP \<equiv> 1"

abbreviation (input) V_028A6C_POINTLIST :: u32 where
  "V_028A6C_POINTLIST \<equiv> 0"

abbreviation (input) V_028A6C_TRISTRIP :: u32 where
  "V_028A6C_TRISTRIP \<equiv> 2"

abbreviation (input) V_028B54_ES_STAGE_DS :: u32 where
  "V_028B54_ES_STAGE_DS \<equiv> 1"

abbreviation (input) V_028B54_ES_STAGE_REAL :: u32 where
  "V_028B54_ES_STAGE_REAL \<equiv> 2"

abbreviation (input) V_028B54_HS_STAGE_ON :: u32 where
  "V_028B54_HS_STAGE_ON \<equiv> 1"

abbreviation (input) V_028B54_LS_STAGE_ON :: u32 where
  "V_028B54_LS_STAGE_ON \<equiv> 1"

abbreviation (input) V_028B54_VS_STAGE_DS :: u32 where
  "V_028B54_VS_STAGE_DS \<equiv> 1"

abbreviation (input) V_028B6C_OUTPUT_LINE :: u32 where
  "V_028B6C_OUTPUT_LINE \<equiv> 1"

abbreviation (input) V_028B6C_OUTPUT_POINT :: u32 where
  "V_028B6C_OUTPUT_POINT \<equiv> 0"

abbreviation (input) V_028B6C_OUTPUT_TRIANGLE_CCW :: u32 where
  "V_028B6C_OUTPUT_TRIANGLE_CCW \<equiv> 3"

abbreviation (input) V_028B6C_OUTPUT_TRIANGLE_CW :: u32 where
  "V_028B6C_OUTPUT_TRIANGLE_CW \<equiv> 2"

abbreviation (input) V_028B6C_PART_FRAC_EVEN :: u32 where
  "V_028B6C_PART_FRAC_EVEN \<equiv> 3"

abbreviation (input) V_028B6C_PART_FRAC_ODD :: u32 where
  "V_028B6C_PART_FRAC_ODD \<equiv> 2"

abbreviation (input) V_028B6C_PART_INTEGER :: u32 where
  "V_028B6C_PART_INTEGER \<equiv> 0"

abbreviation (input) V_028B6C_TESS_ISOLINE :: u32 where
  "V_028B6C_TESS_ISOLINE \<equiv> 0"

abbreviation (input) V_028B6C_TESS_QUAD :: u32 where
  "V_028B6C_TESS_QUAD \<equiv> 2"

abbreviation (input) V_028B6C_TESS_TRIANGLE :: u32 where
  "V_028B6C_TESS_TRIANGLE \<equiv> 1"

abbreviation (input) R_00B020_SPI_SHADER_PGM_LO_PS :: u32 where
  "R_00B020_SPI_SHADER_PGM_LO_PS \<equiv> 0x00B020"

abbreviation (input) R_00B024_SPI_SHADER_PGM_HI_PS :: u32 where
  "R_00B024_SPI_SHADER_PGM_HI_PS \<equiv> 0x00B024"

abbreviation (input) R_00B028_SPI_SHADER_PGM_RSRC1_PS :: u32 where
  "R_00B028_SPI_SHADER_PGM_RSRC1_PS \<equiv> 0x00B028"

abbreviation (input) R_00B02C_SPI_SHADER_PGM_RSRC2_PS :: u32 where
  "R_00B02C_SPI_SHADER_PGM_RSRC2_PS \<equiv> 0x00B02C"

abbreviation (input) R_00B104_SPI_SHADER_PGM_RSRC4_VS :: u32 where
  "R_00B104_SPI_SHADER_PGM_RSRC4_VS \<equiv> 0x00B104"

abbreviation (input) R_00B118_SPI_SHADER_PGM_RSRC3_VS :: u32 where
  "R_00B118_SPI_SHADER_PGM_RSRC3_VS \<equiv> 0x00B118"

abbreviation (input) R_00B11C_SPI_SHADER_LATE_ALLOC_VS :: u32 where
  "R_00B11C_SPI_SHADER_LATE_ALLOC_VS \<equiv> 0x00B11C"

abbreviation (input) R_00B120_SPI_SHADER_PGM_LO_VS :: u32 where
  "R_00B120_SPI_SHADER_PGM_LO_VS \<equiv> 0x00B120"

abbreviation (input) R_00B124_SPI_SHADER_PGM_HI_VS :: u32 where
  "R_00B124_SPI_SHADER_PGM_HI_VS \<equiv> 0x00B124"

abbreviation (input) R_00B128_SPI_SHADER_PGM_RSRC1_VS :: u32 where
  "R_00B128_SPI_SHADER_PGM_RSRC1_VS \<equiv> 0x00B128"

abbreviation (input) R_00B12C_SPI_SHADER_PGM_RSRC2_VS :: u32 where
  "R_00B12C_SPI_SHADER_PGM_RSRC2_VS \<equiv> 0x00B12C"

abbreviation (input) R_00B204_SPI_SHADER_PGM_RSRC4_GS :: u32 where
  "R_00B204_SPI_SHADER_PGM_RSRC4_GS \<equiv> 0x00B204"

abbreviation (input) R_00B21C_SPI_SHADER_PGM_RSRC3_GS :: u32 where
  "R_00B21C_SPI_SHADER_PGM_RSRC3_GS \<equiv> 0x00B21C"

abbreviation (input) R_00B228_SPI_SHADER_PGM_RSRC1_GS :: u32 where
  "R_00B228_SPI_SHADER_PGM_RSRC1_GS \<equiv> 0x00B228"

abbreviation (input) R_00B22C_SPI_SHADER_PGM_RSRC2_GS :: u32 where
  "R_00B22C_SPI_SHADER_PGM_RSRC2_GS \<equiv> 0x00B22C"

abbreviation (input) R_00B320_SPI_SHADER_PGM_LO_ES :: u32 where
  "R_00B320_SPI_SHADER_PGM_LO_ES \<equiv> 0x00B320"

abbreviation (input) R_00B324_SPI_SHADER_PGM_HI_ES :: u32 where
  "R_00B324_SPI_SHADER_PGM_HI_ES \<equiv> 0x00B324"

abbreviation (input) R_00B420_SPI_SHADER_PGM_LO_HS :: u32 where
  "R_00B420_SPI_SHADER_PGM_LO_HS \<equiv> 0x00B420"

abbreviation (input) R_00B428_SPI_SHADER_PGM_RSRC1_HS :: u32 where
  "R_00B428_SPI_SHADER_PGM_RSRC1_HS \<equiv> 0x00B428"

abbreviation (input) R_00B42C_SPI_SHADER_PGM_RSRC2_HS :: u32 where
  "R_00B42C_SPI_SHADER_PGM_RSRC2_HS \<equiv> 0x00B42C"

abbreviation (input) R_00B520_SPI_SHADER_PGM_LO_LS :: u32 where
  "R_00B520_SPI_SHADER_PGM_LO_LS \<equiv> 0x00B520"

abbreviation (input) R_00B524_SPI_SHADER_PGM_HI_LS :: u32 where
  "R_00B524_SPI_SHADER_PGM_HI_LS \<equiv> 0x00B524"

abbreviation (input) R_02823C_CB_SHADER_MASK :: u32 where
  "R_02823C_CB_SHADER_MASK \<equiv> 0x02823C"

abbreviation (input) R_0286C4_SPI_VS_OUT_CONFIG :: u32 where
  "R_0286C4_SPI_VS_OUT_CONFIG \<equiv> 0x0286C4"

abbreviation (input) R_0286CC_SPI_PS_INPUT_ENA :: u32 where
  "R_0286CC_SPI_PS_INPUT_ENA \<equiv> 0x0286CC"

abbreviation (input) R_0286D0_SPI_PS_INPUT_ADDR :: u32 where
  "R_0286D0_SPI_PS_INPUT_ADDR \<equiv> 0x0286D0"

abbreviation (input) R_0286D8_SPI_PS_IN_CONTROL :: u32 where
  "R_0286D8_SPI_PS_IN_CONTROL \<equiv> 0x0286D8"

abbreviation (input) R_0286E0_SPI_BARYC_CNTL :: u32 where
  "R_0286E0_SPI_BARYC_CNTL \<equiv> 0x0286E0"

abbreviation (input) R_028708_SPI_SHADER_IDX_FORMAT :: u32 where
  "R_028708_SPI_SHADER_IDX_FORMAT \<equiv> 0x028708"

abbreviation (input) R_02870C_SPI_SHADER_POS_FORMAT :: u32 where
  "R_02870C_SPI_SHADER_POS_FORMAT \<equiv> 0x02870C"

abbreviation (input) R_028710_SPI_SHADER_Z_FORMAT :: u32 where
  "R_028710_SPI_SHADER_Z_FORMAT \<equiv> 0x028710"

abbreviation (input) R_028714_SPI_SHADER_COL_FORMAT :: u32 where
  "R_028714_SPI_SHADER_COL_FORMAT \<equiv> 0x028714"

abbreviation (input) R_0287FC_GE_MAX_OUTPUT_PER_SUBGROUP :: u32 where
  "R_0287FC_GE_MAX_OUTPUT_PER_SUBGROUP \<equiv> 0x0287FC"

abbreviation (input) R_02880C_DB_SHADER_CONTROL :: u32 where
  "R_02880C_DB_SHADER_CONTROL \<equiv> 0x02880C"

abbreviation (input) R_02881C_PA_CL_VS_OUT_CNTL :: u32 where
  "R_02881C_PA_CL_VS_OUT_CNTL \<equiv> 0x02881C"

abbreviation (input) R_028A40_VGT_GS_MODE :: u32 where
  "R_028A40_VGT_GS_MODE \<equiv> 0x028A40"

abbreviation (input) R_028A44_VGT_GS_ONCHIP_CNTL :: u32 where
  "R_028A44_VGT_GS_ONCHIP_CNTL \<equiv> 0x028A44"

abbreviation (input) R_028A6C_VGT_GS_OUT_PRIM_TYPE :: u32 where
  "R_028A6C_VGT_GS_OUT_PRIM_TYPE \<equiv> 0x028A6C"

abbreviation (input) R_028A84_VGT_PRIMITIVEID_EN :: u32 where
  "R_028A84_VGT_PRIMITIVEID_EN \<equiv> 0x028A84"

abbreviation (input) R_028AAC_VGT_ESGS_RING_ITEMSIZE :: u32 where
  "R_028AAC_VGT_ESGS_RING_ITEMSIZE \<equiv> 0x028AAC"

abbreviation (input) R_028AB4_VGT_REUSE_OFF :: u32 where
  "R_028AB4_VGT_REUSE_OFF \<equiv> 0x028AB4"

abbreviation (input) R_028B38_VGT_GS_MAX_VERT_OUT :: u32 where
  "R_028B38_VGT_GS_MAX_VERT_OUT \<equiv> 0x028B38"

abbreviation (input) R_028B4C_GE_NGG_SUBGRP_CNTL :: u32 where
  "R_028B4C_GE_NGG_SUBGRP_CNTL \<equiv> 0x028B4C"

abbreviation (input) R_028B54_VGT_SHADER_STAGES_EN :: u32 where
  "R_028B54_VGT_SHADER_STAGES_EN \<equiv> 0x028B54"

abbreviation (input) R_028B6C_VGT_TF_PARAM :: u32 where
  "R_028B6C_VGT_TF_PARAM \<equiv> 0x028B6C"

abbreviation (input) R_028B90_VGT_GS_INSTANCE_CNT :: u32 where
  "R_028B90_VGT_GS_INSTANCE_CNT \<equiv> 0x028B90"

abbreviation (input) R_028C40_PA_SC_SHADER_CONTROL :: u32 where
  "R_028C40_PA_SC_SHADER_CONTROL \<equiv> 0x028C40"

abbreviation (input) R_03096C_GE_CNTL :: u32 where
  "R_03096C_GE_CNTL \<equiv> 0x03096C"

abbreviation (input) R_030980_GE_PC_ALLOC :: u32 where
  "R_030980_GE_PC_ALLOC \<equiv> 0x030980"

abbreviation (input) R_030988_GE_USER_VGPR_EN :: u32 where
  "R_030988_GE_USER_VGPR_EN \<equiv> 0x030988"

section \<open>Register writes\<close>

text \<open>\<^verbatim>\<open>PSBC_CX_OFFSET\<close>, \<^verbatim>\<open>PSBC_SH_OFFSET\<close> and \<^verbatim>\<open>PSBC_UC_OFFSET\<close>: the dword index of a register in its
  space, truncated to 16 bits.\<close>

definition PSBC_CX_OFFSET :: "u32 \<Rightarrow> u16" where
  "PSBC_CX_OFFSET reg = ucast ((reg - 0x28000) div 4)"

definition PSBC_SH_OFFSET :: "u32 \<Rightarrow> u16" where
  "PSBC_SH_OFFSET reg = ucast ((reg - 0xB000) div 4)"

definition PSBC_UC_OFFSET :: "u32 \<Rightarrow> u16" where
  "PSBC_UC_OFFSET reg = ucast ((reg - 0x30000) div 4)"

definition mk_write :: "u16 \<Rightarrow> u32 \<Rightarrow> PsbcRegisterWrite" where
  "mk_write off v = \<lparr>rw_offset = off, rw_value = v\<rparr>"

text \<open>A register array with its counter is the list of the registers written so far; a write to a
  full array is dropped.\<close>

definition metadata_add_register ::
  "nat \<Rightarrow> u16 \<Rightarrow> u32 \<Rightarrow> PsbcRegisterWrite list \<Rightarrow> PsbcRegisterWrite list" where
  "metadata_add_register limit off v registers =
     (if limit \<le> length registers then registers else registers @ [mk_write off v])"

primrec find_shader_register :: "PsbcRegisterWrite list \<Rightarrow> u16 \<Rightarrow> PsbcRegisterWrite option" where
  "find_shader_register [] off = None"
| "find_shader_register (r # rs) off =
     (if rw_offset r = off then Some r else find_shader_register rs off)"

section \<open>Register word arithmetic\<close>

text \<open>\<^verbatim>\<open>compact_spi_shader_col_format\<close>: the body of its loop over the eight color targets and the
  loop.\<close>

definition compact_step :: "u32 \<Rightarrow> nat \<Rightarrow> u32 \<times> nat \<Rightarrow> u32 \<times> nat" where
  "compact_step formats i st =
     (let format = drop_bit (4 * i) formats AND 0xf in
      if format \<noteq> 0 then (fst st OR push_bit (4 * snd st) format, snd st + 1) else st)"

definition compact_spi_shader_col_format :: "u32 \<Rightarrow> u32" where
  "compact_spi_shader_col_format formats = fst (fold (compact_step formats) [0..<8] (0, 0))"

text \<open>\<^verbatim>\<open>combine_vs_tcs_config\<close>: raise three fields of the vertex half's first resource word, and
  merge the second resource words.\<close>

definition raise_field :: "(u32 \<Rightarrow> u32) \<Rightarrow> u32 \<Rightarrow> u32 \<Rightarrow> u32 \<Rightarrow> u32" where
  "raise_field G C tcs_rsrc1 rsrc1 =
     (if G tcs_rsrc1 > G rsrc1 then (rsrc1 AND C) OR (tcs_rsrc1 AND NOT C) else rsrc1)"

definition combine_vs_tcs_config :: "u32 \<Rightarrow> u32 \<Rightarrow> u32 \<Rightarrow> u32 \<Rightarrow> u32 \<times> u32" where
  "combine_vs_tcs_config vs_rsrc1 vs_rsrc2 tcs_rsrc1 tcs_rsrc2 =
     (let rsrc1 = vs_rsrc1;
          rsrc1 = raise_field G_00B848_VGPRS C_00B848_VGPRS tcs_rsrc1 rsrc1;
          rsrc1 = raise_field G_00B228_SGPRS C_00B228_SGPRS tcs_rsrc1 rsrc1;
          rsrc1 = raise_field G_00B428_LS_VGPR_COMP_CNT C_00B428_LS_VGPR_COMP_CNT tcs_rsrc1 rsrc1
      in (rsrc1, vs_rsrc2 OR (tcs_rsrc2 AND NOT C_00B12C_SCRATCH_EN)))"

text \<open>The color formats of the eight targets, least significant nibble first.\<close>

definition nibbles :: "u32 \<Rightarrow> u32 list" where
  "nibbles w = map (\<lambda>i. drop_bit (4 * i) w AND 0xf) [0..<8]"

section \<open>Fields as bit ranges\<close>

lemma bit_reg_S:
  "hi < 32 \<Longrightarrow> bit (reg_S lo hi x) i \<longleftrightarrow> lo \<le> i \<and> i \<le> hi \<and> bit x (i - lo)"
  by (auto simp: reg_S_def bit_simps)

lemma bit_reg_G: "bit (reg_G lo hi x) i \<longleftrightarrow> i < hi + 1 - lo \<and> bit x (i + lo)"
  by (auto simp: reg_G_def bit_simps ac_simps dest: bit_imp_le_length)

lemma bit_reg_C: "bit (reg_C lo hi) i \<longleftrightarrow> i < 32 \<and> \<not> (lo \<le> i \<and> i \<le> hi)"
  by (auto simp: reg_C_def bit_simps)

lemma reg_G_S: "lo \<le> hi \<Longrightarrow> hi < 32 \<Longrightarrow> reg_G lo hi (reg_S lo hi v) = v AND mask (hi + 1 - lo)"
  by (intro bit_eqI) (auto simp: bit_reg_S bit_reg_G bit_simps)

lemma reg_G_or: "reg_G lo hi (x OR y) = reg_G lo hi x OR reg_G lo hi y"
  by (intro bit_eqI) (auto simp: bit_reg_G bit_simps)

lemma reg_G_S_disjoint:
  "hi' < 32 \<Longrightarrow> hi < lo' \<or> hi' < lo \<Longrightarrow> reg_G lo hi (reg_S lo' hi' v) = 0"
  by (intro bit_eqI) (auto simp: bit_reg_S bit_reg_G)

lemma reg_G_cong:
  assumes "\<And>i. lo \<le> i \<Longrightarrow> i \<le> hi \<Longrightarrow> bit x i = bit y i"
  shows "reg_G lo hi x = reg_G lo hi y"
  by (intro bit_eqI) (use assms in \<open>auto simp: bit_reg_G\<close>)

section \<open>The contract of a field in a register word\<close>

text \<open>\<open>G\<close> reads the field, \<open>C\<close> is the mask of the other bits.\<close>

locale reg_field =
  fixes G :: "u32 \<Rightarrow> u32" and C :: u32
  assumes get_merged: "G ((r AND C) OR (t AND NOT C)) = G t"
begin

lemma raise_field_max: "G (raise_field G C t r) = max (G r) (G t)"
  by (auto simp: raise_field_def get_merged max_def)

lemma raise_field_rest: "raise_field G C t r AND C = r AND C"
  by (intro bit_eqI) (auto simp: raise_field_def bit_simps)

end

text \<open>Two fields of the same word: the second does not look at the bits of the first.\<close>

locale reg_field_pair = a: reg_field G1 C1 + b: reg_field G2 C2
  for G1 :: "u32 \<Rightarrow> u32" and C1 :: u32 and G2 :: "u32 \<Rightarrow> u32" and C2 :: u32 +
  assumes other_field: "r AND C1 = s AND C1 \<Longrightarrow> G2 r = G2 s"
begin

lemma raise_keeps_other: "G2 (raise_field G1 C1 t r) = G2 r"
  by (rule other_field) (rule a.raise_field_rest)

end

lemma raise_field_outside: "bit C i \<Longrightarrow> bit (raise_field G C t r) i = bit r i"
  by (simp add: raise_field_def bit_simps)

lemma reg_field_range:
  "lo \<le> hi \<Longrightarrow> hi < 32 \<Longrightarrow> reg_G lo hi ((r AND reg_C lo hi) OR (t AND NOT (reg_C lo hi))) = reg_G lo hi t"
  by (rule reg_G_cong) (auto simp: bit_reg_C bit_simps)

lemma reg_field_other:
  assumes "r AND reg_C lo hi = s AND reg_C lo hi" "hi < lo' \<or> hi' < lo" "hi' < 32"
  shows "reg_G lo' hi' r = reg_G lo' hi' s"
proof (rule reg_G_cong)
  fix i assume "lo' \<le> i" "i \<le> hi'"
  then have "bit (reg_C lo hi) i" using assms(2,3) by (auto simp: bit_reg_C)
  then show "bit r i = bit s i" using assms(1) by (metis bit_and_iff)
qed

interpretation vgprs: reg_field G_00B848_VGPRS C_00B848_VGPRS
  by unfold_locales (simp add: reg_defs reg_field_range)

interpretation sgprs: reg_field G_00B228_SGPRS C_00B228_SGPRS
  by unfold_locales (simp add: reg_defs reg_field_range)

interpretation comp_cnt: reg_field G_00B428_LS_VGPR_COMP_CNT C_00B428_LS_VGPR_COMP_CNT
  by unfold_locales (simp add: reg_defs reg_field_range)

interpretation sgprs_vgprs: reg_field_pair G_00B228_SGPRS C_00B228_SGPRS G_00B848_VGPRS C_00B848_VGPRS
  by unfold_locales (simp add: reg_defs, erule reg_field_other, simp_all)

interpretation vgprs_sgprs: reg_field_pair G_00B848_VGPRS C_00B848_VGPRS G_00B228_SGPRS C_00B228_SGPRS
  by unfold_locales (simp add: reg_defs, erule reg_field_other, simp_all)

interpretation cnt_vgprs: reg_field_pair G_00B428_LS_VGPR_COMP_CNT C_00B428_LS_VGPR_COMP_CNT
    G_00B848_VGPRS C_00B848_VGPRS
  by unfold_locales (simp add: reg_defs, erule reg_field_other, simp_all)

interpretation cnt_sgprs: reg_field_pair G_00B428_LS_VGPR_COMP_CNT C_00B428_LS_VGPR_COMP_CNT
    G_00B228_SGPRS C_00B228_SGPRS
  by unfold_locales (simp add: reg_defs, erule reg_field_other, simp_all)

interpretation vgprs_cnt: reg_field_pair G_00B848_VGPRS C_00B848_VGPRS
    G_00B428_LS_VGPR_COMP_CNT C_00B428_LS_VGPR_COMP_CNT
  by unfold_locales (simp add: reg_defs, erule reg_field_other, simp_all)

interpretation sgprs_cnt: reg_field_pair G_00B228_SGPRS C_00B228_SGPRS
    G_00B428_LS_VGPR_COMP_CNT C_00B428_LS_VGPR_COMP_CNT
  by unfold_locales (simp add: reg_defs, erule reg_field_other, simp_all)

lemmas combine_fields =
  vgprs.raise_field_max sgprs.raise_field_max comp_cnt.raise_field_max
  sgprs_vgprs.raise_keeps_other vgprs_sgprs.raise_keeps_other cnt_vgprs.raise_keeps_other
  cnt_sgprs.raise_keeps_other vgprs_cnt.raise_keeps_other sgprs_cnt.raise_keeps_other

text \<open>C30. Combining the resource words of the vertex and control halves takes the larger value of each of
  the three counters (vector registers, scalar registers, LS vertex components), keeps every other bit
  of the vertex half's first word, and of the control half's second word adds exactly the
  scratch-enable bit.\<close>

theorem combine_vs_tcs_config_spec:
  assumes "combine_vs_tcs_config v1 v2 t1 t2 = (r1, r2)"
  shows "G_00B848_VGPRS r1 = max (G_00B848_VGPRS v1) (G_00B848_VGPRS t1) \<and>
         G_00B228_SGPRS r1 = max (G_00B228_SGPRS v1) (G_00B228_SGPRS t1) \<and>
         G_00B428_LS_VGPR_COMP_CNT r1 =
           max (G_00B428_LS_VGPR_COMP_CNT v1) (G_00B428_LS_VGPR_COMP_CNT t1) \<and>
         (\<forall>i. 9 < i \<and> i < 28 \<or> 29 < i \<longrightarrow> bit r1 i = bit v1 i) \<and>
         (\<forall>i. bit r2 i \<longleftrightarrow> bit v2 i \<or> i = 0 \<and> bit t2 0)"
proof -
  have r1: "r1 = raise_field G_00B428_LS_VGPR_COMP_CNT C_00B428_LS_VGPR_COMP_CNT t1
      (raise_field G_00B228_SGPRS C_00B228_SGPRS t1 (raise_field G_00B848_VGPRS C_00B848_VGPRS t1 v1))"
    and r2: "r2 = v2 OR (t2 AND NOT C_00B12C_SCRATCH_EN)"
    using assms by (simp_all add: combine_vs_tcs_config_def Let_def)
  have "bit r1 i = bit v1 i" if "9 < i \<and> i < 28 \<or> 29 < i" for i
  proof (cases "i < 32")
    case True
    then have "bit C_00B848_VGPRS i" "bit C_00B228_SGPRS i" "bit C_00B428_LS_VGPR_COMP_CNT i"
      using that by (auto simp: reg_defs bit_reg_C)
    then show ?thesis unfolding r1 by (simp only: raise_field_outside)
  qed (auto dest: bit_imp_le_length)
  moreover have "bit r2 i \<longleftrightarrow> bit v2 i \<or> i = 0 \<and> bit t2 0" for i
    unfolding r2 by (auto simp: reg_defs bit_reg_C bit_simps dest: bit_imp_le_length)
  ultimately show ?thesis by (simp add: r1 combine_fields)
qed

theorem combine_vs_tcs_config_spec_witness:
  "combine_vs_tcs_config 0x100000C5 0x10 0x20000083 0x3 = (0x200000C5, 0x11) \<and>
   G_00B848_VGPRS 0x200000C5 = max (G_00B848_VGPRS 0x100000C5) (G_00B848_VGPRS 0x20000083)"
proof -
  have run: "combine_vs_tcs_config 0x100000C5 0x10 0x20000083 0x3 = (0x200000C5, 0x11)"
    by (simp add: combine_vs_tcs_config_def raise_field_def reg_defs reg_G_def reg_C_def mask_eq_decr_exp)
  show ?thesis using combine_vs_tcs_config_spec [OF run] run by simp
qed

section \<open>Compaction of the color formats\<close>

text \<open>A word assembled from nibbles, least significant first.\<close>

definition of_nibbles :: "u32 list \<Rightarrow> u32" where
  "of_nibbles xs = foldr (\<lambda>x acc. x OR push_bit 4 acc) xs 0"

lemma and_15: "(x :: u32) AND 0xf = take_bit 4 x"
  by (simp add: take_bit_eq_mask mask_eq_decr_exp)

lemma bit_of_nibbles:
  assumes "\<forall>x \<in> set xs. take_bit 4 x = x"
  shows "bit (of_nibbles xs) j \<longleftrightarrow> j < 32 \<and> j div 4 < length xs \<and> bit (xs ! (j div 4)) (j mod 4)"
  using assms
proof (induction xs arbitrary: j)
  case Nil
  then show ?case by (simp add: of_nibbles_def)
next
  case (Cons x xs)
  have x: "\<not> bit x k" if "4 \<le> k" for k
    using Cons.prems that by (metis bit_take_bit_iff list.set_intros(1) not_le)
  show ?case
  proof (cases "j < 4")
    case True
    then show ?thesis by (simp add: of_nibbles_def bit_simps)
  next
    case False
    then have "j div 4 = Suc ((j - 4) div 4)" "j mod 4 = (j - 4) mod 4"
      by (simp_all add: le_div_geq le_mod_geq)
    then show ?thesis using Cons False x [of j] by (auto simp: of_nibbles_def bit_simps)
  qed
qed

lemma of_nibbles_snoc: "of_nibbles (xs @ [x]) = of_nibbles xs OR push_bit (4 * length xs) x"
  by (induction xs) (simp_all add: of_nibbles_def push_bit_or or.assoc)

lemma nibbles_of_nibbles:
  assumes "\<forall>x \<in> set xs. take_bit 4 x = x" "length xs \<le> 8"
  shows "nibbles (of_nibbles xs) = xs @ replicate (8 - length xs) 0"
proof (rule nth_equalityI)
  fix i assume "i < length (nibbles (of_nibbles xs))"
  then have i: "i < 8" by (simp add: nibbles_def)
  have "bit (take_bit 4 (drop_bit (4 * i) (of_nibbles xs))) j \<longleftrightarrow>
        bit ((xs @ replicate (8 - length xs) 0) ! i) j" for j
  proof (cases "j < 4")
    case True
    then show ?thesis using i assms
      by (auto simp: bit_simps bit_of_nibbles nth_append)
  next
    case False
    then have "\<not> bit (xs ! i) j" if "i < length xs"
      using assms(1) that by (metis bit_take_bit_iff nth_mem)
    then show ?thesis using False i assms(2) by (simp add: bit_simps nth_append)
  qed
  then show "nibbles (of_nibbles xs) ! i = (xs @ replicate (8 - length xs) 0) ! i"
    using i by (intro bit_eqI) (simp add: nibbles_def and_15)
qed (use assms(2) in \<open>simp add: nibbles_def\<close>)

lemma fold_compact_step:
  "fold (compact_step w) is (of_nibbles acc, length acc) =
     (let xs = acc @ filter (\<lambda>x. x \<noteq> 0) (map (\<lambda>i. drop_bit (4 * i) w AND 0xf) is)
      in (of_nibbles xs, length xs))"
proof (induction "is" arbitrary: acc)
  case Nil
  then show ?case by simp
next
  case (Cons i "is")
  let ?x = "drop_bit (4 * i) w AND 0xf"
  have "compact_step w i (of_nibbles acc, length acc) =
      (if ?x \<noteq> 0 then (of_nibbles (acc @ [?x]), length (acc @ [?x])) else (of_nibbles acc, length acc))"
    by (simp add: compact_step_def of_nibbles_snoc)
  then show ?case using Cons [of "acc @ [?x]"] Cons [of acc] by (auto simp: Let_def)
qed

text \<open>Compacting the color formats moves the non-zero format nibbles of the eight targets, in
  their order, into consecutive low nibbles, loses none of them, and leaves the rest zero.\<close>

theorem compact_spi_shader_col_format_packs:
  "nibbles (compact_spi_shader_col_format formats) =
     (let used = filter (\<lambda>x. x \<noteq> 0) (nibbles formats) in used @ replicate (8 - length used) 0)"
proof -
  let ?u = "filter (\<lambda>x. x \<noteq> 0) (nibbles formats)"
  have "compact_spi_shader_col_format formats = of_nibbles ?u"
    using fold_compact_step [of formats "[0..<8]" "[]"]
    by (simp add: compact_spi_shader_col_format_def nibbles_def of_nibbles_def Let_def)
  moreover have "\<forall>x \<in> set ?u. take_bit 4 x = x"
    by (auto simp: nibbles_def and_15)
  moreover have "length ?u \<le> 8"
    using length_filter_le [of _ "nibbles formats"] by (simp add: nibbles_def)
  ultimately show ?thesis by (simp add: nibbles_of_nibbles Let_def)
qed

end
