(* ===== verification/Compile_Setup.thy ===== *)
theory Compile_Setup
  imports Target_Setup Hw_Regs
begin

text \<open>
  The parts of \<^verbatim>\<open>psbc_compile_impl\<close> (\<^verbatim>\<open>src/libpsbc/psbc_compile.c\<close>) that turn the caller's options into
  Mesa's: the guards before the library is initialised, the descriptor-set layout, and the graphics
  state key with the topology, the color formats and the vertex attributes.  The lemmas show what an
  accepted set of options guarantees and that the layout and the key record exactly what the
  caller declared.  The enumeration \<^verbatim>\<open>pipe_format\<close> is generated by Mesa's build, so the value of each
  enumerator, by name, is the parameter \<open>pf\<close>; the key stores it in eight bits.
\<close>

section \<open>Definitions\<close>

subsection \<open>Arguments\<close>

text \<open>The arguments of \<^verbatim>\<open>psbc_compile_impl\<close> other than the options and the output; \<open>None\<close> is a null
  pointer.\<close>

record compile_input =
  in_spirv :: "u32 list option"
  in_spirv_size :: nat
  in_nir :: "nir_shader option"
  in_previous_spirv :: "u32 list option"
  in_previous_spirv_size :: nat
  in_previous_nir :: "nir_shader option"
  in_next_link_spirv :: "u32 list option"
  in_next_link_spirv_size :: nat

definition paired_previous :: "compile_input \<Rightarrow> bool" where
  "paired_previous inp \<longleftrightarrow> in_previous_spirv inp \<noteq> None \<or> in_previous_nir inp \<noteq> None"

definition paired_geometry :: "compile_input \<Rightarrow> mesa_shader_stage \<Rightarrow> bool" where
  "paired_geometry inp mesa_stage \<longleftrightarrow> paired_previous inp \<and> mesa_stage = MESA_SHADER_GEOMETRY"

definition paired_tess_geometry :: "compile_input \<Rightarrow> mesa_shader_stage \<Rightarrow> bool" where
  "paired_tess_geometry inp mesa_stage \<longleftrightarrow> paired_geometry inp mesa_stage \<and> in_next_link_spirv inp \<noteq> None"

definition paired_hull :: "compile_input \<Rightarrow> mesa_shader_stage \<Rightarrow> bool" where
  "paired_hull inp mesa_stage \<longleftrightarrow> paired_previous inp \<and> mesa_stage = MESA_SHADER_TESS_CTRL"

definition paired_domain :: "compile_input \<Rightarrow> mesa_shader_stage \<Rightarrow> bool" where
  "paired_domain inp mesa_stage \<longleftrightarrow> paired_previous inp \<and> mesa_stage = MESA_SHADER_TESS_EVAL"

text \<open>The stage that the previous half of a pair has to have.\<close>

definition previous_half_stage :: "compile_input \<Rightarrow> mesa_shader_stage \<Rightarrow> mesa_shader_stage" where
  "previous_half_stage inp mesa_stage =
     (if paired_domain inp mesa_stage then MESA_SHADER_TESS_CTRL
      else if paired_tess_geometry inp mesa_stage then MESA_SHADER_TESS_EVAL
      else MESA_SHADER_VERTEX)"

subsection \<open>Guards\<close>

definition inconsistent_capabilities :: "PsbcCompileOptions \<Rightarrow> bool" where
  "inconsistent_capabilities opts \<longleftrightarrow>
     (opt_enable_uniform_and_storage_buffer_8bit_access opts \<and> \<not> opt_enable_storage_buffer_8bit_access opts) \<or>
     (opt_enable_uniform_and_storage_buffer_16bit_access opts \<and> \<not> opt_enable_storage_buffer_16bit_access opts) \<or>
     (opt_enable_vulkan_memory_model_device_scope opts \<and> \<not> opt_enable_vulkan_memory_model opts)"

definition pairing_unsupported :: "compile_input \<Rightarrow> PsbcCompileOptions \<Rightarrow> mesa_shader_stage \<Rightarrow> bool" where
  "pairing_unsupported inp opts mesa_stage \<longleftrightarrow>
     paired_previous inp \<and>
     ((\<not> paired_geometry inp mesa_stage \<and> \<not> paired_hull inp mesa_stage \<and> \<not> paired_domain inp mesa_stage) \<or>
      (paired_geometry inp mesa_stage \<and> \<not> opt_ngg opts) \<or> (paired_hull inp mesa_stage \<and> opt_ngg opts) \<or>
      opt_target opts \<noteq> PSBC_TARGET_PS5)"

definition all_specialization_valid :: "PsbcCompileOptions \<Rightarrow> bool" where
  "all_specialization_valid opts \<longleftrightarrow>
     specialization_parameters_valid (opt_specialization_constant_count opts) (opt_specialization_constants opts) \<and>
     (lp_enabled (opt_previous_parameters opts) \<longrightarrow>
        specialization_parameters_valid (lp_specialization_constant_count (opt_previous_parameters opts))
          (lp_specialization_constants (opt_previous_parameters opts))) \<and>
     (lp_enabled (opt_next_link_parameters opts) \<longrightarrow>
        specialization_parameters_valid (lp_specialization_constant_count (opt_next_link_parameters opts))
          (lp_specialization_constants (opt_next_link_parameters opts)))"

definition color_formats_ok :: "PsbcCompileOptions \<Rightarrow> bool" where
  "color_formats_ok opts \<longleftrightarrow>
     (opt_color_is_int8 opts OR opt_color_is_int10 opts) AND NOT 0xff = 0 \<and>
     list_all (\<lambda>i. drop_bit (4 * i) (opt_spi_shader_col_format opts) AND 0xf \<le> V_028714_SPI_SHADER_32_ABGR) [0..<8]"

definition expected_stride :: "PsbcDescriptorType \<Rightarrow> u32" where
  "expected_stride type =
     (if type = PSBC_DESCRIPTOR_COMBINED_IMAGE_SAMPLER then 48
      else if type = PSBC_DESCRIPTOR_INPUT_ATTACHMENT \<or> type = PSBC_DESCRIPTOR_STORAGE_IMAGE \<or>
              type = PSBC_DESCRIPTOR_SAMPLED_IMAGE then 32
      else 16)"

text \<open>The check of one binding.  Its sum is in 64 bits, where it cannot wrap: a stride is at most 48
  when the sum is reached.\<close>

definition binding_ok :: "PsbcDescriptorBinding \<Rightarrow> bool" where
  "binding_ok b \<longleftrightarrow>
     unat (db_set b) < PSBC_MAX_DESCRIPTOR_SETS \<and> unat (db_binding b) < PSBC_MAX_DESCRIPTOR_BINDINGS \<and>
     db_type b \<noteq> PSBC_DESCRIPTOR_NONE \<and> db_array_size b \<noteq> 0 \<and> db_stride b = expected_stride (db_type b) \<and>
     db_offset b AND 15 = 0 \<and> unat (db_offset b) + unat (db_array_size b) * unat (db_stride b) \<le> 2 ^ 32 - 1"

definition bindings_ok :: "PsbcCompileOptions \<Rightarrow> bool" where
  "bindings_ok opts \<longleftrightarrow>
     list_all (\<lambda>i. binding_ok (opt_descriptor_bindings opts ! i) \<and>
       list_all (\<lambda>j. \<not> (db_set (opt_descriptor_bindings opts ! j) = db_set (opt_descriptor_bindings opts ! i) \<and>
                        db_binding (opt_descriptor_bindings opts ! j) = db_binding (opt_descriptor_bindings opts ! i)))
         [0..<i]) [0..<unat (opt_descriptor_binding_count opts)]"

text \<open>The guards of \<^verbatim>\<open>psbc_compile_impl\<close> up to \<^verbatim>\<open>psbc_init\<close>, in their order.\<close>

definition compile_guards :: "compile_input \<Rightarrow> PsbcCompileOptions \<Rightarrow> PsbcResult" where
  "compile_guards inp opts =
     (let mesa_stage = psbc_to_mesa_stage (opt_stage opts);
          validation = (if in_nir inp = None
                        then validate_spirv_capabilities (in_spirv inp) (in_spirv_size inp) opts
                        else PSBC_RESULT_OK);
          previous_validation = (if in_previous_spirv inp \<noteq> None
                        then validate_spirv_capabilities (in_previous_spirv inp) (in_previous_spirv_size inp) opts
                        else PSBC_RESULT_OK)
      in if inconsistent_capabilities opts then PSBC_RESULT_INTERNAL_ERROR
         else if validation \<noteq> PSBC_RESULT_OK then validation
         else if mesa_stage = MESA_SHADER_NONE then PSBC_RESULT_UNSUPPORTED_STAGE
         else if pairing_unsupported inp opts mesa_stage then PSBC_RESULT_UNSUPPORTED_STAGE
         else if opt_ps5_global_streamout opts \<and> \<not> paired_geometry inp mesa_stage
         then PSBC_RESULT_UNSUPPORTED_STAGE
         else if opt_primitive_id_per_primitive opts \<and>
                 (opt_target opts \<noteq> PSBC_TARGET_PS5 \<or> mesa_stage \<noteq> MESA_SHADER_FRAGMENT)
         then PSBC_RESULT_UNSUPPORTED_STAGE
         else if (case in_previous_nir inp of None \<Rightarrow> False
                  | Some nir \<Rightarrow> si_stage (nir_info nir) \<noteq> previous_half_stage inp mesa_stage)
         then PSBC_RESULT_UNSUPPORTED_STAGE
         else if previous_validation \<noteq> PSBC_RESULT_OK then previous_validation
         else if opt_ngg opts \<and>
                 (opt_target opts \<noteq> PSBC_TARGET_PS5 \<or>
                  (mesa_stage \<noteq> MESA_SHADER_VERTEX \<and> mesa_stage \<noteq> MESA_SHADER_TESS_EVAL \<and>
                   \<not> paired_geometry inp mesa_stage))
         then PSBC_RESULT_UNSUPPORTED_STAGE
         else if unat (opt_descriptor_binding_count opts) > PSBC_MAX_DESCRIPTOR_BINDINGS
         then PSBC_RESULT_INTERNAL_ERROR
         else if \<not> all_specialization_valid opts then PSBC_RESULT_INTERNAL_ERROR
         else if \<not> color_formats_ok opts then PSBC_RESULT_INTERNAL_ERROR
         else if \<not> bindings_ok opts then PSBC_RESULT_INTERNAL_ERROR
         else PSBC_RESULT_OK)"

subsection \<open>Descriptor-set layout\<close>

datatype VkDescriptorType
  = VK_DESCRIPTOR_TYPE_SAMPLER | VK_DESCRIPTOR_TYPE_COMBINED_IMAGE_SAMPLER
  | VK_DESCRIPTOR_TYPE_SAMPLED_IMAGE | VK_DESCRIPTOR_TYPE_STORAGE_IMAGE
  | VK_DESCRIPTOR_TYPE_UNIFORM_TEXEL_BUFFER | VK_DESCRIPTOR_TYPE_STORAGE_TEXEL_BUFFER
  | VK_DESCRIPTOR_TYPE_UNIFORM_BUFFER | VK_DESCRIPTOR_TYPE_STORAGE_BUFFER
  | VK_DESCRIPTOR_TYPE_INPUT_ATTACHMENT

definition vk_descriptor_type :: "PsbcDescriptorType \<Rightarrow> VkDescriptorType" where
  "vk_descriptor_type type =
     (case type of
        PSBC_DESCRIPTOR_UNIFORM_BUFFER \<Rightarrow> VK_DESCRIPTOR_TYPE_UNIFORM_BUFFER
      | PSBC_DESCRIPTOR_UNIFORM_TEXEL_BUFFER \<Rightarrow> VK_DESCRIPTOR_TYPE_UNIFORM_TEXEL_BUFFER
      | PSBC_DESCRIPTOR_STORAGE_BUFFER \<Rightarrow> VK_DESCRIPTOR_TYPE_STORAGE_BUFFER
      | PSBC_DESCRIPTOR_INPUT_ATTACHMENT \<Rightarrow> VK_DESCRIPTOR_TYPE_INPUT_ATTACHMENT
      | PSBC_DESCRIPTOR_STORAGE_IMAGE \<Rightarrow> VK_DESCRIPTOR_TYPE_STORAGE_IMAGE
      | PSBC_DESCRIPTOR_SAMPLER \<Rightarrow> VK_DESCRIPTOR_TYPE_SAMPLER
      | PSBC_DESCRIPTOR_SAMPLED_IMAGE \<Rightarrow> VK_DESCRIPTOR_TYPE_SAMPLED_IMAGE
      | PSBC_DESCRIPTOR_STORAGE_TEXEL_BUFFER \<Rightarrow> VK_DESCRIPTOR_TYPE_STORAGE_TEXEL_BUFFER
      | _ \<Rightarrow> VK_DESCRIPTOR_TYPE_COMBINED_IMAGE_SAMPLER)"

record radv_binding_layout =
  bl_type :: VkDescriptorType
  bl_array_size :: u32
  bl_offset :: u32
  bl_size :: u32

record radv_set_layout =
  sl_binding :: "radv_binding_layout list"
  sl_binding_count :: u32
  sl_size :: u32

record radv_shader_layout =
  ly_num_sets :: u32
  ly_set :: "radv_set_layout list"

definition zero_set_layout :: radv_set_layout where
  "zero_set_layout =
     \<lparr>sl_binding = replicate 64 \<lparr>bl_type = VK_DESCRIPTOR_TYPE_SAMPLER, bl_array_size = 0, bl_offset = 0, bl_size = 0\<rparr>,
      sl_binding_count = 0, sl_size = 0\<rparr>"

text \<open>One binding entered into the storage of its set; the counter is the number of sets so far.\<close>

definition layout_binding ::
  "PsbcDescriptorBinding \<Rightarrow> u32 \<times> radv_set_layout list \<Rightarrow> u32 \<times> radv_set_layout list" where
  "layout_binding source st =
     (let set_layout = snd st ! unat (db_set source);
          target = \<lparr>bl_type = vk_descriptor_type (db_type source), bl_array_size = db_array_size source,
                    bl_offset = db_offset source, bl_size = db_stride source\<rparr>;
          set_layout = \<lparr>sl_binding = (sl_binding set_layout)[unat (db_binding source) := target],
                        sl_binding_count = max (sl_binding_count set_layout) (ucast (db_binding source) + 1),
                        sl_size = max (sl_size set_layout)
                                      (db_offset source + db_array_size source * db_stride source)\<rparr>
      in (max (fst st) (ucast (db_set source) + 1), (snd st)[unat (db_set source) := set_layout]))"

text \<open>The layout of the stage: the sets below the counter are attached to it.\<close>

definition descriptor_layout :: "PsbcCompileOptions \<Rightarrow> radv_shader_layout" where
  "descriptor_layout opts =
     (if opt_descriptor_binding_count opts = 0 then \<lparr>ly_num_sets = 0, ly_set = []\<rparr>
      else (let st = fold layout_binding
                  (take (unat (opt_descriptor_binding_count opts)) (opt_descriptor_bindings opts))
                  (0, replicate PSBC_MAX_DESCRIPTOR_SETS zero_set_layout)
            in \<lparr>ly_num_sets = fst st, ly_set = take (unat (fst st)) (snd st)\<rparr>))"

subsection \<open>Graphics state\<close>

record radv_graphics_state_key =
  gk_topology :: u8
  gk_attributes_valid :: u32
  gk_instance_rate_inputs :: u32
  gk_instance_rate_divisors :: "u32 list"
  gk_vertex_attribute_formats :: "u8 list"
  gk_vertex_attribute_bindings :: "u32 list"
  gk_vertex_attribute_offsets :: "u32 list"
  gk_vertex_attribute_strides :: "u32 list"
  gk_vertex_binding_align :: "u8 list"
  gk_patch_control_points :: u32
  gk_provoking_vtx_last :: bool
  gk_sample_shading_enable :: bool
  gk_rasterization_samples :: u8
  gk_spi_shader_col_format :: u32
  gk_color_is_int8 :: u8
  gk_color_is_int10 :: u8
  gk_mrt0_is_dual_src :: bool
  gk_frag_pos_already_lowered :: bool

text \<open>The input-assembly topology of a primitive type; \<open>None\<close> refuses the type.\<close>

definition topology_of :: "u32 \<Rightarrow> u32 option" where
  "topology_of primitive_type =
     (if primitive_type = 0 then Some 0
      else if primitive_type = 1 then Some V_008958_DI_PT_POINTLIST
      else if primitive_type = 2 then Some V_008958_DI_PT_LINELIST
      else if primitive_type = 3 then Some V_008958_DI_PT_LINESTRIP
      else if primitive_type = 4 then Some V_008958_DI_PT_TRILIST
      else if primitive_type = 5 then Some V_008958_DI_PT_TRIFAN
      else if primitive_type = 6 then Some V_008958_DI_PT_TRISTRIP
      else if primitive_type = 10 then Some V_008958_DI_PT_LINELIST_ADJ
      else if primitive_type = 11 then Some V_008958_DI_PT_LINESTRIP_ADJ
      else if primitive_type = 12 then Some V_008958_DI_PT_TRILIST_ADJ
      else if primitive_type = 13 then Some V_008958_DI_PT_TRISTRIP_ADJ
      else None)"

definition samples_ok :: "u32 \<Rightarrow> bool" where
  "samples_ok samples \<longleftrightarrow> samples = 0 \<or> samples = 1 \<or> samples = 2 \<or> samples = 4 \<or> samples = 8"

text \<open>The color export format and the integer masks of the pixel stage.\<close>

definition epilog_formats :: "PsbcCompileOptions \<Rightarrow> bool \<Rightarrow> u32 \<times> u8 \<times> u8" where
  "epilog_formats opts dual_source_blend =
     (let given = opt_spi_shader_col_format opts \<noteq> 0 in
      if dual_source_blend
      then ((if given then opt_spi_shader_col_format opts AND 0xf else V_028714_SPI_SHADER_FP16_ABGR) * 0x11,
            (if given then ucast ((opt_color_is_int8 opts AND 1) * 3) else 0),
            (if given then ucast ((opt_color_is_int10 opts AND 1) * 3) else 0))
      else (if given then opt_spi_shader_col_format opts else 0x99999999,
            (if given then ucast (opt_color_is_int8 opts) else 0xff),
            (if given then ucast (opt_color_is_int10 opts) else 0)))"

text \<open>The switch over the vertex formats.\<close>

primrec vertex_pipe_format :: "PsbcVertexFormat \<Rightarrow> string option" where
  "vertex_pipe_format PSBC_VERTEX_FORMAT_R32_FLOAT = Some ''PIPE_FORMAT_R32_FLOAT''"
| "vertex_pipe_format PSBC_VERTEX_FORMAT_R32G32_FLOAT = Some ''PIPE_FORMAT_R32G32_FLOAT''"
| "vertex_pipe_format PSBC_VERTEX_FORMAT_R32G32B32_FLOAT = Some ''PIPE_FORMAT_R32G32B32_FLOAT''"
| "vertex_pipe_format PSBC_VERTEX_FORMAT_R32G32B32A32_FLOAT = Some ''PIPE_FORMAT_R32G32B32A32_FLOAT''"
| "vertex_pipe_format PSBC_VERTEX_FORMAT_B8G8R8A8_UNORM = Some ''PIPE_FORMAT_B8G8R8A8_UNORM''"
| "vertex_pipe_format PSBC_VERTEX_FORMAT_R8G8B8A8_UNORM = Some ''PIPE_FORMAT_R8G8B8A8_UNORM''"
| "vertex_pipe_format PSBC_VERTEX_FORMAT_R10G10B10A2_UNORM = Some ''PIPE_FORMAT_R10G10B10A2_UNORM''"
| "vertex_pipe_format PSBC_VERTEX_FORMAT_B10G10R10A2_UNORM = Some ''PIPE_FORMAT_B10G10R10A2_UNORM''"
| "vertex_pipe_format PSBC_VERTEX_FORMAT_R10G10B10A2_SNORM = Some ''PIPE_FORMAT_R10G10B10A2_SNORM''"
| "vertex_pipe_format PSBC_VERTEX_FORMAT_B10G10R10A2_SNORM = Some ''PIPE_FORMAT_B10G10R10A2_SNORM''"
| "vertex_pipe_format PSBC_VERTEX_FORMAT_R10G10B10A2_USCALED = Some ''PIPE_FORMAT_R10G10B10A2_USCALED''"
| "vertex_pipe_format PSBC_VERTEX_FORMAT_B10G10R10A2_USCALED = Some ''PIPE_FORMAT_B10G10R10A2_USCALED''"
| "vertex_pipe_format PSBC_VERTEX_FORMAT_R10G10B10A2_SSCALED = Some ''PIPE_FORMAT_R10G10B10A2_SSCALED''"
| "vertex_pipe_format PSBC_VERTEX_FORMAT_B10G10R10A2_SSCALED = Some ''PIPE_FORMAT_B10G10R10A2_SSCALED''"
| "vertex_pipe_format PSBC_VERTEX_FORMAT_R32_SINT = Some ''PIPE_FORMAT_R32_SINT''"
| "vertex_pipe_format PSBC_VERTEX_FORMAT_R32G32_SINT = Some ''PIPE_FORMAT_R32G32_SINT''"
| "vertex_pipe_format PSBC_VERTEX_FORMAT_R32G32B32_SINT = Some ''PIPE_FORMAT_R32G32B32_SINT''"
| "vertex_pipe_format PSBC_VERTEX_FORMAT_R32G32B32A32_SINT = Some ''PIPE_FORMAT_R32G32B32A32_SINT''"
| "vertex_pipe_format PSBC_VERTEX_FORMAT_R32_UINT = Some ''PIPE_FORMAT_R32_UINT''"
| "vertex_pipe_format PSBC_VERTEX_FORMAT_R32G32_UINT = Some ''PIPE_FORMAT_R32G32_UINT''"
| "vertex_pipe_format PSBC_VERTEX_FORMAT_R32G32B32_UINT = Some ''PIPE_FORMAT_R32G32B32_UINT''"
| "vertex_pipe_format PSBC_VERTEX_FORMAT_R32G32B32A32_UINT = Some ''PIPE_FORMAT_R32G32B32A32_UINT''"
| "vertex_pipe_format PSBC_VERTEX_FORMAT_R8_UNORM = Some ''PIPE_FORMAT_R8_UNORM''"
| "vertex_pipe_format PSBC_VERTEX_FORMAT_R8_SNORM = Some ''PIPE_FORMAT_R8_SNORM''"
| "vertex_pipe_format PSBC_VERTEX_FORMAT_R8_UINT = Some ''PIPE_FORMAT_R8_UINT''"
| "vertex_pipe_format PSBC_VERTEX_FORMAT_R8_SINT = Some ''PIPE_FORMAT_R8_SINT''"
| "vertex_pipe_format PSBC_VERTEX_FORMAT_R8G8_UNORM = Some ''PIPE_FORMAT_R8G8_UNORM''"
| "vertex_pipe_format PSBC_VERTEX_FORMAT_R8G8_SNORM = Some ''PIPE_FORMAT_R8G8_SNORM''"
| "vertex_pipe_format PSBC_VERTEX_FORMAT_R8G8_UINT = Some ''PIPE_FORMAT_R8G8_UINT''"
| "vertex_pipe_format PSBC_VERTEX_FORMAT_R8G8_SINT = Some ''PIPE_FORMAT_R8G8_SINT''"
| "vertex_pipe_format PSBC_VERTEX_FORMAT_R8G8B8A8_SNORM = Some ''PIPE_FORMAT_R8G8B8A8_SNORM''"
| "vertex_pipe_format PSBC_VERTEX_FORMAT_R8G8B8A8_UINT = Some ''PIPE_FORMAT_R8G8B8A8_UINT''"
| "vertex_pipe_format PSBC_VERTEX_FORMAT_R8G8B8A8_SINT = Some ''PIPE_FORMAT_R8G8B8A8_SINT''"
| "vertex_pipe_format PSBC_VERTEX_FORMAT_R16_UNORM = Some ''PIPE_FORMAT_R16_UNORM''"
| "vertex_pipe_format PSBC_VERTEX_FORMAT_R16_SNORM = Some ''PIPE_FORMAT_R16_SNORM''"
| "vertex_pipe_format PSBC_VERTEX_FORMAT_R16_UINT = Some ''PIPE_FORMAT_R16_UINT''"
| "vertex_pipe_format PSBC_VERTEX_FORMAT_R16_SINT = Some ''PIPE_FORMAT_R16_SINT''"
| "vertex_pipe_format PSBC_VERTEX_FORMAT_R16_FLOAT = Some ''PIPE_FORMAT_R16_FLOAT''"
| "vertex_pipe_format PSBC_VERTEX_FORMAT_R16G16_UNORM = Some ''PIPE_FORMAT_R16G16_UNORM''"
| "vertex_pipe_format PSBC_VERTEX_FORMAT_R16G16_SNORM = Some ''PIPE_FORMAT_R16G16_SNORM''"
| "vertex_pipe_format PSBC_VERTEX_FORMAT_R16G16_UINT = Some ''PIPE_FORMAT_R16G16_UINT''"
| "vertex_pipe_format PSBC_VERTEX_FORMAT_R16G16_SINT = Some ''PIPE_FORMAT_R16G16_SINT''"
| "vertex_pipe_format PSBC_VERTEX_FORMAT_R16G16_FLOAT = Some ''PIPE_FORMAT_R16G16_FLOAT''"
| "vertex_pipe_format PSBC_VERTEX_FORMAT_R16G16B16A16_UNORM = Some ''PIPE_FORMAT_R16G16B16A16_UNORM''"
| "vertex_pipe_format PSBC_VERTEX_FORMAT_R16G16B16A16_SNORM = Some ''PIPE_FORMAT_R16G16B16A16_SNORM''"
| "vertex_pipe_format PSBC_VERTEX_FORMAT_R16G16B16A16_UINT = Some ''PIPE_FORMAT_R16G16B16A16_UINT''"
| "vertex_pipe_format PSBC_VERTEX_FORMAT_R16G16B16A16_SINT = Some ''PIPE_FORMAT_R16G16B16A16_SINT''"
| "vertex_pipe_format PSBC_VERTEX_FORMAT_R16G16B16A16_FLOAT = Some ''PIPE_FORMAT_R16G16B16A16_FLOAT''"
| "vertex_pipe_format PSBC_VERTEX_FORMAT_NONE = None"

text \<open>The loop over the vertex attributes: it refuses an attribute, runs past the array of 32 elements
  that the options hold, or returns the state.\<close>

datatype attribute_result = Attr_ok radv_graphics_state_key | Attr_refused | Attr_out_of_bounds

definition attribute_ok :: "PsbcTarget \<Rightarrow> PsbcVertexAttribute \<Rightarrow> bool" where
  "attribute_ok target a \<longleftrightarrow>
     \<not> (unat (va_location a) \<ge> PSBC_MAX_VERTEX_ATTRIBUTES \<or> unat (va_binding a) \<ge> 32 \<or>
        (va_stride a = 0 \<and> target \<noteq> PSBC_TARGET_PS5) \<or> va_alignment a = 0)"

definition enter_attribute ::
  "u32 \<Rightarrow> PsbcVertexAttribute \<Rightarrow> radv_graphics_state_key \<Rightarrow> radv_graphics_state_key" where
  "enter_attribute format a gs =
     (let l = unat (va_location a);
          gs = gs\<lparr>gk_attributes_valid := gk_attributes_valid gs OR BITFIELD_BIT l,
                  gk_vertex_attribute_formats := (gk_vertex_attribute_formats gs)[l := ucast format],
                  gk_vertex_attribute_bindings := (gk_vertex_attribute_bindings gs)[l := ucast (va_binding a)],
                  gk_vertex_attribute_offsets := (gk_vertex_attribute_offsets gs)[l := va_offset a],
                  gk_vertex_attribute_strides := (gk_vertex_attribute_strides gs)[l := va_stride a],
                  gk_vertex_binding_align := (gk_vertex_binding_align gs)[unat (va_binding a) := ucast (va_alignment a)]\<rparr>
      in if va_instance_divisor a \<noteq> 0
         then gs\<lparr>gk_instance_rate_inputs := gk_instance_rate_inputs gs OR BITFIELD_BIT l,
                 gk_instance_rate_divisors := (gk_instance_rate_divisors gs)[l := va_instance_divisor a]\<rparr>
         else gs)"

function vertex_attributes ::
  "(string \<Rightarrow> u32) \<Rightarrow> PsbcTarget \<Rightarrow> PsbcVertexAttribute list \<Rightarrow> nat \<Rightarrow> nat \<Rightarrow> radv_graphics_state_key \<Rightarrow> attribute_result" where
  "vertex_attributes pf target attrs count i gs =
     (if i < count
      then (if i < length attrs
            then (case vertex_pipe_format (va_format (attrs ! i)) of
                    None \<Rightarrow> Attr_refused
                  | Some format \<Rightarrow>
                      if attribute_ok target (attrs ! i)
                      then vertex_attributes pf target attrs count (Suc i) (enter_attribute (pf format) (attrs ! i) gs)
                      else Attr_refused)
            else Attr_out_of_bounds)
      else Attr_ok gs)"
  by pat_completeness auto
termination
  by (relation "measure (\<lambda>(_, _, _, count, i, _). count - i)") auto

declare vertex_attributes.simps [simp del]

definition initial_graphics_state :: "PsbcCompileOptions \<Rightarrow> bool \<Rightarrow> u32 \<Rightarrow> radv_graphics_state_key" where
  "initial_graphics_state opts dual_source_blend topology =
     (case epilog_formats opts dual_source_blend of (col_format, int8, int10) \<Rightarrow>
      \<lparr>gk_topology = ucast topology, gk_attributes_valid = 0, gk_instance_rate_inputs = 0,
       gk_instance_rate_divisors = replicate 32 0,
       gk_vertex_attribute_formats = replicate 32 0,
       gk_vertex_attribute_bindings = replicate 32 0, gk_vertex_attribute_offsets = replicate 32 0,
       gk_vertex_attribute_strides = replicate 32 0, gk_vertex_binding_align = replicate 32 0,
       gk_patch_control_points = opt_patch_control_points opts,
       gk_provoking_vtx_last = opt_provoking_vtx_last opts,
       gk_sample_shading_enable = opt_sample_shading_enable opts,
       gk_rasterization_samples = ucast (opt_rasterization_samples opts),
       gk_spi_shader_col_format = col_format, gk_color_is_int8 = int8, gk_color_is_int10 = int10,
       gk_mrt0_is_dual_src = dual_source_blend, gk_frag_pos_already_lowered = False\<rparr>)"

text \<open>The graphics state of a compilation; every refusal is \<^verbatim>\<open>PSBC_RESULT_INTERNAL_ERROR\<close>.\<close>

definition graphics_state :: "(string \<Rightarrow> u32) \<Rightarrow> PsbcCompileOptions \<Rightarrow> mesa_shader_stage \<Rightarrow> bool \<Rightarrow> attribute_result" where
  "graphics_state pf opts mesa_stage dual_source_blend =
     (if \<not> samples_ok (opt_rasterization_samples opts) then Attr_refused
      else (case topology_of (opt_primitive_type opts) of
              None \<Rightarrow> Attr_refused
            | Some topology \<Rightarrow>
                (case vertex_attributes pf (opt_target opts) (opt_vertex_attributes opts)
                        (unat (opt_vertex_attribute_count opts)) 0
                        (initial_graphics_state opts dual_source_blend topology) of
                   Attr_ok gs \<Rightarrow>
                     Attr_ok (if mesa_stage = MESA_SHADER_FRAGMENT
                              then gs\<lparr>gk_frag_pos_already_lowered := True\<rparr> else gs)
                 | r \<Rightarrow> r)))"

section \<open>Descriptor layout\<close>

lemma binding_ok_bounds:
  assumes "binding_ok b"
  shows "unat (db_set b) < 4" "unat (db_binding b) < 64"
    "unat (ucast (db_set b) + 1 :: u32) = Suc (unat (db_set b))"
    "unat (ucast (db_binding b) + 1 :: u32) = Suc (unat (db_binding b))"
    "unat (db_offset b + db_array_size b * db_stride b) =
       unat (db_offset b) + unat (db_array_size b) * unat (db_stride b)"
proof -
  show s: "unat (db_set b) < 4" and k: "unat (db_binding b) < 64"
    using assms by (simp_all add: binding_ok_def)
  have "unat (ucast (db_set b) :: u32) = unat (db_set b)" "unat (ucast (db_binding b) :: u32) = unat (db_binding b)"
    by (simp_all add: unat_ucast_wider)
  with s k show "unat (ucast (db_set b) + 1 :: u32) = Suc (unat (db_set b))"
    "unat (ucast (db_binding b) + 1 :: u32) = Suc (unat (db_binding b))"
    by (simp_all add: unat_add_small)
  have le: "unat (db_offset b) + unat (db_array_size b) * unat (db_stride b) < 2 ^ 32"
  proof -
    have "unat (db_offset b) + unat (db_array_size b) * unat (db_stride b) \<le> 2 ^ 32 - 1"
      using assms unfolding binding_ok_def by blast
    then show ?thesis by simp
  qed
  then have "unat (db_array_size b * db_stride b) = unat (db_array_size b) * unat (db_stride b)"
    by (intro unat_mult_small) simp
  then show "unat (db_offset b + db_array_size b * db_stride b) =
      unat (db_offset b) + unat (db_array_size b) * unat (db_stride b)"
    using le by (simp add: unat_add_small)
qed

text \<open>The entry of a binding, and what the storage of the sets holds of a list of bindings.\<close>

definition binding_entry :: "PsbcDescriptorBinding \<Rightarrow> radv_binding_layout" where
  "binding_entry b = \<lparr>bl_type = vk_descriptor_type (db_type b), bl_array_size = db_array_size b,
     bl_offset = db_offset b, bl_size = db_stride b\<rparr>"

definition binding_key :: "PsbcDescriptorBinding \<Rightarrow> nat \<times> nat" where
  "binding_key b = (unat (db_set b), unat (db_binding b))"

definition layout_holds :: "u32 \<times> radv_set_layout list \<Rightarrow> PsbcDescriptorBinding \<Rightarrow> bool" where
  "layout_holds st b \<longleftrightarrow>
     unat (db_set b) < unat (fst st) \<and>
     unat (db_binding b) < unat (sl_binding_count (snd st ! unat (db_set b))) \<and>
     sl_binding (snd st ! unat (db_set b)) ! unat (db_binding b) = binding_entry b \<and>
     unat (db_offset b) + unat (db_array_size b) * unat (db_stride b) \<le> unat (sl_size (snd st ! unat (db_set b)))"

definition layout_shape :: "u32 \<times> radv_set_layout list \<Rightarrow> bool" where
  "layout_shape st \<longleftrightarrow>
     length (snd st) = 4 \<and> unat (fst st) \<le> 4 \<and>
     list_all (\<lambda>s. length (sl_binding s) = 64 \<and> unat (sl_binding_count s) \<le> 64) (snd st)"

lemma layout_binding_eq:
  "layout_binding b (n, sets) =
     (max n (ucast (db_set b) + 1),
      sets[unat (db_set b) :=
        \<lparr>sl_binding = (sl_binding (sets ! unat (db_set b)))[unat (db_binding b) := binding_entry b],
         sl_binding_count = max (sl_binding_count (sets ! unat (db_set b))) (ucast (db_binding b) + 1),
         sl_size = max (sl_size (sets ! unat (db_set b))) (db_offset b + db_array_size b * db_stride b)\<rparr>])"
  by (simp add: layout_binding_def binding_entry_def Let_def)

lemma layout_binding_shape:
  assumes "layout_shape st" "binding_ok b"
  shows "layout_shape (layout_binding b st)"
proof -
  obtain n sets where st: "st = (n, sets)" by (cases st)
  have "list_all (\<lambda>s. length (sl_binding s) = 64 \<and> unat (sl_binding_count s) \<le> 64) sets" "length sets = 4"
    using assms(1) by (simp_all add: layout_shape_def st)
  then show ?thesis
    using assms(1) binding_ok_bounds [OF assms(2)]
    by (auto simp: layout_shape_def st layout_binding_eq unat_max list_all_length nth_list_update)
qed

lemma layout_binding_holds_new:
  assumes "layout_shape st" "binding_ok b"
  shows "layout_holds (layout_binding b st) b"
proof -
  obtain n sets where st: "st = (n, sets)" by (cases st)
  have "length sets = 4" "length (sl_binding (sets ! unat (db_set b))) = 64"
    using assms(1) binding_ok_bounds [OF assms(2)] by (auto simp: layout_shape_def st list_all_length)
  then show ?thesis
    using binding_ok_bounds [OF assms(2)]
    by (simp add: layout_holds_def st layout_binding_eq unat_max less_max_iff_disj)
qed

lemma layout_binding_holds_old:
  assumes "layout_shape st" "binding_ok b" "binding_ok c" "layout_holds st c" "binding_key b \<noteq> binding_key c"
  shows "layout_holds (layout_binding b st) c"
proof -
  obtain n sets where st: "st = (n, sets)" by (cases st)
  have len: "length sets = 4" using assms(1) by (simp add: layout_shape_def st)
  show ?thesis
  proof (cases "unat (db_set b) = unat (db_set c)")
    case True
    then have "unat (db_binding b) \<noteq> unat (db_binding c)" using assms(5) by (simp add: binding_key_def)
    then show ?thesis
      using assms(4) len True binding_ok_bounds [OF assms(2)]
      by (auto simp: layout_holds_def st layout_binding_eq unat_max)
  next
    case False
    then show ?thesis
      using assms(4) by (auto simp: layout_holds_def st layout_binding_eq unat_max)
  qed
qed

lemma layout_fold:
  assumes "list_all binding_ok bs" "distinct (map binding_key bs)"
    and "layout_shape st"
  shows "layout_shape (fold layout_binding bs st) \<and> list_all (layout_holds (fold layout_binding bs st)) bs"
  using assms(1,2)
proof (induction bs rule: rev_induct)
  case Nil
  then show ?case using assms(3) by simp
next
  case (snoc b bs)
  let ?st = "fold layout_binding bs st"
  have ok: "list_all binding_ok bs" "binding_ok b" and dist: "distinct (map binding_key bs)"
    and new: "binding_key b \<notin> binding_key ` set bs"
    using snoc.prems by auto
  have IH: "layout_shape ?st" "list_all (layout_holds ?st) bs" using snoc.IH ok(1) dist by simp_all
  have "layout_holds (layout_binding b ?st) c" if "c \<in> set bs" for c
    using that ok IH new by (intro layout_binding_holds_old) (auto simp: list_all_iff)
  then show ?case
    using layout_binding_shape [OF IH(1) ok(2)] layout_binding_holds_new [OF IH(1) ok(2)]
    by (simp add: list_all_iff)
qed

lemma layout_start: "layout_shape (0, replicate PSBC_MAX_DESCRIPTOR_SETS zero_set_layout)"
  by (simp add: layout_shape_def zero_set_layout_def list_all_length)

text \<open>A slot that no binding names keeps its contents.\<close>

lemma length_layout_binding [simp]: "length (snd (layout_binding b st)) = length (snd st)"
  by (cases st) (simp add: layout_binding_eq)

lemma length_layout_fold [simp]: "length (snd (fold layout_binding bs st)) = length (snd st)"
  by (induction bs arbitrary: st) simp_all

lemma layout_binding_slot:
  "(s, k) \<noteq> binding_key b \<Longrightarrow> s < length (snd st) \<Longrightarrow>
     sl_binding (snd (layout_binding b st) ! s) ! k = sl_binding (snd st ! s) ! k"
  by (cases st; cases "s = unat (db_set b)") (auto simp: layout_binding_eq binding_key_def)

lemma layout_slot_untouched:
  "(s, k) \<notin> binding_key ` set bs \<Longrightarrow> s < length (snd st) \<Longrightarrow>
     sl_binding (snd (fold layout_binding bs st) ! s) ! k = sl_binding (snd st ! s) ! k"
proof (induction bs arbitrary: st)
  case (Cons b bs)
  have "sl_binding (snd (fold layout_binding bs (layout_binding b st)) ! s) ! k =
      sl_binding (snd (layout_binding b st) ! s) ! k"
    using Cons.prems by (intro Cons.IH) auto
  also have "\<dots> = sl_binding (snd st ! s) ! k" using Cons.prems by (intro layout_binding_slot) auto
  finally show ?case by simp
qed simp

lemma bindings_ok_list:
  assumes "bindings_ok opts" "unat (opt_descriptor_binding_count opts) \<le> length (opt_descriptor_bindings opts)"
  defines "bs \<equiv> take (unat (opt_descriptor_binding_count opts)) (opt_descriptor_bindings opts)"
  shows "list_all binding_ok bs" "distinct (map binding_key bs)"
proof -
  have len: "length bs = unat (opt_descriptor_binding_count opts)" using assms(2) by (simp add: bs_def)
  have nth: "bs ! i = opt_descriptor_bindings opts ! i" if "i < length bs" for i
    using that len by (simp add: bs_def)
  show "list_all binding_ok bs"
    using assms(1) by (auto simp: list_all_length bindings_ok_def list_all_iff len nth)
  have apart: "\<forall>i < length bs. \<forall>j < i. \<not> (db_set (bs ! j) = db_set (bs ! i) \<and> db_binding (bs ! j) = db_binding (bs ! i))"
    using assms(1) nth by (simp add: bindings_ok_def list_all_iff len)
  have "binding_key (bs ! i) \<noteq> binding_key (bs ! j)" if "j < i" "i < length bs" for i j
    using apart that by (metis binding_key_def prod.inject word_unat_eq_iff)
  then show "distinct (map binding_key bs)"
    by (auto simp: distinct_conv_nth) (metis linorder_neqE_nat)
qed

lemma compile_guards_ok:
  assumes "compile_guards inp opts = PSBC_RESULT_OK"
  shows "\<not> inconsistent_capabilities opts" "psbc_to_mesa_stage (opt_stage opts) \<noteq> MESA_SHADER_NONE"
    "\<not> pairing_unsupported inp opts (psbc_to_mesa_stage (opt_stage opts))"
    "unat (opt_descriptor_binding_count opts) \<le> 64"
    "all_specialization_valid opts" "color_formats_ok opts" "bindings_ok opts"
  using assms
  by (simp_all add: compile_guards_def Let_def split: if_splits)

text \<open>C10. The guards and the descriptor layout agree. Once the guards accept the options, every declared
  binding is found in the layout handed to Mesa under its own set and binding number, with its own
  type, array size, offset and stride: the set is attached, the binding number is below the
  set's count, and the bytes of all array elements lie inside the set's size, computed without
  wrap-around. There are at most four sets of at most 64 bindings, and a slot that no binding
  declares stays empty.\<close>
theorem descriptor_layout_exact:
  assumes "compile_guards inp opts = PSBC_RESULT_OK"
    and "length (opt_descriptor_bindings opts) = 64"
  defines "bs \<equiv> take (unat (opt_descriptor_binding_count opts)) (opt_descriptor_bindings opts)"
    and "ly \<equiv> descriptor_layout opts"
  shows "unat (ly_num_sets ly) \<le> 4 \<and> length (ly_set ly) = unat (ly_num_sets ly) \<and>
    (\<forall>b\<in>set bs.
       unat (db_set b) < length (ly_set ly) \<and>
       (let sl = ly_set ly ! unat (db_set b) in
          unat (db_binding b) < unat (sl_binding_count sl) \<and>
          sl_binding sl ! unat (db_binding b) =
            \<lparr>bl_type = vk_descriptor_type (db_type b), bl_array_size = db_array_size b,
             bl_offset = db_offset b, bl_size = db_stride b\<rparr> \<and>
          unat (db_offset b) + unat (db_array_size b) * unat (db_stride b) \<le> unat (sl_size sl))) \<and>
    (\<forall>s < length (ly_set ly). unat (sl_binding_count (ly_set ly ! s)) \<le> 64 \<and>
       (\<forall>k < 64. (\<forall>b\<in>set bs. (unat (db_set b), unat (db_binding b)) \<noteq> (s, k)) \<longrightarrow>
          bl_array_size (sl_binding (ly_set ly ! s) ! k) = 0))"
proof (cases "opt_descriptor_binding_count opts = 0")
  case True
  then show ?thesis by (simp add: ly_def bs_def descriptor_layout_def)
next
  case False
  let ?st = "fold layout_binding bs (0, replicate 4 zero_set_layout)"
  note ok = compile_guards_ok [OF assms(1)]
  have bs: "list_all binding_ok bs" "distinct (map binding_key bs)"
    using bindings_ok_list [OF ok(7)] ok(4) assms(2) by (simp_all add: bs_def)
  have sh: "layout_shape ?st" and holds: "list_all (layout_holds ?st) bs"
    using layout_fold [OF bs layout_start] by simp_all
  have ly: "ly_num_sets ly = fst ?st" "ly_set ly = take (unat (fst ?st)) (snd ?st)"
    using False by (simp_all add: ly_def bs_def descriptor_layout_def Let_def)
  have empty: "bl_array_size (sl_binding (snd ?st ! s) ! k) = 0"
    if "s < 4" "k < 64" "\<forall>b\<in>set bs. (unat (db_set b), unat (db_binding b)) \<noteq> (s, k)" for s k
  proof -
    have "(s, k) \<notin> binding_key ` set bs" using that(3) by (auto simp: binding_key_def)
    then show ?thesis using layout_slot_untouched [of s k bs "(0, replicate 4 zero_set_layout)"] that
      by (simp add: zero_set_layout_def)
  qed
  have "unat (fst ?st) \<le> 4" "length (snd ?st) = 4" using sh by (simp_all add: layout_shape_def)
  then show ?thesis
    using sh holds empty
    by (simp add: ly Let_def list_all_iff layout_holds_def layout_shape_def binding_entry_def list_all_length)
qed

definition sample_binding :: PsbcDescriptorBinding where
  "sample_binding = \<lparr>db_set = 1, db_binding = 3, db_type = PSBC_DESCRIPTOR_COMBINED_IMAGE_SAMPLER,
     db_array_size = 2, db_offset = 64, db_stride = 48\<rparr>"

definition sample_options :: PsbcCompileOptions where
  "sample_options = zero_options\<lparr>opt_target := PSBC_TARGET_PS5, opt_stage := PSBC_STAGE_FRAGMENT,
     opt_descriptor_binding_count := 1, opt_descriptor_bindings := sample_binding # replicate 63 zero_binding\<rparr>"

definition sample_input :: compile_input where
  "sample_input = \<lparr>in_spirv = None, in_spirv_size = 0, in_nir = Some zero_nir, in_previous_spirv = None,
     in_previous_spirv_size = 0, in_previous_nir = None, in_next_link_spirv = None, in_next_link_spirv_size = 0\<rparr>"

lemma sample_guards: "compile_guards sample_input sample_options = PSBC_RESULT_OK"
proof -
  have "bindings_ok sample_options"
    by (simp add: bindings_ok_def sample_options_def binding_ok_def sample_binding_def expected_stride_def)
  moreover have "all_specialization_valid sample_options" "color_formats_ok sample_options"
    by (simp_all add: all_specialization_valid_def color_formats_ok_def sample_options_def zero_options_def
        specialization_parameters_valid_def zero_linked_parameters_def list_all_iff)
  ultimately show ?thesis
    by (simp add: compile_guards_def sample_input_def inconsistent_capabilities_def pairing_unsupported_def
        paired_previous_def paired_geometry_def Let_def sample_options_def zero_options_def)
qed

theorem descriptor_layout_exact_witness:
  "compile_guards sample_input sample_options = PSBC_RESULT_OK \<and>
   bl_size (sl_binding (ly_set (descriptor_layout sample_options) ! 1) ! 3) = 48 \<and>
   160 \<le> unat (sl_size (ly_set (descriptor_layout sample_options) ! 1))"
proof -
  have bs: "take (unat (opt_descriptor_binding_count sample_options)) (opt_descriptor_bindings sample_options) =
      [sample_binding]"
    by (simp add: sample_options_def)
  have len: "length (opt_descriptor_bindings sample_options) = 64" by (simp add: sample_options_def)
  show ?thesis
    using descriptor_layout_exact [OF sample_guards len] sample_guards
    unfolding bs by (simp add: Let_def sample_binding_def)
qed

section \<open>Color formats\<close>

lemma nibble_dual:
  assumes "f \<le> (9 :: u32)"
  shows "i < 8 \<Longrightarrow> drop_bit (4 * i) (f * 0x11) AND 0xf = (if i < 2 then f else 0)"
proof -
  have "f \<in> {0, 1, 2, 3, 4, 5, 6, 7, 8, 9}"
  proof -
    have "unat f < 10" using assms by (simp add: word_le_nat_alt)
    then show ?thesis by (simp add: word_unat_eq_iff) arith
  qed
  moreover assume "i < 8"
  then have "i \<in> {0, 1, 2, 3, 4, 5, 6, 7}" by (auto simp: less_Suc_eq numeral_eq_Suc)
  ultimately show ?thesis by (elim insertE emptyE) (simp_all add: drop_bit_eq_div)
qed

text \<open>The color formats of the pixel stage are always valid export formats. For options that pass the
  guards, each of the eight nibbles of the format word that reaches the shader key is at most
  \<^verbatim>\<open>SPI_SHADER_32_ABGR\<close>, for the caller's word, the default word and the dual-source word alike; with
  dual-source blending exactly targets 0 and 1 have a format, the same one and the one of target 0,
  and the integer masks lose no bit in the eight-bit fields.\<close>
theorem epilog_formats_valid:
  assumes "color_formats_ok opts"
    and "epilog_formats opts dual = (col, int8, int10)"
  shows "(\<forall>i < 8. drop_bit (4 * i) col AND 0xf \<le> V_028714_SPI_SHADER_32_ABGR) \<and>
    (dual \<longrightarrow> (\<forall>i < 8. drop_bit (4 * i) col AND 0xf =
        (if i < 2 then (if opt_spi_shader_col_format opts = 0 then V_028714_SPI_SHADER_FP16_ABGR
                        else opt_spi_shader_col_format opts AND 0xf) else 0))) \<and>
    (\<not> dual \<and> opt_spi_shader_col_format opts \<noteq> 0 \<longrightarrow>
       unat int8 = unat (opt_color_is_int8 opts) \<and> unat int10 = unat (opt_color_is_int10 opts))"
proof (intro conjI impI allI)
  let ?f = "opt_spi_shader_col_format opts"
  have caller: "drop_bit (4 * i) ?f AND 0xf \<le> 9" if "i < 8" for i
    using assms(1) that by (simp add: color_formats_ok_def list_all_iff)
  define g where "g = (if ?f = 0 then V_028714_SPI_SHADER_FP16_ABGR else ?f AND 0xf)"
  have g: "g \<le> 9" using caller [of 0] by (simp add: g_def)
  have col: "col = (if dual then g * 0x11 else if ?f = 0 then 0x99999999 else ?f)"
    using assms(2) by (auto simp: epilog_formats_def g_def Let_def split: if_splits)
  fix i :: nat
  assume i: "i < 8"
  have default: "drop_bit (4 * i) (0x99999999 :: u32) AND 0xf \<le> 9"
  proof -
    have "i \<in> {0, 1, 2, 3, 4, 5, 6, 7}" using i by (auto simp: less_Suc_eq numeral_eq_Suc)
    then show ?thesis by (elim insertE emptyE) (simp_all add: drop_bit_eq_div)
  qed
  show "drop_bit (4 * i) col AND 0xf \<le> V_028714_SPI_SHADER_32_ABGR"
    using caller [OF i] nibble_dual [OF g i] g default by (simp add: col)
  assume dual
  then show "drop_bit (4 * i) col AND 0xf = (if i < 2 then (if ?f = 0 then V_028714_SPI_SHADER_FP16_ABGR
      else ?f AND 0xf) else 0)"
    using nibble_dual [OF g i] by (simp add: col g_def)
next
  assume given: "\<not> dual \<and> opt_spi_shader_col_format opts \<noteq> 0"
  have low: "unat w < 2 ^ 8" if "w AND NOT 0xff = 0" for w :: u32
  proof -
    have "\<not> bit (w AND NOT (mask 8)) n" for n using that by (simp add: mask_eq_exp_minus_1)
    then have "take_bit 8 w = w"
      by (intro bit_word_eqI) (auto simp: bit_take_bit_iff bit_and_iff bit_not_iff bit_mask_iff)
    then have "unat w = take_bit 8 (unat w)" by (metis unsigned_take_bit_eq)
    then show ?thesis by (metis take_bit_nat_less_exp)
  qed
  have "(opt_color_is_int8 opts OR opt_color_is_int10 opts) AND NOT 0xff = 0"
    using assms(1) by (simp add: color_formats_ok_def)
  then have "opt_color_is_int8 opts AND NOT 0xff = 0" "opt_color_is_int10 opts AND NOT 0xff = 0"
    by (simp_all add: bit.conj_disj_distrib2 or_eq_0_iff)
  then show "unat int8 = unat (opt_color_is_int8 opts)" "unat int10 = unat (opt_color_is_int10 opts)"
    using assms(2) given low by (auto simp: epilog_formats_def Let_def intro!: unat_ucast_small)
qed

theorem epilog_formats_valid_witness:
  "color_formats_ok (zero_options\<lparr>opt_spi_shader_col_format := 0x49\<rparr>) \<and>
   drop_bit 4 (fst (epilog_formats (zero_options\<lparr>opt_spi_shader_col_format := 0x49\<rparr>) True)) AND 0xf = 9"
proof -
  let ?opts = "zero_options\<lparr>opt_spi_shader_col_format := 0x49\<rparr>"
  have "drop_bit (4 * i) (0x49 :: u32) AND 0xf \<le> 9" if "i < 8" for i
  proof -
    have "i \<in> {0, 1, 2, 3, 4, 5, 6, 7}" using that by (auto simp: less_Suc_eq numeral_eq_Suc)
    then show ?thesis by (elim insertE emptyE) (simp_all add: drop_bit_eq_div)
  qed
  then have ok: "color_formats_ok ?opts"
    by (simp add: color_formats_ok_def list_all_iff zero_options_def)
  obtain col int8 int10 where e: "epilog_formats ?opts True = (col, int8, int10)" by (metis prod_cases3)
  have "\<forall>i < 8. drop_bit (4 * i) col AND 0xf = (if i < 2 then 0x49 AND 0xf else 0)"
    using epilog_formats_valid [OF ok e] by simp
  from spec [OF this, of 1] have "drop_bit 4 col AND 0xf = (9 :: u32)" by simp
  then show ?thesis using ok e by simp
qed

section \<open>Vertex attributes\<close>

definition attribute_accepted :: "PsbcTarget \<Rightarrow> PsbcVertexAttribute \<Rightarrow> bool" where
  "attribute_accepted target a \<longleftrightarrow> va_format a \<noteq> PSBC_VERTEX_FORMAT_NONE \<and> attribute_ok target a"

definition attribute_entry ::
  "(string \<Rightarrow> u32) \<Rightarrow> PsbcVertexAttribute \<Rightarrow> radv_graphics_state_key \<Rightarrow> radv_graphics_state_key" where
  "attribute_entry pf a = enter_attribute (pf (the (vertex_pipe_format (va_format a)))) a"

lemma vertex_pipe_format_None: "vertex_pipe_format f = None \<longleftrightarrow> f = PSBC_VERTEX_FORMAT_NONE"
  by (cases f) simp_all

lemma attribute_accepted_iff:
  "attribute_accepted target a \<longleftrightarrow>
     va_format a \<noteq> PSBC_VERTEX_FORMAT_NONE \<and> unat (va_location a) < 32 \<and> unat (va_binding a) < 32 \<and>
     va_alignment a \<noteq> 0 \<and> (va_stride a = 0 \<longrightarrow> target = PSBC_TARGET_PS5)"
  by (auto simp: attribute_accepted_def attribute_ok_def)

text \<open>The loop in closed form.\<close>

lemma vertex_attributes_closed:
  "vertex_attributes pf target attrs count i gs =
     (let as = drop i (take count attrs) in
      if \<not> list_all (attribute_accepted target) as then Attr_refused
      else if i < count \<and> length attrs < count then Attr_out_of_bounds
      else Attr_ok (fold (attribute_entry pf) as gs))"
proof (induction pf target attrs count i gs rule: vertex_attributes.induct)
  case (1 pf target attrs count i gs)
  show ?case
  proof (cases "i < count \<and> i < length attrs")
    case True
    then have as: "drop i (take count attrs) = attrs ! i # drop (Suc i) (take count attrs)"
      by (simp add: Cons_nth_drop_Suc [symmetric])
    show ?thesis
    proof (cases "attribute_accepted target (attrs ! i)")
      case ok: True
      then obtain f where f: "vertex_pipe_format (va_format (attrs ! i)) = Some f"
        using vertex_pipe_format_None by (auto simp: attribute_accepted_def)
      have "vertex_attributes pf target attrs count i gs =
          vertex_attributes pf target attrs count (Suc i) (enter_attribute (pf f) (attrs ! i) gs)"
        using True ok f by (subst vertex_attributes.simps) (simp add: attribute_accepted_def)
      also have "\<dots> = (let as = drop (Suc i) (take count attrs) in
          if \<not> list_all (attribute_accepted target) as then Attr_refused
          else if Suc i < count \<and> length attrs < count then Attr_out_of_bounds
          else Attr_ok (fold (attribute_entry pf) as (enter_attribute (pf f) (attrs ! i) gs)))"
        using True ok f by (intro "1.IH") (simp_all add: attribute_accepted_def)
      finally show ?thesis using True ok f by (auto simp: as attribute_entry_def Let_def)
    next
      case False
      then show ?thesis
        using True by (subst vertex_attributes.simps)
          (auto simp: as attribute_accepted_def vertex_pipe_format_None split: option.splits)
    qed
  next
    case False
    then show ?thesis by (subst vertex_attributes.simps) auto
  qed
qed

text \<open>C25. The loop over the vertex attributes reads past its array exactly when the caller's count exceeds the
  32 elements of the array: no guard bounds \<^verbatim>\<open>vertex_attribute_count\<close>. With a count of at most 32 the
  loop ends without such a read, and it accepts the attributes exactly when each of them has a
  known format, a location and binding below 32, a non-zero alignment and, off the PS5 target, a
  non-zero stride.\<close>
theorem vertex_attributes_bounds:
  assumes "length attrs = 32"
  shows "(vertex_attributes pf target attrs count 0 gs = Attr_out_of_bounds \<longleftrightarrow>
       32 < count \<and> (\<forall>a\<in>set attrs. va_format a \<noteq> PSBC_VERTEX_FORMAT_NONE \<and> attribute_ok target a)) \<and>
    (count \<le> 32 \<longrightarrow>
       ((\<exists>gs'. vertex_attributes pf target attrs count 0 gs = Attr_ok gs') \<longleftrightarrow>
        (\<forall>a\<in>set (take count attrs). va_format a \<noteq> PSBC_VERTEX_FORMAT_NONE \<and>
           unat (va_location a) < 32 \<and> unat (va_binding a) < 32 \<and> va_alignment a \<noteq> 0 \<and>
           (va_stride a = 0 \<longrightarrow> target = PSBC_TARGET_PS5))))"
proof (intro conjI impI)
  show "vertex_attributes pf target attrs count 0 gs = Attr_out_of_bounds \<longleftrightarrow>
      32 < count \<and> (\<forall>a\<in>set attrs. va_format a \<noteq> PSBC_VERTEX_FORMAT_NONE \<and> attribute_ok target a)"
    using assms by (auto simp: vertex_attributes_closed Let_def list_all_iff attribute_accepted_def)
next
  assume "count \<le> 32"
  then show "(\<exists>gs'. vertex_attributes pf target attrs count 0 gs = Attr_ok gs') \<longleftrightarrow>
      (\<forall>a\<in>set (take count attrs). va_format a \<noteq> PSBC_VERTEX_FORMAT_NONE \<and>
         unat (va_location a) < 32 \<and> unat (va_binding a) < 32 \<and> va_alignment a \<noteq> 0 \<and>
         (va_stride a = 0 \<longrightarrow> target = PSBC_TARGET_PS5))"
    using assms by (simp add: vertex_attributes_closed Let_def list_all_iff attribute_accepted_iff)
qed

definition sample_attribute :: PsbcVertexAttribute where
  "sample_attribute = \<lparr>va_location = 5, va_binding = 2, va_format = PSBC_VERTEX_FORMAT_R32G32_FLOAT,
     va_offset = 8, va_stride = 16, va_alignment = 256, va_instance_divisor = 3\<rparr>"

theorem vertex_attributes_bounds_witness:
  "vertex_attributes (\<lambda>_. 7) PSBC_TARGET_PS5 (replicate 32 sample_attribute) 33 0
     (initial_graphics_state zero_options False 0) = Attr_out_of_bounds"
  using vertex_attributes_bounds [of "replicate 32 sample_attribute" "\<lambda>_. 7" PSBC_TARGET_PS5 33
      "initial_graphics_state zero_options False 0"]
  by (simp add: sample_attribute_def attribute_ok_def)

text \<open>The arrays of the key have room for every location and binding.\<close>

definition key_arrays :: "radv_graphics_state_key \<Rightarrow> bool" where
  "key_arrays gs \<longleftrightarrow>
     length (gk_instance_rate_divisors gs) = 32 \<and> length (gk_vertex_attribute_formats gs) = 32 \<and>
     length (gk_vertex_attribute_bindings gs) = 32 \<and> length (gk_vertex_attribute_offsets gs) = 32 \<and>
     length (gk_vertex_attribute_strides gs) = 32 \<and> length (gk_vertex_binding_align gs) = 32"

lemma attribute_entry_arrays: "key_arrays gs \<Longrightarrow> key_arrays (attribute_entry pf a gs)"
  by (simp add: key_arrays_def attribute_entry_def enter_attribute_def Let_def)

lemma attribute_fold_arrays: "key_arrays gs \<Longrightarrow> key_arrays (fold (attribute_entry pf) as gs)"
  by (induction as arbitrary: gs) (simp_all add: attribute_entry_arrays)

text \<open>What the key records at the location of an attribute.\<close>

definition key_records :: "(string \<Rightarrow> u32) \<Rightarrow> PsbcVertexAttribute \<Rightarrow> radv_graphics_state_key \<Rightarrow> bool" where
  "key_records pf a gs \<longleftrightarrow>
     (let l = unat (va_location a) in
      bit (gk_attributes_valid gs) l \<and>
      gk_vertex_attribute_formats gs ! l = ucast (pf (the (vertex_pipe_format (va_format a)))) \<and>
      gk_vertex_attribute_bindings gs ! l = ucast (va_binding a) \<and>
      gk_vertex_attribute_offsets gs ! l = va_offset a \<and> gk_vertex_attribute_strides gs ! l = va_stride a \<and>
      (va_instance_divisor a \<noteq> 0 \<longrightarrow> bit (gk_instance_rate_inputs gs) l \<and>
         gk_instance_rate_divisors gs ! l = va_instance_divisor a))"

lemma bit_BITFIELD_BIT: "bit (BITFIELD_BIT n) i \<longleftrightarrow> i = n \<and> n < 32"
  by (auto simp: BITFIELD_BIT_def bit_simps)

lemma attribute_entry_records:
  assumes "key_arrays gs" "unat (va_location a) < 32"
  shows "key_records pf a (attribute_entry pf a gs)"
  using assms
  by (simp add: key_records_def key_arrays_def attribute_entry_def enter_attribute_def Let_def bit_or_iff
      bit_BITFIELD_BIT)

lemma attribute_entry_keeps:
  assumes "key_records pf a gs" "va_location c \<noteq> va_location a"
  shows "key_records pf a (attribute_entry pf c gs)"
proof -
  have "unat (va_location c) \<noteq> unat (va_location a)" using assms(2) by (simp add: word_unat_eq_iff)
  then show ?thesis using assms(1)
    by (simp add: key_records_def attribute_entry_def enter_attribute_def Let_def bit_or_iff)
qed

lemma attribute_fold_keeps:
  "key_records pf a gs \<Longrightarrow> (\<forall>c\<in>set as. va_location c \<noteq> va_location a) \<Longrightarrow>
     key_records pf a (fold (attribute_entry pf) as gs)"
  by (induction as arbitrary: gs) (simp_all add: attribute_entry_keeps)

lemma attribute_fold_valid:
  "list_all (\<lambda>a. unat (va_location a) < 32) as \<Longrightarrow>
   bit (gk_attributes_valid (fold (attribute_entry pf) as gs)) l \<longleftrightarrow>
     bit (gk_attributes_valid gs) l \<or> (\<exists>a\<in>set as. unat (va_location a) = l)"
  by (induction as arbitrary: gs)
    (auto simp: attribute_entry_def enter_attribute_def Let_def bit_or_iff bit_BITFIELD_BIT)

lemma attribute_fold_align:
  assumes "key_arrays gs" "\<forall>c\<in>set as. va_binding c \<noteq> va_binding a" "unat (va_binding a) < 32"
  shows "gk_vertex_binding_align (fold (attribute_entry pf) as (attribute_entry pf a gs)) ! unat (va_binding a) =
    ucast (va_alignment a)"
proof -
  have keep: "gk_vertex_binding_align (fold (attribute_entry pf) as s) ! unat (va_binding a) =
      gk_vertex_binding_align s ! unat (va_binding a)" for s
    using assms(2)
    by (induction as arbitrary: s) (simp_all add: attribute_entry_def enter_attribute_def Let_def word_unat_eq_iff)
  show ?thesis
    using assms(1,3) by (simp add: keep attribute_entry_def enter_attribute_def Let_def key_arrays_def)
qed

lemma initial_key_arrays: "key_arrays (initial_graphics_state opts dual topology)"
  by (simp add: key_arrays_def initial_graphics_state_def split: prod.split)

text \<open>C24. An accepted list of vertex attributes is recorded exactly. The set of valid locations is the set of
  declared ones; a location holds the format, binding, offset, stride and, when it is not zero, the
  instance divisor of the last attribute declared for it. The alignment of a binding is the one of
  the last attribute that names the binding, reduced modulo 256, because the key keeps it in eight
  bits: an accepted alignment of 256 becomes zero.\<close>
theorem vertex_attributes_recorded:
  assumes "vertex_attributes pf target attrs count 0 (initial_graphics_state opts dual topology) = Attr_ok gs"
    and "count \<le> length attrs"
  shows "(\<forall>l. bit (gk_attributes_valid gs) l \<longleftrightarrow> (\<exists>i < count. unat (va_location (attrs ! i)) = l)) \<and>
    (\<forall>i < count. (\<forall>j. i < j \<and> j < count \<longrightarrow> va_location (attrs ! j) \<noteq> va_location (attrs ! i)) \<longrightarrow>
       (let a = attrs ! i; l = unat (va_location a) in
        (\<exists>f. vertex_pipe_format (va_format a) = Some f \<and> gk_vertex_attribute_formats gs ! l = ucast (pf f)) \<and>
        gk_vertex_attribute_bindings gs ! l = ucast (va_binding a) \<and>
        gk_vertex_attribute_offsets gs ! l = va_offset a \<and> gk_vertex_attribute_strides gs ! l = va_stride a \<and>
        (va_instance_divisor a \<noteq> 0 \<longrightarrow> bit (gk_instance_rate_inputs gs) l \<and>
           gk_instance_rate_divisors gs ! l = va_instance_divisor a))) \<and>
    (\<forall>i < count. (\<forall>j. i < j \<and> j < count \<longrightarrow> va_binding (attrs ! j) \<noteq> va_binding (attrs ! i)) \<longrightarrow>
       unat (gk_vertex_binding_align gs ! unat (va_binding (attrs ! i))) = unat (va_alignment (attrs ! i)) mod 256)"
proof -
  let ?as = "take count attrs" and ?gs = "initial_graphics_state opts dual topology"
  have acc: "list_all (attribute_accepted target) ?as" and gs: "gs = fold (attribute_entry pf) ?as ?gs"
    using assms by (auto simp: vertex_attributes_closed Let_def split: if_splits)
  have ok: "attribute_accepted target (attrs ! i)" if "i < count" for i
    using acc that assms(2) by (simp add: list_all_length)
  have loc: "list_all (\<lambda>a. unat (va_location a) < 32) ?as"
    using acc by (auto simp: list_all_iff attribute_accepted_iff)
  have split: "gs = fold (attribute_entry pf) (drop (Suc i) ?as)
      (attribute_entry pf (attrs ! i) (fold (attribute_entry pf) (take i attrs) ?gs))" if "i < count" for i
  proof -
    have "?as = take i attrs @ attrs ! i # drop (Suc i) ?as"
      using that assms(2) id_take_nth_drop [of i ?as] by (simp add: min_def)
    then show ?thesis unfolding gs by (metis fold_append fold_simps(2) comp_apply)
  qed
  have later: "\<forall>c\<in>set (drop (Suc i) ?as). P c" if "\<forall>j. i < j \<and> j < count \<longrightarrow> P (attrs ! j)" for i P
    using that assms(2) by (auto simp: in_set_conv_nth)
  have "bit (gk_attributes_valid gs) l \<longleftrightarrow> (\<exists>i < count. unat (va_location (attrs ! i)) = l)" for l
    unfolding gs attribute_fold_valid [OF loc]
    using assms(2) by (auto simp: initial_graphics_state_def in_set_conv_nth Bex_def split: prod.split)
  moreover have "key_records pf (attrs ! i) gs"
    if "i < count" "\<forall>j. i < j \<and> j < count \<longrightarrow> va_location (attrs ! j) \<noteq> va_location (attrs ! i)" for i
    using ok [OF that(1)] later [OF that(2)] unfolding split [OF that(1)]
    by (intro attribute_fold_keeps attribute_entry_records attribute_fold_arrays initial_key_arrays)
      (simp_all add: attribute_accepted_iff)
  moreover have "gk_vertex_binding_align gs ! unat (va_binding (attrs ! i)) = ucast (va_alignment (attrs ! i))"
    if "i < count" "\<forall>j. i < j \<and> j < count \<longrightarrow> va_binding (attrs ! j) \<noteq> va_binding (attrs ! i)" for i
    using ok [OF that(1)] later [OF that(2)] unfolding split [OF that(1)]
    by (intro attribute_fold_align attribute_fold_arrays initial_key_arrays) (simp_all add: attribute_accepted_iff)
  moreover have "\<exists>f. vertex_pipe_format (va_format (attrs ! i)) = Some f" if "i < count" for i
    using ok [OF that] vertex_pipe_format_None [of "va_format (attrs ! i)"] by (auto simp: attribute_accepted_iff)
  ultimately show ?thesis
    by (fastforce simp: key_records_def Let_def unsigned_ucast_eq take_bit_eq_mod)
qed

theorem vertex_attributes_recorded_witness:
  "\<exists>gs. vertex_attributes (\<lambda>_. 7) PSBC_TARGET_PS5 [sample_attribute] 1 0
      (initial_graphics_state zero_options False 0) = Attr_ok gs \<and>
    va_alignment sample_attribute = 256 \<and> gk_vertex_binding_align gs ! 2 = 0 \<and>
    gk_vertex_attribute_strides gs ! 5 = 16"
proof -
  have "list_all (attribute_accepted PSBC_TARGET_PS5) [sample_attribute]"
    by (simp add: attribute_accepted_iff sample_attribute_def)
  then obtain gs where gs: "vertex_attributes (\<lambda>_. 7) PSBC_TARGET_PS5 [sample_attribute] 1 0
      (initial_graphics_state zero_options False 0) = Attr_ok gs"
    by (simp add: vertex_attributes_closed)
  from vertex_attributes_recorded [OF gs]
  have "unat (gk_vertex_binding_align gs ! 2) = 0" "gk_vertex_attribute_strides gs ! 5 = 16"
    by (auto simp: sample_attribute_def Let_def)
  then show ?thesis using gs by (simp add: sample_attribute_def unat_eq_0)
qed

end
