(* ===== verification/Ac_Util.thy ===== *)
theory Ac_Util
  imports Hw_Regs Mesa_Types
begin

text \<open>
  The helpers of \<^verbatim>\<open>src/src/amd/common/ac_shader_util.c\<close> that the library calls when it fills register
  words: the depth and color export formats, the late-allocation limits and the NGG workgroup size.
  An \<^verbatim>\<open>assert\<close> of the source is not part of the value a definition returns.
\<close>

section \<open>Definitions\<close>

definition ac_get_spi_shader_z_format :: "bool \<Rightarrow> bool \<Rightarrow> bool \<Rightarrow> bool \<Rightarrow> u32" where
  "ac_get_spi_shader_z_format writes_z writes_stencil writes_samplemask writes_mrt0_alpha =
     (if writes_mrt0_alpha then (if writes_stencil \<or> writes_samplemask then 9 else 3)
      else if writes_samplemask then (if writes_z then 9 else 7)
      else if writes_stencil then 2
      else if writes_z then 1
      else 0)"

text \<open>The component mask of one color format: the cases of the switch.\<close>

definition cb_component_mask :: "u32 \<Rightarrow> u32" where
  "cb_component_mask format =
     (if format = 0 then 0
      else if format = 1 then 0x1
      else if format = 2 then 0x3
      else if format = 3 then 0x9
      else if 4 \<le> format \<and> format \<le> 9 then 0xf
      else 0)"

definition ac_get_cb_shader_mask :: "u32 \<Rightarrow> u32" where
  "ac_get_cb_shader_mask spi_shader_col_format =
     (if spi_shader_col_format = NOT 0 then NOT 0
      else fold (\<lambda>i cb_shader_mask. cb_shader_mask OR
                   push_bit (4 * i) (cb_component_mask (drop_bit (4 * i) spi_shader_col_format AND 0xf)))
             [0..<8] 0)"

record radeon_info =
  rad_gfx_level :: amd_gfx_level
  rad_family :: radeon_family
  rad_pc_lines :: u32
  rad_min_good_cu_per_sa :: u32

text \<open>\<open>late_alloc_limit\<close> and \<open>late_alloc_cu_mask\<close> are the two results before the clamp to the
  register field.\<close>

definition late_alloc_limit :: "radeon_info \<Rightarrow> bool \<Rightarrow> bool \<Rightarrow> u32" where
  "late_alloc_limit info ngg ngg_culling =
     (let cu = rad_min_good_cu_per_sa info in
      if GFX10 \<le> rad_gfx_level info then
        (let l = (if ngg_culling then cu * 10
                  else if GFX11 \<le> rad_gfx_level info then 63
                  else cu * 4)
         in if rad_gfx_level info = GFX10 \<and> ngg then min l 64 else l)
      else if cu \<le> 4 then 2
      else (cu - 2) * 4)"

definition late_alloc_cu_mask :: "radeon_info \<Rightarrow> u32 \<Rightarrow> u32" where
  "late_alloc_cu_mask info limit =
     (if GFX10 \<le> rad_gfx_level info then
        0xffff AND (if rad_gfx_level info = GFX10 then NOT (BITFIELD_RANGE 2 2) else NOT (BITFIELD_RANGE 1 1))
      else if limit > 2 then 0xfffe
      else 0xffff)"

definition ac_compute_late_alloc :: "radeon_info \<Rightarrow> bool \<Rightarrow> bool \<Rightarrow> bool \<Rightarrow> u32 \<times> u32" where
  "ac_compute_late_alloc info ngg ngg_culling uses_scratch =
     (if rad_min_good_cu_per_sa info \<le> 2 then (0, 0xffff)
      else if uses_scratch then (0, 0xffff)
      else if ngg \<and> rad_family info = CHIP_NAVI14 then (0, 0xffff)
      else
        (let limit = late_alloc_limit info ngg ngg_culling;
             field_max = (if ngg then reg_G 16 22 (NOT 0) else reg_G 0 5 (NOT 0))
         in (min limit field_max, late_alloc_cu_mask info limit)))"

definition ac_compute_ngg_workgroup_size :: "u32 \<Rightarrow> u32 \<Rightarrow> u32 \<Rightarrow> u32 \<Rightarrow> u32" where
  "ac_compute_ngg_workgroup_size es_verts gs_inst_prims max_vtx_out prim_amp_factor =
     (let max_vtx_in = (if es_verts < 256 then es_verts else 3 * gs_inst_prims);
          max_prim_in = gs_inst_prims;
          max_prim_out = gs_inst_prims * prim_amp_factor;
          workgroup_size = max (max max_vtx_in max_vtx_out) (max max_prim_in max_prim_out)
      in min (max workgroup_size 1) 256)"

section \<open>Color mask\<close>

lemma cb_mask_fold:
  "n \<le> 8 \<Longrightarrow>
   fold (\<lambda>i m. m OR push_bit (4 * i) (f i)) [0..<n] 0 = of_nibbles (map f [0..<n])"
proof (induction n)
  case (Suc n)
  then show ?case using of_nibbles_snoc [of "map f [0..<n]" "f n"] by simp
qed (simp add: of_nibbles_def)

lemma cb_component_mask_nibble: "take_bit 4 (cb_component_mask f) = cb_component_mask f"
  by (simp add: cb_component_mask_def take_bit_eq_mask mask_eq_decr_exp)

text \<open>The color-buffer mask keeps the targets in attachment order: its nibble for a target is the
  component mask of that target's own export format, zero exactly where the target has no (or no
  defined) format, while the exported formats themselves are compacted.\<close>

theorem ac_get_cb_shader_mask_per_target:
  assumes "formats \<noteq> NOT 0"
  shows "nibbles (ac_get_cb_shader_mask formats) = map cb_component_mask (nibbles formats)"
proof -
  have "ac_get_cb_shader_mask formats = of_nibbles (map cb_component_mask (nibbles formats))"
    using assms cb_mask_fold [of 8 "\<lambda>i. cb_component_mask (drop_bit (4 * i) formats AND 0xf)"]
    by (simp add: ac_get_cb_shader_mask_def nibbles_def comp_def)
  then show ?thesis
    using nibbles_of_nibbles [of "map cb_component_mask (nibbles formats)"]
    by (simp add: cb_component_mask_nibble nibbles_def)
qed

theorem ac_get_cb_shader_mask_per_target_witness:
  "ac_get_cb_shader_mask 0x90000401 = 0xF0000F01 \<and>
   nibbles (ac_get_cb_shader_mask 0x90000401) = map cb_component_mask (nibbles 0x90000401)"
proof -
  have "(0x90000401 :: u32) \<noteq> NOT 0" by simp
  moreover have "ac_get_cb_shader_mask 0x90000401 = 0xF0000F01"
    by (simp add: ac_get_cb_shader_mask_def cb_component_mask_def upt_rec)
  ultimately show ?thesis using ac_get_cb_shader_mask_per_target [of "0x90000401"] by simp
qed

section \<open>Late allocation and workgroup size\<close>

text \<open>The late-allocation limit always fits its register field (seven bits for an NGG geometry
  stage, six for a vertex stage), is zero with every compute unit enabled for a device with at most
  two usable units per shader array or for a stage that uses scratch, and the unit mask never turns
  off more than two of the sixteen units.\<close>

theorem ac_compute_late_alloc_fits:
  "fst (ac_compute_late_alloc info ngg culling scratch) \<le> (if ngg then 127 else 63) \<and>
   (rad_min_good_cu_per_sa info \<le> 2 \<or> scratch \<longrightarrow>
      ac_compute_late_alloc info ngg culling scratch = (0, 0xffff)) \<and>
   14 \<le> popcount (snd (ac_compute_late_alloc info ngg culling scratch))"
proof -
  have g: "reg_G 16 22 (- 1) = (127 :: u32)" "reg_G 0 5 (- 1) = (63 :: u32)"
    by (simp_all add: reg_G_def mask_eq_decr_exp)
  have "14 \<le> popcount (late_alloc_cu_mask info limit)" for limit
    by (simp add: late_alloc_cu_mask_def BITFIELD_RANGE_def BITFIELD_MASK_def BITFIELD_BIT_def
        popcount_def upt_rec)
  moreover have "14 \<le> popcount (0xffff :: u32)"
    by (simp add: popcount_def upt_rec)
  ultimately show ?thesis
    by (auto simp: ac_compute_late_alloc_def Let_def g min.coboundedI2)
qed

theorem ac_compute_late_alloc_fits_witness:
  "ac_compute_late_alloc \<lparr>rad_gfx_level = GFX10_3, rad_family = CHIP_NAVI21, rad_pc_lines = 1024,
     rad_min_good_cu_per_sa = 2\<rparr> True False False = (0, 0xffff)"
  using ac_compute_late_alloc_fits [of "\<lparr>rad_gfx_level = GFX10_3, rad_family = CHIP_NAVI21,
     rad_pc_lines = 1024, rad_min_good_cu_per_sa = 2\<rparr>" True False False]
  by simp

lemma ac_compute_ngg_workgroup_size_range:
  "1 \<le> ac_compute_ngg_workgroup_size e g v p \<and> ac_compute_ngg_workgroup_size e g v p \<le> 256"
  by (auto simp: ac_compute_ngg_workgroup_size_def Let_def min_def max_def)

end
