(* ===== verification/Reg_Words.thy ===== *)
theory Reg_Words
  imports Ac_Util
begin

text \<open>
  The register words that \<^verbatim>\<open>src/libpsbc/psbc_compile.c\<close> derives from the compiled shader: position
  exports and clip/cull masks, depth control, tessellation factor parameters and the parameter-cache
  allocation, with the build context they read.
\<close>

section \<open>Definitions\<close>

record PsbcInputSemantics =
  is_valid :: bool
  is_words :: "u32 list"

text \<open>\<^verbatim>\<open>BuildContext\<close>: pointers that may be null are options.\<close>

record BuildContext =
  bc_nir :: nir_shader
  bc_rinfo :: radv_shader_info
  bc_es_info :: "radv_shader_info option"
  bc_ls_merged :: bool
  bc_domain_linked :: bool
  bc_rargs :: radv_shader_args
  bc_config :: ac_shader_config
  bc_gfx_level :: amd_gfx_level
  bc_family :: radeon_family
  bc_stage :: mesa_shader_stage
  bc_psbc_stage :: PsbcStage
  bc_spirv :: "bytes option"
  bc_target :: PsbcTarget
  bc_ngg :: bool
  bc_neo :: bool
  bc_address32_hi :: u32
  bc_options :: PsbcCompileOptions
  bc_input_semantics :: "PsbcInputSemantics option"
  bc_descriptor_used_binding_mask :: "u64 list"
  bc_hull_push_use_valid :: bool
  bc_push_use_valid :: bool
  bc_stage_push_dwords :: u64
  bc_previous_stage_push_dwords :: u64
  bc_hull_vertex_push_dwords :: u64
  bc_hull_control_push_dwords :: u64

definition zero_context :: BuildContext where
  "zero_context =
    \<lparr>bc_nir = zero_nir, bc_rinfo = zero_info, bc_es_info = None, bc_ls_merged = False,
     bc_domain_linked = False, bc_rargs = zero_args, bc_config = zero_config,
     bc_gfx_level = CLASS_UNKNOWN, bc_family = CHIP_UNKNOWN, bc_stage = MESA_SHADER_VERTEX,
     bc_psbc_stage = PSBC_STAGE_NONE, bc_spirv = None, bc_target = PSBC_TARGET_PS4_BASE,
     bc_ngg = False, bc_neo = False, bc_address32_hi = 0, bc_options = zero_options,
     bc_input_semantics = None, bc_descriptor_used_binding_mask = replicate 4 0,
     bc_hull_push_use_valid = False, bc_push_use_valid = False, bc_stage_push_dwords = 0,
     bc_previous_stage_push_dwords = 0, bc_hull_vertex_push_dwords = 0,
     bc_hull_control_push_dwords = 0\<rparr>"

text \<open>\<^verbatim>\<open>get_num_pos_exports\<close> returns the count and, through its pointers, the clip and cull masks.\<close>

definition misc_exports :: "radv_vs_output_info \<Rightarrow> bool" where
  "misc_exports out \<longleftrightarrow> oi_writes_pointsize out \<or> oi_writes_viewport_index out \<or> oi_writes_layer out \<or>
     oi_writes_primitive_shading_rate out"

definition get_num_pos_exports :: "radv_shader_info \<Rightarrow> nat \<times> u32 \<times> u32" where
  "get_num_pos_exports info =
     (let out = ri_outinfo info;
          num = (1 :: nat);
          num = (if misc_exports out then num + 1 else num);
          num_clip_dist_comps = util_bitcount (oi_clip_dist_mask out);
          num_cull_dist_comps = (if ri_has_ngg_culling info then 0 else util_bitcount (oi_cull_dist_mask out));
          clip_cull_mask = BITFIELD_MASK (num_clip_dist_comps + num_cull_dist_comps);
          num = (if clip_cull_mask AND 0x0f \<noteq> 0 then num + 1 else num);
          num = (if clip_cull_mask AND 0xf0 \<noteq> 0 then num + 1 else num)
      in (num, BITFIELD_MASK num_clip_dist_comps,
          BITFIELD_RANGE num_clip_dist_comps num_cull_dist_comps))"

definition compute_db_shader_control :: "radv_shader_info \<Rightarrow> u32" where
  "compute_db_shader_control info =
     (let ps = ri_ps info;
          conservative_z_export =
            (if ps_depth_layout ps = FRAG_DEPTH_LAYOUT_GREATER then V_02880C_EXPORT_GREATER_THAN_Z
             else if ps_depth_layout ps = FRAG_DEPTH_LAYOUT_LESS then V_02880C_EXPORT_LESS_THAN_Z
             else V_02880C_EXPORT_ANY_Z);
          z_order = (if ps_early_fragment_test ps \<or> \<not> ps_writes_memory ps
                     then V_02880C_EARLY_Z_THEN_LATE_Z else V_02880C_LATE_Z)
      in S_02880C_Z_EXPORT_ENABLE (bool_word (ps_writes_z ps)) OR
         S_02880C_STENCIL_TEST_VAL_EXPORT_ENABLE (bool_word (ps_writes_stencil ps)) OR
         S_02880C_KILL_ENABLE (bool_word (ps_can_discard ps)) OR
         S_02880C_MASK_EXPORT_ENABLE (bool_word (ps_writes_sample_mask ps)) OR
         S_02880C_CONSERVATIVE_Z_EXPORT conservative_z_export OR
         S_02880C_Z_ORDER z_order OR
         S_02880C_DEPTH_BEFORE_SHADER (bool_word (ps_early_fragment_test ps)) OR
         S_02880C_PRE_SHADER_DEPTH_COVERAGE_ENABLE (bool_word (ps_post_depth_coverage ps)) OR
         S_02880C_EXEC_ON_HIER_FAIL (bool_word (ps_writes_memory ps)) OR
         S_02880C_EXEC_ON_NOOP (bool_word (ps_writes_memory ps)) OR
         S_02880C_PRIMITIVE_ORDERED_PIXEL_SHADER (bool_word (ps_pops ps)))"

definition build_pa_cl_vs_out_cntl :: "BuildContext \<Rightarrow> nat \<Rightarrow> u32" where
  "build_pa_cl_vs_out_cntl ctx num_pos_exports =
     (let out = ri_outinfo (bc_rinfo ctx);
          clip_dist_mask = fst (snd (get_num_pos_exports (bc_rinfo ctx)));
          cull_dist_mask = snd (snd (get_num_pos_exports (bc_rinfo ctx)));
          total_mask = clip_dist_mask OR cull_dist_mask;
          misc_vec_ena = misc_exports out
      in S_02881C_USE_VTX_POINT_SIZE (bool_word (oi_writes_pointsize out)) OR
         S_02881C_USE_VTX_RENDER_TARGET_INDX (bool_word (oi_writes_layer out)) OR
         S_02881C_USE_VTX_VIEWPORT_INDX (bool_word (oi_writes_viewport_index out)) OR
         S_02881C_USE_VTX_VRS_RATE (bool_word (oi_writes_primitive_shading_rate out)) OR
         S_02881C_VS_OUT_MISC_VEC_ENA (bool_word misc_vec_ena) OR
         S_02881C_VS_OUT_MISC_SIDE_BUS_ENA
           (bool_word (misc_vec_ena \<or> (GFX10_3 \<le> bc_gfx_level ctx \<and> num_pos_exports > 1))) OR
         S_02881C_VS_OUT_CCDIST0_VEC_ENA (bool_word (total_mask AND 0x0f \<noteq> 0)) OR
         S_02881C_VS_OUT_CCDIST1_VEC_ENA (bool_word (total_mask AND 0xf0 \<noteq> 0)) OR
         push_bit 8 total_mask OR clip_dist_mask)"

definition build_spi_shader_pos_format :: "nat \<Rightarrow> u32" where
  "build_spi_shader_pos_format num_pos_exports =
     S_02870C_POS0_EXPORT_FORMAT V_02870C_SPI_SHADER_4COMP OR
     S_02870C_POS1_EXPORT_FORMAT
       (if num_pos_exports > 1 then V_02870C_SPI_SHADER_4COMP else V_02870C_SPI_SHADER_NONE) OR
     S_02870C_POS2_EXPORT_FORMAT
       (if num_pos_exports > 2 then V_02870C_SPI_SHADER_4COMP else V_02870C_SPI_SHADER_NONE) OR
     S_02870C_POS3_EXPORT_FORMAT
       (if num_pos_exports > 3 then V_02870C_SPI_SHADER_4COMP else V_02870C_SPI_SHADER_NONE)"

definition tess_tf_param :: "nir_shader \<Rightarrow> u32" where
  "tess_tf_param nir =
     (let t = si_tess (nir_info nir);
          tf_type = (case ti_primitive_mode t of
              TESS_PRIMITIVE_ISOLINES \<Rightarrow> V_028B6C_TESS_ISOLINE
            | TESS_PRIMITIVE_TRIANGLES \<Rightarrow> V_028B6C_TESS_TRIANGLE
            | TESS_PRIMITIVE_QUADS \<Rightarrow> V_028B6C_TESS_QUAD
            | _ \<Rightarrow> V_028B6C_TESS_TRIANGLE);
          tf_partition = (case ti_spacing t of
              TESS_SPACING_EQUAL \<Rightarrow> V_028B6C_PART_INTEGER
            | TESS_SPACING_FRACTIONAL_ODD \<Rightarrow> V_028B6C_PART_FRAC_ODD
            | TESS_SPACING_FRACTIONAL_EVEN \<Rightarrow> V_028B6C_PART_FRAC_EVEN
            | _ \<Rightarrow> V_028B6C_PART_INTEGER);
          tf_topology =
            (if ti_point_mode t then V_028B6C_OUTPUT_POINT
             else if ti_primitive_mode t = TESS_PRIMITIVE_ISOLINES then V_028B6C_OUTPUT_LINE
             else if ti_ccw t then V_028B6C_OUTPUT_TRIANGLE_CCW
             else V_028B6C_OUTPUT_TRIANGLE_CW)
      in S_028B6C_TYPE tf_type OR S_028B6C_PARTITIONING tf_partition OR S_028B6C_TOPOLOGY tf_topology)"

text \<open>\<^verbatim>\<open>publish_ge_pc_alloc\<close>: the number of oversubscribed parameter-cache lines, and the register
  write when the caller supplied the facts of the device.\<close>

definition oversub_pc_lines :: "BuildContext \<Rightarrow> u32" where
  "oversub_pc_lines ctx =
     (let opts = bc_options ctx;
          facts = \<lparr>rad_gfx_level = bc_gfx_level ctx, rad_family = bc_family ctx,
                   rad_pc_lines = opt_ngg_pc_lines opts,
                   rad_min_good_cu_per_sa = opt_ngg_min_good_cu_per_sa opts\<rparr>;
          late_alloc_wave64 =
            fst (ac_compute_late_alloc facts (bc_ngg ctx) (opt_ngg_culling opts) (opt_ngg_uses_scratch opts));
          lines = (if late_alloc_wave64 \<noteq> 0 then opt_ngg_pc_lines opts div 4 else 0);
          exports = oi_param_exports (ri_outinfo (bc_rinfo ctx))
      in if opt_ngg_culling opts
         then lines * (if exports > 4 then 4 else if exports > 2 then 3 else 2)
         else lines)"

definition publish_ge_pc_alloc :: "BuildContext \<Rightarrow> PsbcShaderMetadata \<Rightarrow> PsbcShaderMetadata" where
  "publish_ge_pc_alloc ctx metadata =
     (if opt_ngg_device_facts (bc_options ctx) then
        (let lines = oversub_pc_lines ctx in
         metadata\<lparr>md_linkage_ge_pc_alloc_valid := True,
                  md_linkage_ge_pc_alloc := mk_write (PSBC_UC_OFFSET R_030980_GE_PC_ALLOC)
                    (S_030980_OVERSUB_EN (bool_word (lines > 0)) OR S_030980_NUM_PC_LINES (lines - 1))\<rparr>)
      else metadata)"

section \<open>Position exports\<close>

lemma bit_BITFIELD_MASK: "n < 32 \<Longrightarrow> bit (BITFIELD_MASK n) i \<longleftrightarrow> i < n"
  by (auto simp: BITFIELD_MASK_def BITFIELD_BIT_def push_bit_of_1 simp flip: mask_eq_decr_exp
      simp add: bit_simps)

lemma bit_BITFIELD_RANGE:
  "a + b < 32 \<Longrightarrow> bit (BITFIELD_RANGE a b) i \<longleftrightarrow> a \<le> i \<and> i < a + b"
  by (auto simp: BITFIELD_RANGE_def bit_simps bit_BITFIELD_MASK)

lemma BITFIELD_MASK_RANGE: "a + b < 32 \<Longrightarrow> BITFIELD_MASK a OR BITFIELD_RANGE a b = BITFIELD_MASK (a + b)"
  by (intro bit_eqI) (auto simp: bit_simps bit_BITFIELD_MASK bit_BITFIELD_RANGE)

lemma low_nibble_nonzero: "(w :: u32) AND 0x0f \<noteq> 0 \<longleftrightarrow> (\<exists>i < 4. bit w i)"
proof -
  have "w AND 0x0f = take_bit 4 w" by (rule and_15)
  then show ?thesis by (simp only:) (auto simp: bit_eq_iff bit_simps, force)
qed

lemma high_nibble_nonzero: "(w :: u32) AND 0xf0 \<noteq> 0 \<longleftrightarrow> (\<exists>i. 4 \<le> i \<and> i < 8 \<and> bit w i)"
proof -
  have "(0xf0 :: u32) = push_bit 4 (mask 4)" by (simp add: mask_eq_decr_exp)
  then have "w AND 0xf0 = w AND push_bit 4 (mask 4)" by simp
  then show ?thesis by (auto simp: bit_eq_iff bit_simps) force+
qed

text \<open>The number of clip and cull components that the position exports carry.\<close>

definition clip_comps :: "radv_shader_info \<Rightarrow> nat" where
  "clip_comps info = util_bitcount (oi_clip_dist_mask (ri_outinfo info))"

definition cull_comps :: "radv_shader_info \<Rightarrow> nat" where
  "cull_comps info = (if ri_has_ngg_culling info then 0 else util_bitcount (oi_cull_dist_mask (ri_outinfo info)))"

lemma comps_le: "clip_comps info \<le> 8" "cull_comps info \<le> 8"
  using util_bitcount_le [of "oi_clip_dist_mask (ri_outinfo info)"]
    util_bitcount_le [of "oi_cull_dist_mask (ri_outinfo info)"]
  by (simp_all add: clip_comps_def cull_comps_def)

lemma num_pos_exports_eq:
  "get_num_pos_exports info =
     (1 + of_bool (misc_exports (ri_outinfo info)) + of_bool (0 < clip_comps info + cull_comps info) +
        of_bool (4 < clip_comps info + cull_comps info),
      BITFIELD_MASK (clip_comps info), BITFIELD_RANGE (clip_comps info) (cull_comps info))"
proof -
  have lt: "clip_comps info + cull_comps info < 32" using comps_le [of info] by linarith
  have "BITFIELD_MASK (clip_comps info + cull_comps info) AND 0x0f \<noteq> 0 \<longleftrightarrow> 0 < clip_comps info + cull_comps info"
    unfolding low_nibble_nonzero bit_BITFIELD_MASK [OF lt] by (auto intro: exI [of _ 0])
  moreover have "BITFIELD_MASK (clip_comps info + cull_comps info) AND 0xf0 \<noteq> 0 \<longleftrightarrow> 4 < clip_comps info + cull_comps info"
    unfolding high_nibble_nonzero bit_BITFIELD_MASK [OF lt] by auto
  ultimately show ?thesis
    unfolding get_num_pos_exports_def Let_def clip_comps_def [symmetric] cull_comps_def [symmetric] by simp
qed

text \<open>A stage exports between one and four position vectors: the position, one miscellaneous
  vector if any of point size, layer, viewport or shading rate is written, and one vector per four
  clip and cull components (at most two).  The clip components occupy the low positions and the cull
  components follow them without a gap.\<close>

theorem get_num_pos_exports_spec:
  assumes "get_num_pos_exports info = (num, clip, cull)"
  shows "1 \<le> num \<and> num \<le> 4 \<and>
         num = 1 + of_bool (misc_exports (ri_outinfo info)) + min 2 ((clip_comps info + cull_comps info + 3) div 4) \<and>
         (\<forall>i. bit clip i \<longleftrightarrow> i < clip_comps info) \<and>
         (\<forall>i. bit cull i \<longleftrightarrow> clip_comps info \<le> i \<and> i < clip_comps info + cull_comps info)"
proof -
  let ?n = "clip_comps info + cull_comps info"
  have lt: "clip_comps info + cull_comps info < 32" using comps_le [of info] by linarith
  have "of_bool (0 < ?n) + of_bool (4 < ?n) = min 2 ((?n + 3) div 4)" by auto
  then have num: "num = 1 + of_bool (misc_exports (ri_outinfo info)) + min 2 ((?n + 3) div 4)"
    and masks: "clip = BITFIELD_MASK (clip_comps info)" "cull = BITFIELD_RANGE (clip_comps info) (cull_comps info)"
    using assms by (simp_all add: num_pos_exports_eq)
  from num have "1 \<le> num \<and> num \<le> 4" by auto
  then show ?thesis using num masks lt by (simp add: bit_BITFIELD_MASK bit_BITFIELD_RANGE)
qed

theorem get_num_pos_exports_spec_witness:
  "get_num_pos_exports (zero_info\<lparr>ri_outinfo := zero_outinfo\<lparr>oi_clip_dist_mask := 0x1f,
     oi_writes_layer := True\<rparr>\<rparr>) = (4, 0x1f, 0) \<and> (4 :: nat) \<le> 4"
proof -
  let ?info = "zero_info\<lparr>ri_outinfo := zero_outinfo\<lparr>oi_clip_dist_mask := 0x1f, oi_writes_layer := True\<rparr>\<rparr>"
  have run: "get_num_pos_exports ?info = (4, 0x1f, 0)"
    by (simp add: get_num_pos_exports_def misc_exports_def zero_info_def zero_outinfo_def Let_def
        util_bitcount.simps BITFIELD_MASK_def BITFIELD_BIT_def BITFIELD_RANGE_def)
  show ?thesis using get_num_pos_exports_spec [OF run] run by simp
qed

lemma bit_flag: "n < 32 \<Longrightarrow> bit (reg_S n n (bool_word b)) i \<longleftrightarrow> i = n \<and> b"
  by (auto simp: bit_reg_S bool_word_def bit_1_iff)

lemma bit_shifted_mask: "n \<le> 8 \<Longrightarrow> bit (push_bit 8 (BITFIELD_MASK n)) i \<longleftrightarrow> 8 \<le> i \<and> i < 8 + n"
  by (auto simp: bit_simps bit_BITFIELD_MASK)

lemma bit_pa_cl_vs_out_cntl:
  assumes "clip_comps (bc_rinfo ctx) + cull_comps (bc_rinfo ctx) \<le> 8"
  shows "bit (build_pa_cl_vs_out_cntl ctx num) i \<longleftrightarrow>
    (let out = ri_outinfo (bc_rinfo ctx); n = clip_comps (bc_rinfo ctx) + cull_comps (bc_rinfo ctx) in
     i = 16 \<and> oi_writes_pointsize out \<or>
     i = 18 \<and> oi_writes_layer out \<or> i = 19 \<and> oi_writes_viewport_index out \<or>
     i = 28 \<and> oi_writes_primitive_shading_rate out \<or> i = 21 \<and> misc_exports out \<or>
     i = 24 \<and> (misc_exports out \<or> GFX10_3 \<le> bc_gfx_level ctx \<and> 1 < num) \<or>
     i = 22 \<and> 0 < n \<or> i = 23 \<and> 4 < n \<or>
     8 \<le> i \<and> i < 8 + n \<or> i < clip_comps (bc_rinfo ctx))"
proof -
  let ?a = "clip_comps (bc_rinfo ctx)" and ?b = "cull_comps (bc_rinfo ctx)"
  have lt: "?a + ?b < 32" using assms by linarith
  have lo: "BITFIELD_MASK (?a + ?b) AND 0x0f \<noteq> 0 \<longleftrightarrow> 0 < ?a + ?b"
    unfolding low_nibble_nonzero bit_BITFIELD_MASK [OF lt] by (auto intro: exI [of _ 0])
  have hi: "BITFIELD_MASK (?a + ?b) AND 0xf0 \<noteq> 0 \<longleftrightarrow> 4 < ?a + ?b"
    unfolding high_nibble_nonzero bit_BITFIELD_MASK [OF lt] by auto
  show ?thesis
    unfolding build_pa_cl_vs_out_cntl_def num_pos_exports_eq Let_def fst_conv snd_conv
      BITFIELD_MASK_RANGE [OF lt] lo hi
    using assms lt by (simp add: bit_or_iff reg_defs bit_flag bit_shifted_mask bit_BITFIELD_MASK)
qed

lemma bit_pos_format:
  "nibbles (build_spi_shader_pos_format num) =
     [4, if 1 < num then 4 else 0, if 2 < num then 4 else 0, if 3 < num then 4 else 0, 0, 0, 0, 0]"
  by (auto simp: build_spi_shader_pos_format_def nibbles_def reg_defs reg_S_def mask_eq_decr_exp upt_rec)

text \<open>C31. The three position-export registers agree: the output-control word enables the
  miscellaneous vector and the two clip/cull vectors exactly as often as the export count says, and
  the format word gives a four-component format to exactly that many leading slots.  (A stage has at
  most eight clip and cull components.)\<close>

theorem position_registers_agree:
  assumes "clip_comps (bc_rinfo ctx) + cull_comps (bc_rinfo ctx) \<le> 8"
    and "fst (get_num_pos_exports (bc_rinfo ctx)) = num"
  shows "num = 1 + of_bool (bit (build_pa_cl_vs_out_cntl ctx num) 21) +
                 of_bool (bit (build_pa_cl_vs_out_cntl ctx num) 22) +
                 of_bool (bit (build_pa_cl_vs_out_cntl ctx num) 23) \<and>
         num = length (filter (\<lambda>f. f \<noteq> 0) (nibbles (build_spi_shader_pos_format num))) \<and>
         take_bit 8 (build_pa_cl_vs_out_cntl ctx num) = fst (snd (get_num_pos_exports (bc_rinfo ctx)))"
proof -
  have num: "num = 1 + of_bool (misc_exports (ri_outinfo (bc_rinfo ctx))) +
      of_bool (0 < clip_comps (bc_rinfo ctx) + cull_comps (bc_rinfo ctx)) +
      of_bool (4 < clip_comps (bc_rinfo ctx) + cull_comps (bc_rinfo ctx))"
    using assms(2) by (simp add: num_pos_exports_eq)
  then have "num \<in> {1, 2, 3, 4}" by (auto split: if_splits)
  then have "num = length (filter (\<lambda>f. f \<noteq> 0) (nibbles (build_spi_shader_pos_format num)))"
    by (auto simp: bit_pos_format)
  moreover have "take_bit 8 (build_pa_cl_vs_out_cntl ctx num) = BITFIELD_MASK (clip_comps (bc_rinfo ctx))"
    using assms(1)
    by (intro bit_eqI) (auto simp: bit_take_bit_iff bit_pa_cl_vs_out_cntl bit_BITFIELD_MASK Let_def)
  ultimately show ?thesis
    using num assms(1) by (simp add: num_pos_exports_eq bit_pa_cl_vs_out_cntl Let_def)
qed

theorem position_registers_agree_witness:
  "let ctx = zero_context\<lparr>bc_gfx_level := GFX10_3, bc_rinfo := zero_info\<lparr>ri_outinfo :=
       zero_outinfo\<lparr>oi_clip_dist_mask := 0x1f, oi_writes_layer := True\<rparr>\<rparr>\<rparr>
   in fst (get_num_pos_exports (bc_rinfo ctx)) = 4 \<and>
      4 = length (filter (\<lambda>f. f \<noteq> 0) (nibbles (build_spi_shader_pos_format 4)))"
proof -
  let ?ctx = "zero_context\<lparr>bc_gfx_level := GFX10_3, bc_rinfo := zero_info\<lparr>ri_outinfo :=
       zero_outinfo\<lparr>oi_clip_dist_mask := 0x1f, oi_writes_layer := True\<rparr>\<rparr>\<rparr>"
  have comps: "clip_comps (bc_rinfo ?ctx) + cull_comps (bc_rinfo ?ctx) \<le> 8"
    by (simp add: clip_comps_def cull_comps_def zero_info_def zero_outinfo_def util_bitcount.simps)
  have num: "fst (get_num_pos_exports (bc_rinfo ?ctx)) = 4"
    by (simp add: get_num_pos_exports_def misc_exports_def zero_info_def zero_outinfo_def Let_def
        util_bitcount.simps BITFIELD_MASK_def BITFIELD_BIT_def BITFIELD_RANGE_def)
  show ?thesis using position_registers_agree [OF comps num] num unfolding Let_def by blast
qed

end
