(* ===== verification/Io_Semantics.thy ===== *)
theory Io_Semantics
  imports Reg_Words
begin

text \<open>
  Linkage of pixel inputs and pre-raster outputs, \<^verbatim>\<open>src/libpsbc/psbc_compile.c\<close>: the
  interpolation mode of an input load, the split of inputs that are read both flat and interpolated,
  the list of input semantic words of a pixel shader, and the list of output semantic words of
  a pre-raster stage.  A semantic word carries a match key in its low byte.
\<close>

section \<open>Definitions\<close>

subsection \<open>Input loads\<close>

definition ps5_last_provoking_vertex :: "u32 \<Rightarrow> nat" where
  "ps5_last_provoking_vertex primitive_type =
     (if primitive_type = 1 then 0
      else if primitive_type = 2 \<or> primitive_type = 3 then 1
      else if primitive_type = 4 \<or> primitive_type = 5 \<or> primitive_type = 6 then 2
      else 0)"

text \<open>\<^verbatim>\<open>lower_flat_input_vertex\<close>: a flat load becomes a load of an explicit vertex; the result says
  whether the instruction was replaced.\<close>

definition lower_flat_input_vertex ::
  "PsbcCompileOptions \<Rightarrow> nir_intrinsic_instr \<Rightarrow> bool \<times> nir_intrinsic_instr" where
  "lower_flat_input_vertex options intrinsic =
     (let vertex_id = ps5_last_provoking_vertex (opt_primitive_type options) in
      if nii_intrinsic intrinsic \<noteq> nir_intrinsic_load_input then (False, intrinsic)
      else if opt_primitive_id_per_primitive options \<and>
              io_location (nii_io intrinsic) = VARYING_SLOT_PRIMITIVE_ID then (False, intrinsic)
      else (True, intrinsic\<lparr>nii_intrinsic := nir_intrinsic_load_input_vertex, nii_vertex := Some vertex_id\<rparr>))"

definition ps5_input_interpolation_mode :: "nir_intrinsic_instr \<Rightarrow> u8" where
  "ps5_input_interpolation_mode intrinsic =
     (if nii_intrinsic intrinsic = nir_intrinsic_load_interpolated_input then 2
      else if nii_intrinsic intrinsic = nir_intrinsic_load_input \<or>
              nii_intrinsic intrinsic = nir_intrinsic_load_input_vertex then 1
      else 0)"

text \<open>A pass over the intrinsics of a shader.\<close>

definition map_intrinsics :: "(nir_intrinsic_instr \<Rightarrow> nir_intrinsic_instr) \<Rightarrow> nir_shader \<Rightarrow> nir_shader" where
  "map_intrinsics f nir =
     nir\<lparr>nir_instrs := map (\<lambda>i. case i of Instr_intrinsic x \<Rightarrow> Instr_intrinsic (f x) | _ \<Rightarrow> i) (nir_instrs nir)\<rparr>"

fun intrinsics_of :: "nir_instr list \<Rightarrow> nir_intrinsic_instr list" where
  "intrinsics_of [] = []"
| "intrinsics_of (Instr_intrinsic x # is) = x # intrinsics_of is"
| "intrinsics_of (_ # is) = intrinsics_of is"

subsection \<open>Inputs with two interpolation modes\<close>

record Ps5MixedInputState =
  mi_modes :: "u8 list"
  mi_flat_attribute :: "u8 list"
  mi_primitive_id_attribute :: u8

definition classify_slot :: "u8 \<Rightarrow> nat \<Rightarrow> u8 list \<Rightarrow> u8 list" where
  "classify_slot mode location modes =
     (if location < PSBC_MAX_SEMANTICS then modes[location := (modes ! location) OR mode] else modes)"

definition classify_ps5_input :: "nir_intrinsic_instr \<Rightarrow> u8 list \<Rightarrow> u8 list" where
  "classify_ps5_input intrinsic modes =
     (let mode = ps5_input_interpolation_mode intrinsic; io = nii_io intrinsic in
      if mode = 0 then modes
      else if io_location io < VARYING_SLOT_VAR0 then modes
      else fold (\<lambda>slot. classify_slot mode (io_location io - VARYING_SLOT_VAR0 + slot)) [0..<io_num_slots io] modes)"

definition remap_ps5_flat_input :: "Ps5MixedInputState \<Rightarrow> nir_intrinsic_instr \<Rightarrow> nir_intrinsic_instr" where
  "remap_ps5_flat_input state intrinsic =
     (let io = nii_io intrinsic in
      if ps5_input_interpolation_mode intrinsic \<noteq> 1 then intrinsic
      else if io_location io = VARYING_SLOT_PRIMITIVE_ID \<and> mi_primitive_id_attribute state \<noteq> 255 then
        intrinsic\<lparr>nii_base := ucast (mi_primitive_id_attribute state)\<rparr>
      else if io_location io < VARYING_SLOT_VAR0 \<or> io_num_slots io \<noteq> 1 then intrinsic
      else
        (let location = io_location io - VARYING_SLOT_VAR0 in
         if location \<ge> PSBC_MAX_SEMANTICS \<or> mi_modes state ! location \<noteq> 3 then intrinsic
         else intrinsic\<lparr>nii_base := ucast (mi_flat_attribute state ! location)\<rparr>))"

text \<open>The loop that gives every mixed location an attribute of its own; \<open>None\<close> when the
  attributes run out.\<close>

fun assign_flat :: "u8 list \<Rightarrow> nat list \<Rightarrow> nat \<Rightarrow> u8 list \<Rightarrow> (nat \<times> u8 list) option" where
  "assign_flat modes [] next flat = Some (next, flat)"
| "assign_flat modes (location # ls) next flat =
     (if modes ! location \<noteq> 3 then assign_flat modes ls next flat
      else if next \<ge> PSBC_MAX_SEMANTICS then None
      else assign_flat modes ls (next + 1) (flat[location := of_nat next]))"

text \<open>\<^verbatim>\<open>split_ps5_mixed_inputs\<close> returns the shader and the information it leaves behind, or \<open>None\<close>
  for its failure result.  The counter \<^verbatim>\<open>next\<close> starts in 32-bit arithmetic.\<close>

definition split_ps5_mixed_inputs ::
  "nir_shader \<Rightarrow> radv_shader_info \<Rightarrow> bool \<Rightarrow> (nir_shader \<times> radv_shader_info) option" where
  "split_ps5_mixed_inputs nir info primitive_id_per_primitive =
     (let modes = fold classify_ps5_input (intrinsics_of (nir_instrs nir)) (replicate 32 0);
          per_primitive_id = primitive_id_per_primitive \<and> ps_prim_id_input (ri_ps info);
          next0 = unat (ps_num_inputs (ri_ps info) - bool_word per_primitive_id)
      in case assign_flat modes [0..<PSBC_MAX_SEMANTICS] next0 (replicate 32 255) of
           None \<Rightarrow> None
         | Some (next1, flat) \<Rightarrow>
             if per_primitive_id \<and> next1 \<ge> PSBC_MAX_SEMANTICS then None
             else
               (let prim = (if per_primitive_id then of_nat next1 else 255);
                    next2 = (if per_primitive_id then next1 + 1 else next1);
                    state = \<lparr>mi_modes = modes, mi_flat_attribute = flat, mi_primitive_id_attribute = prim\<rparr>
                in if next2 = unat (ps_num_inputs (ri_ps info)) then Some (nir, info)
                   else Some (map_intrinsics (remap_ps5_flat_input state) nir,
                              info\<lparr>ri_ps := (ri_ps info)\<lparr>ps_num_inputs := of_nat next2\<rparr>\<rparr>)))"

subsection \<open>Input semantic words\<close>

text \<open>\<^verbatim>\<open>words_by_attribute\<close> together with \<^verbatim>\<open>seen\<close>: an attribute that was seen has a word.\<close>

type_synonym attr_words = "nat \<rightharpoonup> u32"

definition put_word :: "nat \<Rightarrow> u32 \<Rightarrow> attr_words \<Rightarrow> attr_words option" where
  "put_word attribute word m =
     (case m attribute of
        Some w \<Rightarrow> if w \<noteq> word then None else Some (m(attribute \<mapsto> word))
      | None \<Rightarrow> Some (m(attribute \<mapsto> word)))"

definition put_distance ::
  "nir_shader \<Rightarrow> u32 \<Rightarrow> nir_intrinsic_instr \<Rightarrow> attr_words \<Rightarrow> attr_words option" where
  "put_distance nir generic_count intrin m =
     (let io = nii_io intrin;
          declared = si_clip_distance_array_size (nir_info nir) + si_cull_distance_array_size (nir_info nir);
          attribute = nii_base intrin;
          distance_register = io_location io - VARYING_SLOT_CLIP_DIST0
      in if io_location io = VARYING_SLOT_CULL_DIST0 \<or> io_location io = VARYING_SLOT_CULL_DIST1 then None
         else if io_num_slots io \<noteq> 1 \<or> declared = 0 \<or> declared > 8 \<or> attribute \<ge> generic_count \<or>
                 distance_register > 1 then None
         else put_word (unat attribute) (PSBC_SEMANTIC_DISTANCE_REGISTER + of_nat distance_register) m)"

definition generic_word :: "bool \<Rightarrow> bool \<Rightarrow> u8 \<Rightarrow> nat \<Rightarrow> u32" where
  "generic_word per_prim primitive_id mode location =
     (let word = (if primitive_id then PSBC_SEMANTIC_PRIMITIVE_ID else 15 + of_nat location) in
      if mode = 1 \<and> \<not> (primitive_id \<and> per_prim) then word OR BITFIELD_BIT 22 else word)"

fun put_slots :: "u32 \<Rightarrow> bool \<Rightarrow> nir_intrinsic_instr \<Rightarrow> nat list \<Rightarrow> attr_words \<Rightarrow> attr_words option" where
  "put_slots generic_count per_prim intrin [] m = Some m"
| "put_slots generic_count per_prim intrin (slot # slots) m =
     (let io = nii_io intrin;
          primitive_id = (io_location io = VARYING_SLOT_PRIMITIVE_ID);
          location = (if primitive_id then 0 else io_location io - VARYING_SLOT_VAR0 + slot);
          attribute = nii_base intrin + of_nat slot
      in if location \<ge> PSBC_MAX_SEMANTICS \<or> attribute \<ge> generic_count then None
         else case put_word (unat attribute)
                     (generic_word per_prim primitive_id (ps5_input_interpolation_mode intrin) location) m of
                None \<Rightarrow> None
              | Some m' \<Rightarrow> put_slots generic_count per_prim intrin slots m')"

definition is_distance :: "nir_intrinsic_instr \<Rightarrow> bool" where
  "is_distance intrin \<longleftrightarrow> io_location (nii_io intrin) \<in>
     {VARYING_SLOT_CLIP_DIST0, VARYING_SLOT_CLIP_DIST1, VARYING_SLOT_CULL_DIST0, VARYING_SLOT_CULL_DIST1}"

definition input_instr ::
  "nir_shader \<Rightarrow> u32 \<Rightarrow> bool \<Rightarrow> nir_intrinsic_instr \<Rightarrow> attr_words \<Rightarrow> attr_words option" where
  "input_instr nir generic_count per_prim intrin m =
     (let mode = ps5_input_interpolation_mode intrin; io = nii_io intrin;
          primitive_id = (io_location io = VARYING_SLOT_PRIMITIVE_ID)
      in if mode = 0 then Some m
         else if primitive_id \<and> (io_num_slots io \<noteq> 1 \<or> mode \<noteq> 1) then None
         else if is_distance intrin then put_distance nir generic_count intrin m
         else if \<not> primitive_id \<and> io_location io < VARYING_SLOT_VAR0 then Some m
         else put_slots generic_count per_prim intrin [0..<io_num_slots io] m)"

fun input_instrs ::
  "nir_shader \<Rightarrow> u32 \<Rightarrow> bool \<Rightarrow> nir_intrinsic_instr list \<Rightarrow> attr_words \<Rightarrow> attr_words option" where
  "input_instrs nir generic_count per_prim [] m = Some m"
| "input_instrs nir generic_count per_prim (i # is) m =
     (case input_instr nir generic_count per_prim i m of
        None \<Rightarrow> None
      | Some m' \<Rightarrow> input_instrs nir generic_count per_prim is m')"

text \<open>The final loop copies the words until it meets an attribute that no load named.\<close>

fun collect_words :: "attr_words \<Rightarrow> nat list \<Rightarrow> u32 list \<Rightarrow> bool \<times> u32 list" where
  "collect_words m [] acc = (True, acc)"
| "collect_words m (a # as) acc =
     (case m a of None \<Rightarrow> (False, acc) | Some w \<Rightarrow> collect_words m as (acc @ [w]))"

definition build_input_semantics ::
  "nir_shader \<Rightarrow> radv_shader_info \<Rightarrow> bool \<Rightarrow> bool \<times> PsbcInputSemantics" where
  "build_input_semantics nir info primitive_id_per_primitive =
     (let ps = ri_ps info; generic_count = ps_num_inputs ps;
          failed = (False, \<lparr>is_valid = False, is_words = []\<rparr>)
      in if unat generic_count > PSBC_MAX_SEMANTICS then failed
         else if ps_input_per_primitive_mask ps \<noteq> 0 \<or> ps_explicit_shaded_mask ps \<noteq> 0 \<or>
                 ps_explicit_strict_shaded_mask ps \<noteq> 0 \<or> ps_float16_shaded_mask ps \<noteq> 0 \<or>
                 ps_float16_hi_shaded_mask ps \<noteq> 0 then failed
         else case input_instrs nir generic_count primitive_id_per_primitive
                     (intrinsics_of (nir_instrs nir)) Map.empty of
                None \<Rightarrow> failed
              | Some m \<Rightarrow>
                  (case collect_words m [0..<unat generic_count] [] of
                     (ok, words) \<Rightarrow> (ok, \<lparr>is_valid = ok, is_words = words\<rparr>)))"

subsection \<open>Output semantic words\<close>

definition param_offset :: "radv_shader_info \<Rightarrow> nat \<Rightarrow> u8" where
  "param_offset info slot = oi_vs_output_param_offset (ri_outinfo info) ! slot"

definition output_word :: "u32 \<Rightarrow> u8 \<Rightarrow> u32" where
  "output_word key parameter = key OR push_bit 8 (ucast parameter)"

definition output_generic :: "radv_shader_info \<Rightarrow> nat \<Rightarrow> u32 list \<Rightarrow> u32 list" where
  "output_generic info semantic out =
     (let parameter = param_offset info (VARYING_SLOT_VAR0 + semantic) in
      if unat parameter < PSBC_MAX_SEMANTICS then out @ [output_word (15 + of_nat semantic) parameter] else out)"

text \<open>The boolean of the state is false once the function has returned early.\<close>

definition output_special :: "radv_shader_info \<Rightarrow> u32 \<Rightarrow> nat \<Rightarrow> u32 list \<times> bool \<Rightarrow> u32 list \<times> bool" where
  "output_special info key slot st =
     (let parameter = param_offset info slot in
      if \<not> snd st then st
      else if unat parameter < PSBC_MAX_SEMANTICS then
        (if length (fst st) \<ge> PSBC_MAX_SEMANTICS then (fst st, False)
         else (fst st @ [output_word key parameter], True))
      else st)"

definition output_distance :: "radv_shader_info \<Rightarrow> nat \<Rightarrow> u32 list \<times> bool \<Rightarrow> u32 list \<times> bool" where
  "output_distance info register_index st =
     (let parameter = param_offset info (VARYING_SLOT_CLIP_DIST0 + register_index) in
      if \<not> snd st then st
      else if length (fst st) \<ge> PSBC_MAX_SEMANTICS \<or> unat parameter \<ge> PSBC_MAX_SEMANTICS then (fst st, False)
      else (fst st @ [output_word (PSBC_SEMANTIC_DISTANCE_REGISTER + of_nat register_index) parameter], True))"

definition distance_registers :: "radv_shader_info \<Rightarrow> nat" where
  "distance_registers info =
     (util_bitcount (oi_clip_dist_mask (ri_outinfo info)) + util_bitcount (oi_cull_dist_mask (ri_outinfo info)) + 3) div 4"

definition output_words :: "radv_shader_info \<Rightarrow> u32 list \<times> bool" where
  "output_words info =
     (let out = fold (output_generic info) [0..<PSBC_MAX_SEMANTICS] [];
          st = output_special info PSBC_SEMANTIC_PRIMITIVE_ID VARYING_SLOT_PRIMITIVE_ID (out, True);
          st = output_special info PSBC_SEMANTIC_VIEWPORT_INDEX VARYING_SLOT_VIEWPORT st
      in fold (output_distance info) [0..<distance_registers info] st)"

definition fill_output_semantics ::
  "radv_shader_info \<Rightarrow> PsbcShaderMetadata \<Rightarrow> bool \<times> PsbcShaderMetadata" where
  "fill_output_semantics info metadata =
     (let st = output_words info in
      (snd st \<and> length (fst st) = unat (oi_param_exports (ri_outinfo info)) +
                                  unat (oi_prim_param_exports (ri_outinfo info)),
       metadata\<lparr>md_output_semantics := fst st\<rparr>))"

text \<open>The match key of a semantic word and the parameter index a producer stores in it.\<close>

definition semantic_key :: "u32 \<Rightarrow> u32" where
  "semantic_key w = w AND 0xff"

definition semantic_parameter :: "u32 \<Rightarrow> u32" where
  "semantic_parameter w = drop_bit 8 w"

section \<open>Input words\<close>

text \<open>What an input load asks of the table: the attribute words its slots need.\<close>

definition input_writes :: "bool \<Rightarrow> nir_intrinsic_instr \<Rightarrow> (nat \<times> u32) list" where
  "input_writes per_prim intrin =
     (let mode = ps5_input_interpolation_mode intrin; loc = io_location (nii_io intrin);
          primitive_id = (loc = VARYING_SLOT_PRIMITIVE_ID)
      in if mode = 0 then []
         else if is_distance intrin then
           [(unat (nii_base intrin), PSBC_SEMANTIC_DISTANCE_REGISTER + of_nat (loc - VARYING_SLOT_CLIP_DIST0))]
         else if \<not> primitive_id \<and> loc < VARYING_SLOT_VAR0 then []
         else map (\<lambda>slot. (unat (nii_base intrin + of_nat slot),
                generic_word per_prim primitive_id mode (if primitive_id then 0 else loc - VARYING_SLOT_VAR0 + slot)))
                [0..<io_num_slots (nii_io intrin)])"

interpretation attrs: consistent_store put_word "\<lambda>m. m"
  by unfold_locales (auto simp: put_word_def split: option.splits if_splits)

lemma put_slots_put_list:
  "put_slots g pp intrin slots m = Some m' \<Longrightarrow>
   put_list put_word
     (map (\<lambda>slot. (unat (nii_base intrin + of_nat slot),
            generic_word pp (io_location (nii_io intrin) = VARYING_SLOT_PRIMITIVE_ID)
              (ps5_input_interpolation_mode intrin)
              (if io_location (nii_io intrin) = VARYING_SLOT_PRIMITIVE_ID then 0
               else io_location (nii_io intrin) - VARYING_SLOT_VAR0 + slot))) slots) m = Some m'"
  by (induction slots arbitrary: m) (auto simp: Let_def split: if_splits option.splits)

lemma input_instr_put_list:
  "input_instr nir g pp intrin m = Some m' \<Longrightarrow> put_list put_word (input_writes pp intrin) m = Some m'"
  by (auto simp: input_instr_def input_writes_def Let_def put_distance_def
      split: if_splits option.splits dest!: put_slots_put_list)

lemma input_instrs_put_list:
  "input_instrs nir g pp is m = Some m' \<Longrightarrow>
   put_list put_word (concat (map (input_writes pp) is)) m = Some m'"
  by (induction "is" arbitrary: m) (auto split: option.splits simp: put_list_append dest!: input_instr_put_list)

lemma collect_words_True:
  "collect_words m as acc = (True, ws) \<longleftrightarrow> (\<forall>a \<in> set as. m a \<noteq> None) \<and> ws = acc @ map (the \<circ> m) as"
  by (induction as arbitrary: acc) (auto split: option.splits)

text \<open>C9. When the input semantics of a pixel shader are reported valid, there is one word per
  pixel input, at most 32 of them, and the words are exactly what the shader's loads require: a word
  stands at an attribute if and only if some input load of the shader reads that attribute under
  that word, so no two loads of one attribute disagree about its key or its flat-shading bit.\<close>

theorem build_input_semantics_exact:
  assumes "build_input_semantics nir info per_prim = (True, sem)"
  shows "is_valid sem \<and> length (is_words sem) = unat (ps_num_inputs (ri_ps info)) \<and>
         length (is_words sem) \<le> PSBC_MAX_SEMANTICS \<and>
         (\<forall>a < length (is_words sem). \<forall>w. is_words sem ! a = w \<longleftrightarrow>
            (\<exists>i. i \<in> set (intrinsics_of (nir_instrs nir)) \<and> (a, w) \<in> set (input_writes per_prim i)))"
proof -
  from assms obtain m where m: "input_instrs nir (ps_num_inputs (ri_ps info)) per_prim
      (intrinsics_of (nir_instrs nir)) Map.empty = Some m"
    and le: "unat (ps_num_inputs (ri_ps info)) \<le> PSBC_MAX_SEMANTICS"
    and words: "collect_words m [0..<unat (ps_num_inputs (ri_ps info))] [] = (True, is_words sem)"
    and valid: "is_valid sem"
    by (auto simp: build_input_semantics_def Let_def split: if_splits option.splits prod.splits)
  have look: "m a = Some w \<longleftrightarrow> (a, w) \<in> set (concat (map (input_writes per_prim) (intrinsics_of (nir_instrs nir))))"
    for a w using attrs.put_list_look [OF input_instrs_put_list [OF m]] by simp
  have ws: "is_words sem = map (the \<circ> m) [0..<unat (ps_num_inputs (ri_ps info))]"
    and def: "\<forall>a < unat (ps_num_inputs (ri_ps info)). m a \<noteq> None"
    using words by (auto simp: collect_words_True)
  have "is_words sem ! a = w \<longleftrightarrow> m a = Some w" if "a < length (is_words sem)" for a w
    using that def by (auto simp: ws)
  then show ?thesis using valid le by (auto simp: ws look)
qed

definition sample_load :: "nir_intrinsic_op \<Rightarrow> nat \<Rightarrow> u32 \<Rightarrow> nir_intrinsic_instr" where
  "sample_load op location base =
     \<lparr>nii_intrinsic = op, nii_src0 = Src_ssa 1, nii_offset = None, nii_vertex = None,
      nii_num_components = 4, nii_bit_size = 32, nii_base = base, nii_range = 0, nii_component = 0,
      nii_io = \<lparr>io_location = location, io_num_slots = 1\<rparr>, nii_desc_set = 0, nii_binding = 0,
      nii_var = None\<rparr>"

lemmas io_eval =
  build_input_semantics_def input_instr_def put_distance_def is_distance_def put_word_def
  generic_word_def ps5_input_interpolation_mode_def sample_load_def zero_nir_def zero_info_def
  zero_ps_def zero_shader_info_def BITFIELD_BIT_def PSBC_SEMANTIC_PRIMITIVE_ID_def
  PSBC_SEMANTIC_DISTANCE_REGISTER_def Let_def

theorem build_input_semantics_exact_witness:
  "let nir = zero_nir\<lparr>nir_instrs := [Instr_intrinsic (sample_load nir_intrinsic_load_interpolated_input 33 0),
                       Instr_intrinsic (sample_load nir_intrinsic_load_input 35 1)]\<rparr>;
       info = zero_info\<lparr>ri_ps := zero_ps\<lparr>ps_num_inputs := 2\<rparr>\<rparr>
   in snd (build_input_semantics nir info False) = \<lparr>is_valid = True, is_words = [16, 0x400012]\<rparr> \<and>
      length [16, 0x400012 :: u32] = unat (ps_num_inputs (ri_ps info))"
proof -
  let ?nir = "zero_nir\<lparr>nir_instrs := [Instr_intrinsic (sample_load nir_intrinsic_load_interpolated_input 33 0),
                       Instr_intrinsic (sample_load nir_intrinsic_load_input 35 1)]\<rparr>"
  let ?info = "zero_info\<lparr>ri_ps := zero_ps\<lparr>ps_num_inputs := 2\<rparr>\<rparr>"
  have run: "build_input_semantics ?nir ?info False = (True, \<lparr>is_valid = True, is_words = [16, 0x400012]\<rparr>)"
    by (simp add: io_eval upt_rec word_le_nat_alt)
  show ?thesis
    unfolding Let_def using build_input_semantics_exact [OF run] run by simp
qed

section \<open>Output words\<close>

lemma output_word_key: "k < 256 \<Longrightarrow> semantic_key (output_word k p) = k"
proof -
  assume "k < 256"
  then have k: "take_bit 8 k = k"
    by (simp add: take_bit_small word_less_nat_alt)
  have "semantic_key (output_word k p) = take_bit 8 (output_word k p)"
    by (simp add: semantic_key_def take_bit_eq_mask mask_eq_decr_exp)
  also have "\<dots> = take_bit 8 k"
    by (intro bit_eqI) (auto simp: output_word_def bit_simps)
  finally show ?thesis using k by simp
qed

lemma output_word_parameter: "k < 256 \<Longrightarrow> semantic_parameter (output_word k p) = ucast p"
proof -
  assume "k < 256"
  then have k: "take_bit 8 k = k"
    by (simp add: take_bit_small word_less_nat_alt)
  then have no: "\<not> bit k i" if "8 \<le> i" for i using that by (metis bit_take_bit_iff not_le)
  show ?thesis
    by (intro bit_eqI) (auto simp: semantic_parameter_def output_word_def bit_simps no dest: bit_imp_le_length)
qed

lemma fold_output_generic:
  "fold (output_generic info) xs acc =
     acc @ map (\<lambda>s. output_word (15 + of_nat s) (param_offset info (VARYING_SLOT_VAR0 + s)))
            (filter (\<lambda>s. unat (param_offset info (VARYING_SLOT_VAR0 + s)) < PSBC_MAX_SEMANTICS) xs)"
  by (induction xs arbitrary: acc) (simp_all add: output_generic_def Let_def)

definition special_words :: "radv_shader_info \<Rightarrow> u32 \<Rightarrow> nat \<Rightarrow> u32 list" where
  "special_words info key slot =
     (if unat (param_offset info slot) < PSBC_MAX_SEMANTICS then [output_word key (param_offset info slot)] else [])"

lemma output_special_ok:
  "output_special info key slot st = (out, True) \<Longrightarrow>
     snd st \<and> out = fst st @ special_words info key slot \<and> (length (fst st) \<le> 32 \<longrightarrow> length out \<le> 32)"
  by (cases st) (auto simp: output_special_def special_words_def Let_def split: if_splits)

lemma output_distance_ok:
  "output_distance info r st = (out, True) \<Longrightarrow>
     snd st \<and> length (fst st) < 32 \<and> unat (param_offset info (17 + r)) < 32 \<and>
     out = fst st @ [output_word (PSBC_SEMANTIC_DISTANCE_REGISTER + of_nat r) (param_offset info (17 + r))]"
  by (cases st) (auto simp: output_distance_def Let_def split: if_splits)

lemma output_distance_fold_ok:
  "fold (output_distance info) rs st = (out, True) \<Longrightarrow>
     snd st \<and>
     out = fst st @ map (\<lambda>r. output_word (PSBC_SEMANTIC_DISTANCE_REGISTER + of_nat r) (param_offset info (17 + r))) rs \<and>
     (\<forall>r \<in> set rs. unat (param_offset info (17 + r)) < 32) \<and> (length (fst st) \<le> 32 \<longrightarrow> length out \<le> 32)"
proof (induction rs arbitrary: st)
  case (Cons r rs)
  obtain out1 ok1 where step: "output_distance info r st = (out1, ok1)" by fastforce
  with Cons have "ok1" by fastforce
  with step have "output_distance info r st = (out1, True)" by simp
  from output_distance_ok [OF this] Cons.IH [of "(out1, True)"] Cons.prems step \<open>ok1\<close>
  show ?case by auto
qed auto

abbreviation generic_slots :: "radv_shader_info \<Rightarrow> nat list" where
  "generic_slots info \<equiv> filter (\<lambda>s. unat (param_offset info (32 + s)) < 32) [0..<32]"

lemma output_chain:
  assumes "output_words info = (out, True)"
  shows "out = map (\<lambda>s. output_word (15 + of_nat s) (param_offset info (32 + s))) (generic_slots info) @
           special_words info PSBC_SEMANTIC_PRIMITIVE_ID 21 @ special_words info PSBC_SEMANTIC_VIEWPORT_INDEX 23 @
           map (\<lambda>r. output_word (PSBC_SEMANTIC_DISTANCE_REGISTER + of_nat r) (param_offset info (17 + r)))
             [0..<distance_registers info] \<and>
         (length (generic_slots info) \<le> 32 \<longrightarrow> length out \<le> 32) \<and>
         (\<forall>r < distance_registers info. unat (param_offset info (17 + r)) < 32)"
proof -
  let ?g = "fold (output_generic info) [0..<32] []"
  obtain o1 b1 where s1: "output_special info PSBC_SEMANTIC_PRIMITIVE_ID 21 (?g, True) = (o1, b1)" by fastforce
  obtain o2 b2 where s2: "output_special info PSBC_SEMANTIC_VIEWPORT_INDEX 23 (o1, b1) = (o2, b2)" by fastforce
  have d: "fold (output_distance info) [0..<distance_registers info] (o2, b2) = (out, True)"
    using assms s1 s2 by (simp add: output_words_def Let_def)
  from output_distance_fold_ok [OF d] have b2 by simp
  with s2 output_special_ok [of info PSBC_SEMANTIC_VIEWPORT_INDEX 23 "(o1, b1)" o2] have b1 by simp
  show ?thesis
    using output_distance_fold_ok [OF d] output_special_ok [OF s2 [unfolded \<open>b2\<close> [THEN eqTrueI]]]
      output_special_ok [OF s1 [unfolded \<open>b1\<close> [THEN eqTrueI]]]
    by (auto simp: fold_output_generic)
qed

lemma output_words_ok:
  assumes "output_words info = (out, True)"
  shows "out = map (\<lambda>s. output_word (15 + of_nat s) (param_offset info (32 + s))) (generic_slots info) @
           special_words info 47 21 @ special_words info 49 23 @
           map (\<lambda>r. output_word (48 + of_nat r) (param_offset info (17 + r))) [0..<distance_registers info]"
    and "length out \<le> 32"
    and "\<forall>r < distance_registers info. unat (param_offset info (17 + r)) < 32"
proof -
  have "length (generic_slots info) \<le> length [0..<(32 :: nat)]" by (rule length_filter_le)
  then show "out = map (\<lambda>s. output_word (15 + of_nat s) (param_offset info (32 + s))) (generic_slots info) @
           special_words info 47 21 @ special_words info 49 23 @
           map (\<lambda>r. output_word (48 + of_nat r) (param_offset info (17 + r))) [0..<distance_registers info]"
    and "length out \<le> 32"
    and "\<forall>r < distance_registers info. unat (param_offset info (17 + r)) < 32"
    using output_chain [OF assms] by (auto simp: PSBC_SEMANTIC_PRIMITIVE_ID_def
        PSBC_SEMANTIC_VIEWPORT_INDEX_def PSBC_SEMANTIC_DISTANCE_REGISTER_def)
qed

lemma unat_ucast_u8: "unat (ucast (p :: u8) :: u32) = unat p"
proof -
  have "unat p < 2 ^ LENGTH(8)" by (rule unsigned_less)
  then show ?thesis by (simp add: unsigned_ucast_eq take_bit_nat_eq_self)
qed

lemma key_of_nat: "n < 200 \<Longrightarrow> 15 + of_nat n < (256 :: u32)" "n < 200 \<Longrightarrow> 48 + of_nat n < (256 :: u32)"
  by (simp_all add: word_less_nat_alt unat_word_ariths unat_of_nat)

lemma distance_registers_le: "distance_registers info \<le> 4"
  using util_bitcount_le [of "oi_clip_dist_mask (ri_outinfo info)"]
    util_bitcount_le [of "oi_cull_dist_mask (ri_outinfo info)"]
  by (simp add: distance_registers_def)

text \<open>The keys of the published words, one after the other.\<close>

definition output_keys :: "radv_shader_info \<Rightarrow> u32 list" where
  "output_keys info =
     map (\<lambda>s. 15 + of_nat s) (generic_slots info) @
     (if unat (param_offset info 21) < 32 then [47] else []) @
     (if unat (param_offset info 23) < 32 then [49] else []) @
     map (\<lambda>r. 48 + of_nat r) [0..<distance_registers info]"

lemma output_words_keys:
  assumes "output_words info = (out, True)"
  shows "map semantic_key out = output_keys info"
proof -
  have "r < 200" if "r \<in> set [0..<distance_registers info]" for r
    using that distance_registers_le [of info] by simp
  then show ?thesis
    unfolding output_words_ok (1) [OF assms] output_keys_def special_words_def
    by (auto simp: output_word_key key_of_nat intro!: map_cong)
qed

lemma of_nat_inj_small: "inj_on (\<lambda>n. k + of_nat n :: u32) {..<1000}"
  by (auto simp: inj_on_def word_of_nat_eq_iff take_bit_nat_eq_self)

lemma distinct_with_optional:
  assumes "distinct xs" "distinct ys" "set xs \<inter> set ys = {}" "a \<notin> set xs" "b \<notin> set xs" "a \<notin> set ys"
    and "q \<Longrightarrow> b \<notin> set ys" "a \<noteq> b"
  shows "distinct (xs @ (if p then [a] else []) @ (if q then [b] else []) @ ys)"
  using assms by auto

lemma output_keys_distinct:
  assumes "unat (param_offset info 23) \<ge> 32 \<or> distance_registers info \<le> 1"
  shows "distinct (output_keys info)"
proof -
  have g: "distinct (map (\<lambda>s. 15 + of_nat s :: u32) (generic_slots info))"
    by (auto simp: distinct_map intro!: inj_on_subset [OF of_nat_inj_small])
  have d: "distinct (map (\<lambda>r. 48 + of_nat r :: u32) [0..<distance_registers info])"
    using distance_registers_le [of info]
    by (auto simp: distinct_map intro!: inj_on_subset [OF of_nat_inj_small])
  have lo: "unat x < 47" if "x \<in> set (map (\<lambda>s. 15 + of_nat s :: u32) (generic_slots info))" for x
    using that by (auto simp: unat_word_ariths unat_of_nat)
  have hi: "48 \<le> unat x" if "x \<in> set (map (\<lambda>r. 48 + of_nat r :: u32) [0..<distance_registers info])" for x
    using that distance_registers_le [of info] by (auto simp: unat_word_ariths unat_of_nat)
  have no: "49 \<notin> set (map (\<lambda>r. 48 + of_nat r :: u32) [0..<distance_registers info])"
    if "distance_registers info \<le> 1"
    using that by (cases "distance_registers info") auto
  let ?G = "set (map (\<lambda>s. 15 + of_nat s :: u32) (generic_slots info))"
  let ?D = "set (map (\<lambda>r. 48 + of_nat r :: u32) [0..<distance_registers info])"
  have disj: "?G \<inter> ?D = {}" "47 \<notin> ?G" "49 \<notin> ?G" "47 \<notin> ?D"
    using lo hi by (fastforce, fastforce, fastforce, fastforce)
  have opt: "49 \<notin> ?D" if "unat (param_offset info 23) < 32"
    using assms no that by linarith
  have ne: "(47 :: u32) \<noteq> 49" by simp
  show ?thesis
    unfolding output_keys_def by (rule distinct_with_optional [OF g d disj opt ne])
qed

text \<open>C20. When the output semantics are complete, their number is the number of parameter exports and at
  most 32, every word names a parameter below 32, and no two words share a match key unless the
  stage exports the viewport index together with a second packed distance register.\<close>

theorem fill_output_semantics_spec:
  assumes "fill_output_semantics info md = (True, md')"
  shows "length (md_output_semantics md') =
           unat (oi_param_exports (ri_outinfo info)) + unat (oi_prim_param_exports (ri_outinfo info)) \<and>
         length (md_output_semantics md') \<le> PSBC_MAX_SEMANTICS \<and>
         (\<forall>w \<in> set (md_output_semantics md'). unat (semantic_parameter w) < PSBC_MAX_SEMANTICS) \<and>
         (unat (param_offset info VARYING_SLOT_VIEWPORT) \<ge> 32 \<or> distance_registers info \<le> 1 \<longrightarrow>
            distinct (map semantic_key (md_output_semantics md')))"
proof -
  obtain out where out: "output_words info = (out, True)" and md': "md_output_semantics md' = out"
    and len: "length out = unat (oi_param_exports (ri_outinfo info)) + unat (oi_prim_param_exports (ri_outinfo info))"
    using assms by (cases "output_words info") (auto simp: fill_output_semantics_def Let_def)
  have par: "unat (semantic_parameter (output_word k p)) = unat p" if "k < 256" for k p
    using that by (simp add: output_word_parameter unat_ucast_u8)
  have "unat (semantic_parameter w) < 32" if "w \<in> set out" for w
    using that output_words_ok (3) [OF out] distance_registers_le [of info]
    unfolding output_words_ok (1) [OF out] special_words_def
    by (auto simp: par key_of_nat split: if_splits)
  then show ?thesis
    using output_words_ok (2) [OF out] output_words_keys [OF out] output_keys_distinct [of info] len md' by simp
qed

text \<open>C32. The exception is real: a stage that exports the viewport index and two packed distance
  registers publishes two words with the key 49, one for the viewport index and one for the second
  distance register, so a pixel shader that reads the second distance register cannot tell them apart.\<close>

theorem viewport_key_collides:
  assumes "fill_output_semantics info md = (True, md')"
    and "unat (param_offset info VARYING_SLOT_VIEWPORT) < 32" and "2 \<le> distance_registers info"
  shows "output_word 49 (param_offset info VARYING_SLOT_VIEWPORT) \<in> set (md_output_semantics md') \<and>
         output_word 49 (param_offset info VARYING_SLOT_CLIP_DIST1) \<in> set (md_output_semantics md') \<and>
         semantic_key (output_word 49 (param_offset info VARYING_SLOT_VIEWPORT)) =
           semantic_key (output_word 49 (param_offset info VARYING_SLOT_CLIP_DIST1)) \<and>
         \<not> distinct (map semantic_key (md_output_semantics md'))"
proof -
  obtain out where out: "output_words info = (out, True)" and md': "md_output_semantics md' = out"
    using assms by (cases "output_words info") (auto simp: fill_output_semantics_def Let_def)
  have one: "(1 :: nat) \<in> set [0..<distance_registers info]" using assms(3) by simp
  have "49 \<in> (\<lambda>r. 48 + of_nat r :: u32) ` {0..<distance_registers info}"
    using one by (intro image_eqI [of _ _ 1]) simp_all
  then have "\<not> distinct (output_keys info)"
    using assms(2) by (auto simp: output_keys_def)
  moreover have "output_word 49 (param_offset info 18) \<in>
      (\<lambda>r. output_word (48 + of_nat r) (param_offset info (17 + r))) ` {0..<distance_registers info}"
    using one by (intro image_eqI [of _ _ 1]) simp_all
  ultimately show ?thesis
    using assms(2) output_words_ok (1) [OF out] output_words_keys [OF out] md'
    by (simp add: special_words_def output_word_key)
qed

definition sample_outputs :: radv_shader_info where
  "sample_outputs = zero_info\<lparr>ri_outinfo := zero_outinfo\<lparr>
     oi_vs_output_param_offset := (replicate 64 255)[32 := 0, 23 := 1, 17 := 2, 18 := 3],
     oi_clip_dist_mask := 0x1f, oi_param_exports := 4\<rparr>\<rparr>"

lemma sample_outputs_eval:
  "distance_registers sample_outputs = 2"
  "output_words sample_outputs = ([0x00f, 0x131, 0x230, 0x331], True)"
  by (simp_all add: sample_outputs_def output_words_def distance_registers_def util_bitcount.simps
      output_generic_def output_special_def output_distance_def param_offset_def output_word_def
      zero_info_def zero_outinfo_def PSBC_SEMANTIC_PRIMITIVE_ID_def PSBC_SEMANTIC_VIEWPORT_INDEX_def
      PSBC_SEMANTIC_DISTANCE_REGISTER_def Let_def upt_rec nth_list_update)

lemma sample_outputs_fill:
  "fill_output_semantics sample_outputs zero_metadata =
     (True, zero_metadata\<lparr>md_output_semantics := [0x00f, 0x131, 0x230, 0x331]\<rparr>)"
  by (simp add: fill_output_semantics_def sample_outputs_eval)
    (simp add: sample_outputs_def zero_info_def zero_outinfo_def)

theorem fill_output_semantics_spec_witness:
  "length (md_output_semantics (snd (fill_output_semantics sample_outputs zero_metadata))) =
     unat (oi_param_exports (ri_outinfo sample_outputs)) + unat (oi_prim_param_exports (ri_outinfo sample_outputs))"
  using fill_output_semantics_spec [OF sample_outputs_fill] sample_outputs_fill by simp

theorem viewport_key_collides_witness:
  "md_output_semantics (snd (fill_output_semantics sample_outputs zero_metadata)) = [0x00f, 0x131, 0x230, 0x331] \<and>
   \<not> distinct (map semantic_key [0x00f, 0x131, 0x230, 0x331])"
proof -
  have "unat (param_offset sample_outputs 23) < 32"
    by (simp add: sample_outputs_def param_offset_def zero_info_def zero_outinfo_def nth_list_update)
  then show ?thesis
    using viewport_key_collides [OF sample_outputs_fill] sample_outputs_fill by (simp add: sample_outputs_eval)
qed

section \<open>Splitting mixed inputs\<close>

abbreviation mixed :: "u8 list \<Rightarrow> nat \<Rightarrow> bool" where
  "mixed modes l \<equiv> modes ! l = 3"

lemma assign_flat_Some:
  "assign_flat modes ls next flat = Some (next', flat') \<Longrightarrow>
   distinct ls \<Longrightarrow> set ls \<subseteq> {..<length flat} \<Longrightarrow>
     next' = next + length (filter (mixed modes) ls) \<and> length flat' = length flat \<and>
     (filter (mixed modes) ls \<noteq> [] \<longrightarrow> next' \<le> 32) \<and>
     (\<forall>l < length flat. flat' ! l =
        (if l \<in> set ls \<and> mixed modes l
         then of_nat (next + length (filter (mixed modes) (takeWhile (\<lambda>x. x \<noteq> l) ls))) else flat ! l))"
proof (induction ls arbitrary: "next" flat)
  case (Cons a ls)
  show ?case
  proof (cases "mixed modes a")
    case False
    then show ?thesis using Cons by (auto simp: nth_list_update)
  next
    case True
    with Cons.prems have "next < 32"
      and rec: "assign_flat modes ls (next + 1) (flat[a := of_nat next]) = Some (next', flat')"
      by (auto split: if_splits)
    from Cons.IH [OF rec] Cons.prems True \<open>next < 32\<close> show ?thesis
      by (auto simp: nth_list_update)
  qed
qed auto

definition input_modes :: "nir_shader \<Rightarrow> u8 list" where
  "input_modes nir = fold classify_ps5_input (intrinsics_of (nir_instrs nir)) (replicate 32 0)"

definition mixed_count :: "nir_shader \<Rightarrow> nat" where
  "mixed_count nir = length (filter (mixed (input_modes nir)) [0..<32])"

definition mixed_rank :: "nir_shader \<Rightarrow> nat \<Rightarrow> nat" where
  "mixed_rank nir l = length (filter (mixed (input_modes nir)) [0..<l])"

lemma takeWhile_upt: "l < n \<Longrightarrow> takeWhile (\<lambda>x. x \<noteq> l) [0..<n] = [0..<l]"
proof -
  assume "l < n"
  then have "[0..<n] = [0..<l] @ l # [Suc l..<n]"
    by (metis le0 less_or_eq_imp_le upt_add_eq_append upt_conv_Cons le_add_diff_inverse)
  moreover have "takeWhile (\<lambda>x. x \<noteq> l) ([0..<l] @ l # [Suc l..<n]) = [0..<l]"
    by (subst takeWhile_append2) auto
  ultimately show ?thesis by simp
qed

lemma mixed_rank_strict:
  assumes "l < l'" "l' \<le> 32" "mixed (input_modes nir) l"
  shows "mixed_rank nir l < mixed_rank nir l'"
proof -
  have "[0..<l'] = [0..<l] @ l # [Suc l..<l']"
    using assms(1) by (metis le0 less_or_eq_imp_le upt_add_eq_append upt_conv_Cons le_add_diff_inverse)
  then show ?thesis using assms(3) by (simp add: mixed_rank_def)
qed

lemma mixed_rank_less: "l < 32 \<Longrightarrow> mixed (input_modes nir) l \<Longrightarrow> mixed_rank nir l < mixed_count nir"
  using mixed_rank_strict [of l 32] by (simp add: mixed_rank_def mixed_count_def)

lemma mixed_rank_inj:
  assumes "l < 32" "l' < 32" "mixed (input_modes nir) l" "mixed (input_modes nir) l'"
    and "mixed_rank nir l = mixed_rank nir l'"
  shows "l = l'"
  using assms mixed_rank_strict [of l l' nir] mixed_rank_strict [of l' l nir] by (metis less_imp_le nat_neq_iff)

lemma intrinsics_of_map:
  "intrinsics_of (map (\<lambda>i. case i of Instr_intrinsic x \<Rightarrow> Instr_intrinsic (f x) | _ \<Rightarrow> i) is) = map f (intrinsics_of is)"
  by (induction "is" rule: intrinsics_of.induct) simp_all

lemma intrinsics_of_map_intrinsics:
  "intrinsics_of (nir_instrs (map_intrinsics f nir)) = map f (intrinsics_of (nir_instrs nir))"
  by (simp add: map_intrinsics_def intrinsics_of_map)

text \<open>The state that the second pass of the split uses, in terms of the ranks.\<close>

lemma split_ps5_mixed_inputs_cases:
  assumes "split_ps5_mixed_inputs nir info pp = Some (nir', info')"
    and "per = (pp \<and> ps_prim_id_input (ri_ps info))"
    and "per \<Longrightarrow> 0 < unat (ps_num_inputs (ri_ps info))"
  obtains "mixed_count nir = 0" "nir' = nir" "info' = info"
  | state where "0 < mixed_count nir" "unat (ps_num_inputs (ri_ps info)) + mixed_count nir \<le> 32"
      "nir' = map_intrinsics (remap_ps5_flat_input state) nir"
      "unat (ps_num_inputs (ri_ps info')) = unat (ps_num_inputs (ri_ps info)) + mixed_count nir"
      "mi_modes state = input_modes nir"
      "mi_primitive_id_attribute state =
         (if per then of_nat (unat (ps_num_inputs (ri_ps info)) + mixed_count nir - 1) else 255)"
      "\<forall>l < 32. mixed (input_modes nir) l \<longrightarrow>
         mi_flat_attribute state ! l = of_nat (unat (ps_num_inputs (ri_ps info)) - of_bool per + mixed_rank nir l)"
proof -
  let ?num = "unat (ps_num_inputs (ri_ps info))"
  have sub: "unat (ps_num_inputs (ri_ps info) - bool_word per) = ?num - of_bool per"
    using assms(3) by (cases per) (auto simp: bool_word_def unat_minus_one unat_gt_0)
  obtain next1 flat where af: "assign_flat (input_modes nir) [0..<32] (?num - of_bool per) (replicate 32 255) = Some (next1, flat)"
    and full: "\<not> (per \<and> 32 \<le> next1)"
    using assms(1,2) sub unfolding split_ps5_mixed_inputs_def Let_def input_modes_def [symmetric]
    by (auto split: option.splits prod.splits if_splits)
  have idx: "set [0..<32] \<subseteq> {..<length (replicate 32 (255 :: u8))}" by auto
  have n1: "next1 = ?num - of_bool per + mixed_count nir"
    and flat: "\<forall>l < 32. mixed (input_modes nir) l \<longrightarrow> flat ! l = of_nat (?num - of_bool per + mixed_rank nir l)"
    using assign_flat_Some [OF af distinct_upt idx]
    by (simp_all add: mixed_count_def mixed_rank_def takeWhile_upt del: of_nat_add)
  have le: "0 < mixed_count nir \<longrightarrow> next1 \<le> 32"
    using assign_flat_Some [OF af distinct_upt idx] unfolding mixed_count_def length_greater_0_conv by blast
  let ?next2 = "if per then next1 + 1 else next1"
  have n2: "?next2 = ?num + mixed_count nir" using n1 assms(3) by auto
  show ?thesis
  proof (cases "mixed_count nir = 0")
    case True
    then show ?thesis
      using assms(1,2) sub af full n2 that(1) unfolding split_ps5_mixed_inputs_def Let_def input_modes_def [symmetric]
      by auto
  next
    case False
    let ?state = "\<lparr>mi_modes = input_modes nir, mi_flat_attribute = flat,
      mi_primitive_id_attribute = (if per then of_nat next1 else 255)\<rparr>"
    have b: "?num + mixed_count nir \<le> 32" using n1 n2 le full False by (cases per) auto
    have r: "nir' = map_intrinsics (remap_ps5_flat_input ?state) nir"
      "info' = info\<lparr>ri_ps := (ri_ps info)\<lparr>ps_num_inputs := of_nat ?next2\<rparr>\<rparr>"
      using assms(1,2) sub af full n2 False unfolding split_ps5_mixed_inputs_def Let_def input_modes_def [symmetric]
      by (auto split: if_splits)
    have "ps_num_inputs (ri_ps info') = of_nat (?num + mixed_count nir)"
      unfolding r(2) n2 by simp
    then have num': "unat (ps_num_inputs (ri_ps info')) = ?num + mixed_count nir"
      using b by (simp add: unat_of_nat del: of_nat_add)
    have "?num + mixed_count nir - 1 = next1" if per using n2 that by simp
    then have "(if per then of_nat next1 else 255 :: u8) = (if per then of_nat (?num + mixed_count nir - 1) else 255)"
      by (cases per) (simp_all only: if_True if_False)
    then show ?thesis
      by (intro that(2) [of ?state]) (use False b r(1) num' flat in \<open>simp_all del: of_nat_add\<close>)
  qed
qed

lemma unat_small_u8: "n < 256 \<Longrightarrow> unat (ucast (of_nat n :: u8) :: u32) = n"
  by (simp add: unat_ucast_u8 unat_of_nat)

text \<open>A flat load of one slot at a location that is also read interpolated.\<close>

definition flat_alias_load :: "nir_shader \<Rightarrow> nir_intrinsic_instr \<Rightarrow> bool" where
  "flat_alias_load nir x \<longleftrightarrow> ps5_input_interpolation_mode x = 1 \<and> io_num_slots (nii_io x) = 1 \<and>
     32 \<le> io_location (nii_io x) \<and> io_location (nii_io x) < 64 \<and>
     mixed (input_modes nir) (io_location (nii_io x) - 32)"

lemma flat_alias_loadD:
  assumes "flat_alias_load nir x"
  shows "io_location (nii_io x) - 32 < 32" "mixed (input_modes nir) (io_location (nii_io x) - 32)"
    "32 \<le> io_location (nii_io x)"
  using assms by (simp_all add: flat_alias_load_def less_diff_conv2)

lemma remap_flat_alias:
  assumes "flat_alias_load nir x" "mi_modes state = input_modes nir"
  shows "nii_base (remap_ps5_flat_input state x) = ucast (mi_flat_attribute state ! (io_location (nii_io x) - 32))"
  using assms by (auto simp: flat_alias_load_def remap_ps5_flat_input_def Let_def)

lemma remap_other:
  assumes "\<not> flat_alias_load nir x" "io_location (nii_io x) \<noteq> 21 \<or> ps5_input_interpolation_mode x \<noteq> 1"
    "mi_modes state = input_modes nir"
  shows "remap_ps5_flat_input state x = x"
  using assms by (auto simp: flat_alias_load_def remap_ps5_flat_input_def Let_def)

text \<open>C21. Splitting the inputs that are read both flat and interpolated adds one attribute per such
  location and stays within 32 attributes.  The flat loads of these locations move to the new
  attributes, above all attributes in use and one per location; a per-primitive primitive ID moves to the
  very last attribute; every other load, the interpolated ones included, keeps its attribute.\<close>

theorem split_ps5_mixed_inputs_spec:
  assumes split: "split_ps5_mixed_inputs nir info pp = Some (nir', info')"
    and per: "per \<longleftrightarrow> pp \<and> ps_prim_id_input (ri_ps info)"
    and pos: "per \<Longrightarrow> 0 < unat (ps_num_inputs (ri_ps info))"
    and some: "0 < mixed_count nir"
  shows "unat (ps_num_inputs (ri_ps info')) = unat (ps_num_inputs (ri_ps info)) + mixed_count nir \<and>
         unat (ps_num_inputs (ri_ps info')) \<le> 32 \<and>
         (\<exists>f. intrinsics_of (nir_instrs nir') = map f (intrinsics_of (nir_instrs nir)) \<and>
           (\<forall>x. flat_alias_load nir x \<longrightarrow>
              unat (ps_num_inputs (ri_ps info)) - of_bool per \<le> unat (nii_base (f x)) \<and>
              unat (nii_base (f x)) < unat (ps_num_inputs (ri_ps info')) - of_bool per) \<and>
           (\<forall>x y. flat_alias_load nir x \<and> flat_alias_load nir y \<longrightarrow>
              (nii_base (f x) = nii_base (f y) \<longleftrightarrow> io_location (nii_io x) = io_location (nii_io y))) \<and>
           (\<forall>x. per \<and> ps5_input_interpolation_mode x = 1 \<and> io_location (nii_io x) = VARYING_SLOT_PRIMITIVE_ID \<longrightarrow>
              unat (nii_base (f x)) = unat (ps_num_inputs (ri_ps info')) - 1) \<and>
           (\<forall>x. \<not> flat_alias_load nir x \<and>
              (ps5_input_interpolation_mode x \<noteq> 1 \<or> io_location (nii_io x) \<noteq> VARYING_SLOT_PRIMITIVE_ID) \<longrightarrow> f x = x))"
proof (rule split_ps5_mixed_inputs_cases [OF split per pos])
  let ?num = "unat (ps_num_inputs (ri_ps info))"
  fix state
  assume b: "?num + mixed_count nir \<le> 32"
    and nir': "nir' = map_intrinsics (remap_ps5_flat_input state) nir"
    and num': "unat (ps_num_inputs (ri_ps info')) = ?num + mixed_count nir"
    and modes: "mi_modes state = input_modes nir"
    and prim: "mi_primitive_id_attribute state = (if per then of_nat (?num + mixed_count nir - 1) else 255)"
    and flat: "\<forall>l < 32. mixed (input_modes nir) l \<longrightarrow>
         mi_flat_attribute state ! l = of_nat (?num - of_bool per + mixed_rank nir l)"
  let ?f = "remap_ps5_flat_input state"
  have fresh: "unat (nii_base (?f x)) = ?num - of_bool per + mixed_rank nir (io_location (nii_io x) - 32) \<and>
      mixed_rank nir (io_location (nii_io x) - 32) < mixed_count nir" if "flat_alias_load nir x" for x
  proof -
    note l = flat_alias_loadD (1,2) [OF that]
    let ?n = "?num - of_bool per + mixed_rank nir (io_location (nii_io x) - 32)"
    have eq: "mi_flat_attribute state ! (io_location (nii_io x) - 32) = of_nat ?n"
      using flat l by blast
    have "?n < 256" using mixed_rank_less [OF l] b by linarith
    then show ?thesis
      unfolding remap_flat_alias [OF that modes] eq using mixed_rank_less [OF l] by (simp only: unat_small_u8)
  qed
  have same: "nii_base (?f x) = nii_base (?f y) \<longleftrightarrow> io_location (nii_io x) = io_location (nii_io y)"
    if xy: "flat_alias_load nir x" "flat_alias_load nir y" for x y
  proof
    assume "nii_base (?f x) = nii_base (?f y)"
    then have "mixed_rank nir (io_location (nii_io x) - 32) = mixed_rank nir (io_location (nii_io y) - 32)"
      using fresh [OF xy(1)] fresh [OF xy(2)] by simp
    then have "io_location (nii_io x) - 32 = io_location (nii_io y) - 32"
      by (rule mixed_rank_inj [OF flat_alias_loadD(1) [OF xy(1)] flat_alias_loadD(1) [OF xy(2)]
            flat_alias_loadD(2) [OF xy(1)] flat_alias_loadD(2) [OF xy(2)]])
    then show "io_location (nii_io x) = io_location (nii_io y)"
      using flat_alias_loadD(3) [OF xy(1)] flat_alias_loadD(3) [OF xy(2)] by linarith
  qed (simp add: remap_flat_alias [OF xy(1) modes] remap_flat_alias [OF xy(2) modes])
  have pid: "unat (nii_base (?f x)) = ?num + mixed_count nir - 1"
    if "per" "ps5_input_interpolation_mode x = 1" "io_location (nii_io x) = 21" for x
  proof -
    have "?num + mixed_count nir - 1 < 255" using b by simp
    then have "(of_nat (?num + mixed_count nir - 1) :: u8) \<noteq> 255"
      by (simp add: word_unat_eq_iff unat_of_nat)
    then show ?thesis
      using that prim b by (simp add: remap_ps5_flat_input_def Let_def unat_small_u8)
  qed
  have other: "?f x = x" if "\<not> flat_alias_load nir x \<and> (ps5_input_interpolation_mode x \<noteq> 1 \<or> io_location (nii_io x) \<noteq> 21)" for x
    using remap_other [OF _ _ modes] that by blast
  have range: "?num - of_bool per \<le> unat (nii_base (?f x)) \<and> unat (nii_base (?f x)) < ?num + mixed_count nir - of_bool per"
    if "flat_alias_load nir x" for x
    using fresh [OF that] pos by (cases per) auto
  have "intrinsics_of (nir_instrs nir') = map ?f (intrinsics_of (nir_instrs nir))"
    by (simp add: nir' intrinsics_of_map_intrinsics)
  then show ?thesis
    unfolding num' using b range same pid other by (intro conjI refl exI [of _ ?f] allI impI) simp_all
qed (use some in simp_all)

definition sample_mixed :: nir_shader where
  "sample_mixed = zero_nir\<lparr>nir_instrs := [Instr_intrinsic (sample_load nir_intrinsic_load_interpolated_input 33 0),
                      Instr_intrinsic (sample_load nir_intrinsic_load_input 33 0)]\<rparr>"

lemma sample_mixed_modes: "input_modes sample_mixed = (replicate 32 0)[1 := 3]"
  by (simp add: input_modes_def sample_mixed_def sample_load_def zero_nir_def classify_ps5_input_def
      classify_slot_def ps5_input_interpolation_mode_def Let_def upt_rec)

theorem split_ps5_mixed_inputs_spec_witness:
  "case split_ps5_mixed_inputs sample_mixed (zero_info\<lparr>ri_ps := zero_ps\<lparr>ps_num_inputs := 1\<rparr>\<rparr>) False of
     None \<Rightarrow> False
   | Some (nir', info') \<Rightarrow> unat (ps_num_inputs (ri_ps info')) = 2 \<and> 0 < mixed_count sample_mixed"
proof -
  let ?info = "zero_info\<lparr>ri_ps := zero_ps\<lparr>ps_num_inputs := 1\<rparr>\<rparr>"
  have count: "mixed_count sample_mixed = 1"
    by (simp add: mixed_count_def sample_mixed_modes nth_list_update upt_rec)
  have "assign_flat (input_modes sample_mixed) [0..<32] 1 (replicate 32 255) = Some (2, (replicate 32 255)[1 := 1])"
    by (simp add: sample_mixed_modes nth_list_update upt_rec)
  then obtain nir' info' where run: "split_ps5_mixed_inputs sample_mixed ?info False = Some (nir', info')"
    unfolding split_ps5_mixed_inputs_def Let_def input_modes_def [symmetric]
    by (simp add: zero_info_def zero_ps_def bool_word_def)
  show ?thesis
    using split_ps5_mixed_inputs_spec [OF run, of False] run count
    by (simp add: zero_info_def zero_ps_def)
qed

end
