(* ===== verification/Nir_Passes.thy ===== *)
theory Nir_Passes
  imports Io_Semantics
begin

text \<open>
  The analyses and rewrites that \<^verbatim>\<open>src/libpsbc/psbc_compile.c\<close> runs over NIR itself: the dwords of push
  constants a stage reads, the descriptors it uses, the constant-buffer slots of Gallium, the
  subgroup built-ins of a compute shader on the PS5, and the layout of clip and cull distances
  that a pixel shader reads.  The lemmas give each of them its meaning: which bits a mask has,
  what the replacement expressions evaluate to, and where a distance is read after linking.
\<close>

section \<open>Definitions\<close>

subsection \<open>Sources\<close>

definition src_is_const :: "nir_src \<Rightarrow> bool" where
  "src_is_const s = (case s of Src_const _ \<Rightarrow> True | _ \<Rightarrow> False)"

definition src_as_uint :: "nir_src \<Rightarrow> nat" where
  "src_as_uint s = (case s of Src_const v \<Rightarrow> v | _ \<Rightarrow> 0)"

definition src_num_components :: "nir_src \<Rightarrow> nat" where
  "src_num_components s = (case s of Src_const _ \<Rightarrow> 1 | Src_resource _ _ \<Rightarrow> 3 | Src_ssa n \<Rightarrow> n)"

subsection \<open>Push constants\<close>

text \<open>Offset and size of the bytes that a push-constant load reads, in the 64-bit arithmetic of the
  source; the base is a signed index and is sign-extended.\<close>

definition push_range :: "nir_intrinsic_instr \<Rightarrow> u64 \<times> u64" where
  "push_range intrin =
     (if src_is_const (nii_src0 intrin)
      then (scast (nii_base intrin) + of_nat (src_as_uint (nii_src0 intrin)),
            of_nat (nii_num_components intrin * (nii_bit_size intrin div 8)))
      else (scast (nii_base intrin), ucast (nii_range intrin)))"

definition push_dword_bits :: "nat \<Rightarrow> nat \<Rightarrow> u64 \<Rightarrow> u64" where
  "push_dword_bits offset sz m0 =
     fold (\<lambda>dw m. m OR push_bit dw 1) [offset div 4..<(offset + sz + 3) div 4] m0"

fun gather_push_dwords :: "nir_intrinsic_instr list \<Rightarrow> u64 \<Rightarrow> u64 option" where
  "gather_push_dwords [] m = Some m"
| "gather_push_dwords (intrin # is) m =
     (if nii_intrinsic intrin \<noteq> nir_intrinsic_load_push_constant then gather_push_dwords is m
      else (case push_range intrin of (offset, sz) \<Rightarrow>
         if sz = 0 \<or> offset \<ge> 256 \<or> sz > 256 - offset then None
         else gather_push_dwords is (push_dword_bits (unat offset) (unat sz) m)))"

text \<open>The flag and the mask that the caller stores: a failed walk leaves the mask at zero.\<close>

definition stage_push_use :: "nir_shader \<Rightarrow> bool \<times> u64" where
  "stage_push_use nir =
     (case gather_push_dwords (intrinsics_of (nir_instrs nir)) 0 of
        None \<Rightarrow> (False, 0) | Some m \<Rightarrow> (True, m))"

subsection \<open>Descriptor use\<close>

type_synonym descriptor_masks = "u32 \<times> u64 list"

definition record_descriptor_use :: "u32 \<Rightarrow> u32 \<Rightarrow> descriptor_masks \<Rightarrow> descriptor_masks" where
  "record_descriptor_use dset binding st =
     (if unat dset \<ge> PSBC_MAX_DESCRIPTOR_SETS then st
      else (fst st OR push_bit (unat dset) 1,
            if binding < 64
            then (snd st)[unat dset := (snd st ! unat dset) OR push_bit (unat binding) 1]
            else snd st))"

definition record_variable :: "(u32 \<times> u32) option \<Rightarrow> descriptor_masks \<Rightarrow> descriptor_masks" where
  "record_variable var st =
     (case var of None \<Rightarrow> st | Some (dset, binding) \<Rightarrow> record_descriptor_use dset binding st)"

definition is_image_deref :: "nir_intrinsic_op \<Rightarrow> bool" where
  "is_image_deref op \<longleftrightarrow>
     op \<in> {nir_intrinsic_image_deref_load, nir_intrinsic_image_deref_sparse_load,
           nir_intrinsic_image_deref_store, nir_intrinsic_image_deref_atomic,
           nir_intrinsic_image_deref_atomic_swap, nir_intrinsic_image_deref_size,
           nir_intrinsic_image_deref_samples}"

definition tex_src_use :: "nir_tex_src \<Rightarrow> descriptor_masks \<Rightarrow> descriptor_masks" where
  "tex_src_use s st =
     (if tex_src_type s \<noteq> nir_tex_src_texture_deref \<and> tex_src_type s \<noteq> nir_tex_src_sampler_deref
      then st else record_variable (tex_var s) st)"

definition descriptor_use_instr :: "nir_instr \<Rightarrow> descriptor_masks \<Rightarrow> descriptor_masks" where
  "descriptor_use_instr instr st =
     (case instr of
        Instr_intrinsic intrin \<Rightarrow>
          (if nii_intrinsic intrin = nir_intrinsic_vulkan_resource_index
           then record_descriptor_use (nii_desc_set intrin) (nii_binding intrin) st
           else if is_image_deref (nii_intrinsic intrin) then record_variable (nii_var intrin) st
           else st)
      | Instr_tex srcs \<Rightarrow> fold tex_src_use srcs st
      | Instr_other \<Rightarrow> st)"

definition gather_static_descriptor_use :: "nir_shader \<Rightarrow> descriptor_masks \<Rightarrow> descriptor_masks" where
  "gather_static_descriptor_use nir st = fold descriptor_use_instr (nir_instrs nir) st"

subsection \<open>Gallium constant buffers\<close>

definition lower_gallium_ubo_index :: "nir_intrinsic_instr \<Rightarrow> bool \<times> nir_intrinsic_instr" where
  "lower_gallium_ubo_index intrinsic =
     (let slot_src = nii_src0 intrinsic; slot = src_as_uint slot_src in
      if nii_intrinsic intrinsic \<noteq> nir_intrinsic_load_ubo \<or> src_num_components slot_src \<noteq> 1
      then (False, intrinsic)
      else if \<not> src_is_const slot_src then (False, intrinsic)
      else if slot \<ge> PSBC_MAX_DESCRIPTOR_BINDINGS - unat PSBC_GALLIUM_UBO_BINDING_BASE
      then (False, intrinsic)
      else (True, intrinsic\<lparr>nii_src0 := Src_resource 0 (unat PSBC_GALLIUM_UBO_BINDING_BASE + slot)\<rparr>))"

subsection \<open>Subgroup built-ins\<close>

text \<open>The expressions the pass builds, and their value in 32-bit arithmetic for an invocation.\<close>

datatype nir_def
  = Imm u32 | Local_invocation_id nat | Workgroup_size nat
  | Iadd nir_def nir_def | Imul nir_def nir_def | Udiv_imm nir_def u32

fun eval_def :: "(nat \<Rightarrow> u32) \<Rightarrow> (nat \<Rightarrow> u32) \<Rightarrow> nir_def \<Rightarrow> u32" where
  "eval_def lid wgs (Imm c) = c"
| "eval_def lid wgs (Local_invocation_id c) = lid c"
| "eval_def lid wgs (Workgroup_size c) = wgs c"
| "eval_def lid wgs (Iadd a b) = eval_def lid wgs a + eval_def lid wgs b"
| "eval_def lid wgs (Imul a b) = eval_def lid wgs a * eval_def lid wgs b"
| "eval_def lid wgs (Udiv_imm a d) = eval_def lid wgs a div d"

definition workgroup_dim :: "shader_info \<Rightarrow> nat \<Rightarrow> nir_def" where
  "workgroup_dim info c =
     (if si_workgroup_size_variable info then Workgroup_size c
      else Imm (ucast (si_workgroup_size info ! c)))"

definition workgroup_invocations :: "shader_info \<Rightarrow> nir_def" where
  "workgroup_invocations info =
     (if si_workgroup_size_variable info
      then Imul (Workgroup_size 0) (Imul (Workgroup_size 1) (Workgroup_size 2))
      else Imm (ucast (si_workgroup_size info ! 0) * ucast (si_workgroup_size info ! 1) *
                ucast (si_workgroup_size info ! 2)))"

definition local_index_def :: "shader_info \<Rightarrow> nir_def" where
  "local_index_def info =
     Iadd (Local_invocation_id 0)
       (Imul (workgroup_dim info 0)
         (Iadd (Local_invocation_id 1) (Imul (workgroup_dim info 1) (Local_invocation_id 2))))"

text \<open>\<open>None\<close>: the instruction is left alone.\<close>

definition lower_ps5_compute_subgroup_id ::
  "u32 \<Rightarrow> shader_info \<Rightarrow> nir_intrinsic_op \<Rightarrow> nir_def option" where
  "lower_ps5_compute_subgroup_id wave_size info op =
     (if op \<noteq> nir_intrinsic_load_subgroup_id \<and> op \<noteq> nir_intrinsic_load_local_invocation_index \<and>
         op \<noteq> nir_intrinsic_load_num_subgroups then None
      else if wave_size \<noteq> 32 \<and> wave_size \<noteq> 64 then None
      else if op = nir_intrinsic_load_num_subgroups
      then Some (Udiv_imm (Iadd (workgroup_invocations info) (Imm (wave_size - 1))) wave_size)
      else Some (if op = nir_intrinsic_load_local_invocation_index then local_index_def info
                 else Udiv_imm (local_index_def info) wave_size))"

subsection \<open>Distances read by a pixel shader\<close>

text \<open>The scalar number of the distance that a load reads, from its location, component and constant
  offset.\<close>

definition distance_component :: "nir_intrinsic_instr \<Rightarrow> nat" where
  "distance_component x =
     (io_location (nii_io x) - VARYING_SLOT_CLIP_DIST0) * 4 + nii_component x +
     (case nii_offset x of None \<Rightarrow> 0 | Some s \<Rightarrow> src_as_uint s) * 4"

definition is_distance_load :: "nir_intrinsic_instr \<Rightarrow> bool" where
  "is_distance_load x \<longleftrightarrow>
     (nii_intrinsic x = nir_intrinsic_load_input \<or> nii_intrinsic x = nir_intrinsic_load_interpolated_input) \<and>
     (io_location (nii_io x) = VARYING_SLOT_CLIP_DIST0 \<or> io_location (nii_io x) = VARYING_SLOT_CLIP_DIST1)"

definition distance_load_ok :: "nir_intrinsic_instr \<Rightarrow> bool" where
  "distance_load_ok x =
     (case nii_offset x of None \<Rightarrow> False
      | Some s \<Rightarrow> src_is_const s \<and> nii_num_components x = 1 \<and> src_as_uint s \<le> 1 \<and> nii_component x \<le> 3)"

definition link_distance_instr ::
  "nat \<Rightarrow> nat \<Rightarrow> nat \<Rightarrow> nir_intrinsic_instr \<Rightarrow> nir_intrinsic_instr option" where
  "link_distance_instr old_clip cull prefix x =
     (if \<not> is_distance_load x then Some x
      else if \<not> distance_load_ok x then None
      else (let component = distance_component x in
        if component < old_clip then Some x
        else if component - old_clip \<ge> cull then None
        else (let component = component + (prefix - old_clip) in
          Some (x\<lparr>nii_io := \<lparr>io_location = VARYING_SLOT_CLIP_DIST0 + component div 4, io_num_slots = 1\<rparr>,
                  nii_component := component mod 4,
                  nii_offset := Some (Src_const 0)\<rparr>))))"

fun link_distance_instrs :: "nat \<Rightarrow> nat \<Rightarrow> nat \<Rightarrow> nir_instr list \<Rightarrow> nir_instr list option" where
  "link_distance_instrs old_clip cull prefix [] = Some []"
| "link_distance_instrs old_clip cull prefix (instr # is) =
     (case (case instr of
              Instr_intrinsic x \<Rightarrow> map_option Instr_intrinsic (link_distance_instr old_clip cull prefix x)
            | _ \<Rightarrow> Some instr) of
        None \<Rightarrow> None
      | Some instr' \<Rightarrow>
          (case link_distance_instrs old_clip cull prefix is of
             None \<Rightarrow> None | Some is' \<Rightarrow> Some (instr' # is')))"

text \<open>\<open>scalarize\<close> stands for \<^verbatim>\<open>nir_lower_io_to_scalar\<close>.\<close>

definition link_fragment_distance_layout ::
  "(nir_instr list \<Rightarrow> nir_instr list) \<Rightarrow> PsbcCompileOptions \<Rightarrow> nir_shader \<Rightarrow> nir_shader option" where
  "link_fragment_distance_layout scalarize opts nir =
     (if \<not> opt_fragment_distance_layout_valid opts \<or> si_stage (nir_info nir) \<noteq> MESA_SHADER_FRAGMENT
      then Some nir
      else (let old_clip = unat (si_clip_distance_array_size (nir_info nir));
                cull = unat (si_cull_distance_array_size (nir_info nir));
                prefix = unat (opt_fragment_clip_distance_count opts)
            in if prefix > 8 \<or> prefix < old_clip \<or> cull > 8 - prefix then None
               else if cull = 0 \<or> prefix = old_clip then Some nir
               else map_option (\<lambda>is. nir\<lparr>nir_instrs := is\<rparr>)
                      (link_distance_instrs old_clip cull prefix (scalarize (nir_instrs nir)))))"

definition fold_use_float_frag_coord_xy :: "bool \<Rightarrow> nir_intrinsic_op \<Rightarrow> bool option" where
  "fold_use_float_frag_coord_xy use_float op =
     (if op \<noteq> nir_intrinsic_load_use_float_frag_coord_xy_amd then None else Some use_float)"

section \<open>Push constants\<close>

lemma fold_or_bits:
  "bit (fold (\<lambda>dw m. m OR push_bit dw 1) dws (m :: 'a::len word)) i \<longleftrightarrow>
     bit m i \<or> (i < LENGTH('a) \<and> i \<in> set dws)"
  by (induction dws arbitrary: m) (auto simp: bit_simps)

lemma dword_of_byte:
  "0 < sz \<Longrightarrow> i \<in> {offset div 4..<(offset + sz + 3) div 4} \<longleftrightarrow>
     (\<exists>b\<in>{offset..<offset + sz}. b div 4 = (i :: nat))"
proof
  assume sz: "0 < sz" and i: "i \<in> {offset div 4..<(offset + sz + 3) div 4}"
  let ?b = "max offset (4 * i)"
  have "?b div 4 = i" using i by (auto simp: max_def)
  moreover have "?b < offset + sz" using sz i by auto
  ultimately show "\<exists>b\<in>{offset..<offset + sz}. b div 4 = i" by (intro bexI [of _ ?b]) auto
next
  assume "\<exists>b\<in>{offset..<offset + sz}. b div 4 = i"
  then show "i \<in> {offset div 4..<(offset + sz + 3) div 4}" by (auto intro: div_le_mono)
qed

lemma push_dword_bits_iff:
  assumes "0 < sz" "offset + sz \<le> 256"
  shows "bit (push_dword_bits offset sz m) i \<longleftrightarrow> bit m i \<or> (\<exists>b\<in>{offset..<offset + sz}. b div 4 = i)"
  unfolding push_dword_bits_def fold_or_bits dword_of_byte [OF assms(1), symmetric]
  using assms(2) by auto

text \<open>The bytes a load touches, and when the walk accepts it.\<close>

definition push_bytes :: "nir_intrinsic_instr \<Rightarrow> nat set" where
  "push_bytes x = {unat (fst (push_range x))..<unat (fst (push_range x)) + unat (snd (push_range x))}"

definition push_loads :: "nir_intrinsic_instr list \<Rightarrow> nir_intrinsic_instr list" where
  "push_loads = filter (\<lambda>x. nii_intrinsic x = nir_intrinsic_load_push_constant)"

definition shader_push_loads :: "nir_shader \<Rightarrow> nir_intrinsic_instr set" where
  "shader_push_loads nir = {x. Instr_intrinsic x \<in> set (nir_instrs nir) \<and>
                              nii_intrinsic x = nir_intrinsic_load_push_constant}"

lemma set_intrinsics_of: "x \<in> set (intrinsics_of is) \<longleftrightarrow> Instr_intrinsic x \<in> set is"
  by (induction "is" rule: intrinsics_of.induct) auto

definition push_load_ok :: "nir_intrinsic_instr \<Rightarrow> bool" where
  "push_load_ok x \<longleftrightarrow> push_bytes x \<noteq> {} \<and> push_bytes x \<subseteq> {..<256}"

lemma push_guard:
  fixes offset sz :: u64
  shows "\<not> (sz = 0 \<or> offset \<ge> 256 \<or> sz > 256 - offset) \<longleftrightarrow>
     0 < unat sz \<and> unat offset + unat sz \<le> 256"
proof (cases "offset < 256")
  case True
  then have "unat (256 - offset) = 256 - unat offset" by (simp add: unat_sub less_imp_le)
  moreover have "unat offset < 256" using True by (simp add: word_less_nat_alt)
  ultimately show ?thesis by (auto simp: word_le_nat_alt word_less_nat_alt unat_gt_0 not_less unat_eq_zero)
next
  case False
  then have "256 \<le> unat offset" by (simp add: word_le_nat_alt not_less)
  then show ?thesis using False by (auto simp: not_less)
qed

lemma push_load_ok_iff:
  "push_load_ok x \<longleftrightarrow> 0 < unat (snd (push_range x)) \<and> unat (fst (push_range x)) + unat (snd (push_range x)) \<le> 256"
proof -
  let ?a = "unat (fst (push_range x))" and ?n = "unat (snd (push_range x))"
  have "{?a..<?a + ?n} \<subseteq> {..<256} \<longleftrightarrow> ?a + ?n \<le> 256" if "0 < ?n"
    unfolding lessThan_atLeast0 ivl_subset using that by auto
  then show ?thesis unfolding push_load_ok_def push_bytes_def by auto
qed

lemma gather_push_dwords_simp:
  "gather_push_dwords xs m =
     (if \<forall>x\<in>set (push_loads xs). push_load_ok x
      then Some (fold (\<lambda>x. push_dword_bits (unat (fst (push_range x))) (unat (snd (push_range x)))) (push_loads xs) m)
      else None)"
proof (induction xs arbitrary: m)
  case (Cons x xs)
  obtain offset sz where r: "push_range x = (offset, sz)" by (cases "push_range x")
  show ?case
    using Cons.IH push_guard [of sz offset] r
    by (auto simp: push_loads_def push_load_ok_iff)
qed (simp add: push_loads_def)

lemma fold_push_bits:
  "\<forall>x\<in>set xs. push_load_ok x \<Longrightarrow>
   bit (fold (\<lambda>x. push_dword_bits (unat (fst (push_range x))) (unat (snd (push_range x)))) xs m) i \<longleftrightarrow>
     bit m i \<or> (\<exists>x\<in>set xs. \<exists>b\<in>push_bytes x. b div 4 = i)"
proof (induction xs arbitrary: m)
  case (Cons x xs)
  then have ok: "push_load_ok x" by simp
  have "bit (push_dword_bits (unat (fst (push_range x))) (unat (snd (push_range x))) m) i \<longleftrightarrow>
        bit m i \<or> (\<exists>b\<in>push_bytes x. b div 4 = i)"
    unfolding push_bytes_def using ok by (intro push_dword_bits_iff) (auto simp: push_load_ok_iff)
  then show ?case using Cons by auto
qed simp

text \<open>C12. The push-constant mask of a stage is exact. The walk succeeds precisely when every
  push-constant load of the shader reads at least one byte and only bytes of the 256-byte block; then
  bit \<open>dw\<close> of the mask is set exactly when some load reads a byte of dword \<open>dw\<close>. Otherwise the
  reported mask is zero and flagged as not valid.\<close>
theorem stage_push_use_exact:
  "(fst (stage_push_use nir) \<longleftrightarrow>
      (\<forall>x\<in>shader_push_loads nir. push_bytes x \<noteq> {} \<and> push_bytes x \<subseteq> {..<256})) \<and>
   (bit (snd (stage_push_use nir)) dw \<longleftrightarrow>
      fst (stage_push_use nir) \<and> (\<exists>x\<in>shader_push_loads nir. \<exists>b\<in>push_bytes x. b div 4 = dw))"
proof -
  let ?xs = "intrinsics_of (nir_instrs nir)"
  have loads: "shader_push_loads nir = set (push_loads ?xs)"
    unfolding shader_push_loads_def push_loads_def by (auto simp: set_intrinsics_of)
  show ?thesis
    unfolding stage_push_use_def gather_push_dwords_simp loads push_load_ok_def [symmetric]
    using fold_push_bits [of "push_loads ?xs" 0 dw] by auto
qed

lemmas push_eval = push_range_def push_bytes_def src_is_const_def src_as_uint_def shader_push_loads_def

definition push_load :: "u32 \<Rightarrow> nat \<Rightarrow> nir_intrinsic_instr" where
  "push_load base n = (sample_load nir_intrinsic_load_push_constant 0 base)
                        \<lparr>nii_src0 := Src_const n, nii_num_components := 2\<rparr>"

theorem stage_push_use_exact_witness:
  "let nir = zero_nir\<lparr>nir_instrs := [Instr_intrinsic (push_load 8 6)]\<rparr> in
   fst (stage_push_use nir) \<and> bit (snd (stage_push_use nir)) 5 \<and> \<not> bit (snd (stage_push_use nir)) 6"
proof -
  let ?nir = "zero_nir\<lparr>nir_instrs := [Instr_intrinsic (push_load 8 6)]\<rparr>"
  have loads: "shader_push_loads ?nir = {push_load 8 6}"
    by (auto simp: shader_push_loads_def push_load_def sample_load_def)
  have bytes: "push_bytes (push_load 8 6) = {14..<22}"
    by (simp add: push_eval push_load_def sample_load_def)
  have five: "\<exists>b\<in>{14..<22}. b div 4 = (5::nat)" by (rule bexI [of _ 20]) simp_all
  have six: "\<not> (\<exists>b\<in>{14..<22}. b div 4 = (6::nat))" by auto
  show ?thesis
    using stage_push_use_exact [of ?nir 5] stage_push_use_exact [of ?nir 6] five six
    unfolding loads Let_def by (simp only: ball_simps bex_simps bytes) auto
qed

section \<open>Descriptor use\<close>

text \<open>The descriptors that an instruction names.\<close>

definition instr_descriptors :: "nir_instr \<Rightarrow> (u32 \<times> u32) list" where
  "instr_descriptors instr =
     (case instr of
        Instr_intrinsic x \<Rightarrow>
          (if nii_intrinsic x = nir_intrinsic_vulkan_resource_index then [(nii_desc_set x, nii_binding x)]
           else if is_image_deref (nii_intrinsic x) then (case nii_var x of None \<Rightarrow> [] | Some v \<Rightarrow> [v])
           else [])
      | Instr_tex srcs \<Rightarrow>
          concat (map (\<lambda>s. if tex_src_type s = nir_tex_src_other then []
                            else (case tex_var s of None \<Rightarrow> [] | Some v \<Rightarrow> [v])) srcs)
      | Instr_other \<Rightarrow> [])"

definition shader_descriptors :: "nir_shader \<Rightarrow> (u32 \<times> u32) list" where
  "shader_descriptors nir = concat (map instr_descriptors (nir_instrs nir))"

abbreviation record_all :: "(u32 \<times> u32) list \<Rightarrow> descriptor_masks \<Rightarrow> descriptor_masks" where
  "record_all \<equiv> fold (\<lambda>(s, b). record_descriptor_use s b)"

lemma tex_src_use_record:
  "tex_src_use s st = record_all (if tex_src_type s = nir_tex_src_other then []
                                  else (case tex_var s of None \<Rightarrow> [] | Some v \<Rightarrow> [v])) st"
  by (cases "tex_src_type s") (auto simp: tex_src_use_def record_variable_def split: option.splits)

lemma descriptor_use_instr_record: "descriptor_use_instr instr st = record_all (instr_descriptors instr) st"
proof (cases instr)
  case (Instr_tex srcs)
  have "fold tex_src_use srcs st = record_all (instr_descriptors (Instr_tex srcs)) st" for srcs st
    by (induction srcs arbitrary: st) (simp_all add: instr_descriptors_def tex_src_use_record)
  then show ?thesis using Instr_tex by (simp add: descriptor_use_instr_def)
qed (auto simp: descriptor_use_instr_def instr_descriptors_def record_variable_def split: option.splits)

lemma gather_static_record: "gather_static_descriptor_use nir st = record_all (shader_descriptors nir) st"
proof -
  have "fold descriptor_use_instr is st = record_all (concat (map instr_descriptors is)) st" for "is" st
    by (induction "is" arbitrary: st) (simp_all add: descriptor_use_instr_record)
  then show ?thesis by (simp add: gather_static_descriptor_use_def shader_descriptors_def)
qed

lemma record_descriptor_use_cases:
  "record_descriptor_use s b st =
     (if unat s < 4
      then (fst st OR push_bit (unat s) 1,
            if unat b < 64 then (snd st)[unat s := (snd st ! unat s) OR push_bit (unat b) 1] else snd st)
      else st)"
  by (simp add: record_descriptor_use_def word_less_nat_alt)

lemma record_length [simp]: "length (snd (record_descriptor_use s b st)) = length (snd st)"
  by (simp add: record_descriptor_use_cases)

lemma record_set_bit:
  "bit (fst (record_descriptor_use s b st)) i \<longleftrightarrow> bit (fst st) i \<or> (i < 4 \<and> i = unat s)"
  by (auto simp: record_descriptor_use_cases bit_or_iff bit_push_bit_iff bit_exp_iff)

lemma record_binding_bit:
  "i < 4 \<Longrightarrow> length (snd st) = 4 \<Longrightarrow> bit (snd (record_descriptor_use s b st) ! i) j \<longleftrightarrow>
     bit (snd st ! i) j \<or> (j < 64 \<and> i = unat s \<and> j = unat b)"
  by (auto simp: record_descriptor_use_cases bit_or_iff bit_push_bit_iff bit_exp_iff nth_list_update)

lemma record_all_length [simp]: "length (snd (record_all ds st)) = length (snd st)"
proof (induction ds arbitrary: st)
  case (Cons d ds)
  then show ?case by (cases d) simp
qed simp

lemma record_all_set_bit:
  "bit (fst (record_all ds st)) i \<longleftrightarrow> bit (fst st) i \<or> (i < 4 \<and> (\<exists>s b. (s, b) \<in> set ds \<and> unat s = i))"
proof (induction ds arbitrary: st)
  case (Cons d ds)
  obtain s b where d: "d = (s, b)" by (cases d)
  show ?case using Cons.IH [of "record_descriptor_use s b st"] d by (simp add: record_set_bit) blast
qed simp

lemma record_all_binding_bit:
  assumes "i < 4" "length (snd st) = 4"
  shows "bit (snd (record_all ds st) ! i) j \<longleftrightarrow>
           bit (snd st ! i) j \<or> (j < 64 \<and> (\<exists>s b. (s, b) \<in> set ds \<and> unat s = i \<and> unat b = j))"
  using assms(2)
proof (induction ds arbitrary: st)
  case (Cons d ds)
  obtain s b where d: "d = (s, b)" by (cases d)
  show ?case
    using Cons.IH [of "record_descriptor_use s b st"] Cons.prems d assms(1)
    by (simp add: record_binding_bit) blast
qed simp

text \<open>The descriptor masks of a stage name exactly the descriptors its instructions name: the set
  mask has bit \<open>i\<close> when some descriptor of set \<open>i\<close>, within the four sets of the interface, is used;
  the mask of set \<open>i\<close> has bit \<open>j\<close> when binding \<open>j\<close>, within the 64 the mask can hold, of that set is
  used. A use beyond those limits changes nothing it does not name.\<close>
theorem gather_static_descriptor_use_exact:
  "case gather_static_descriptor_use nir (0, replicate 4 0) of (sets, bindings) \<Rightarrow>
     length bindings = 4 \<and>
     (bit sets i \<longleftrightarrow> i < 4 \<and> (\<exists>s b. (s, b) \<in> set (shader_descriptors nir) \<and> unat s = i)) \<and>
     (i < 4 \<longrightarrow> (bit (bindings ! i) j \<longleftrightarrow>
        j < 64 \<and> (\<exists>s b. (s, b) \<in> set (shader_descriptors nir) \<and> unat s = i \<and> unat b = j)))"
proof -
  let ?st = "record_all (shader_descriptors nir) (0, replicate 4 0)"
  have "length (snd ?st) = 4" by simp
  moreover note record_all_set_bit [of "shader_descriptors nir" "(0, replicate 4 0)" i]
  moreover note record_all_binding_bit [of i "(0, replicate 4 0)" "shader_descriptors nir" j]
  ultimately show ?thesis
    unfolding gather_static_record by (cases ?st) simp
qed

theorem gather_static_descriptor_use_exact_witness:
  "let nir = zero_nir\<lparr>nir_instrs := [Instr_tex [\<lparr>tex_src_type = nir_tex_src_sampler_deref, tex_var = Some (2, 7)\<rparr>]]\<rparr>
   in 2 < (4::nat) \<and> bit (snd (gather_static_descriptor_use nir (0, replicate 4 0)) ! 2) 7"
  using gather_static_descriptor_use_exact [where i = 2 and j = 7 and nir = "zero_nir\<lparr>nir_instrs :=
          [Instr_tex [\<lparr>tex_src_type = nir_tex_src_sampler_deref, tex_var = Some (2, 7)\<rparr>]]\<rparr>"]
  by (simp only: Let_def case_prod_beta) (simp add: shader_descriptors_def instr_descriptors_def)

section \<open>Constant-buffer slots\<close>

text \<open>Lowering a Gallium constant-buffer load is exact and happens once. A load with a constant
  scalar slot below 32 comes to name binding 32 plus its slot of set 0, a binding within the
  64 of the interface, so two slots never share a binding; every other instruction is unchanged;
  and an instruction the pass has rewritten is not rewritten again.\<close>
theorem lower_gallium_ubo_index_spec:
  "lower_gallium_ubo_index x =
     (if nii_intrinsic x = nir_intrinsic_load_ubo \<and> (\<exists>slot < 32. nii_src0 x = Src_const slot)
      then (True, x\<lparr>nii_src0 := Src_resource 0 (32 + src_as_uint (nii_src0 x))\<rparr>)
      else (False, x)) \<and>
   lower_gallium_ubo_index (snd (lower_gallium_ubo_index x)) = (False, snd (lower_gallium_ubo_index x))"
  by (cases "nii_src0 x")
    (auto simp: lower_gallium_ubo_index_def src_is_const_def src_as_uint_def src_num_components_def
                PSBC_GALLIUM_UBO_BINDING_BASE_def)

theorem lower_gallium_ubo_index_spec_witness:
  "lower_gallium_ubo_index ((sample_load nir_intrinsic_load_ubo 0 0)\<lparr>nii_src0 := Src_const 5\<rparr>) =
     (True, (sample_load nir_intrinsic_load_ubo 0 0)\<lparr>nii_src0 := Src_resource 0 37\<rparr>)"
  using lower_gallium_ubo_index_spec [of "(sample_load nir_intrinsic_load_ubo 0 0)\<lparr>nii_src0 := Src_const 5\<rparr>"]
  by (simp add: sample_load_def src_as_uint_def)

section \<open>Subgroup built-ins\<close>

lemma mixed_radix: "(x :: nat) < a \<Longrightarrow> r < n \<Longrightarrow> x + a * r < a * n"
proof -
  assume "x < a" "r < n"
  then have "x + a * r < a * Suc r" by simp
  also have "\<dots> \<le> a * n" using \<open>r < n\<close> by (intro mult_le_mono2) simp
  finally show ?thesis .
qed

lemma mixed_radix_inj: "(x :: nat) < a \<Longrightarrow> y < a \<Longrightarrow> x + a * r = y + a * s \<Longrightarrow> x = y \<and> r = s"
  by (metis add.commute mod_less mod_mult_self2 add_left_cancel div_mult_self1_is_m mult.commute
      less_nat_zero_code mult_cancel1)

definition linear_index :: "(nat \<Rightarrow> u32) \<Rightarrow> (nat \<Rightarrow> u32) \<Rightarrow> nat" where
  "linear_index lid dim = unat (lid 0) + unat (dim 0) * (unat (lid 1) + unat (dim 1) * unat (lid 2))"

definition invocation_count :: "(nat \<Rightarrow> u32) \<Rightarrow> nat" where
  "invocation_count dim = unat (dim 0) * (unat (dim 1) * unat (dim 2))"

definition in_workgroup :: "(nat \<Rightarrow> u32) \<Rightarrow> (nat \<Rightarrow> u32) \<Rightarrow> bool" where
  "in_workgroup lid dim \<longleftrightarrow> lid 0 < dim 0 \<and> lid 1 < dim 1 \<and> lid 2 < dim 2"

lemma linear_index_less: "in_workgroup lid dim \<Longrightarrow> linear_index lid dim < invocation_count dim"
  unfolding in_workgroup_def linear_index_def invocation_count_def word_less_nat_alt
  by (intro mixed_radix) simp_all

lemma linear_index_inj:
  assumes "in_workgroup lid dim" "in_workgroup lid' dim" "linear_index lid dim = linear_index lid' dim"
  shows "lid 0 = lid' 0 \<and> lid 1 = lid' 1 \<and> lid 2 = lid' 2"
proof -
  note less = assms(1,2) [unfolded in_workgroup_def word_less_nat_alt]
  have 0: "unat (lid 0) = unat (lid' 0) \<and>
           unat (lid 1) + unat (dim 1) * unat (lid 2) = unat (lid' 1) + unat (dim 1) * unat (lid' 2)"
    by (rule mixed_radix_inj) (use less assms(3) in \<open>auto simp: linear_index_def\<close>)
  have "unat (lid 1) = unat (lid' 1) \<and> unat (lid 2) = unat (lid' 2)"
    by (rule mixed_radix_inj [where a = "unat (dim 1)"]) (use less 0 in auto)
  then show ?thesis using 0 by (simp add: word_unat_eq_iff)
qed

lemma eval_invocations:
  assumes "invocation_count (\<lambda>c. eval_def lid wgs (workgroup_dim info c)) < 2 ^ 32"
    and "dim = (\<lambda>c. eval_def lid wgs (workgroup_dim info c))"
    and "0 < dim 0"
  shows "unat (eval_def lid wgs (workgroup_invocations info)) = invocation_count dim"
proof -
  have "eval_def lid wgs (workgroup_invocations info) = dim 0 * (dim 1 * dim 2)"
    unfolding assms(2) by (simp add: workgroup_invocations_def workgroup_dim_def mult.assoc)
  moreover have small: "unat (dim 0) * (unat (dim 1) * unat (dim 2)) < 2 ^ 32"
    using assms(1) unfolding assms(2) invocation_count_def .
  moreover have "unat (dim 1) * unat (dim 2) < 2 ^ 32"
    by (rule factor_less [OF _ small]) (use assms(3) in \<open>simp add: word_less_nat_alt\<close>)
  ultimately show ?thesis
    unfolding invocation_count_def
    using unat_mult_small [of "dim 1" "dim 2"] unat_mult_small [of "dim 0" "dim 1 * dim 2"] by simp
qed

lemma eval_local_index:
  assumes dim: "dim = (\<lambda>c. eval_def lid wgs (workgroup_dim info c))"
    and lid: "in_workgroup lid dim" and small: "invocation_count dim < 2 ^ 32"
  shows "unat (eval_def lid wgs (local_index_def info)) = linear_index lid dim"
proof -
  have ev: "eval_def lid wgs (local_index_def info) = lid 0 + dim 0 * (lid 1 + dim 1 * lid 2)"
    unfolding dim by (simp add: local_index_def_def)
  note less = linear_index_less [OF lid, unfolded linear_index_def]
  have d0: "1 \<le> unat (dim 0)" and d1: "1 \<le> unat (dim 1)"
    using lid by (auto simp: in_workgroup_def word_less_nat_alt)
  have b2: "unat (dim 0) * (unat (lid 1) + unat (dim 1) * unat (lid 2)) < 2 ^ 32"
    using less small by simp
  have b1: "unat (lid 1) + unat (dim 1) * unat (lid 2) < 2 ^ 32"
    by (rule factor_less [OF _ b2]) (use d0 in simp)
  then have b0: "unat (dim 1) * unat (lid 2) < 2 ^ 32" by simp
  have "unat (dim 1 * lid 2) = unat (dim 1) * unat (lid 2)" using b0 by (simp add: unat_mult_small)
  moreover from this have "unat (lid 1 + dim 1 * lid 2) = unat (lid 1) + unat (dim 1) * unat (lid 2)"
    using b1 by (simp add: unat_add_small)
  moreover from this have "unat (dim 0 * (lid 1 + dim 1 * lid 2)) =
        unat (dim 0) * (unat (lid 1) + unat (dim 1) * unat (lid 2))"
    using b2 unat_mult_small [of "dim 0" "lid 1 + dim 1 * lid 2"] by simp
  ultimately show ?thesis
    unfolding ev linear_index_def using less small
    by (subst unat_add_small) simp_all
qed


text \<open>C33. The values that replace the subgroup built-ins of a PS5 compute shader. For a wave of 32 or
  64 lanes and a workgroup whose rounded-up invocation count fits 32 bits, the local invocation
  index is the linear index of the invocation's coordinates, below the invocation count and different
  for different invocations; the subgroup id is that index divided by the wave size; the number of
  subgroups is the invocation count divided by the wave size, rounded up; and every subgroup id is
  below it.\<close>
theorem subgroup_builtins_lowered:
  assumes wave: "wave = 32 \<or> wave = 64"
    and dim: "dim = (\<lambda>c. eval_def lid wgs (workgroup_dim info c))"
    and lid: "in_workgroup lid dim"
    and small: "invocation_count dim + unat wave \<le> 2 ^ 32"
  shows "\<exists>index sub num.
     lower_ps5_compute_subgroup_id wave info nir_intrinsic_load_local_invocation_index = Some index \<and>
     lower_ps5_compute_subgroup_id wave info nir_intrinsic_load_subgroup_id = Some sub \<and>
     lower_ps5_compute_subgroup_id wave info nir_intrinsic_load_num_subgroups = Some num \<and>
     unat (eval_def lid wgs index) = linear_index lid dim \<and>
     linear_index lid dim < invocation_count dim \<and>
     (\<forall>lid'. in_workgroup lid' dim \<and> linear_index lid' dim = linear_index lid dim \<longrightarrow>
             lid' 0 = lid 0 \<and> lid' 1 = lid 1 \<and> lid' 2 = lid 2) \<and>
     unat (eval_def lid wgs sub) = linear_index lid dim div unat wave \<and>
     unat (eval_def lid wgs num) = (invocation_count dim + unat wave - 1) div unat wave \<and>
     eval_def lid wgs sub < eval_def lid wgs num"
proof -
  let ?n = "invocation_count dim" and ?w = "unat wave"
  have w: "0 < ?w" "unat (wave - 1) = ?w - 1" using wave by auto
  have n: "?n < 2 ^ 32" using small w by linarith
  have d0: "0 < dim 0" using lid by (auto simp: in_workgroup_def word_neq_0_conv [symmetric])
  have inv: "unat (eval_def lid wgs (workgroup_invocations info)) = ?n"
    by (rule eval_invocations [OF _ dim d0]) (use n dim in simp)
  have idx: "unat (eval_def lid wgs (local_index_def info)) = linear_index lid dim"
    by (rule eval_local_index [OF dim lid n])
  have less: "linear_index lid dim < ?n" by (rule linear_index_less [OF lid])
  have num: "unat (eval_def lid wgs (workgroup_invocations info) + (wave - 1)) = ?n + ?w - 1"
    using unat_add_small [of "eval_def lid wgs (workgroup_invocations info)" "wave - 1"] inv w small
    by simp
  have "linear_index lid dim div ?w < (?n + ?w - 1) div ?w"
  proof -
    have "linear_index lid dim div ?w < (linear_index lid dim + ?w) div ?w"
      using w(1) by (subst div_add_self2) linarith+
    also have "\<dots> \<le> (?n + ?w - 1) div ?w" using less by (intro div_le_mono) simp
    finally show ?thesis .
  qed
  then have lt: "eval_def lid wgs (local_index_def info) div wave <
            (eval_def lid wgs (workgroup_invocations info) + (wave - 1)) div wave"
    by (simp add: word_less_nat_alt unat_div idx num)
  have inj: "\<forall>lid'. in_workgroup lid' dim \<and> linear_index lid' dim = linear_index lid dim \<longrightarrow>
             lid' 0 = lid 0 \<and> lid' 1 = lid 1 \<and> lid' 2 = lid 2"
    using linear_index_inj [OF _ lid] by blast
  let ?lower = "lower_ps5_compute_subgroup_id wave info"
  have low: "?lower nir_intrinsic_load_local_invocation_index = Some (local_index_def info)"
    "?lower nir_intrinsic_load_subgroup_id = Some (Udiv_imm (local_index_def info) wave)"
    "?lower nir_intrinsic_load_num_subgroups =
       Some (Udiv_imm (Iadd (workgroup_invocations info) (Imm (wave - 1))) wave)"
    using wave by (simp_all add: lower_ps5_compute_subgroup_id_def)
  show ?thesis
    by (intro exI conjI, rule low(1), rule low(2), rule low(3), rule idx, rule less, rule inj)
      (simp_all only: eval_def.simps unat_div idx num lt)
qed

theorem subgroup_builtins_lowered_witness:
  "let info = zero_shader_info\<lparr>si_workgroup_size := [8, 8, 2]\<rparr>;
       lid = (\<lambda>c. [3, 5, 1] ! c)
   in \<exists>sub. lower_ps5_compute_subgroup_id 32 info nir_intrinsic_load_subgroup_id = Some sub \<and>
            unat (eval_def lid (\<lambda>_. 0) sub) = 3"
proof -
  let ?info = "zero_shader_info\<lparr>si_workgroup_size := [8, 8, 2]\<rparr>" and ?lid = "\<lambda>c. [3, 5, 1] ! c :: u32"
  define dim where "dim = (\<lambda>c. eval_def ?lid (\<lambda>_. 0) (workgroup_dim ?info c))"
  have d: "dim 0 = 8" "dim 1 = 8" "dim 2 = 2"
    by (simp_all add: dim_def workgroup_dim_def zero_shader_info_def)
  have hyps: "in_workgroup ?lid dim" "invocation_count dim + unat (32 :: u32) \<le> 2 ^ 32"
    and idx: "linear_index ?lid dim = 107"
    by (simp_all add: in_workgroup_def invocation_count_def linear_index_def d d(2) [simplified])
  show ?thesis
    using subgroup_builtins_lowered [OF disjI1 [OF refl] dim_def hyps] idx by (auto simp: Let_def)
qed

section \<open>Distances\<close>

text \<open>What linking does to one instruction: a load of a clip distance is kept, a load of cull distance
  \<open>c\<close> reads scalar \<open>prefix + c\<close>.\<close>

definition distance_linked :: "nat \<Rightarrow> nat \<Rightarrow> nir_instr \<Rightarrow> nir_instr \<Rightarrow> bool" where
  "distance_linked old_clip prefix i i' \<longleftrightarrow>
     (case i of
        Instr_intrinsic x \<Rightarrow>
          (if is_distance_load x
           then (\<exists>x'. i' = Instr_intrinsic x' \<and> is_distance_load x' \<and> nii_intrinsic x' = nii_intrinsic x \<and>
                   distance_component x' < 8 \<and>
                   distance_component x' =
                     (if distance_component x < old_clip then distance_component x
                      else prefix + (distance_component x - old_clip)))
           else i' = i)
      | _ \<Rightarrow> i' = i)"

lemma distance_linked_other [simp]:
  "distance_linked old_clip prefix (Instr_tex srcs) (Instr_tex srcs)"
  "distance_linked old_clip prefix Instr_other Instr_other"
  by (simp_all add: distance_linked_def)

lemma link_distance_instr_linked:
  assumes "link_distance_instr old_clip cull prefix x = Some x'" "old_clip \<le> prefix" "prefix + cull \<le> 8"
  shows "distance_linked old_clip prefix (Instr_intrinsic x) (Instr_intrinsic x')"
proof (cases "is_distance_load x \<and> \<not> distance_component x < old_clip")
  case True
  let ?c = "distance_component x + (prefix - old_clip)"
  have ok: "distance_component x - old_clip < cull"
    and x': "x' = x\<lparr>nii_io := \<lparr>io_location = 17 + ?c div 4, io_num_slots = 1\<rparr>,
                   nii_component := ?c mod 4, nii_offset := Some (Src_const 0)\<rparr>"
    using assms(1) True by (auto simp: link_distance_instr_def Let_def split: if_splits)
  have c: "?c < 8" "?c = prefix + (distance_component x - old_clip)" using ok assms(2,3) True by linarith+
  have dc: "distance_component x' = ?c"
    unfolding x' by (simp add: distance_component_def [of "x\<lparr>nii_io := _, nii_component := _, nii_offset := _\<rparr>"] src_as_uint_def)
  have op: "nii_intrinsic x' = nii_intrinsic x" by (simp add: x')
  have "17 + ?c div 4 = 17 \<or> 17 + ?c div 4 = 18" using c(1) by linarith
  then have "is_distance_load x'"
    using True unfolding is_distance_load_def op by (simp add: x')
  then show ?thesis
    using True c unfolding distance_linked_def by (simp add: dc op)
next
  case False
  then have x': "x' = x" using assms(1)
    by (auto simp: link_distance_instr_def Let_def split: if_splits)
  have "distance_component x < 8" if "is_distance_load x" using that False assms(2,3) by linarith
  then show ?thesis using False unfolding x' distance_linked_def by simp
qed

lemma link_distance_instrs_linked:
  assumes "link_distance_instrs old_clip cull prefix is = Some is'" "old_clip \<le> prefix" "prefix + cull \<le> 8"
  shows "list_all2 (distance_linked old_clip prefix) is is'"
  using assms(1)
proof (induction "is" arbitrary: is')
  case (Cons i "is")
  show ?case
  proof (cases i)
    case (Instr_intrinsic x)
    then show ?thesis using Cons link_distance_instr_linked [OF _ assms(2,3)]
      by (auto split: option.splits)
  qed (use Cons in \<open>auto split: option.splits\<close>)
qed simp

text \<open>C34. Linking a pixel shader to the distances its producer exports. When the clip prefix of the
  producer differs from the shader's own and the shader reads cull distances, a successful link
  keeps every instruction in place and changes only distance loads: a load of a clip distance reads
  the scalar it read before, a load of cull distance \<open>c\<close> reads scalar \<open>prefix + c\<close>, and every load
  stays within the eight scalars of the two distance registers.\<close>
theorem link_fragment_distance_layout_moves_culls:
  assumes "link_fragment_distance_layout scalarize opts nir = Some nir'"
    and "opt_fragment_distance_layout_valid opts" "si_stage (nir_info nir) = MESA_SHADER_FRAGMENT"
    and "si_cull_distance_array_size (nir_info nir) \<noteq> 0"
    and "opt_fragment_clip_distance_count opts \<noteq> si_clip_distance_array_size (nir_info nir)"
  shows "nir_info nir' = nir_info nir \<and>
     list_all2 (distance_linked (unat (si_clip_distance_array_size (nir_info nir)))
                                (unat (opt_fragment_clip_distance_count opts)))
       (scalarize (nir_instrs nir)) (nir_instrs nir')"
proof -
  let ?old = "unat (si_clip_distance_array_size (nir_info nir))"
  let ?cull = "unat (si_cull_distance_array_size (nir_info nir))"
  let ?prefix = "unat (opt_fragment_clip_distance_count opts)"
  have "?cull \<noteq> 0" using assms(4) by (simp add: unat_eq_zero)
  moreover have "?prefix \<noteq> ?old" using assms(5) by (simp add: word_unat_eq_iff)
  ultimately have ne: "?cull \<noteq> 0" "?prefix \<noteq> ?old" by simp_all
  have eq: "link_fragment_distance_layout scalarize opts nir =
      (if ?prefix > 8 \<or> ?prefix < ?old \<or> ?cull > 8 - ?prefix then None
       else map_option (\<lambda>is. nir\<lparr>nir_instrs := is\<rparr>)
              (link_distance_instrs ?old ?cull ?prefix (scalarize (nir_instrs nir))))"
    using assms(2,3) ne by (simp only: link_fragment_distance_layout_def Let_def) simp
  then have "\<not> (?prefix > 8 \<or> ?prefix < ?old \<or> ?cull > 8 - ?prefix)"
    using assms(1) by (metis option.distinct(1))
  then have b: "?old \<le> ?prefix" "?prefix + ?cull \<le> 8" by linarith+
  obtain "is" where l: "link_distance_instrs ?old ?cull ?prefix (scalarize (nir_instrs nir)) = Some is"
    and nir': "nir' = nir\<lparr>nir_instrs := is\<rparr>"
    using assms(1) eq by (auto split: if_split_asm)
  show ?thesis using link_distance_instrs_linked [OF l b] nir' by simp
qed

theorem link_fragment_distance_layout_moves_culls_witness:
  "let nir = zero_nir\<lparr>nir_info := zero_shader_info\<lparr>si_stage := MESA_SHADER_FRAGMENT,
                             si_clip_distance_array_size := 1, si_cull_distance_array_size := 2\<rparr>,
                       nir_instrs := [Instr_intrinsic ((sample_load nir_intrinsic_load_input 17 0)
                         \<lparr>nii_component := 2, nii_num_components := 1, nii_offset := Some (Src_const 0)\<rparr>)]\<rparr>;
       opts = zero_options\<lparr>opt_fragment_distance_layout_valid := True, opt_fragment_clip_distance_count := 3\<rparr>
   in \<exists>nir' x'. link_fragment_distance_layout (\<lambda>is. is) opts nir = Some nir' \<and>
        nir_instrs nir' = [Instr_intrinsic x'] \<and> distance_component x' = 4"
proof -
  let ?x = "(sample_load nir_intrinsic_load_input 17 0)\<lparr>nii_component := 2, nii_num_components := 1, nii_offset := Some (Src_const 0)\<rparr>"
  let ?nir = "zero_nir\<lparr>nir_info := zero_shader_info\<lparr>si_stage := MESA_SHADER_FRAGMENT,
                 si_clip_distance_array_size := 1, si_cull_distance_array_size := 2\<rparr>,
                 nir_instrs := [Instr_intrinsic ?x]\<rparr>"
  let ?opts = "zero_options\<lparr>opt_fragment_distance_layout_valid := True, opt_fragment_clip_distance_count := 3\<rparr>"
  have x: "is_distance_load ?x" "distance_component ?x = 2" "distance_load_ok ?x"
    by (simp_all add: is_distance_load_def distance_component_def distance_load_ok_def sample_load_def
        src_as_uint_def src_is_const_def)
  obtain nir' where n: "link_fragment_distance_layout (\<lambda>is. is) ?opts ?nir = Some nir'"
    using x by (simp add: link_fragment_distance_layout_def link_distance_instr_def)
  have "list_all2 (distance_linked 1 3) [Instr_intrinsic ?x] (nir_instrs nir')"
    using link_fragment_distance_layout_moves_culls [OF n] by simp
  then obtain i' where "nir_instrs nir' = [i']" "distance_linked 1 3 (Instr_intrinsic ?x) i'"
    by (auto simp: list_all2_Cons1)
  then have "\<exists>x'. nir_instrs nir' = [Instr_intrinsic x'] \<and> distance_component x' = 4"
    using x(1,2) by (auto simp: distance_linked_def)
  then show ?thesis using n by (auto simp: Let_def)
qed

end
