(* ===== verification/Pipeline_Link.thy ===== *)
theory Pipeline_Link
  imports Compile_Setup Nir_Passes
begin

text \<open>
  The parts of \<^verbatim>\<open>psbc_compile_impl\<close> in \<^verbatim>\<open>src/libpsbc/psbc_compile.c\<close> that link the halves of a pipeline: the union of
  the tessellator configuration, the slots the halves share, the push constants and descriptors that a
  pair uses, and the corrections of the linked shader information.  The lemmas show that linked
  halves agree on the tessellator, that no use of a descriptor by either half is lost, and that the
  handling of an implicit primitive ID keeps the export numbering consistent.
\<close>

section \<open>Definitions\<close>

subsection \<open>Tessellator configuration\<close>

text \<open>The members are enumerations that the source combines with the bitwise or of their values.\<close>

primrec mode_value :: "tess_primitive_mode \<Rightarrow> nat" where
  "mode_value TESS_PRIMITIVE_UNSPECIFIED = 0" | "mode_value TESS_PRIMITIVE_TRIANGLES = 1"
| "mode_value TESS_PRIMITIVE_QUADS = 2" | "mode_value TESS_PRIMITIVE_ISOLINES = 3"

definition mode_of :: "nat \<Rightarrow> tess_primitive_mode" where
  "mode_of n = (if n = 1 then TESS_PRIMITIVE_TRIANGLES else if n = 2 then TESS_PRIMITIVE_QUADS
                else if n = 3 then TESS_PRIMITIVE_ISOLINES else TESS_PRIMITIVE_UNSPECIFIED)"

primrec spacing_value :: "gl_tess_spacing \<Rightarrow> nat" where
  "spacing_value TESS_SPACING_UNSPECIFIED = 0" | "spacing_value TESS_SPACING_EQUAL = 1"
| "spacing_value TESS_SPACING_FRACTIONAL_ODD = 2" | "spacing_value TESS_SPACING_FRACTIONAL_EVEN = 3"

definition spacing_of :: "nat \<Rightarrow> gl_tess_spacing" where
  "spacing_of n = (if n = 1 then TESS_SPACING_EQUAL else if n = 2 then TESS_SPACING_FRACTIONAL_ODD
                   else if n = 3 then TESS_SPACING_FRACTIONAL_EVEN else TESS_SPACING_UNSPECIFIED)"

definition or_tess_info :: "nir_tess_info \<Rightarrow> nir_tess_info \<Rightarrow> nir_tess_info" where
  "or_tess_info dst src =
     dst\<lparr>ti_tcs_vertices_out := ti_tcs_vertices_out dst OR ti_tcs_vertices_out src,
         ti_spacing := spacing_of (spacing_value (ti_spacing dst) OR spacing_value (ti_spacing src)),
         ti_primitive_mode := mode_of (mode_value (ti_primitive_mode dst) OR mode_value (ti_primitive_mode src)),
         ti_ccw := ti_ccw dst \<or> ti_ccw src, ti_point_mode := ti_point_mode dst \<or> ti_point_mode src\<rparr>"

definition copy_tess_info :: "nir_tess_info \<Rightarrow> nir_tess_info \<Rightarrow> nir_tess_info" where
  "copy_tess_info dst src =
     dst\<lparr>ti_tcs_vertices_out := ti_tcs_vertices_out src, ti_primitive_mode := ti_primitive_mode src,
         ti_spacing := ti_spacing src, ti_ccw := ti_ccw src, ti_point_mode := ti_point_mode src\<rparr>"

definition tess_of :: "nir_shader \<Rightarrow> nir_tess_info" where
  "tess_of nir = si_tess (nir_info nir)"

definition set_tess :: "nir_tess_info \<Rightarrow> nir_shader \<Rightarrow> nir_shader" where
  "set_tess t nir = nir\<lparr>nir_info := (nir_info nir)\<lparr>si_tess := t\<rparr>\<rparr>"

text \<open>The outputs of a control half that the evaluation half reads.\<close>

definition keep_outputs_read :: "u64 \<Rightarrow> u32 \<Rightarrow> nir_shader \<Rightarrow> nir_shader" where
  "keep_outputs_read inputs patch_inputs nir =
     (let t = tess_of nir in
      set_tess (t\<lparr>ti_tcs_outputs_read_by_tes := ti_tcs_outputs_read_by_tes t AND inputs,
                  ti_tcs_patch_outputs_read_by_tes := ti_tcs_patch_outputs_read_by_tes t AND patch_inputs\<rparr>) nir)"

definition tess_levels :: u64 where
  "tess_levels = BITFIELD64_BIT VARYING_SLOT_TESS_LEVEL_OUTER OR BITFIELD64_BIT VARYING_SLOT_TESS_LEVEL_INNER"

text \<open>What a hull pair learns from the evaluation half that is linked, but not compiled.\<close>

record next_link_facts =
  nl_reads_tess_factors :: bool
  nl_inputs_read :: u64
  nl_patch_inputs_read :: u32
  nl_primitive_mode :: tess_primitive_mode

definition link_next :: "nir_shader \<Rightarrow> nir_shader \<Rightarrow> nir_shader \<times> next_link_facts" where
  "link_next nir next_link_nir =
     (let nir' = set_tess (or_tess_info (tess_of nir) (tess_of next_link_nir)) nir;
          info = nir_info next_link_nir
      in (nir', \<lparr>nl_reads_tess_factors = (si_inputs_read info AND tess_levels \<noteq> 0),
                 nl_inputs_read = si_inputs_read info, nl_patch_inputs_read = si_patch_inputs_read info,
                 nl_primitive_mode = ti_primitive_mode (tess_of nir')\<rparr>))"

text \<open>The evaluation half and the control half of a domain pair.\<close>

definition link_domain :: "nir_shader \<Rightarrow> nir_shader \<Rightarrow> nir_shader \<times> nir_shader" where
  "link_domain nir previous_nir =
     (let nir' = set_tess (or_tess_info (tess_of nir) (tess_of previous_nir)) nir
      in (nir', set_tess (copy_tess_info (tess_of previous_nir) (tess_of nir')) previous_nir))"

text \<open>The evaluation half of a merged geometry program and its control half, which is linked only.\<close>

definition link_control :: "nir_shader \<Rightarrow> nir_shader \<Rightarrow> nir_shader \<times> nir_shader" where
  "link_control previous_nir control_nir =
     (let previous' = set_tess (or_tess_info (tess_of previous_nir) (tess_of control_nir)) previous_nir;
          control' = set_tess (copy_tess_info (tess_of control_nir) (tess_of previous')) control_nir
      in (previous', keep_outputs_read (si_inputs_read (nir_info previous'))
                       (si_patch_inputs_read (nir_info previous')) control'))"

subsection \<open>Linked slots\<close>

definition evaluation_slots :: "nir_shader \<Rightarrow> radv_shader_info \<Rightarrow> radv_shader_info" where
  "evaluation_slots nir info =
     info\<lparr>ri_tes := (ri_tes info)
            \<lparr>te_num_linked_inputs := of_nat (util_bitcount (si_inputs_read (nir_info nir) AND NOT tess_levels)),
             te_num_linked_patch_inputs :=
               of_nat (util_bitcount (si_inputs_read (nir_info nir) AND tess_levels) +
                       util_bitcount (si_patch_inputs_read (nir_info nir)))\<rparr>,
          ri_inputs_linked := True\<rparr>"

text \<open>The interface of the two halves of a merged geometry program: the information of the geometry
  half and of the half before it.\<close>

definition geometry_slots ::
  "bool \<Rightarrow> nir_shader \<Rightarrow> nir_shader \<Rightarrow> radv_shader_info \<times> radv_shader_info \<Rightarrow> radv_shader_info \<times> radv_shader_info" where
  "geometry_slots tess nir previous_nir infos =
     (let linked_slots = of_nat (util_bitcount (si_inputs_read (nir_info nir)));
          previous = (if tess
             then (let p = evaluation_slots previous_nir (snd infos)
                   in p\<lparr>ri_tes := (ri_tes p)\<lparr>te_num_linked_outputs := linked_slots\<rparr>\<rparr>)
             else (snd infos)\<lparr>ri_vs := (ri_vs (snd infos))\<lparr>vs_num_linked_outputs := linked_slots\<rparr>\<rparr>)
      in ((fst infos)\<lparr>ri_gs := (ri_gs (fst infos))\<lparr>gs_num_linked_inputs := linked_slots\<rparr>, ri_inputs_linked := True\<rparr>,
          previous\<lparr>ri_outputs_linked := True\<rparr>))"

subsection \<open>Push constants and descriptors of a pair\<close>

text \<open>The flag and the masks of both halves; the second shader is present in a merged program.\<close>

definition pair_push_use :: "nir_shader \<Rightarrow> nir_shader option \<Rightarrow> bool \<times> u64 \<times> u64" where
  "pair_push_use nir previous =
     (let (valid, stage_push) = stage_push_use nir;
          (previous_valid, previous_push) = (case previous of None \<Rightarrow> (True, 0) | Some p \<Rightarrow> stage_push_use p)
      in if valid \<and> previous_valid then (True, stage_push, previous_push) else (False, 0, 0))"

text \<open>Without static use, every declared set counts as used.\<close>

definition declared_sets :: "PsbcCompileOptions \<Rightarrow> u32" where
  "declared_sets opts =
     fold (\<lambda>b m. m OR push_bit (unat (db_set b)) 1)
       (take (unat (opt_descriptor_binding_count opts)) (opt_descriptor_bindings opts)) 0"

text \<open>The sets that the shader information of a half reports and the walk found no binding of.\<close>

definition unknown_of :: "u32 \<Rightarrow> u64 list \<Rightarrow> u32" where
  "unknown_of used bindings =
     fold (\<lambda>s m. if bindings ! s \<noteq> 0 then m AND NOT (push_bit s 1) else m) [0..<PSBC_MAX_DESCRIPTOR_SETS] used"

definition fall_back :: "u32 \<Rightarrow> PsbcDescriptorBinding \<Rightarrow> u64 list \<Rightarrow> u64 list" where
  "fall_back unknown_sets declared masks =
     (if unat (db_set declared) \<ge> PSBC_MAX_DESCRIPTOR_SETS \<or> unat (db_binding declared) \<ge> 64 \<or>
         unknown_sets AND push_bit (unat (db_set declared)) 1 = 0 then masks
      else masks[unat (db_set declared) :=
             masks ! unat (db_set declared) OR push_bit (unat (db_binding declared)) 1])"

text \<open>The masks of a static compilation.  Each half comes with the sets its information reports.\<close>

definition static_bindings ::
  "PsbcCompileOptions \<Rightarrow> u32 \<times> nir_shader \<Rightarrow> (u32 \<times> nir_shader) option \<Rightarrow> u64 list" where
  "static_bindings opts half previous =
     (let own = snd (gather_static_descriptor_use (snd half) (0, replicate PSBC_MAX_DESCRIPTOR_SETS 0));
          unknown = unknown_of (fst half) own;
          (unknown, masks) =
            (case previous of
               None \<Rightarrow> (unknown, own)
             | Some (used, p) \<Rightarrow>
                 (let theirs = snd (gather_static_descriptor_use p (0, replicate PSBC_MAX_DESCRIPTOR_SETS 0))
                  in (unknown OR unknown_of used theirs, map2 (OR) own theirs)))
      in fold (fall_back unknown)
           (take (unat (opt_descriptor_binding_count opts)) (opt_descriptor_bindings opts)) masks)"

text \<open>The descriptor sets in the information of a half, and the masks of the program.\<close>

definition use_declared_sets :: "PsbcCompileOptions \<Rightarrow> radv_shader_info \<Rightarrow> radv_shader_info" where
  "use_declared_sets opts info =
     (if opt_descriptor_binding_count opts \<noteq> 0 \<and> \<not> opt_static_descriptor_use opts
      then info\<lparr>ri_desc_set_used_mask := ri_desc_set_used_mask info OR declared_sets opts\<rparr> else info)"

definition used_binding_masks ::
  "PsbcCompileOptions \<Rightarrow> u32 \<times> nir_shader \<Rightarrow> (u32 \<times> nir_shader) option \<Rightarrow> u64 list" where
  "used_binding_masks opts half previous =
     (if opt_descriptor_binding_count opts \<noteq> 0 \<and> opt_static_descriptor_use opts
      then static_bindings opts half previous else replicate PSBC_MAX_DESCRIPTOR_SETS 0)"

definition force_indirect :: "PsbcCompileOptions \<Rightarrow> radv_shader_info \<Rightarrow> radv_shader_info" where
  "force_indirect opts info =
     (if opt_force_indirect_push_constants opts \<and> ri_loads_push_constants info
      then info\<lparr>ri_can_inline_all_push_constants := False, ri_inline_push_constant_mask := 0\<rparr> else info)"

subsection \<open>Corrections after the link\<close>

definition apply_next_link :: "next_link_facts option \<Rightarrow> radv_shader_info \<Rightarrow> radv_shader_info" where
  "apply_next_link facts info =
     (case facts of
        None \<Rightarrow> info
      | Some f \<Rightarrow>
          info\<lparr>ri_tcs := (ri_tcs info)\<lparr>tc_tes_reads_tess_factors := nl_reads_tess_factors f,
                   tc_tes_inputs_read := nl_inputs_read f,
                   tc_tes_patch_inputs_read := ucast (nl_patch_inputs_read f)\<rparr>,
               ri_tes := (ri_tes info)\<lparr>te_primitive_mode := nl_primitive_mode f\<rparr>,
               ri_outputs_linked := True\<rparr>)"

abbreviation (input) AC_EXP_PARAM_UNDEFINED :: u8 where
  "AC_EXP_PARAM_UNDEFINED \<equiv> 255"

text \<open>A primitive ID that the stand-alone link added on its own: the single per-primitive parameter,
  right behind the parameters.\<close>

definition implicit_primitive_id :: "mesa_shader_stage \<Rightarrow> nir_shader \<Rightarrow> radv_vs_output_info \<Rightarrow> bool" where
  "implicit_primitive_id mesa_stage nir out \<longleftrightarrow>
     mesa_stage = MESA_SHADER_VERTEX \<and>
     si_outputs_written (nir_info nir) AND BITFIELD64_BIT VARYING_SLOT_PRIMITIVE_ID = 0 \<and>
     oi_export_prim_id_per_primitive out \<and> oi_prim_param_exports out = 1 \<and>
     oi_vs_output_param_offset out ! VARYING_SLOT_PRIMITIVE_ID = oi_param_exports out"

definition adjust_primitive_id ::
  "PsbcCompileOptions \<Rightarrow> mesa_shader_stage \<Rightarrow> nir_shader \<Rightarrow> radv_shader_info \<Rightarrow> radv_shader_info" where
  "adjust_primitive_id opts mesa_stage nir info =
     (let out = ri_outinfo info in
      if \<not> implicit_primitive_id mesa_stage nir out then info
      else if opt_omit_implicit_primitive_id opts
      then info\<lparr>ri_outinfo := out\<lparr>oi_export_prim_id_per_primitive := False, oi_prim_param_exports := 0,
             oi_vs_output_param_offset :=
               (oi_vs_output_param_offset out)[VARYING_SLOT_PRIMITIVE_ID := AC_EXP_PARAM_UNDEFINED]\<rparr>\<rparr>
      else if opt_target opts = PSBC_TARGET_PS5
      then info\<lparr>ri_outinfo := out\<lparr>oi_export_prim_id_per_primitive := False, oi_prim_param_exports := 0,
             oi_export_prim_id := True, oi_param_exports := oi_param_exports out + 1\<rparr>,
             ri_is_ngg_passthrough := False\<rparr>
      else info)"

definition after_link ::
  "PsbcCompileOptions \<Rightarrow> mesa_shader_stage \<Rightarrow> nir_shader \<Rightarrow> next_link_facts option \<Rightarrow>
   radv_shader_info \<Rightarrow> radv_shader_info" where
  "after_link opts mesa_stage nir facts info =
     adjust_primitive_id opts mesa_stage nir
       (apply_next_link facts
         (if opt_ngg_no_passthrough opts then info\<lparr>ri_is_ngg_passthrough := False\<rparr> else info))"

section \<open>Tessellator configuration\<close>

definition tess_config :: "nir_tess_info \<Rightarrow> u8 \<times> gl_tess_spacing \<times> tess_primitive_mode \<times> bool \<times> bool" where
  "tess_config t = (ti_tcs_vertices_out t, ti_spacing t, ti_primitive_mode t, ti_ccw t, ti_point_mode t)"

text \<open>What Vulkan asks of two tessellation stages: where both declare something, they agree.\<close>

definition tess_compatible :: "nir_tess_info \<Rightarrow> nir_tess_info \<Rightarrow> bool" where
  "tess_compatible a b \<longleftrightarrow>
     (ti_tcs_vertices_out a = 0 \<or> ti_tcs_vertices_out b = 0 \<or> ti_tcs_vertices_out a = ti_tcs_vertices_out b) \<and>
     (ti_spacing a = TESS_SPACING_UNSPECIFIED \<or> ti_spacing b = TESS_SPACING_UNSPECIFIED \<or> ti_spacing a = ti_spacing b) \<and>
     (ti_primitive_mode a = TESS_PRIMITIVE_UNSPECIFIED \<or> ti_primitive_mode b = TESS_PRIMITIVE_UNSPECIFIED \<or>
      ti_primitive_mode a = ti_primitive_mode b)"

definition declared_by :: "nir_tess_info \<Rightarrow> nir_tess_info \<Rightarrow> u8 \<times> gl_tess_spacing \<times> tess_primitive_mode \<times> bool \<times> bool" where
  "declared_by a b =
     (if ti_tcs_vertices_out a = 0 then ti_tcs_vertices_out b else ti_tcs_vertices_out a,
      if ti_spacing a = TESS_SPACING_UNSPECIFIED then ti_spacing b else ti_spacing a,
      if ti_primitive_mode a = TESS_PRIMITIVE_UNSPECIFIED then ti_primitive_mode b else ti_primitive_mode a,
      ti_ccw a \<or> ti_ccw b, ti_point_mode a \<or> ti_point_mode b)"

lemma tess_of_set_tess [simp]: "tess_of (set_tess t nir) = t"
  by (simp add: tess_of_def set_tess_def)

lemma mode_of_or [simp]:
  "mode_of (mode_value m) = m" "mode_of (mode_value m OR 0) = m" "mode_of (mode_value m OR mode_value m) = m"
  by (cases m; simp add: mode_of_def)+

lemma spacing_of_or [simp]:
  "spacing_of (spacing_value s) = s" "spacing_of (spacing_value s OR 0) = s"
  "spacing_of (spacing_value s OR spacing_value s) = s"
  by (cases s; simp add: spacing_of_def)+

lemma or_tess_config: "tess_compatible a b \<Longrightarrow> tess_config (or_tess_info a b) = declared_by a b"
  by (auto simp: tess_compatible_def tess_config_def or_tess_info_def declared_by_def)

lemma copy_tess_config [simp]: "tess_config (copy_tess_info a b) = tess_config b"
  by (simp add: tess_config_def copy_tess_info_def)

lemma keep_outputs_config [simp]: "tess_config (tess_of (keep_outputs_read i p nir)) = tess_config (tess_of nir)"
  by (simp add: keep_outputs_read_def tess_config_def Let_def)

section \<open>Descriptors of a pair\<close>

text \<open>The bindings that the instructions of a shader name, within the range of the masks.\<close>

definition names_binding :: "nir_shader \<Rightarrow> nat \<Rightarrow> nat \<Rightarrow> bool" where
  "names_binding nir s k \<longleftrightarrow> k < 64 \<and> (\<exists>d\<in>set (shader_descriptors nir). unat (fst d) = s \<and> unat (snd d) = k)"

text \<open>RADV reports the set as used, but the walk named no binding of it.\<close>

definition opaque_use :: "u32 \<times> nir_shader \<Rightarrow> nat \<Rightarrow> bool" where
  "opaque_use half s \<longleftrightarrow> bit (fst half) s \<and> (\<forall>k. \<not> names_binding (snd half) s k)"

lemma gathered_masks:
  "length (snd (gather_static_descriptor_use nir (0, replicate 4 0))) = 4"
  "s < 4 \<Longrightarrow> bit (snd (gather_static_descriptor_use nir (0, replicate 4 0)) ! s) k \<longleftrightarrow> names_binding nir s k"
  unfolding gather_static_record
  by (simp_all add: record_all_binding_bit names_binding_def Bex_def)

lemma unknown_of_bit:
  "bit (unknown_of used bindings) s \<longleftrightarrow> bit used s \<and> (s < 4 \<longrightarrow> bindings ! s = 0)"
proof -
  have "bit (fold (\<lambda>s m. if bindings ! s \<noteq> 0 then m AND NOT (push_bit s 1) else m) xs used) s \<longleftrightarrow>
      bit used s \<and> (s \<in> set xs \<longrightarrow> bindings ! s = 0)" for xs
    by (induction xs arbitrary: used)
      (auto simp: bit_and_iff bit_not_iff bit_push_bit_iff bit_exp_iff dest: bit_imp_le_length)
  from this [of "[0..<4]"] show ?thesis by (simp add: unknown_of_def)
qed

lemma zero_iff_no_bit: "(w :: 'a::len word) = 0 \<longleftrightarrow> (\<forall>k. \<not> bit w k)"
  by (auto simp: bit_eq_iff [of w 0] dest: bit_imp_le_length)

lemma unknown_of_gathered:
  "s < 4 \<Longrightarrow> bit (unknown_of used (snd (gather_static_descriptor_use nir (0, replicate 4 0)))) s \<longleftrightarrow>
     opaque_use (used, nir) s"
  by (simp add: unknown_of_bit zero_iff_no_bit gathered_masks opaque_use_def)

lemma and_bit_zero_iff: "w AND 2 ^ n = 0 \<longleftrightarrow> \<not> bit (w :: u32) n"
proof -
  have "w AND 2 ^ n = (if bit w n then 2 ^ n else 0)"
    by (rule bit_word_eqI) (auto simp: bit_and_iff bit_exp_iff)
  moreover have "bit w n \<Longrightarrow> (2 :: u32) ^ n \<noteq> 0"
    using bit_imp_le_length [of w n] by (auto simp: zero_iff_no_bit bit_exp_iff)
  ultimately show ?thesis by auto
qed

lemma fall_back_bit:
  assumes "length masks = 4" "s < 4"
  shows "bit (fold (fall_back unknown) bs masks ! s) k \<longleftrightarrow>
     bit (masks ! s) k \<or>
     (bit unknown s \<and> k < 64 \<and> (\<exists>b\<in>set bs. unat (db_set b) = s \<and> unat (db_binding b) = k))"
  using assms(1)
proof (induction bs arbitrary: masks)
  case (Cons b bs)
  have "length (fall_back unknown b masks) = 4" using Cons.prems by (simp add: fall_back_def)
  moreover have "bit (fall_back unknown b masks ! s) k \<longleftrightarrow>
      bit (masks ! s) k \<or> (bit unknown s \<and> k < 64 \<and> unat (db_set b) = s \<and> unat (db_binding b) = k)"
    using Cons.prems assms(2)
    by (auto simp: fall_back_def and_bit_zero_iff nth_list_update bit_or_iff bit_push_bit_iff bit_exp_iff)
  ultimately show ?case using Cons.IH [of "fall_back unknown b masks"] by auto
qed simp

text \<open>C22. With static descriptor use, the masks of a program name exactly what its halves use. A binding is in
  the mask of its set when an instruction of either half names it, or when it is declared and one half
  uses the set, according to RADV, without naming any binding of it: what one half names never hides an
  unknown use in the other.\<close>
theorem static_bindings_exact:
  assumes "s < 4"
  shows "bit (static_bindings opts half previous ! s) k \<longleftrightarrow>
     (\<exists>h\<in>insert half (set_option previous). names_binding (snd h) s k) \<or>
     (k < 64 \<and> (\<exists>h\<in>insert half (set_option previous). opaque_use h s) \<and>
      (\<exists>b\<in>set (take (unat (opt_descriptor_binding_count opts)) (opt_descriptor_bindings opts)).
         unat (db_set b) = s \<and> unat (db_binding b) = k))"
proof (cases previous)
  case None
  obtain used nir where half: "half = (used, nir)" by fastforce
  show ?thesis
    unfolding None half using assms
    by (simp add: static_bindings_def fall_back_bit gathered_masks unknown_of_gathered Let_def) blast
next
  case (Some p)
  obtain used nir where half: "half = (used, nir)" by fastforce
  obtain used' nir' where p: "p = (used', nir')" by fastforce
  show ?thesis
    unfolding Some half p using assms
    by (simp add: static_bindings_def fall_back_bit gathered_masks unknown_of_gathered Let_def bit_or_iff)
      blast
qed

text \<open>A shader with a texture of set 2 and one that uses the set in a way the walk cannot see.\<close>

definition sample_tex_nir :: nir_shader where
  "sample_tex_nir = zero_nir\<lparr>nir_instrs :=
     [Instr_tex [\<lparr>tex_src_type = nir_tex_src_texture_deref, tex_var = Some (2, 7)\<rparr>]]\<rparr>"

definition sample_bindings :: PsbcCompileOptions where
  "sample_bindings = zero_options\<lparr>opt_descriptor_binding_count := 1,
     opt_descriptor_bindings := [zero_binding\<lparr>db_set := 2, db_binding := 3\<rparr>]\<rparr>"

theorem static_bindings_exact_witness:
  "let masks = static_bindings sample_bindings (4, sample_tex_nir) (Some (4, zero_nir)) in
     bit (masks ! 2) 7 \<and> bit (masks ! 2) 3 \<and> \<not> bit (masks ! 2) 5"
proof -
  have names: "names_binding sample_tex_nir 2 k \<longleftrightarrow> k = 7" "\<not> names_binding zero_nir 2 k" for k
    by (auto simp: names_binding_def sample_tex_nir_def shader_descriptors_def instr_descriptors_def zero_nir_def)
  then have "opaque_use (4, zero_nir) 2" "\<not> opaque_use (4, sample_tex_nir) 2"
    by (auto simp: opaque_use_def bit_numeral_rec)
  with names show ?thesis
    using static_bindings_exact [of 2 sample_bindings "(4, sample_tex_nir)" "Some (4, zero_nir)"]
    by (simp add: sample_bindings_def zero_options_def zero_binding_def)
qed

section \<open>Implicit primitive ID\<close>

text \<open>The parameters of a stage as the hardware counts them: a parameter is exported per vertex or, behind
  those, per primitive.\<close>

definition exports_numbered :: "radv_vs_output_info \<Rightarrow> bool" where
  "exports_numbered out \<longleftrightarrow>
     (oi_export_prim_id_per_primitive out \<longrightarrow>
        unat (oi_param_exports out) \<le> unat (oi_vs_output_param_offset out ! VARYING_SLOT_PRIMITIVE_ID) \<and>
        unat (oi_vs_output_param_offset out ! VARYING_SLOT_PRIMITIVE_ID) <
          unat (oi_param_exports out) + unat (oi_prim_param_exports out)) \<and>
     (oi_export_prim_id out \<longrightarrow>
        unat (oi_vs_output_param_offset out ! VARYING_SLOT_PRIMITIVE_ID) < unat (oi_param_exports out))"

lemma adjust_primitive_id_numbered:
  fixes opts :: PsbcCompileOptions
  assumes "implicit_primitive_id mesa_stage nir (ri_outinfo info)"
    and "length (oi_vs_output_param_offset (ri_outinfo info)) = 64"
    and "oi_param_exports (ri_outinfo info) < 255" "\<not> oi_export_prim_id (ri_outinfo info)"
  defines "out \<equiv> ri_outinfo info"
    and "out' \<equiv> ri_outinfo (adjust_primitive_id opts mesa_stage nir info)"
  shows "exports_numbered out \<and> exports_numbered out' \<and>
     unat (oi_param_exports out') + unat (oi_prim_param_exports out') =
       unat (oi_param_exports out) + (if opt_omit_implicit_primitive_id opts then 0 else 1) \<and>
     (\<forall>slot. slot \<noteq> VARYING_SLOT_PRIMITIVE_ID \<longrightarrow>
        oi_vs_output_param_offset out' ! slot = oi_vs_output_param_offset out ! slot)"
proof -
  have "unat (oi_param_exports out + 1) = unat (oi_param_exports out) + 1"
    using assms(3) by (simp add: out_def unat_add_small word_less_nat_alt)
  then show ?thesis
    using assms(1-4)
    by (simp add: exports_numbered_def adjust_primitive_id_def out'_def out_def implicit_primitive_id_def Let_def)
qed

section \<open>Linked halves\<close>

lemma linked_halves_agree:
  assumes "tess_compatible (tess_of a) (tess_of b)"
  shows "tess_config (tess_of (fst (link_domain a b))) = declared_by (tess_of a) (tess_of b)"
    "tess_config (tess_of (snd (link_domain a b))) = declared_by (tess_of a) (tess_of b)"
    "tess_config (tess_of (fst (link_control a b))) = declared_by (tess_of a) (tess_of b)"
    "tess_config (tess_of (snd (link_control a b))) = declared_by (tess_of a) (tess_of b)"
    "tess_config (tess_of (fst (link_next a b))) = declared_by (tess_of a) (tess_of b)"
  using assms by (simp_all add: link_domain_def link_control_def link_next_def or_tess_config Let_def)

lemma link_info_unchanged:
  "si_inputs_read (nir_info (set_tess t nir)) = si_inputs_read (nir_info nir)"
  "nir_instrs (set_tess t nir) = nir_instrs nir" "si_stage (nir_info (set_tess t nir)) = si_stage (nir_info nir)"
  by (simp_all add: set_tess_def)

end
