(* ===== verification/Shader_Meta.thy ===== *)
theory Shader_Meta
  imports Io_Semantics
begin

text \<open>
  \<^verbatim>\<open>fill_shader_metadata\<close> of \<^verbatim>\<open>src/libpsbc/psbc_compile.c\<close>: the metadata that describes a compiled shader to
  the runtime, as one definition per block of the function and its composition.  The lemmas show
  what the published register lists, user-data locations, descriptor masks and the classification
  of the hardware stage promise to a consumer.
\<close>

section \<open>Definitions\<close>

subsection \<open>User data\<close>

text \<open>A location is a signed byte that is widened to 32 bits; an argument's register offset is a byte.\<close>

definition user_data :: "BuildContext \<Rightarrow> nat \<Rightarrow> u32" where
  "user_data ctx ud = scast (sa_shader_data (bc_rargs ctx) ! ud)"

definition arg_offset :: "BuildContext \<Rightarrow> ac_arg \<Rightarrow> u32" where
  "arg_offset ctx a = ucast (sa_arg_offset (bc_rargs ctx) ! arg_index a)"

definition meta_header :: "BuildContext \<Rightarrow> PsbcShaderMetadata" where
  "meta_header ctx = zero_metadata
     \<lparr>md_version := PSBC_SHADER_METADATA_VERSION, md_target := bc_target ctx,
      md_source_stage := bc_psbc_stage ctx, md_unresolved_fields := PSBC_UNRESOLVED_PROGRAM_CHECKSUM,
      md_clip_distance_mask := ucast (oi_clip_dist_mask (ri_outinfo (bc_rinfo ctx))),
      md_cull_distance_mask := ucast (oi_cull_dist_mask (ri_outinfo (bc_rinfo ctx))),
      md_address32_hi := bc_address32_hi ctx, md_user_sgpr_count := sa_num_user_sgprs (bc_rargs ctx),
      md_hull_push_use_valid := bc_hull_push_use_valid ctx, md_push_use_valid := bc_push_use_valid ctx,
      md_stage_push_dwords := bc_stage_push_dwords ctx,
      md_previous_stage_push_dwords := bc_previous_stage_push_dwords ctx,
      md_hull_vertex_push_dwords := bc_hull_vertex_push_dwords ctx,
      md_hull_control_push_dwords := bc_hull_control_push_dwords ctx\<rparr>"

definition meta_push_constants :: "BuildContext \<Rightarrow> PsbcShaderMetadata \<Rightarrow> PsbcShaderMetadata" where
  "meta_push_constants ctx md =
     (if ri_loads_push_constants (bc_rinfo ctx) \<and> arg_used (sa_push_constants (bc_rargs ctx))
      then md\<lparr>md_push_constants_valid := True,
              md_push_constants_user_data_dword := user_data ctx AC_UD_PUSH_CONSTANTS,
              md_push_constant_size := ri_push_constant_size (bc_rinfo ctx)\<rparr>
      else md)"

definition meta_ring_table :: "BuildContext \<Rightarrow> PsbcShaderMetadata \<Rightarrow> PsbcShaderMetadata" where
  "meta_ring_table ctx md =
     (if arg_used (sa_ps5_ring_table (bc_rargs ctx))
      then md\<lparr>md_ps5_ring_table_valid := True,
              md_ps5_ring_table_user_data_dword := user_data ctx AC_UD_PS5_RING_TABLE\<rparr>
      else md)"

definition meta_lds_layout :: "BuildContext \<Rightarrow> PsbcShaderMetadata \<Rightarrow> PsbcShaderMetadata" where
  "meta_lds_layout ctx md =
     (if bc_ngg ctx \<and> arg_used (sa_ngg_lds_layout (bc_rargs ctx))
      then md\<lparr>md_ngg_lds_layout_valid := True,
              md_ngg_lds_layout_user_data_dword := user_data ctx AC_UD_NGG_LDS_LAYOUT,
              md_ngg_lds_layout := ng_esgs_ring_size (ri_ngg_info (bc_rinfo ctx))\<rparr>
      else md)"

definition meta_scratch :: "BuildContext \<Rightarrow> PsbcShaderMetadata \<Rightarrow> PsbcShaderMetadata" where
  "meta_scratch ctx md =
     (if cfg_scratch_bytes_per_wave (bc_config ctx) \<noteq> 0
      then md\<lparr>md_scratch_valid := True,
              md_scratch_bytes_per_wave := cfg_scratch_bytes_per_wave (bc_config ctx),
              md_scratch_size_per_thread := nir_scratch_size (bc_nir ctx),
              md_scratch_buffer_table_user_data_dword := user_data ctx AC_UD_SCRATCH_RING_OFFSETS\<rparr>
      else md)"

text \<open>The comparison of a location with \<^verbatim>\<open>UINT32_MAX\<close> is one of 32-bit unsigned values.\<close>

definition set_location :: "BuildContext \<Rightarrow> nat \<Rightarrow> u32 option" where
  "set_location ctx dset =
     (let sgpr_idx = scast (sa_descriptor_sets (bc_rargs ctx) ! dset) in
      if arg_used (sa_descriptors (bc_rargs ctx) ! dset) \<and> sgpr_idx \<noteq> 0xFFFFFFFF
      then Some sgpr_idx else None)"

definition meta_descriptor_sets :: "BuildContext \<Rightarrow> PsbcShaderMetadata \<Rightarrow> PsbcShaderMetadata" where
  "meta_descriptor_sets ctx md =
     (let valid = map (\<lambda>s. if set_location ctx s \<noteq> None then True else md_descriptor_set_valid md ! s)
                    [0..<PSBC_MAX_DESCRIPTOR_SETS];
          dwords = map (\<lambda>s. case set_location ctx s of Some d \<Rightarrow> d
                              | None \<Rightarrow> md_descriptor_set_user_data_dword md ! s) [0..<PSBC_MAX_DESCRIPTOR_SETS]
      in md\<lparr>md_descriptor_set_valid := valid, md_descriptor_set_user_data_dword := dwords,
            md_descriptor_set0_valid := valid ! 0, md_descriptor_set0_user_data_dword := dwords ! 0\<rparr>)"

definition has_vertex_half :: "BuildContext \<Rightarrow> bool" where
  "has_vertex_half ctx \<longleftrightarrow> bc_stage ctx = MESA_SHADER_TESS_CTRL \<and> vs_as_ls (ri_vs (bc_rinfo ctx))"

definition reads_vertices :: "BuildContext \<Rightarrow> bool" where
  "reads_vertices ctx \<longleftrightarrow> has_vertex_half ctx \<or> bc_stage ctx = MESA_SHADER_VERTEX \<or>
     (bc_stage ctx = MESA_SHADER_GEOMETRY \<and> bc_ngg ctx)"

definition meta_vertex_buffers :: "BuildContext \<Rightarrow> PsbcShaderMetadata \<Rightarrow> PsbcShaderMetadata" where
  "meta_vertex_buffers ctx md =
     (if reads_vertices ctx \<and> arg_used (sa_vertex_buffers (bc_rargs ctx)) \<and>
         (\<not> has_vertex_half ctx \<or> vs_vb_desc_usage_mask (ri_vs (bc_rinfo ctx)) \<noteq> 0)
      then md\<lparr>md_vertex_buffer_table_valid := True,
              md_vertex_buffer_usage_mask := vs_vb_desc_usage_mask (ri_vs (bc_rinfo ctx)),
              md_vertex_buffer_per_attribute := vs_use_per_attribute_vb_descs (ri_vs (bc_rinfo ctx)),
              md_vertex_buffer_table_user_data_dword := user_data ctx AC_UD_VS_VERTEX_BUFFERS\<rparr>
      else md)"

definition meta_base_vertex :: "BuildContext \<Rightarrow> PsbcShaderMetadata \<Rightarrow> PsbcShaderMetadata" where
  "meta_base_vertex ctx md =
     (if reads_vertices ctx \<and> arg_used (sa_base_vertex (bc_rargs ctx))
      then md\<lparr>md_base_vertex_valid := True,
              md_base_vertex_user_data_dword := user_data ctx AC_UD_VS_BASE_VERTEX_START_INSTANCE\<rparr>
      else md)"

definition meta_draw_id :: "BuildContext \<Rightarrow> PsbcShaderMetadata \<Rightarrow> PsbcShaderMetadata" where
  "meta_draw_id ctx md =
     (if reads_vertices ctx \<and> arg_used (sa_base_vertex (bc_rargs ctx)) \<and> arg_used (sa_draw_id (bc_rargs ctx))
      then md\<lparr>md_draw_id_valid := True,
              md_draw_id_user_data_dword := md_base_vertex_user_data_dword md +
                arg_offset ctx (sa_draw_id (bc_rargs ctx)) - arg_offset ctx (sa_base_vertex (bc_rargs ctx))\<rparr>
      else md)"

definition meta_start_instance :: "BuildContext \<Rightarrow> PsbcShaderMetadata \<Rightarrow> PsbcShaderMetadata" where
  "meta_start_instance ctx md =
     (if reads_vertices ctx \<and> arg_used (sa_start_instance (bc_rargs ctx))
      then md\<lparr>md_start_instance_valid := True,
              md_start_instance_user_data_dword := md_base_vertex_user_data_dword md +
                arg_offset ctx (sa_start_instance (bc_rargs ctx)) -
                arg_offset ctx (sa_base_vertex (bc_rargs ctx))\<rparr>
      else md)"

definition meta_view_index :: "BuildContext \<Rightarrow> PsbcShaderMetadata \<Rightarrow> PsbcShaderMetadata" where
  "meta_view_index ctx md =
     (if (bc_stage ctx = MESA_SHADER_VERTEX \<or> bc_stage ctx = MESA_SHADER_FRAGMENT) \<and>
         arg_used (sa_view_index (bc_rargs ctx))
      then md\<lparr>md_view_index_valid := True, md_view_index_user_data_dword := user_data ctx AC_UD_VIEW_INDEX\<rparr>
      else md)"

definition meta_streamout :: "BuildContext \<Rightarrow> PsbcShaderMetadata \<Rightarrow> PsbcShaderMetadata" where
  "meta_streamout ctx md =
     (let args = bc_rargs ctx; so = ri_so (bc_rinfo ctx) in
      if so_enabled_stream_buffers_mask so \<noteq> 0 \<and> arg_used (sa_streamout_buffers args) \<and>
         (bc_ngg ctx \<or> (arg_used (sa_streamout_config args) \<and> arg_used (sa_streamout_write_index args)))
      then md\<lparr>md_streamout_valid := True,
              md_streamout_buffer_table_user_data_dword := user_data ctx AC_UD_STREAMOUT_BUFFERS,
              md_streamout_enabled_stream_buffers_mask := so_enabled_stream_buffers_mask so,
              md_streamout_config_sgpr :=
                (if bc_ngg ctx then md_streamout_config_sgpr md else arg_offset ctx (sa_streamout_config args)),
              md_streamout_write_index_sgpr :=
                (if bc_ngg ctx then md_streamout_write_index_sgpr md
                 else arg_offset ctx (sa_streamout_write_index args)),
              md_streamout_strides_dwords := map (\<lambda>i. ucast (so_strides so ! i)) [0..<4],
              md_streamout_offset_sgprs :=
                map (\<lambda>i. if \<not> bc_ngg ctx \<and> arg_used (sa_streamout_offset args ! i)
                         then arg_offset ctx (sa_streamout_offset args ! i)
                         else md_streamout_offset_sgprs md ! i) [0..<4]\<rparr>
      else md)"

subsection \<open>Descriptors\<close>

definition meta_descriptor_bindings :: "BuildContext \<Rightarrow> PsbcShaderMetadata \<Rightarrow> PsbcShaderMetadata" where
  "meta_descriptor_bindings ctx md =
     (let count = opt_descriptor_binding_count (bc_options ctx) in
      md\<lparr>md_descriptor_binding_count := count,
         md_descriptor_bindings := take (unat count) (opt_descriptor_bindings (bc_options ctx)) @
                                   drop (unat count) (md_descriptor_bindings md)\<rparr>)"

definition declare_binding :: "PsbcDescriptorBinding \<Rightarrow> u64 list \<Rightarrow> u64 list" where
  "declare_binding declared masks =
     (if unat (db_set declared) \<ge> PSBC_MAX_DESCRIPTOR_SETS \<or> unat (db_binding declared) \<ge> 64 then masks
      else masks[unat (db_set declared) :=
        masks ! unat (db_set declared) OR push_bit (unat (db_binding declared)) 1])"

definition meta_used_bindings :: "BuildContext \<Rightarrow> PsbcShaderMetadata \<Rightarrow> PsbcShaderMetadata" where
  "meta_used_bindings ctx md =
     (if opt_descriptor_binding_count (bc_options ctx) \<noteq> 0 \<and> opt_static_descriptor_use (bc_options ctx)
      then md\<lparr>md_descriptor_used_binding_mask := bc_descriptor_used_binding_mask ctx\<rparr>
      else md\<lparr>md_descriptor_used_binding_mask :=
             fold declare_binding (take (unat (md_descriptor_binding_count md)) (md_descriptor_bindings md))
               (md_descriptor_used_binding_mask md)\<rparr>)"

text \<open>The part of the function before the stages are told apart.\<close>

definition meta_common :: "BuildContext \<Rightarrow> PsbcShaderMetadata" where
  "meta_common ctx =
     (meta_used_bindings ctx \<circ> meta_descriptor_bindings ctx \<circ> meta_streamout ctx \<circ> meta_view_index ctx \<circ>
      meta_start_instance ctx \<circ> meta_draw_id ctx \<circ> meta_base_vertex ctx \<circ> meta_vertex_buffers ctx \<circ>
      meta_descriptor_sets ctx \<circ> meta_scratch ctx \<circ> meta_lds_layout ctx \<circ> meta_ring_table ctx \<circ>
      meta_push_constants ctx) (meta_header ctx)"

subsection \<open>Registers\<close>

definition add_context_registers :: "(u32 \<times> u32) list \<Rightarrow> PsbcShaderMetadata \<Rightarrow> PsbcShaderMetadata" where
  "add_context_registers ws md =
     md\<lparr>md_context_registers := fold (\<lambda>(reg, v). metadata_add_register PSBC_MAX_CONTEXT_REGISTERS (PSBC_CX_OFFSET reg) v)
          ws (md_context_registers md)\<rparr>"

definition add_shader_registers :: "(u32 \<times> u32) list \<Rightarrow> PsbcShaderMetadata \<Rightarrow> PsbcShaderMetadata" where
  "add_shader_registers ws md =
     md\<lparr>md_shader_registers := fold (\<lambda>(reg, v). metadata_add_register PSBC_MAX_SHADER_REGISTERS (PSBC_SH_OFFSET reg) v)
          ws (md_shader_registers md)\<rparr>"

definition per_primitive_inputs :: "BuildContext \<Rightarrow> u32" where
  "per_primitive_inputs ctx = bool_word (bc_target ctx = PSBC_TARGET_PS5 \<and>
     opt_primitive_id_per_primitive (bc_options ctx) \<and> ps_prim_id_input (ri_ps (bc_rinfo ctx)))"

definition param_gen :: "BuildContext \<Rightarrow> bool" where
  "param_gen ctx \<longleftrightarrow> GFX11 \<le> bc_gfx_level ctx \<and> ps_num_inputs (ri_ps (bc_rinfo ctx)) = 0 \<and>
     cfg_lds_size (bc_config ctx) \<noteq> 0"

definition fragment_input_semantics :: "BuildContext \<Rightarrow> PsbcShaderMetadata \<Rightarrow> PsbcShaderMetadata" where
  "fragment_input_semantics ctx md =
     (case bc_input_semantics ctx of
        Some s \<Rightarrow>
          if is_valid s then md\<lparr>md_input_semantics := is_words s\<rparr>
          else md\<lparr>md_unresolved_fields := md_unresolved_fields md OR PSBC_UNRESOLVED_AGC_LINKAGE\<rparr>
      | None \<Rightarrow> md\<lparr>md_unresolved_fields := md_unresolved_fields md OR PSBC_UNRESOLVED_AGC_LINKAGE\<rparr>)"

definition fragment_context_registers :: "BuildContext \<Rightarrow> (u32 \<times> u32) list" where
  "fragment_context_registers ctx =
     (let ps = ri_ps (bc_rinfo ctx); cfg = bc_config ctx in
      [(R_028710_SPI_SHADER_Z_FORMAT, ac_get_spi_shader_z_format (ps_writes_z ps) (ps_writes_stencil ps)
          (ps_writes_sample_mask ps) (ps_writes_mrt0_alpha ps)),
       (R_028714_SPI_SHADER_COL_FORMAT, compact_spi_shader_col_format (ps_spi_shader_col_format ps)),
       (R_0286CC_SPI_PS_INPUT_ENA, cfg_spi_ps_input_ena cfg),
       (R_0286D0_SPI_PS_INPUT_ADDR, cfg_spi_ps_input_addr cfg),
       (R_0286D8_SPI_PS_IN_CONTROL,
          S_0286D8_NUM_INTERP (ps_num_inputs ps - per_primitive_inputs ctx) OR
          S_0286D8_NUM_PRIM_INTERP (per_primitive_inputs ctx) OR
          S_0286D8_PS_W32_EN (bool_word (ri_wave_size (bc_rinfo ctx) = 32)) OR
          S_0286D8_PARAM_GEN (bool_word (param_gen ctx))),
       (R_0286E0_SPI_BARYC_CNTL, S_0286E0_FRONT_FACE_ALL_BITS 0),
       (R_02880C_DB_SHADER_CONTROL, compute_db_shader_control (bc_rinfo ctx)),
       (R_02823C_CB_SHADER_MASK, ac_get_cb_shader_mask (ps_spi_shader_col_format ps)),
       (R_028C40_PA_SC_SHADER_CONTROL, 0)])"

definition fragment_shader_registers :: "BuildContext \<Rightarrow> (u32 \<times> u32) list" where
  "fragment_shader_registers ctx =
     [(R_00B020_SPI_SHADER_PGM_LO_PS, 0), (R_00B024_SPI_SHADER_PGM_HI_PS, 0),
      (R_00B028_SPI_SHADER_PGM_RSRC1_PS, cfg_rsrc1 (bc_config ctx)),
      (R_00B02C_SPI_SHADER_PGM_RSRC2_PS, cfg_rsrc2 (bc_config ctx))]"

definition meta_fragment :: "BuildContext \<Rightarrow> PsbcShaderMetadata \<Rightarrow> PsbcShaderMetadata" where
  "meta_fragment ctx md =
     (add_shader_registers (fragment_shader_registers ctx) \<circ>
      add_context_registers (fragment_context_registers ctx) \<circ> fragment_input_semantics ctx)
     (md\<lparr>md_hardware_stage := PSBC_HW_STAGE_PIXEL,
         md_ps_clip_distance_reads := si_clip_distance_array_size (nir_info (bc_nir ctx)),
         md_ps_cull_distance_reads := si_cull_distance_array_size (nir_info (bc_nir ctx))\<rparr>)"

text \<open>Parts that several pre-raster stages share: the number of parameters, the linkage record, the output
  semantics with their fallback, and the registers of the hardware vertex stage.\<close>

definition nparams :: "BuildContext \<Rightarrow> u32" where
  "nparams ctx = max (ucast (oi_param_exports (ri_outinfo (bc_rinfo ctx)))) 1"

definition num_pos_exports :: "BuildContext \<Rightarrow> nat" where
  "num_pos_exports ctx = fst (get_num_pos_exports (bc_rinfo ctx))"

definition meta_linkage :: "u32 \<Rightarrow> u32 \<Rightarrow> PsbcShaderMetadata \<Rightarrow> PsbcShaderMetadata" where
  "meta_linkage ge_cntl stages_en md =
     md\<lparr>md_linkage_valid := True,
        md_linkage_ge_cntl := mk_write (PSBC_UC_OFFSET R_03096C_GE_CNTL) ge_cntl,
        md_linkage_stages_en := mk_write (PSBC_CX_OFFSET R_028B54_VGT_SHADER_STAGES_EN) stages_en,
        md_linkage_user_vgpr_en := mk_write (PSBC_UC_OFFSET R_030988_GE_USER_VGPR_EN) 0\<rparr>"

definition meta_output_semantics :: "BuildContext \<Rightarrow> PsbcShaderMetadata \<Rightarrow> PsbcShaderMetadata" where
  "meta_output_semantics ctx md =
     (case fill_output_semantics (bc_rinfo ctx) md of (complete, md') \<Rightarrow>
      if complete then md'
      else md'\<lparr>md_unresolved_fields := md_unresolved_fields md' OR PSBC_UNRESOLVED_AGC_LINKAGE\<rparr>)"

definition gs_num_invocations :: "BuildContext \<Rightarrow> u32" where
  "gs_num_invocations ctx =
     (if ri_stage (bc_rinfo ctx) = MESA_SHADER_GEOMETRY then gs_invocations (ri_gs (bc_rinfo ctx)) else 1)"

definition merged_tess_eval :: "BuildContext \<Rightarrow> bool" where
  "merged_tess_eval ctx \<longleftrightarrow>
     (case bc_es_info ctx of None \<Rightarrow> False | Some es \<Rightarrow> ri_stage es = MESA_SHADER_TESS_EVAL)"

definition has_geometry :: "BuildContext \<Rightarrow> bool" where
  "has_geometry ctx \<longleftrightarrow> bc_stage ctx = MESA_SHADER_GEOMETRY"

definition ngg_ge_cntl :: "BuildContext \<Rightarrow> u32" where
  "ngg_ge_cntl ctx =
     S_03096C_PRIM_GRP_SIZE_GFX10 (ng_max_gsprims (ri_ngg_info (bc_rinfo ctx))) OR
     S_03096C_VERT_GRP_SIZE (ng_hw_max_esverts (ri_ngg_info (bc_rinfo ctx)))"

definition ngg_stages_en :: "BuildContext \<Rightarrow> u32" where
  "ngg_stages_en ctx =
     S_028B54_ES_EN (if merged_tess_eval ctx then V_028B54_ES_STAGE_DS else V_028B54_ES_STAGE_REAL) OR
     S_028B54_GS_EN (bool_word (has_geometry ctx)) OR
     S_028B54_PRIMGEN_EN 1 OR
     S_028B54_MAX_PRIMGRP_IN_WAVE 2 OR
     S_028B54_GS_W32_EN (bool_word (ri_wave_size (bc_rinfo ctx) = 32)) OR
     S_028B54_VS_W32_EN (bool_word (\<not> has_geometry ctx \<and> ri_wave_size (bc_rinfo ctx) = 32)) OR
     S_028B54_NGG_WAVE_ID_EN (bool_word (ri_ngg_wave_id_en (bc_rinfo ctx))) OR
     S_028B54_PRIMGEN_PASSTHRU_EN (bool_word (ri_is_ngg_passthrough (bc_rinfo ctx)))"

definition ngg_merged :: "BuildContext \<Rightarrow> PsbcShaderMetadata \<Rightarrow> PsbcShaderMetadata" where
  "ngg_merged ctx md =
     (case bc_es_info ctx of
        None \<Rightarrow> md
      | Some es \<Rightarrow>
          md\<lparr>md_merged_geometry := True,
             md_merged_es_source_stage := (if merged_tess_eval ctx then PSBC_STAGE_TESS_EVAL else PSBC_STAGE_VERTEX),
             md_merged_es_itemsize := ri_esgs_itemsize es,
             md_merged_esgs_ring_itemsize := ng_vgt_esgs_ring_itemsize (ri_ngg_info (bc_rinfo ctx))\<rparr>)"

definition ngg_context_registers :: "BuildContext \<Rightarrow> (u32 \<times> u32) list" where
  "ngg_context_registers ctx =
     (let out = ri_outinfo (bc_rinfo ctx); ngg = ri_ngg_info (bc_rinfo ctx) in
      [(R_0286C4_SPI_VS_OUT_CONFIG,
          S_0286C4_VS_EXPORT_COUNT (nparams ctx - 1) OR
          S_0286C4_PRIM_EXPORT_COUNT (ucast (oi_prim_param_exports out)) OR
          S_0286C4_NO_PC_EXPORT (bool_word (oi_param_exports out = 0 \<and> oi_prim_param_exports out = 0))),
       (R_028A84_VGT_PRIMITIVEID_EN, S_028A84_NGG_DISABLE_PROVOK_REUSE
          (bool_word (bc_stage ctx = MESA_SHADER_VERTEX \<and> oi_export_prim_id out))),
       (R_02870C_SPI_SHADER_POS_FORMAT, build_spi_shader_pos_format (num_pos_exports ctx)),
       (R_028708_SPI_SHADER_IDX_FORMAT, S_028708_IDX0_EXPORT_FORMAT V_028708_SPI_SHADER_1COMP),
       (R_02881C_PA_CL_VS_OUT_CNTL, build_pa_cl_vs_out_cntl ctx (num_pos_exports ctx)),
       (R_028B4C_GE_NGG_SUBGRP_CNTL,
          S_028B4C_PRIM_AMP_FACTOR (ng_prim_amp_factor ngg) OR S_028B4C_THDS_PER_SUBGRP 0),
       (R_028B90_VGT_GS_INSTANCE_CNT,
          S_028B90_CNT (gs_num_invocations ctx) OR
          S_028B90_ENABLE (bool_word (gs_num_invocations ctx > 1)) OR
          S_028B90_EN_MAX_VERT_OUT_PER_GS_INSTANCE (bool_word (ng_max_vert_out_per_gs_instance ngg))),
       (R_028A44_VGT_GS_ONCHIP_CNTL,
          S_028A44_ES_VERTS_PER_SUBGRP (ng_hw_max_esverts ngg) OR
          S_028A44_GS_PRIMS_PER_SUBGRP (ng_max_gsprims ngg) OR
          S_028A44_GS_INST_PRIMS_IN_SUBGRP (ng_max_gsprims ngg * gs_num_invocations ctx))])"

definition ngg_system_sgprs :: "BuildContext \<Rightarrow> PsbcShaderMetadata \<Rightarrow> PsbcShaderMetadata" where
  "ngg_system_sgprs ctx md =
     (let args = bc_rargs ctx; ngg = ri_ngg_info (bc_rinfo ctx) in
      if arg_used (sa_gs_tg_info args) \<and> arg_used (sa_merged_wave_info args)
      then md\<lparr>md_esgs_system_sgprs_valid := True,
              md_esgs_gs_tg_info_sgpr := arg_offset ctx (sa_gs_tg_info args),
              md_esgs_merged_wave_info_sgpr := arg_offset ctx (sa_merged_wave_info args),
              md_esgs_es_verts_per_subgroup := ng_hw_max_esverts ngg,
              md_esgs_gs_inst_prims_per_subgroup := ng_max_gsprims ngg * gs_num_invocations ctx,
              md_esgs_prim_amp_factor := ng_prim_amp_factor ngg,
              md_esgs_workgroup_size := ac_compute_ngg_workgroup_size (ng_hw_max_esverts ngg)
                (ng_max_gsprims ngg * gs_num_invocations ctx) (ng_max_out_verts ngg) (ng_prim_amp_factor ngg)\<rparr>
      else md)"

text \<open>The loop over the published pairs of a register offset and a user-data dword: \<open>None\<close> when two of
  them disagree on the base of the window, otherwise the base they agree on, if there is a pair.\<close>

fun window_loop :: "(bool \<times> u32 \<times> u32) list \<Rightarrow> u32 option \<Rightarrow> u32 option option" where
  "window_loop [] base = Some base"
| "window_loop ((live, off, dword) # ps) base =
     (if \<not> live then window_loop ps base
      else if off < dword then None
      else (case base of
              None \<Rightarrow> window_loop ps (Some (off - dword))
            | Some b \<Rightarrow> if off - dword \<noteq> b then None else window_loop ps base))"

definition window_pairs :: "BuildContext \<Rightarrow> PsbcShaderMetadata \<Rightarrow> (bool \<times> u32 \<times> u32) list" where
  "window_pairs ctx md =
     (let args = bc_rargs ctx;
          pair = (\<lambda>published a dword. (published \<and> arg_used a, arg_offset ctx a, dword))
      in [pair (md_base_vertex_valid md) (sa_base_vertex args) (md_base_vertex_user_data_dword md),
          pair (md_start_instance_valid md) (sa_start_instance args) (md_start_instance_user_data_dword md),
          pair (md_draw_id_valid md) (sa_draw_id args) (md_draw_id_user_data_dword md),
          pair (md_ngg_lds_layout_valid md) (sa_ngg_lds_layout args) (md_ngg_lds_layout_user_data_dword md)])"

definition ngg_window_base :: "BuildContext \<Rightarrow> PsbcShaderMetadata \<Rightarrow> PsbcShaderMetadata" where
  "ngg_window_base ctx md =
     (case window_loop (window_pairs ctx md) None of
        Some (Some base) \<Rightarrow> md\<lparr>md_user_data_window_base := base\<rparr>
      | _ \<Rightarrow> md)"

definition ngg_output_registers :: "BuildContext \<Rightarrow> (u32 \<times> u32) list" where
  "ngg_output_registers ctx =
     (let ngg = ri_ngg_info (bc_rinfo ctx); gs = ri_gs (bc_rinfo ctx) in
      [(R_0287FC_GE_MAX_OUTPUT_PER_SUBGROUP, S_0287FC_MAX_VERTS_PER_SUBGROUP (ng_max_out_verts ngg)),
       (R_028AAC_VGT_ESGS_RING_ITEMSIZE, ng_vgt_esgs_ring_itemsize ngg),
       (R_028B38_VGT_GS_MAX_VERT_OUT, gs_vertices_out gs)] @
      (if has_geometry ctx
       then [(R_028A6C_VGT_GS_OUT_PRIM_TYPE, S_028A6C_OUTPRIM_TYPE
               (if gs_output_prim gs = MESA_PRIM_POINTS then V_028A6C_POINTLIST
                else if gs_output_prim gs = MESA_PRIM_LINE_STRIP then V_028A6C_LINESTRIP
                else V_028A6C_TRISTRIP))]
       else []))"

definition ngg_shader_registers :: "BuildContext \<Rightarrow> (u32 \<times> u32) list" where
  "ngg_shader_registers ctx =
     [(R_00B320_SPI_SHADER_PGM_LO_ES, 0), (R_00B324_SPI_SHADER_PGM_HI_ES, 0),
      (R_00B228_SPI_SHADER_PGM_RSRC1_GS, cfg_rsrc1 (bc_config ctx)),
      (R_00B22C_SPI_SHADER_PGM_RSRC2_GS, cfg_rsrc2 (bc_config ctx))] @
     (if bc_target ctx = PSBC_TARGET_PS5
      then [(R_00B21C_SPI_SHADER_PGM_RSRC3_GS, S_00B21C_CU_EN 0xffff OR S_00B21C_WAVE_LIMIT 0x3f),
            (R_00B204_SPI_SHADER_PGM_RSRC4_GS,
               S_00B204_CU_EN_GFX10 0xffff OR S_00B204_SPI_SHADER_LATE_ALLOC_GS_GFX10 0)]
      else [])"

definition meta_ngg :: "BuildContext \<Rightarrow> PsbcShaderMetadata \<Rightarrow> PsbcShaderMetadata" where
  "meta_ngg ctx md =
     (add_shader_registers (ngg_shader_registers ctx) \<circ> add_context_registers (ngg_output_registers ctx) \<circ>
      ngg_window_base ctx \<circ> ngg_system_sgprs ctx \<circ> add_context_registers (ngg_context_registers ctx) \<circ>
      publish_ge_pc_alloc ctx \<circ> ngg_merged ctx \<circ> meta_linkage (ngg_ge_cntl ctx) (ngg_stages_en ctx) \<circ>
      meta_output_semantics ctx)
     (md\<lparr>md_hardware_stage := PSBC_HW_STAGE_NGG,
         md_unresolved_fields := md_unresolved_fields md OR PSBC_UNRESOLVED_NGG_ESGS_RING_ITEMSIZE\<rparr>)"

definition meta_legacy_geometry :: "PsbcShaderMetadata \<Rightarrow> PsbcShaderMetadata" where
  "meta_legacy_geometry md =
     md\<lparr>md_hardware_stage := PSBC_HW_STAGE_UNKNOWN,
        md_unresolved_fields := md_unresolved_fields md OR PSBC_UNRESOLVED_AGC_LINKAGE\<rparr>"

definition vs_context_registers :: "BuildContext \<Rightarrow> (u32 \<times> u32) list" where
  "vs_context_registers ctx =
     [(R_0286C4_SPI_VS_OUT_CONFIG,
         S_0286C4_VS_EXPORT_COUNT (nparams ctx - 1) OR
         S_0286C4_NO_PC_EXPORT (bool_word (oi_param_exports (ri_outinfo (bc_rinfo ctx)) = 0))),
      (R_02870C_SPI_SHADER_POS_FORMAT, build_spi_shader_pos_format (num_pos_exports ctx)),
      (R_02881C_PA_CL_VS_OUT_CNTL, build_pa_cl_vs_out_cntl ctx (num_pos_exports ctx)),
      (R_028A40_VGT_GS_MODE, 0), (R_028AB4_VGT_REUSE_OFF, 0), (R_028A84_VGT_PRIMITIVEID_EN, 0)]"

definition vs_shader_registers :: "BuildContext \<Rightarrow> (u32 \<times> u32) list" where
  "vs_shader_registers ctx =
     [(R_00B120_SPI_SHADER_PGM_LO_VS, 0), (R_00B124_SPI_SHADER_PGM_HI_VS, 0),
      (R_00B128_SPI_SHADER_PGM_RSRC1_VS, cfg_rsrc1 (bc_config ctx)),
      (R_00B12C_SPI_SHADER_PGM_RSRC2_VS, cfg_rsrc2 (bc_config ctx)),
      (R_00B118_SPI_SHADER_PGM_RSRC3_VS, S_00B118_CU_EN 0xffff OR S_00B118_WAVE_LIMIT 0x3f),
      (R_00B104_SPI_SHADER_PGM_RSRC4_VS, S_00B104_CU_EN 0xffff),
      (R_00B11C_SPI_SHADER_LATE_ALLOC_VS, S_00B11C_LIMIT 0)]"

definition vs_ge_cntl :: u32 where
  "vs_ge_cntl = S_03096C_PRIM_GRP_SIZE_GFX10 128 OR S_03096C_VERT_GRP_SIZE 256"

definition meta_vertex :: "BuildContext \<Rightarrow> PsbcShaderMetadata \<Rightarrow> PsbcShaderMetadata" where
  "meta_vertex ctx md =
     (add_shader_registers (vs_shader_registers ctx) \<circ> add_context_registers (vs_context_registers ctx) \<circ>
      publish_ge_pc_alloc ctx \<circ>
      meta_linkage vs_ge_cntl (S_028B54_MAX_PRIMGRP_IN_WAVE 2 OR
        S_028B54_VS_W32_EN (bool_word (ri_wave_size (bc_rinfo ctx) = 32))))
     (md\<lparr>md_hardware_stage := PSBC_HW_STAGE_VERTEX\<rparr>)"

definition hull_window_base :: "BuildContext \<Rightarrow> PsbcShaderMetadata \<Rightarrow> PsbcShaderMetadata" where
  "hull_window_base ctx md =
     (let off = arg_offset ctx (sa_ps5_ring_table (bc_rargs ctx)) in
      if has_vertex_half ctx \<and> arg_used (sa_ps5_ring_table (bc_rargs ctx)) \<and>
         off \<ge> md_ps5_ring_table_user_data_dword md
      then md\<lparr>md_user_data_window_base := off - md_ps5_ring_table_user_data_dword md\<rparr> else md)"

definition hull_shader_registers :: "BuildContext \<Rightarrow> (u32 \<times> u32) list" where
  "hull_shader_registers ctx =
     [(R_00B520_SPI_SHADER_PGM_LO_LS, 0), (R_00B524_SPI_SHADER_PGM_HI_LS, 0),
      (R_00B428_SPI_SHADER_PGM_RSRC1_HS, cfg_rsrc1 (bc_config ctx)),
      (R_00B42C_SPI_SHADER_PGM_RSRC2_HS, cfg_rsrc2 (bc_config ctx))]"

definition hull_workgroup :: "BuildContext \<Rightarrow> PsbcShaderMetadata \<Rightarrow> PsbcShaderMetadata" where
  "hull_workgroup ctx md =
     (if tc_lds_size (ri_tcs (bc_rinfo ctx)) \<noteq> 0 \<or> ri_num_tess_patches (bc_rinfo ctx) \<noteq> 0
      then md\<lparr>md_hull_tess_wg_valid := True,
              md_hull_num_patches_per_wg := ri_num_tess_patches (bc_rinfo ctx),
              md_hull_tcs_lds_size := tc_lds_size (ri_tcs (bc_rinfo ctx)),
              md_hull_workgroup_size := ri_workgroup_size (bc_rinfo ctx)\<rparr>
      else md)"

definition meta_hull :: "BuildContext \<Rightarrow> PsbcShaderMetadata \<Rightarrow> PsbcShaderMetadata" where
  "meta_hull ctx md =
     (let md = (hull_workgroup ctx \<circ> add_shader_registers (hull_shader_registers ctx) \<circ>
                add_context_registers [(R_028B6C_VGT_TF_PARAM, tess_tf_param (bc_nir ctx))] \<circ>
                hull_window_base ctx) md
      in if \<not> bc_ls_merged ctx
         then md\<lparr>md_unresolved_fields := md_unresolved_fields md OR PSBC_UNRESOLVED_TESS_PIPELINE\<rparr>
         else md\<lparr>md_hardware_stage := PSBC_HW_STAGE_HULL\<rparr>)"

definition domain_stages_en :: "BuildContext \<Rightarrow> u32" where
  "domain_stages_en ctx =
     S_028B54_LS_EN V_028B54_LS_STAGE_ON OR S_028B54_HS_EN V_028B54_HS_STAGE_ON OR
     S_028B54_VS_EN V_028B54_VS_STAGE_DS OR S_028B54_DYNAMIC_HS 1 OR S_028B54_MAX_PRIMGRP_IN_WAVE 2 OR
     S_028B54_VS_W32_EN (bool_word (ri_wave_size (bc_rinfo ctx) = 32))"

definition meta_domain :: "BuildContext \<Rightarrow> PsbcShaderMetadata \<Rightarrow> PsbcShaderMetadata" where
  "meta_domain ctx md =
     (add_shader_registers (vs_shader_registers ctx) \<circ>
      add_context_registers (vs_context_registers ctx @
        [(R_028A44_VGT_GS_ONCHIP_CNTL, S_028A44_ES_VERTS_PER_SUBGRP 250 OR S_028A44_GS_PRIMS_PER_SUBGRP 126 OR
            S_028A44_GS_INST_PRIMS_IN_SUBGRP 126)]) \<circ>
      publish_ge_pc_alloc ctx \<circ> meta_linkage vs_ge_cntl (domain_stages_en ctx) \<circ> meta_output_semantics ctx)
     (md\<lparr>md_hardware_stage := PSBC_HW_STAGE_VERTEX\<rparr>)"

definition meta_tess_eval :: "PsbcShaderMetadata \<Rightarrow> PsbcShaderMetadata" where
  "meta_tess_eval md = md\<lparr>md_unresolved_fields := md_unresolved_fields md OR PSBC_UNRESOLVED_TESS_PIPELINE\<rparr>"

definition ngg_stage :: "BuildContext \<Rightarrow> bool" where
  "ngg_stage ctx \<longleftrightarrow>
     (bc_stage ctx = MESA_SHADER_VERTEX \<or> bc_stage ctx = MESA_SHADER_TESS_EVAL \<or>
      bc_stage ctx = MESA_SHADER_GEOMETRY) \<and> bc_ngg ctx"

definition fill_shader_metadata :: "BuildContext \<Rightarrow> PsbcShaderMetadata" where
  "fill_shader_metadata ctx =
     (let md = meta_common ctx in
      if bc_stage ctx = MESA_SHADER_FRAGMENT then meta_fragment ctx md
      else if ngg_stage ctx then meta_ngg ctx md
      else if bc_stage ctx = MESA_SHADER_GEOMETRY then meta_legacy_geometry md
      else if bc_stage ctx = MESA_SHADER_VERTEX then meta_vertex ctx md
      else if bc_stage ctx = MESA_SHADER_TESS_CTRL then meta_hull ctx md
      else if bc_stage ctx = MESA_SHADER_TESS_EVAL \<and> \<not> bc_ngg ctx \<and> bc_domain_linked ctx
      then meta_domain ctx md
      else if bc_stage ctx = MESA_SHADER_TESS_EVAL then meta_tess_eval md
      else md)"

section \<open>Fields that a block keeps\<close>

named_theorems meta_simps

lemmas meta_block_defs = meta_push_constants_def meta_ring_table_def meta_lds_layout_def meta_scratch_def
  meta_descriptor_sets_def meta_vertex_buffers_def meta_base_vertex_def meta_draw_id_def
  meta_start_instance_def meta_view_index_def meta_streamout_def meta_descriptor_bindings_def
  meta_used_bindings_def fragment_input_semantics_def meta_linkage_def meta_output_semantics_def
  fill_output_semantics_def ngg_merged_def publish_ge_pc_alloc_def ngg_system_sgprs_def ngg_window_base_def
  hull_window_base_def hull_workgroup_def add_context_registers_def add_shader_registers_def

lemma keep_context_registers [meta_simps]:
  "md_context_registers (meta_push_constants ctx md) = md_context_registers md" "md_context_registers (meta_ring_table ctx md) = md_context_registers md"
  "md_context_registers (meta_lds_layout ctx md) = md_context_registers md" "md_context_registers (meta_scratch ctx md) = md_context_registers md"
  "md_context_registers (meta_descriptor_sets ctx md) = md_context_registers md" "md_context_registers (meta_vertex_buffers ctx md) = md_context_registers md"
  "md_context_registers (meta_base_vertex ctx md) = md_context_registers md" "md_context_registers (meta_draw_id ctx md) = md_context_registers md"
  "md_context_registers (meta_start_instance ctx md) = md_context_registers md" "md_context_registers (meta_view_index ctx md) = md_context_registers md"
  "md_context_registers (meta_streamout ctx md) = md_context_registers md" "md_context_registers (meta_descriptor_bindings ctx md) = md_context_registers md"
  "md_context_registers (meta_used_bindings ctx md) = md_context_registers md" "md_context_registers (fragment_input_semantics ctx md) = md_context_registers md"
  "md_context_registers (meta_linkage g e md) = md_context_registers md" "md_context_registers (meta_output_semantics ctx md) = md_context_registers md"
  "md_context_registers (ngg_merged ctx md) = md_context_registers md" "md_context_registers (publish_ge_pc_alloc ctx md) = md_context_registers md"
  "md_context_registers (ngg_system_sgprs ctx md) = md_context_registers md" "md_context_registers (ngg_window_base ctx md) = md_context_registers md"
  "md_context_registers (hull_window_base ctx md) = md_context_registers md" "md_context_registers (hull_workgroup ctx md) = md_context_registers md"
  "md_context_registers (add_shader_registers ws md) = md_context_registers md"
  by (simp_all add: meta_block_defs Let_def split: option.split)

lemma keep_shader_registers [meta_simps]:
  "md_shader_registers (meta_push_constants ctx md) = md_shader_registers md" "md_shader_registers (meta_ring_table ctx md) = md_shader_registers md"
  "md_shader_registers (meta_lds_layout ctx md) = md_shader_registers md" "md_shader_registers (meta_scratch ctx md) = md_shader_registers md"
  "md_shader_registers (meta_descriptor_sets ctx md) = md_shader_registers md" "md_shader_registers (meta_vertex_buffers ctx md) = md_shader_registers md"
  "md_shader_registers (meta_base_vertex ctx md) = md_shader_registers md" "md_shader_registers (meta_draw_id ctx md) = md_shader_registers md"
  "md_shader_registers (meta_start_instance ctx md) = md_shader_registers md" "md_shader_registers (meta_view_index ctx md) = md_shader_registers md"
  "md_shader_registers (meta_streamout ctx md) = md_shader_registers md" "md_shader_registers (meta_descriptor_bindings ctx md) = md_shader_registers md"
  "md_shader_registers (meta_used_bindings ctx md) = md_shader_registers md" "md_shader_registers (fragment_input_semantics ctx md) = md_shader_registers md"
  "md_shader_registers (meta_linkage g e md) = md_shader_registers md" "md_shader_registers (meta_output_semantics ctx md) = md_shader_registers md"
  "md_shader_registers (ngg_merged ctx md) = md_shader_registers md" "md_shader_registers (publish_ge_pc_alloc ctx md) = md_shader_registers md"
  "md_shader_registers (ngg_system_sgprs ctx md) = md_shader_registers md" "md_shader_registers (ngg_window_base ctx md) = md_shader_registers md"
  "md_shader_registers (hull_window_base ctx md) = md_shader_registers md" "md_shader_registers (hull_workgroup ctx md) = md_shader_registers md"
  "md_shader_registers (add_context_registers ws md) = md_shader_registers md"
  by (simp_all add: meta_block_defs Let_def split: option.split)

lemma keep_hardware_stage [meta_simps]:
  "md_hardware_stage (meta_push_constants ctx md) = md_hardware_stage md" "md_hardware_stage (meta_ring_table ctx md) = md_hardware_stage md"
  "md_hardware_stage (meta_lds_layout ctx md) = md_hardware_stage md" "md_hardware_stage (meta_scratch ctx md) = md_hardware_stage md"
  "md_hardware_stage (meta_descriptor_sets ctx md) = md_hardware_stage md" "md_hardware_stage (meta_vertex_buffers ctx md) = md_hardware_stage md"
  "md_hardware_stage (meta_base_vertex ctx md) = md_hardware_stage md" "md_hardware_stage (meta_draw_id ctx md) = md_hardware_stage md"
  "md_hardware_stage (meta_start_instance ctx md) = md_hardware_stage md" "md_hardware_stage (meta_view_index ctx md) = md_hardware_stage md"
  "md_hardware_stage (meta_streamout ctx md) = md_hardware_stage md" "md_hardware_stage (meta_descriptor_bindings ctx md) = md_hardware_stage md"
  "md_hardware_stage (meta_used_bindings ctx md) = md_hardware_stage md" "md_hardware_stage (fragment_input_semantics ctx md) = md_hardware_stage md"
  "md_hardware_stage (meta_linkage g e md) = md_hardware_stage md" "md_hardware_stage (meta_output_semantics ctx md) = md_hardware_stage md"
  "md_hardware_stage (ngg_merged ctx md) = md_hardware_stage md" "md_hardware_stage (publish_ge_pc_alloc ctx md) = md_hardware_stage md"
  "md_hardware_stage (ngg_system_sgprs ctx md) = md_hardware_stage md" "md_hardware_stage (ngg_window_base ctx md) = md_hardware_stage md"
  "md_hardware_stage (hull_window_base ctx md) = md_hardware_stage md" "md_hardware_stage (hull_workgroup ctx md) = md_hardware_stage md"
  "md_hardware_stage (add_context_registers ws md) = md_hardware_stage md" "md_hardware_stage (add_shader_registers ws md) = md_hardware_stage md"
  by (simp_all add: meta_block_defs Let_def split: option.split)

lemma keep_unresolved_fields [meta_simps]:
  "md_unresolved_fields (meta_push_constants ctx md) = md_unresolved_fields md" "md_unresolved_fields (meta_ring_table ctx md) = md_unresolved_fields md"
  "md_unresolved_fields (meta_lds_layout ctx md) = md_unresolved_fields md" "md_unresolved_fields (meta_scratch ctx md) = md_unresolved_fields md"
  "md_unresolved_fields (meta_descriptor_sets ctx md) = md_unresolved_fields md" "md_unresolved_fields (meta_vertex_buffers ctx md) = md_unresolved_fields md"
  "md_unresolved_fields (meta_base_vertex ctx md) = md_unresolved_fields md" "md_unresolved_fields (meta_draw_id ctx md) = md_unresolved_fields md"
  "md_unresolved_fields (meta_start_instance ctx md) = md_unresolved_fields md" "md_unresolved_fields (meta_view_index ctx md) = md_unresolved_fields md"
  "md_unresolved_fields (meta_streamout ctx md) = md_unresolved_fields md" "md_unresolved_fields (meta_descriptor_bindings ctx md) = md_unresolved_fields md"
  "md_unresolved_fields (meta_used_bindings ctx md) = md_unresolved_fields md" "md_unresolved_fields (meta_linkage g e md) = md_unresolved_fields md"
  "md_unresolved_fields (ngg_merged ctx md) = md_unresolved_fields md" "md_unresolved_fields (publish_ge_pc_alloc ctx md) = md_unresolved_fields md"
  "md_unresolved_fields (ngg_system_sgprs ctx md) = md_unresolved_fields md" "md_unresolved_fields (ngg_window_base ctx md) = md_unresolved_fields md"
  "md_unresolved_fields (hull_window_base ctx md) = md_unresolved_fields md" "md_unresolved_fields (hull_workgroup ctx md) = md_unresolved_fields md"
  "md_unresolved_fields (add_context_registers ws md) = md_unresolved_fields md" "md_unresolved_fields (add_shader_registers ws md) = md_unresolved_fields md"
  by (simp_all add: meta_block_defs Let_def split: option.split)

lemma keep_user_data_window_base [meta_simps]:
  "md_user_data_window_base (meta_push_constants ctx md) = md_user_data_window_base md" "md_user_data_window_base (meta_ring_table ctx md) = md_user_data_window_base md"
  "md_user_data_window_base (meta_lds_layout ctx md) = md_user_data_window_base md" "md_user_data_window_base (meta_scratch ctx md) = md_user_data_window_base md"
  "md_user_data_window_base (meta_descriptor_sets ctx md) = md_user_data_window_base md" "md_user_data_window_base (meta_vertex_buffers ctx md) = md_user_data_window_base md"
  "md_user_data_window_base (meta_base_vertex ctx md) = md_user_data_window_base md" "md_user_data_window_base (meta_draw_id ctx md) = md_user_data_window_base md"
  "md_user_data_window_base (meta_start_instance ctx md) = md_user_data_window_base md" "md_user_data_window_base (meta_view_index ctx md) = md_user_data_window_base md"
  "md_user_data_window_base (meta_streamout ctx md) = md_user_data_window_base md" "md_user_data_window_base (meta_descriptor_bindings ctx md) = md_user_data_window_base md"
  "md_user_data_window_base (meta_used_bindings ctx md) = md_user_data_window_base md" "md_user_data_window_base (fragment_input_semantics ctx md) = md_user_data_window_base md"
  "md_user_data_window_base (meta_linkage g e md) = md_user_data_window_base md" "md_user_data_window_base (meta_output_semantics ctx md) = md_user_data_window_base md"
  "md_user_data_window_base (ngg_merged ctx md) = md_user_data_window_base md" "md_user_data_window_base (publish_ge_pc_alloc ctx md) = md_user_data_window_base md"
  "md_user_data_window_base (ngg_system_sgprs ctx md) = md_user_data_window_base md" "md_user_data_window_base (hull_workgroup ctx md) = md_user_data_window_base md"
  "md_user_data_window_base (add_context_registers ws md) = md_user_data_window_base md" "md_user_data_window_base (add_shader_registers ws md) = md_user_data_window_base md"
  by (simp_all add: meta_block_defs Let_def split: option.split)

lemma keep_base_vertex_valid [meta_simps]:
  "md_base_vertex_valid (meta_push_constants ctx md) = md_base_vertex_valid md" "md_base_vertex_valid (meta_ring_table ctx md) = md_base_vertex_valid md"
  "md_base_vertex_valid (meta_lds_layout ctx md) = md_base_vertex_valid md" "md_base_vertex_valid (meta_scratch ctx md) = md_base_vertex_valid md"
  "md_base_vertex_valid (meta_descriptor_sets ctx md) = md_base_vertex_valid md" "md_base_vertex_valid (meta_vertex_buffers ctx md) = md_base_vertex_valid md"
  "md_base_vertex_valid (meta_draw_id ctx md) = md_base_vertex_valid md" "md_base_vertex_valid (meta_start_instance ctx md) = md_base_vertex_valid md"
  "md_base_vertex_valid (meta_view_index ctx md) = md_base_vertex_valid md" "md_base_vertex_valid (meta_streamout ctx md) = md_base_vertex_valid md"
  "md_base_vertex_valid (meta_descriptor_bindings ctx md) = md_base_vertex_valid md" "md_base_vertex_valid (meta_used_bindings ctx md) = md_base_vertex_valid md"
  "md_base_vertex_valid (fragment_input_semantics ctx md) = md_base_vertex_valid md" "md_base_vertex_valid (meta_linkage g e md) = md_base_vertex_valid md"
  "md_base_vertex_valid (meta_output_semantics ctx md) = md_base_vertex_valid md" "md_base_vertex_valid (ngg_merged ctx md) = md_base_vertex_valid md"
  "md_base_vertex_valid (publish_ge_pc_alloc ctx md) = md_base_vertex_valid md" "md_base_vertex_valid (ngg_system_sgprs ctx md) = md_base_vertex_valid md"
  "md_base_vertex_valid (ngg_window_base ctx md) = md_base_vertex_valid md" "md_base_vertex_valid (hull_window_base ctx md) = md_base_vertex_valid md"
  "md_base_vertex_valid (hull_workgroup ctx md) = md_base_vertex_valid md" "md_base_vertex_valid (add_context_registers ws md) = md_base_vertex_valid md"
  "md_base_vertex_valid (add_shader_registers ws md) = md_base_vertex_valid md"
  by (simp_all add: meta_block_defs Let_def split: option.split)

lemma keep_base_vertex_user_data_dword [meta_simps]:
  "md_base_vertex_user_data_dword (meta_push_constants ctx md) = md_base_vertex_user_data_dword md" "md_base_vertex_user_data_dword (meta_ring_table ctx md) = md_base_vertex_user_data_dword md"
  "md_base_vertex_user_data_dword (meta_lds_layout ctx md) = md_base_vertex_user_data_dword md" "md_base_vertex_user_data_dword (meta_scratch ctx md) = md_base_vertex_user_data_dword md"
  "md_base_vertex_user_data_dword (meta_descriptor_sets ctx md) = md_base_vertex_user_data_dword md" "md_base_vertex_user_data_dword (meta_vertex_buffers ctx md) = md_base_vertex_user_data_dword md"
  "md_base_vertex_user_data_dword (meta_draw_id ctx md) = md_base_vertex_user_data_dword md" "md_base_vertex_user_data_dword (meta_start_instance ctx md) = md_base_vertex_user_data_dword md"
  "md_base_vertex_user_data_dword (meta_view_index ctx md) = md_base_vertex_user_data_dword md" "md_base_vertex_user_data_dword (meta_streamout ctx md) = md_base_vertex_user_data_dword md"
  "md_base_vertex_user_data_dword (meta_descriptor_bindings ctx md) = md_base_vertex_user_data_dword md" "md_base_vertex_user_data_dword (meta_used_bindings ctx md) = md_base_vertex_user_data_dword md"
  "md_base_vertex_user_data_dword (fragment_input_semantics ctx md) = md_base_vertex_user_data_dword md" "md_base_vertex_user_data_dword (meta_linkage g e md) = md_base_vertex_user_data_dword md"
  "md_base_vertex_user_data_dword (meta_output_semantics ctx md) = md_base_vertex_user_data_dword md" "md_base_vertex_user_data_dword (ngg_merged ctx md) = md_base_vertex_user_data_dword md"
  "md_base_vertex_user_data_dword (publish_ge_pc_alloc ctx md) = md_base_vertex_user_data_dword md" "md_base_vertex_user_data_dword (ngg_system_sgprs ctx md) = md_base_vertex_user_data_dword md"
  "md_base_vertex_user_data_dword (ngg_window_base ctx md) = md_base_vertex_user_data_dword md" "md_base_vertex_user_data_dword (hull_window_base ctx md) = md_base_vertex_user_data_dword md"
  "md_base_vertex_user_data_dword (hull_workgroup ctx md) = md_base_vertex_user_data_dword md" "md_base_vertex_user_data_dword (add_context_registers ws md) = md_base_vertex_user_data_dword md"
  "md_base_vertex_user_data_dword (add_shader_registers ws md) = md_base_vertex_user_data_dword md"
  by (simp_all add: meta_block_defs Let_def split: option.split)

lemma keep_start_instance_valid [meta_simps]:
  "md_start_instance_valid (meta_push_constants ctx md) = md_start_instance_valid md" "md_start_instance_valid (meta_ring_table ctx md) = md_start_instance_valid md"
  "md_start_instance_valid (meta_lds_layout ctx md) = md_start_instance_valid md" "md_start_instance_valid (meta_scratch ctx md) = md_start_instance_valid md"
  "md_start_instance_valid (meta_descriptor_sets ctx md) = md_start_instance_valid md" "md_start_instance_valid (meta_vertex_buffers ctx md) = md_start_instance_valid md"
  "md_start_instance_valid (meta_base_vertex ctx md) = md_start_instance_valid md" "md_start_instance_valid (meta_draw_id ctx md) = md_start_instance_valid md"
  "md_start_instance_valid (meta_view_index ctx md) = md_start_instance_valid md" "md_start_instance_valid (meta_streamout ctx md) = md_start_instance_valid md"
  "md_start_instance_valid (meta_descriptor_bindings ctx md) = md_start_instance_valid md" "md_start_instance_valid (meta_used_bindings ctx md) = md_start_instance_valid md"
  "md_start_instance_valid (fragment_input_semantics ctx md) = md_start_instance_valid md" "md_start_instance_valid (meta_linkage g e md) = md_start_instance_valid md"
  "md_start_instance_valid (meta_output_semantics ctx md) = md_start_instance_valid md" "md_start_instance_valid (ngg_merged ctx md) = md_start_instance_valid md"
  "md_start_instance_valid (publish_ge_pc_alloc ctx md) = md_start_instance_valid md" "md_start_instance_valid (ngg_system_sgprs ctx md) = md_start_instance_valid md"
  "md_start_instance_valid (ngg_window_base ctx md) = md_start_instance_valid md" "md_start_instance_valid (hull_window_base ctx md) = md_start_instance_valid md"
  "md_start_instance_valid (hull_workgroup ctx md) = md_start_instance_valid md" "md_start_instance_valid (add_context_registers ws md) = md_start_instance_valid md"
  "md_start_instance_valid (add_shader_registers ws md) = md_start_instance_valid md"
  by (simp_all add: meta_block_defs Let_def split: option.split)

lemma keep_start_instance_user_data_dword [meta_simps]:
  "md_start_instance_user_data_dword (meta_push_constants ctx md) = md_start_instance_user_data_dword md" "md_start_instance_user_data_dword (meta_ring_table ctx md) = md_start_instance_user_data_dword md"
  "md_start_instance_user_data_dword (meta_lds_layout ctx md) = md_start_instance_user_data_dword md" "md_start_instance_user_data_dword (meta_scratch ctx md) = md_start_instance_user_data_dword md"
  "md_start_instance_user_data_dword (meta_descriptor_sets ctx md) = md_start_instance_user_data_dword md" "md_start_instance_user_data_dword (meta_vertex_buffers ctx md) = md_start_instance_user_data_dword md"
  "md_start_instance_user_data_dword (meta_base_vertex ctx md) = md_start_instance_user_data_dword md" "md_start_instance_user_data_dword (meta_draw_id ctx md) = md_start_instance_user_data_dword md"
  "md_start_instance_user_data_dword (meta_view_index ctx md) = md_start_instance_user_data_dword md" "md_start_instance_user_data_dword (meta_streamout ctx md) = md_start_instance_user_data_dword md"
  "md_start_instance_user_data_dword (meta_descriptor_bindings ctx md) = md_start_instance_user_data_dword md" "md_start_instance_user_data_dword (meta_used_bindings ctx md) = md_start_instance_user_data_dword md"
  "md_start_instance_user_data_dword (fragment_input_semantics ctx md) = md_start_instance_user_data_dword md" "md_start_instance_user_data_dword (meta_linkage g e md) = md_start_instance_user_data_dword md"
  "md_start_instance_user_data_dword (meta_output_semantics ctx md) = md_start_instance_user_data_dword md" "md_start_instance_user_data_dword (ngg_merged ctx md) = md_start_instance_user_data_dword md"
  "md_start_instance_user_data_dword (publish_ge_pc_alloc ctx md) = md_start_instance_user_data_dword md" "md_start_instance_user_data_dword (ngg_system_sgprs ctx md) = md_start_instance_user_data_dword md"
  "md_start_instance_user_data_dword (ngg_window_base ctx md) = md_start_instance_user_data_dword md" "md_start_instance_user_data_dword (hull_window_base ctx md) = md_start_instance_user_data_dword md"
  "md_start_instance_user_data_dword (hull_workgroup ctx md) = md_start_instance_user_data_dword md" "md_start_instance_user_data_dword (add_context_registers ws md) = md_start_instance_user_data_dword md"
  "md_start_instance_user_data_dword (add_shader_registers ws md) = md_start_instance_user_data_dword md"
  by (simp_all add: meta_block_defs Let_def split: option.split)

lemma keep_draw_id_valid [meta_simps]:
  "md_draw_id_valid (meta_push_constants ctx md) = md_draw_id_valid md" "md_draw_id_valid (meta_ring_table ctx md) = md_draw_id_valid md"
  "md_draw_id_valid (meta_lds_layout ctx md) = md_draw_id_valid md" "md_draw_id_valid (meta_scratch ctx md) = md_draw_id_valid md"
  "md_draw_id_valid (meta_descriptor_sets ctx md) = md_draw_id_valid md" "md_draw_id_valid (meta_vertex_buffers ctx md) = md_draw_id_valid md"
  "md_draw_id_valid (meta_base_vertex ctx md) = md_draw_id_valid md" "md_draw_id_valid (meta_start_instance ctx md) = md_draw_id_valid md"
  "md_draw_id_valid (meta_view_index ctx md) = md_draw_id_valid md" "md_draw_id_valid (meta_streamout ctx md) = md_draw_id_valid md"
  "md_draw_id_valid (meta_descriptor_bindings ctx md) = md_draw_id_valid md" "md_draw_id_valid (meta_used_bindings ctx md) = md_draw_id_valid md"
  "md_draw_id_valid (fragment_input_semantics ctx md) = md_draw_id_valid md" "md_draw_id_valid (meta_linkage g e md) = md_draw_id_valid md"
  "md_draw_id_valid (meta_output_semantics ctx md) = md_draw_id_valid md" "md_draw_id_valid (ngg_merged ctx md) = md_draw_id_valid md"
  "md_draw_id_valid (publish_ge_pc_alloc ctx md) = md_draw_id_valid md" "md_draw_id_valid (ngg_system_sgprs ctx md) = md_draw_id_valid md"
  "md_draw_id_valid (ngg_window_base ctx md) = md_draw_id_valid md" "md_draw_id_valid (hull_window_base ctx md) = md_draw_id_valid md"
  "md_draw_id_valid (hull_workgroup ctx md) = md_draw_id_valid md" "md_draw_id_valid (add_context_registers ws md) = md_draw_id_valid md"
  "md_draw_id_valid (add_shader_registers ws md) = md_draw_id_valid md"
  by (simp_all add: meta_block_defs Let_def split: option.split)

lemma keep_draw_id_user_data_dword [meta_simps]:
  "md_draw_id_user_data_dword (meta_push_constants ctx md) = md_draw_id_user_data_dword md" "md_draw_id_user_data_dword (meta_ring_table ctx md) = md_draw_id_user_data_dword md"
  "md_draw_id_user_data_dword (meta_lds_layout ctx md) = md_draw_id_user_data_dword md" "md_draw_id_user_data_dword (meta_scratch ctx md) = md_draw_id_user_data_dword md"
  "md_draw_id_user_data_dword (meta_descriptor_sets ctx md) = md_draw_id_user_data_dword md" "md_draw_id_user_data_dword (meta_vertex_buffers ctx md) = md_draw_id_user_data_dword md"
  "md_draw_id_user_data_dword (meta_base_vertex ctx md) = md_draw_id_user_data_dword md" "md_draw_id_user_data_dword (meta_start_instance ctx md) = md_draw_id_user_data_dword md"
  "md_draw_id_user_data_dword (meta_view_index ctx md) = md_draw_id_user_data_dword md" "md_draw_id_user_data_dword (meta_streamout ctx md) = md_draw_id_user_data_dword md"
  "md_draw_id_user_data_dword (meta_descriptor_bindings ctx md) = md_draw_id_user_data_dword md" "md_draw_id_user_data_dword (meta_used_bindings ctx md) = md_draw_id_user_data_dword md"
  "md_draw_id_user_data_dword (fragment_input_semantics ctx md) = md_draw_id_user_data_dword md" "md_draw_id_user_data_dword (meta_linkage g e md) = md_draw_id_user_data_dword md"
  "md_draw_id_user_data_dword (meta_output_semantics ctx md) = md_draw_id_user_data_dword md" "md_draw_id_user_data_dword (ngg_merged ctx md) = md_draw_id_user_data_dword md"
  "md_draw_id_user_data_dword (publish_ge_pc_alloc ctx md) = md_draw_id_user_data_dword md" "md_draw_id_user_data_dword (ngg_system_sgprs ctx md) = md_draw_id_user_data_dword md"
  "md_draw_id_user_data_dword (ngg_window_base ctx md) = md_draw_id_user_data_dword md" "md_draw_id_user_data_dword (hull_window_base ctx md) = md_draw_id_user_data_dword md"
  "md_draw_id_user_data_dword (hull_workgroup ctx md) = md_draw_id_user_data_dword md" "md_draw_id_user_data_dword (add_context_registers ws md) = md_draw_id_user_data_dword md"
  "md_draw_id_user_data_dword (add_shader_registers ws md) = md_draw_id_user_data_dword md"
  by (simp_all add: meta_block_defs Let_def split: option.split)

lemma keep_ngg_lds_layout_valid [meta_simps]:
  "md_ngg_lds_layout_valid (meta_push_constants ctx md) = md_ngg_lds_layout_valid md" "md_ngg_lds_layout_valid (meta_ring_table ctx md) = md_ngg_lds_layout_valid md"
  "md_ngg_lds_layout_valid (meta_scratch ctx md) = md_ngg_lds_layout_valid md" "md_ngg_lds_layout_valid (meta_descriptor_sets ctx md) = md_ngg_lds_layout_valid md"
  "md_ngg_lds_layout_valid (meta_vertex_buffers ctx md) = md_ngg_lds_layout_valid md" "md_ngg_lds_layout_valid (meta_base_vertex ctx md) = md_ngg_lds_layout_valid md"
  "md_ngg_lds_layout_valid (meta_draw_id ctx md) = md_ngg_lds_layout_valid md" "md_ngg_lds_layout_valid (meta_start_instance ctx md) = md_ngg_lds_layout_valid md"
  "md_ngg_lds_layout_valid (meta_view_index ctx md) = md_ngg_lds_layout_valid md" "md_ngg_lds_layout_valid (meta_streamout ctx md) = md_ngg_lds_layout_valid md"
  "md_ngg_lds_layout_valid (meta_descriptor_bindings ctx md) = md_ngg_lds_layout_valid md" "md_ngg_lds_layout_valid (meta_used_bindings ctx md) = md_ngg_lds_layout_valid md"
  "md_ngg_lds_layout_valid (fragment_input_semantics ctx md) = md_ngg_lds_layout_valid md" "md_ngg_lds_layout_valid (meta_linkage g e md) = md_ngg_lds_layout_valid md"
  "md_ngg_lds_layout_valid (meta_output_semantics ctx md) = md_ngg_lds_layout_valid md" "md_ngg_lds_layout_valid (ngg_merged ctx md) = md_ngg_lds_layout_valid md"
  "md_ngg_lds_layout_valid (publish_ge_pc_alloc ctx md) = md_ngg_lds_layout_valid md" "md_ngg_lds_layout_valid (ngg_system_sgprs ctx md) = md_ngg_lds_layout_valid md"
  "md_ngg_lds_layout_valid (ngg_window_base ctx md) = md_ngg_lds_layout_valid md" "md_ngg_lds_layout_valid (hull_window_base ctx md) = md_ngg_lds_layout_valid md"
  "md_ngg_lds_layout_valid (hull_workgroup ctx md) = md_ngg_lds_layout_valid md" "md_ngg_lds_layout_valid (add_context_registers ws md) = md_ngg_lds_layout_valid md"
  "md_ngg_lds_layout_valid (add_shader_registers ws md) = md_ngg_lds_layout_valid md"
  by (simp_all add: meta_block_defs Let_def split: option.split)

lemma keep_ngg_lds_layout_user_data_dword [meta_simps]:
  "md_ngg_lds_layout_user_data_dword (meta_push_constants ctx md) = md_ngg_lds_layout_user_data_dword md" "md_ngg_lds_layout_user_data_dword (meta_ring_table ctx md) = md_ngg_lds_layout_user_data_dword md"
  "md_ngg_lds_layout_user_data_dword (meta_scratch ctx md) = md_ngg_lds_layout_user_data_dword md" "md_ngg_lds_layout_user_data_dword (meta_descriptor_sets ctx md) = md_ngg_lds_layout_user_data_dword md"
  "md_ngg_lds_layout_user_data_dword (meta_vertex_buffers ctx md) = md_ngg_lds_layout_user_data_dword md" "md_ngg_lds_layout_user_data_dword (meta_base_vertex ctx md) = md_ngg_lds_layout_user_data_dword md"
  "md_ngg_lds_layout_user_data_dword (meta_draw_id ctx md) = md_ngg_lds_layout_user_data_dword md" "md_ngg_lds_layout_user_data_dword (meta_start_instance ctx md) = md_ngg_lds_layout_user_data_dword md"
  "md_ngg_lds_layout_user_data_dword (meta_view_index ctx md) = md_ngg_lds_layout_user_data_dword md" "md_ngg_lds_layout_user_data_dword (meta_streamout ctx md) = md_ngg_lds_layout_user_data_dword md"
  "md_ngg_lds_layout_user_data_dword (meta_descriptor_bindings ctx md) = md_ngg_lds_layout_user_data_dword md" "md_ngg_lds_layout_user_data_dword (meta_used_bindings ctx md) = md_ngg_lds_layout_user_data_dword md"
  "md_ngg_lds_layout_user_data_dword (fragment_input_semantics ctx md) = md_ngg_lds_layout_user_data_dword md" "md_ngg_lds_layout_user_data_dword (meta_linkage g e md) = md_ngg_lds_layout_user_data_dword md"
  "md_ngg_lds_layout_user_data_dword (meta_output_semantics ctx md) = md_ngg_lds_layout_user_data_dword md" "md_ngg_lds_layout_user_data_dword (ngg_merged ctx md) = md_ngg_lds_layout_user_data_dword md"
  "md_ngg_lds_layout_user_data_dword (publish_ge_pc_alloc ctx md) = md_ngg_lds_layout_user_data_dword md" "md_ngg_lds_layout_user_data_dword (ngg_system_sgprs ctx md) = md_ngg_lds_layout_user_data_dword md"
  "md_ngg_lds_layout_user_data_dword (ngg_window_base ctx md) = md_ngg_lds_layout_user_data_dword md" "md_ngg_lds_layout_user_data_dword (hull_window_base ctx md) = md_ngg_lds_layout_user_data_dword md"
  "md_ngg_lds_layout_user_data_dword (hull_workgroup ctx md) = md_ngg_lds_layout_user_data_dword md" "md_ngg_lds_layout_user_data_dword (add_context_registers ws md) = md_ngg_lds_layout_user_data_dword md"
  "md_ngg_lds_layout_user_data_dword (add_shader_registers ws md) = md_ngg_lds_layout_user_data_dword md"
  by (simp_all add: meta_block_defs Let_def split: option.split)

lemma keep_descriptor_bindings [meta_simps]:
  "md_descriptor_bindings (meta_push_constants ctx md) = md_descriptor_bindings md" "md_descriptor_bindings (meta_ring_table ctx md) = md_descriptor_bindings md"
  "md_descriptor_bindings (meta_lds_layout ctx md) = md_descriptor_bindings md" "md_descriptor_bindings (meta_scratch ctx md) = md_descriptor_bindings md"
  "md_descriptor_bindings (meta_descriptor_sets ctx md) = md_descriptor_bindings md" "md_descriptor_bindings (meta_vertex_buffers ctx md) = md_descriptor_bindings md"
  "md_descriptor_bindings (meta_base_vertex ctx md) = md_descriptor_bindings md" "md_descriptor_bindings (meta_draw_id ctx md) = md_descriptor_bindings md"
  "md_descriptor_bindings (meta_start_instance ctx md) = md_descriptor_bindings md" "md_descriptor_bindings (meta_view_index ctx md) = md_descriptor_bindings md"
  "md_descriptor_bindings (meta_streamout ctx md) = md_descriptor_bindings md" "md_descriptor_bindings (meta_used_bindings ctx md) = md_descriptor_bindings md"
  "md_descriptor_bindings (fragment_input_semantics ctx md) = md_descriptor_bindings md" "md_descriptor_bindings (meta_linkage g e md) = md_descriptor_bindings md"
  "md_descriptor_bindings (meta_output_semantics ctx md) = md_descriptor_bindings md" "md_descriptor_bindings (ngg_merged ctx md) = md_descriptor_bindings md"
  "md_descriptor_bindings (publish_ge_pc_alloc ctx md) = md_descriptor_bindings md" "md_descriptor_bindings (ngg_system_sgprs ctx md) = md_descriptor_bindings md"
  "md_descriptor_bindings (ngg_window_base ctx md) = md_descriptor_bindings md" "md_descriptor_bindings (hull_window_base ctx md) = md_descriptor_bindings md"
  "md_descriptor_bindings (hull_workgroup ctx md) = md_descriptor_bindings md" "md_descriptor_bindings (add_context_registers ws md) = md_descriptor_bindings md"
  "md_descriptor_bindings (add_shader_registers ws md) = md_descriptor_bindings md"
  by (simp_all add: meta_block_defs Let_def split: option.split)

lemma keep_descriptor_binding_count [meta_simps]:
  "md_descriptor_binding_count (meta_push_constants ctx md) = md_descriptor_binding_count md" "md_descriptor_binding_count (meta_ring_table ctx md) = md_descriptor_binding_count md"
  "md_descriptor_binding_count (meta_lds_layout ctx md) = md_descriptor_binding_count md" "md_descriptor_binding_count (meta_scratch ctx md) = md_descriptor_binding_count md"
  "md_descriptor_binding_count (meta_descriptor_sets ctx md) = md_descriptor_binding_count md" "md_descriptor_binding_count (meta_vertex_buffers ctx md) = md_descriptor_binding_count md"
  "md_descriptor_binding_count (meta_base_vertex ctx md) = md_descriptor_binding_count md" "md_descriptor_binding_count (meta_draw_id ctx md) = md_descriptor_binding_count md"
  "md_descriptor_binding_count (meta_start_instance ctx md) = md_descriptor_binding_count md" "md_descriptor_binding_count (meta_view_index ctx md) = md_descriptor_binding_count md"
  "md_descriptor_binding_count (meta_streamout ctx md) = md_descriptor_binding_count md" "md_descriptor_binding_count (meta_used_bindings ctx md) = md_descriptor_binding_count md"
  "md_descriptor_binding_count (fragment_input_semantics ctx md) = md_descriptor_binding_count md" "md_descriptor_binding_count (meta_linkage g e md) = md_descriptor_binding_count md"
  "md_descriptor_binding_count (meta_output_semantics ctx md) = md_descriptor_binding_count md" "md_descriptor_binding_count (ngg_merged ctx md) = md_descriptor_binding_count md"
  "md_descriptor_binding_count (publish_ge_pc_alloc ctx md) = md_descriptor_binding_count md" "md_descriptor_binding_count (ngg_system_sgprs ctx md) = md_descriptor_binding_count md"
  "md_descriptor_binding_count (ngg_window_base ctx md) = md_descriptor_binding_count md" "md_descriptor_binding_count (hull_window_base ctx md) = md_descriptor_binding_count md"
  "md_descriptor_binding_count (hull_workgroup ctx md) = md_descriptor_binding_count md" "md_descriptor_binding_count (add_context_registers ws md) = md_descriptor_binding_count md"
  "md_descriptor_binding_count (add_shader_registers ws md) = md_descriptor_binding_count md"
  by (simp_all add: meta_block_defs Let_def split: option.split)

lemma keep_descriptor_used_binding_mask [meta_simps]:
  "md_descriptor_used_binding_mask (meta_push_constants ctx md) = md_descriptor_used_binding_mask md" "md_descriptor_used_binding_mask (meta_ring_table ctx md) = md_descriptor_used_binding_mask md"
  "md_descriptor_used_binding_mask (meta_lds_layout ctx md) = md_descriptor_used_binding_mask md" "md_descriptor_used_binding_mask (meta_scratch ctx md) = md_descriptor_used_binding_mask md"
  "md_descriptor_used_binding_mask (meta_descriptor_sets ctx md) = md_descriptor_used_binding_mask md" "md_descriptor_used_binding_mask (meta_vertex_buffers ctx md) = md_descriptor_used_binding_mask md"
  "md_descriptor_used_binding_mask (meta_base_vertex ctx md) = md_descriptor_used_binding_mask md" "md_descriptor_used_binding_mask (meta_draw_id ctx md) = md_descriptor_used_binding_mask md"
  "md_descriptor_used_binding_mask (meta_start_instance ctx md) = md_descriptor_used_binding_mask md" "md_descriptor_used_binding_mask (meta_view_index ctx md) = md_descriptor_used_binding_mask md"
  "md_descriptor_used_binding_mask (meta_streamout ctx md) = md_descriptor_used_binding_mask md" "md_descriptor_used_binding_mask (meta_descriptor_bindings ctx md) = md_descriptor_used_binding_mask md"
  "md_descriptor_used_binding_mask (fragment_input_semantics ctx md) = md_descriptor_used_binding_mask md" "md_descriptor_used_binding_mask (meta_linkage g e md) = md_descriptor_used_binding_mask md"
  "md_descriptor_used_binding_mask (meta_output_semantics ctx md) = md_descriptor_used_binding_mask md" "md_descriptor_used_binding_mask (ngg_merged ctx md) = md_descriptor_used_binding_mask md"
  "md_descriptor_used_binding_mask (publish_ge_pc_alloc ctx md) = md_descriptor_used_binding_mask md" "md_descriptor_used_binding_mask (ngg_system_sgprs ctx md) = md_descriptor_used_binding_mask md"
  "md_descriptor_used_binding_mask (ngg_window_base ctx md) = md_descriptor_used_binding_mask md" "md_descriptor_used_binding_mask (hull_window_base ctx md) = md_descriptor_used_binding_mask md"
  "md_descriptor_used_binding_mask (hull_workgroup ctx md) = md_descriptor_used_binding_mask md" "md_descriptor_used_binding_mask (add_context_registers ws md) = md_descriptor_used_binding_mask md"
  "md_descriptor_used_binding_mask (add_shader_registers ws md) = md_descriptor_used_binding_mask md"
  by (simp_all add: meta_block_defs Let_def split: option.split)

section \<open>Register lists\<close>

lemma add_registers_append:
  "length regs + length ws \<le> limit \<Longrightarrow>
     fold (\<lambda>(reg, v). metadata_add_register limit (off reg) v) ws regs =
     regs @ map (\<lambda>(reg, v). mk_write (off reg) v) ws"
proof (induction ws arbitrary: regs)
  case (Cons w ws)
  then show ?case by (cases w) (simp add: metadata_add_register_def)
qed simp

lemma context_registers_added:
  "length (md_context_registers md) + length ws \<le> 16 \<Longrightarrow>
     md_context_registers (add_context_registers ws md) =
     md_context_registers md @ map (\<lambda>(reg, v). mk_write (PSBC_CX_OFFSET reg) v) ws"
  by (simp add: add_context_registers_def add_registers_append)

lemma shader_registers_added:
  "length (md_shader_registers md) + length ws \<le> 8 \<Longrightarrow>
     md_shader_registers (add_shader_registers ws md) =
     md_shader_registers md @ map (\<lambda>(reg, v). mk_write (PSBC_SH_OFFSET reg) v) ws"
  by (simp add: add_shader_registers_def add_registers_append)

lemma common_start [meta_simps]:
  "md_context_registers (meta_common ctx) = []" "md_shader_registers (meta_common ctx) = []"
  "md_hardware_stage (meta_common ctx) = PSBC_HW_STAGE_UNKNOWN"
  "md_unresolved_fields (meta_common ctx) = PSBC_UNRESOLVED_PROGRAM_CHECKSUM"
  "md_user_data_window_base (meta_common ctx) = 0"
  by (simp_all add: meta_common_def meta_simps meta_header_def zero_metadata_def)

text \<open>The registers of a stage, by hardware path, in the order of the lists.\<close>

definition context_program :: "BuildContext \<Rightarrow> (u32 \<times> u32) list" where
  "context_program ctx =
     (if bc_stage ctx = MESA_SHADER_FRAGMENT then fragment_context_registers ctx
      else if ngg_stage ctx then ngg_context_registers ctx @ ngg_output_registers ctx
      else case bc_stage ctx of
        MESA_SHADER_VERTEX \<Rightarrow> vs_context_registers ctx
      | MESA_SHADER_TESS_CTRL \<Rightarrow> [(R_028B6C_VGT_TF_PARAM, tess_tf_param (bc_nir ctx))]
      | MESA_SHADER_TESS_EVAL \<Rightarrow>
          if bc_domain_linked ctx
          then vs_context_registers ctx @
            [(R_028A44_VGT_GS_ONCHIP_CNTL, S_028A44_ES_VERTS_PER_SUBGRP 250 OR
               S_028A44_GS_PRIMS_PER_SUBGRP 126 OR S_028A44_GS_INST_PRIMS_IN_SUBGRP 126)]
          else []
      | _ \<Rightarrow> [])"

definition shader_program :: "BuildContext \<Rightarrow> (u32 \<times> u32) list" where
  "shader_program ctx =
     (if bc_stage ctx = MESA_SHADER_FRAGMENT then fragment_shader_registers ctx
      else if ngg_stage ctx then ngg_shader_registers ctx
      else case bc_stage ctx of
        MESA_SHADER_VERTEX \<Rightarrow> vs_shader_registers ctx
      | MESA_SHADER_TESS_CTRL \<Rightarrow> hull_shader_registers ctx
      | MESA_SHADER_TESS_EVAL \<Rightarrow> if bc_domain_linked ctx then vs_shader_registers ctx else []
      | _ \<Rightarrow> [])"

lemmas program_defs = fragment_context_registers_def fragment_shader_registers_def ngg_context_registers_def
  ngg_output_registers_def ngg_shader_registers_def vs_context_registers_def vs_shader_registers_def
  hull_shader_registers_def

lemma program_lengths:
  "length (fragment_context_registers ctx) = 9" "length (fragment_shader_registers ctx) = 4"
  "length (ngg_context_registers ctx) = 8" "length (ngg_output_registers ctx) \<le> 4"
  "length (ngg_shader_registers ctx) \<le> 6" "length (vs_context_registers ctx) = 6"
  "length (vs_shader_registers ctx) = 7" "length (hull_shader_registers ctx) = 4"
  by (simp_all add: program_defs Let_def)

lemma ngg_stage_cases:
  "bc_stage ctx = MESA_SHADER_TESS_EVAL \<Longrightarrow> ngg_stage ctx \<longleftrightarrow> bc_ngg ctx"
  "bc_stage ctx = MESA_SHADER_VERTEX \<Longrightarrow> ngg_stage ctx \<longleftrightarrow> bc_ngg ctx"
  "bc_stage ctx = MESA_SHADER_GEOMETRY \<Longrightarrow> ngg_stage ctx \<longleftrightarrow> bc_ngg ctx"
  "ngg_stage ctx \<Longrightarrow> bc_stage ctx \<noteq> MESA_SHADER_FRAGMENT"
  by (auto simp: ngg_stage_def)

lemmas meta_stage_defs = meta_fragment_def meta_ngg_def meta_legacy_geometry_def meta_vertex_def meta_hull_def
  meta_domain_def meta_tess_eval_def

lemma fill_context_registers:
  "md_context_registers (fill_shader_metadata ctx) =
     map (\<lambda>(reg, v). mk_write (PSBC_CX_OFFSET reg) v) (context_program ctx)"
  using program_lengths [of ctx]
  by (cases "bc_stage ctx")
    (simp_all add: fill_shader_metadata_def context_program_def meta_stage_defs Let_def meta_simps
      context_registers_added ngg_stage_cases)

lemma fill_shader_registers:
  "md_shader_registers (fill_shader_metadata ctx) =
     map (\<lambda>(reg, v). mk_write (PSBC_SH_OFFSET reg) v) (shader_program ctx)"
  using program_lengths [of ctx]
  by (cases "bc_stage ctx")
    (simp_all add: fill_shader_metadata_def shader_program_def meta_stage_defs Let_def meta_simps
      shader_registers_added ngg_stage_cases)

lemma ngg_offsets_distinct:
  "distinct (map (PSBC_CX_OFFSET \<circ> fst) (ngg_context_registers ctx @ ngg_output_registers ctx))"
  "distinct (map (PSBC_SH_OFFSET \<circ> fst) (ngg_shader_registers ctx))"
  by (cases "has_geometry ctx"; simp add: program_defs Let_def PSBC_CX_OFFSET_def)
    (cases "bc_target ctx = PSBC_TARGET_PS5"; simp add: program_defs PSBC_SH_OFFSET_def)

lemma context_offsets_distinct: "distinct (map (PSBC_CX_OFFSET \<circ> fst) (context_program ctx))"
proof (cases "ngg_stage ctx")
  case True
  then show ?thesis using ngg_offsets_distinct(1) by (simp add: context_program_def ngg_stage_cases)
next
  case False
  then show ?thesis
    by (simp add: context_program_def fragment_context_registers_def vs_context_registers_def Let_def
        PSBC_CX_OFFSET_def split: mesa_shader_stage.split)
qed

lemma shader_offsets_distinct: "distinct (map (PSBC_SH_OFFSET \<circ> fst) (shader_program ctx))"
proof (cases "ngg_stage ctx")
  case True
  then show ?thesis using ngg_offsets_distinct(2) by (simp add: shader_program_def ngg_stage_cases)
next
  case False
  then show ?thesis
    by (simp add: shader_program_def fragment_shader_registers_def vs_shader_registers_def
        hull_shader_registers_def PSBC_SH_OFFSET_def split: mesa_shader_stage.split)
qed

lemma program_limits: "length (context_program ctx) \<le> 12" "length (shader_program ctx) \<le> 7"
  using program_lengths [of ctx]
  by (auto simp: context_program_def shader_program_def split: mesa_shader_stage.split)

lemma offsets_of_writes:
  "map rw_offset (map (\<lambda>(reg, v). mk_write (off reg) v) ws) = map (off \<circ> fst) ws"
  by (induction ws) (auto simp: mk_write_def)

text \<open>C8. No register is ever dropped or written twice. The arrays of the metadata silently drop writes
  beyond 16 context and 8 shader registers; for every build context the published lists are the
  complete lists of the stage, in order, with at most 12 and 7 entries, and no two entries of a list
  have the same register offset.\<close>
theorem fill_shader_metadata_registers:
  "md_context_registers (fill_shader_metadata ctx) =
     map (\<lambda>(reg, v). mk_write (PSBC_CX_OFFSET reg) v) (context_program ctx) \<and>
   md_shader_registers (fill_shader_metadata ctx) =
     map (\<lambda>(reg, v). mk_write (PSBC_SH_OFFSET reg) v) (shader_program ctx) \<and>
   length (md_context_registers (fill_shader_metadata ctx)) \<le> 12 \<and>
   length (md_shader_registers (fill_shader_metadata ctx)) \<le> 7 \<and>
   distinct (map rw_offset (md_context_registers (fill_shader_metadata ctx))) \<and>
   distinct (map rw_offset (md_shader_registers (fill_shader_metadata ctx)))"
  unfolding fill_context_registers fill_shader_registers offsets_of_writes
  using program_limits [of ctx] context_offsets_distinct [of ctx] shader_offsets_distinct [of ctx] by simp

section \<open>Classification\<close>

text \<open>The resource registers of the program that each hardware stage launches.\<close>

primrec resource_registers :: "PsbcHardwareStage \<Rightarrow> (u32 \<times> u32) option" where
  "resource_registers PSBC_HW_STAGE_UNKNOWN = None"
| "resource_registers PSBC_HW_STAGE_VERTEX = Some (R_00B128_SPI_SHADER_PGM_RSRC1_VS, R_00B12C_SPI_SHADER_PGM_RSRC2_VS)"
| "resource_registers PSBC_HW_STAGE_NGG = Some (R_00B228_SPI_SHADER_PGM_RSRC1_GS, R_00B22C_SPI_SHADER_PGM_RSRC2_GS)"
| "resource_registers PSBC_HW_STAGE_PIXEL = Some (R_00B028_SPI_SHADER_PGM_RSRC1_PS, R_00B02C_SPI_SHADER_PGM_RSRC2_PS)"
| "resource_registers PSBC_HW_STAGE_HULL = Some (R_00B428_SPI_SHADER_PGM_RSRC1_HS, R_00B42C_SPI_SHADER_PGM_RSRC2_HS)"

lemma fill_hardware_stage:
  "md_hardware_stage (fill_shader_metadata ctx) =
     (if bc_stage ctx = MESA_SHADER_FRAGMENT then PSBC_HW_STAGE_PIXEL
      else if ngg_stage ctx then PSBC_HW_STAGE_NGG
      else if bc_stage ctx = MESA_SHADER_VERTEX \<or> bc_stage ctx = MESA_SHADER_TESS_EVAL \<and> bc_domain_linked ctx
      then PSBC_HW_STAGE_VERTEX
      else if bc_stage ctx = MESA_SHADER_TESS_CTRL \<and> bc_ls_merged ctx then PSBC_HW_STAGE_HULL
      else PSBC_HW_STAGE_UNKNOWN)"
  by (cases "bc_stage ctx")
    (simp_all add: fill_shader_metadata_def meta_stage_defs Let_def meta_simps ngg_stage_cases)

lemma find_shader_register_map:
  "distinct (map (off \<circ> fst) ws) \<Longrightarrow> (reg, v) \<in> set ws \<Longrightarrow>
     find_shader_register (map (\<lambda>(reg, v). mk_write (off reg) v) ws) (off reg) = Some (mk_write (off reg) v)"
proof (induction ws)
  case (Cons w ws)
  show ?case
  proof (cases "w = (reg, v)")
    case False
    then have mem: "(reg, v) \<in> set ws" using Cons.prems by auto
    then have "off (fst w) \<noteq> off reg" using Cons.prems(1) by force
    moreover have "find_shader_register (map (\<lambda>(reg, v). mk_write (off reg) v) ws) (off reg) =
        Some (mk_write (off reg) v)"
      using Cons.IH Cons.prems(1) mem by simp
    ultimately show ?thesis by (cases w) (simp add: mk_write_def)
  qed (simp add: mk_write_def)
qed simp

text \<open>A consumer that knows the hardware stage finds the program's resource words. For every metadata
  whose hardware stage is known, looking up the two resource registers of that stage in the shader
  registers yields exactly the words of the compiled configuration.\<close>
theorem resource_words_found:
  assumes "resource_registers (md_hardware_stage (fill_shader_metadata ctx)) = Some (r1, r2)"
  shows "find_shader_register (md_shader_registers (fill_shader_metadata ctx)) (PSBC_SH_OFFSET r1) =
      Some (mk_write (PSBC_SH_OFFSET r1) (cfg_rsrc1 (bc_config ctx))) \<and>
    find_shader_register (md_shader_registers (fill_shader_metadata ctx)) (PSBC_SH_OFFSET r2) =
      Some (mk_write (PSBC_SH_OFFSET r2) (cfg_rsrc2 (bc_config ctx)))"
proof -
  have "(r1, cfg_rsrc1 (bc_config ctx)) \<in> set (shader_program ctx) \<and>
      (r2, cfg_rsrc2 (bc_config ctx)) \<in> set (shader_program ctx)"
    using assms
    by (cases "bc_stage ctx")
      (auto simp: fill_hardware_stage shader_program_def program_defs ngg_stage_cases split: if_splits)
  then show ?thesis
    unfolding fill_shader_registers
    using find_shader_register_map [OF shader_offsets_distinct] by blast
qed

theorem resource_words_found_witness:
  "find_shader_register (md_shader_registers (fill_shader_metadata (zero_context
      \<lparr>bc_stage := MESA_SHADER_FRAGMENT, bc_config := zero_config\<lparr>cfg_rsrc1 := 7, cfg_rsrc2 := 9\<rparr>\<rparr>)))
     (PSBC_SH_OFFSET R_00B02C_SPI_SHADER_PGM_RSRC2_PS) =
   Some (mk_write (PSBC_SH_OFFSET R_00B02C_SPI_SHADER_PGM_RSRC2_PS) 9)"
proof -
  let ?ctx = "zero_context\<lparr>bc_stage := MESA_SHADER_FRAGMENT,
      bc_config := zero_config\<lparr>cfg_rsrc1 := 7, cfg_rsrc2 := 9\<rparr>\<rparr>"
  have "resource_registers (md_hardware_stage (fill_shader_metadata ?ctx)) =
      Some (R_00B028_SPI_SHADER_PGM_RSRC1_PS, R_00B02C_SPI_SHADER_PGM_RSRC2_PS)"
    by (simp add: fill_hardware_stage)
  from resource_words_found [OF this] show ?thesis by simp
qed

text \<open>What leaves a field unresolved.\<close>

definition semantics_missing :: "BuildContext \<Rightarrow> bool" where
  "semantics_missing ctx \<longleftrightarrow>
     (case bc_input_semantics ctx of None \<Rightarrow> True | Some s \<Rightarrow> \<not> is_valid s)"

definition outputs_incomplete :: "BuildContext \<Rightarrow> bool" where
  "outputs_incomplete ctx \<longleftrightarrow> \<not> fst (fill_output_semantics (bc_rinfo ctx) zero_metadata)"

lemma output_semantics_unresolved [meta_simps]:
  "md_unresolved_fields (meta_output_semantics ctx md) =
     md_unresolved_fields md OR (if outputs_incomplete ctx then PSBC_UNRESOLVED_AGC_LINKAGE else 0)"
  by (simp add: meta_output_semantics_def outputs_incomplete_def fill_output_semantics_def Let_def)

lemma input_semantics_unresolved [meta_simps]:
  "md_unresolved_fields (fragment_input_semantics ctx md) =
     md_unresolved_fields md OR (if semantics_missing ctx then PSBC_UNRESOLVED_AGC_LINKAGE else 0)"
  by (simp add: fragment_input_semantics_def semantics_missing_def split: option.split)

definition linkage_unresolved :: "BuildContext \<Rightarrow> bool" where
  "linkage_unresolved ctx \<longleftrightarrow>
     (bc_stage ctx = MESA_SHADER_FRAGMENT \<and> semantics_missing ctx) \<or>
     (bc_stage ctx = MESA_SHADER_GEOMETRY \<and> \<not> bc_ngg ctx) \<or>
     ((ngg_stage ctx \<or> bc_stage ctx = MESA_SHADER_TESS_EVAL \<and> bc_domain_linked ctx) \<and> outputs_incomplete ctx)"

definition tess_unresolved :: "BuildContext \<Rightarrow> bool" where
  "tess_unresolved ctx \<longleftrightarrow>
     (bc_stage ctx = MESA_SHADER_TESS_CTRL \<and> \<not> bc_ls_merged ctx) \<or>
     (bc_stage ctx = MESA_SHADER_TESS_EVAL \<and> \<not> bc_ngg ctx \<and> \<not> bc_domain_linked ctx)"

text \<open>C36. The unresolved fields say exactly what is missing. The program checksum is always unresolved; the
  ring item size exactly for NGG programs; the tessellation pipeline exactly for a control half
  compiled alone and for an evaluation half that is neither NGG nor linked; and the linkage exactly
  for a pixel stage without valid input semantics, a legacy geometry stage, and a pre-raster stage
  whose output semantics are incomplete. The hardware stage is unknown exactly for the stages that
  have no launchable graphics package.\<close>
theorem unresolved_fields_exact:
  "md_unresolved_fields (fill_shader_metadata ctx) =
     PSBC_UNRESOLVED_PROGRAM_CHECKSUM OR
     (if ngg_stage ctx then PSBC_UNRESOLVED_NGG_ESGS_RING_ITEMSIZE else 0) OR
     (if linkage_unresolved ctx then PSBC_UNRESOLVED_AGC_LINKAGE else 0) OR
     (if tess_unresolved ctx then PSBC_UNRESOLVED_TESS_PIPELINE else 0) \<and>
   (md_hardware_stage (fill_shader_metadata ctx) = PSBC_HW_STAGE_UNKNOWN) =
     (bc_stage ctx \<in> {MESA_SHADER_NONE, MESA_SHADER_COMPUTE, MESA_SHADER_TASK, MESA_SHADER_MESH} \<or>
      (bc_stage ctx = MESA_SHADER_GEOMETRY \<and> \<not> bc_ngg ctx) \<or> tess_unresolved ctx)"
proof
  show "md_unresolved_fields (fill_shader_metadata ctx) =
     PSBC_UNRESOLVED_PROGRAM_CHECKSUM OR
     (if ngg_stage ctx then PSBC_UNRESOLVED_NGG_ESGS_RING_ITEMSIZE else 0) OR
     (if linkage_unresolved ctx then PSBC_UNRESOLVED_AGC_LINKAGE else 0) OR
     (if tess_unresolved ctx then PSBC_UNRESOLVED_TESS_PIPELINE else 0)"
    by (cases "bc_stage ctx")
      (simp_all add: fill_shader_metadata_def meta_stage_defs Let_def meta_simps ngg_stage_def
        linkage_unresolved_def tess_unresolved_def or.assoc)
  show "(md_hardware_stage (fill_shader_metadata ctx) = PSBC_HW_STAGE_UNKNOWN) =
     (bc_stage ctx \<in> {MESA_SHADER_NONE, MESA_SHADER_COMPUTE, MESA_SHADER_TASK, MESA_SHADER_MESH} \<or>
      (bc_stage ctx = MESA_SHADER_GEOMETRY \<and> \<not> bc_ngg ctx) \<or> tess_unresolved ctx)"
    by (cases "bc_stage ctx") (auto simp: fill_hardware_stage tess_unresolved_def ngg_stage_def)
qed

section \<open>User-data window\<close>

definition window_agrees :: "u32 \<Rightarrow> bool \<times> u32 \<times> u32 \<Rightarrow> bool" where
  "window_agrees b p \<longleftrightarrow> (case p of (live, off, dword) \<Rightarrow> live \<longrightarrow> dword \<le> off \<and> off - dword = b)"

lemma window_agrees_triple:
  "window_agrees b (live, off, dword) \<longleftrightarrow> (live \<longrightarrow> \<not> off < dword \<and> off - dword = b)"
  by (auto simp: window_agrees_def not_less)

lemma window_loop_Some:
  "window_loop ps (Some b) = (if list_all (window_agrees b) ps then Some (Some b) else None)"
  by (induction ps) (auto simp: window_agrees_triple)

lemma window_loop_None:
  "window_loop ps None = Some (Some b) \<longleftrightarrow> list_ex fst ps \<and> list_all (window_agrees b) ps"
  by (induction ps) (auto simp: window_loop_Some window_agrees_triple split: if_splits)

lemma window_agrees_unat:
  "window_agrees b (live, off, dword) \<longleftrightarrow> (live \<longrightarrow> unat off = unat dword + unat b)"
proof -
  have "dword \<le> off \<and> off - dword = b \<longleftrightarrow> unat off = unat dword + unat b"
  proof
    assume "dword \<le> off \<and> off - dword = b"
    then show "unat off = unat dword + unat b" by (auto simp: unat_sub word_le_nat_alt)
  next
    assume eq: "unat off = unat dword + unat b"
    then have "dword \<le> off" by (simp add: word_le_nat_alt)
    then show "dword \<le> off \<and> off - dword = b" using eq by (simp add: word_unat_eq_iff unat_sub)
  qed
  then show ?thesis by (simp add: window_agrees_def)
qed

lemma keep_window_pairs [meta_simps]:
  "window_pairs ctx (add_context_registers ws md) = window_pairs ctx md"
  "window_pairs ctx (add_shader_registers ws md) = window_pairs ctx md"
  "window_pairs ctx (ngg_window_base ctx md) = window_pairs ctx md"
  by (simp_all add: window_pairs_def meta_simps)

lemma ngg_window_base_value [meta_simps]:
  "md_user_data_window_base (ngg_window_base ctx md) =
     (case window_loop (window_pairs ctx md) None of Some (Some b) \<Rightarrow> b | _ \<Rightarrow> md_user_data_window_base md)"
  by (simp add: ngg_window_base_def split: option.split)

lemma fill_window_base:
  assumes "ngg_stage ctx"
  defines "md \<equiv> fill_shader_metadata ctx"
  shows "md_user_data_window_base md =
    (case window_loop (window_pairs ctx md) None of Some (Some b) \<Rightarrow> b | _ \<Rightarrow> 0)"
  using assms(1)
  by (simp add: md_def fill_shader_metadata_def ngg_stage_cases meta_ngg_def meta_simps Let_def
      cong: option.case_cong)

text \<open>C37. The base of the user-data window of an NGG program is right for every published argument. When the
  base vertex, start instance, draw index and LDS layout that are published and used all lie the
  same distance above their user-data dwords, that distance is the published base; when they
  disagree, one lies below its dword, or none is published, no base is published and the field
  stays zero.\<close>
theorem user_data_window_base_sound:
  assumes "ngg_stage ctx"
  defines "md \<equiv> fill_shader_metadata ctx"
    and "live \<equiv> filter fst (window_pairs ctx (fill_shader_metadata ctx))"
  shows "(\<forall>b. live \<noteq> [] \<and> (\<forall>(l, off, dword)\<in>set live. unat off = unat dword + unat b) \<longrightarrow>
       md_user_data_window_base md = b) \<and>
    ((\<nexists>b. live \<noteq> [] \<and> (\<forall>(l, off, dword)\<in>set live. unat off = unat dword + unat (b :: u32))) \<longrightarrow>
       md_user_data_window_base md = 0)"
proof -
  let ?ps = "window_pairs ctx md"
  have iff: "window_loop ?ps None = Some (Some b) \<longleftrightarrow>
      live \<noteq> [] \<and> (\<forall>(l, off, dword)\<in>set live. unat off = unat dword + unat b)" for b
  proof -
    have "list_ex fst ?ps \<longleftrightarrow> live \<noteq> []" by (simp add: live_def md_def list_ex_iff filter_empty_conv)
    moreover have "list_all (window_agrees b) ?ps \<longleftrightarrow>
        (\<forall>(l, off, dword)\<in>set live. unat off = unat dword + unat b)"
      by (auto simp: list_all_iff live_def md_def window_agrees_unat)
    ultimately show ?thesis by (simp add: window_loop_None)
  qed
  have base: "md_user_data_window_base md = (case window_loop ?ps None of Some (Some b) \<Rightarrow> b | _ \<Rightarrow> 0)"
    unfolding md_def by (rule fill_window_base [OF assms(1)])
  show ?thesis
  proof (cases "\<exists>b. window_loop ?ps None = Some (Some b)")
    case True
    then obtain c where c: "window_loop ?ps None = Some (Some c)" by blast
    then have "md_user_data_window_base md = c" using base by simp
    then show ?thesis using c iff by (metis option.inject)
  next
    case False
    then have "md_user_data_window_base md = 0" using base by (simp split: option.splits)
    then show ?thesis using False iff by blast
  qed
qed

definition sample_ngg :: BuildContext where
  "sample_ngg = zero_context\<lparr>bc_ngg := True, bc_stage := MESA_SHADER_VERTEX,
     bc_rargs := zero_args\<lparr>sa_arg_offset := [0, 11, 12] @ replicate 381 0,
       sa_base_vertex := \<lparr>arg_index = 1, arg_used = True\<rparr>, sa_draw_id := \<lparr>arg_index = 2, arg_used = True\<rparr>,
       sa_shader_data := (replicate 28 0)[AC_UD_VS_BASE_VERTEX_START_INSTANCE := 3]\<rparr>\<rparr>"

theorem user_data_window_base_sound_witness:
  "ngg_stage sample_ngg \<and> md_user_data_window_base (fill_shader_metadata sample_ngg) = 8"
proof -
  have ngg: "ngg_stage sample_ngg" by (simp add: ngg_stage_def sample_ngg_def)
  let ?md = "fill_shader_metadata sample_ngg"
  have common: "window_pairs sample_ngg ?md = window_pairs sample_ngg (meta_common sample_ngg)"
    using ngg by (simp add: fill_shader_metadata_def ngg_stage_cases meta_ngg_def meta_simps Let_def window_pairs_def)
  have "filter fst (window_pairs sample_ngg ?md) = [(True, 11, 3), (True, 12, 4)]"
    unfolding common
    by (simp add: window_pairs_def meta_common_def meta_simps meta_base_vertex_def meta_draw_id_def
        meta_start_instance_def meta_lds_layout_def meta_header_def zero_metadata_def reads_vertices_def
        user_data_def arg_offset_def sample_ngg_def zero_context_def zero_args_def zero_arg_def)
  then show ?thesis using user_data_window_base_sound [OF ngg] ngg by simp
qed

section \<open>Descriptor masks\<close>

lemma declare_binding_fold:
  assumes "length masks = 4" "s < 4" "k < 64"
  shows "length (fold declare_binding bs masks) = 4"
    "bit (fold declare_binding bs masks ! s) k \<longleftrightarrow>
       bit (masks ! s) k \<or> (\<exists>b\<in>set bs. unat (db_set b) = s \<and> unat (db_binding b) = k)"
proof -
  have len: "length (declare_binding b m) = length m" for b m by (simp add: declare_binding_def)
  show "length (fold declare_binding bs masks) = 4"
    using assms(1) by (induction bs arbitrary: masks) (simp_all add: len)
  show "bit (fold declare_binding bs masks ! s) k \<longleftrightarrow>
      bit (masks ! s) k \<or> (\<exists>b\<in>set bs. unat (db_set b) = s \<and> unat (db_binding b) = k)"
    using assms(1)
  proof (induction bs arbitrary: masks)
    case (Cons b bs)
    have "bit (declare_binding b masks ! s) k \<longleftrightarrow>
        bit (masks ! s) k \<or> unat (db_set b) = s \<and> unat (db_binding b) = k"
      using Cons.prems assms(2,3)
      by (auto simp: declare_binding_def nth_list_update bit_or_iff bit_exp_iff)
    then show ?case using Cons.IH [of "declare_binding b masks"] Cons.prems by (auto simp: len)
  qed simp
qed

lemma fill_descriptors:
  "md_descriptor_bindings (fill_shader_metadata ctx) = md_descriptor_bindings (meta_common ctx)"
  "md_descriptor_binding_count (fill_shader_metadata ctx) = md_descriptor_binding_count (meta_common ctx)"
  "md_descriptor_used_binding_mask (fill_shader_metadata ctx) = md_descriptor_used_binding_mask (meta_common ctx)"
  by (simp_all add: fill_shader_metadata_def meta_stage_defs Let_def meta_simps)

text \<open>The metadata reports the descriptors of the shader truthfully. It repeats the declared bindings in
  order; without static descriptor use its per-set masks have exactly the bits of the declared
  bindings, so that nothing declared can look unused, and with static use they are the masks gathered
  from the optimized shader.\<close>
theorem descriptor_masks_reported:
  assumes "length (opt_descriptor_bindings (bc_options ctx)) = 64"
    and "unat (opt_descriptor_binding_count (bc_options ctx)) \<le> 64"
  defines "declared \<equiv> take (unat (opt_descriptor_binding_count (bc_options ctx)))
      (opt_descriptor_bindings (bc_options ctx))"
    and "static \<equiv> opt_descriptor_binding_count (bc_options ctx) \<noteq> 0 \<and> opt_static_descriptor_use (bc_options ctx)"
    and "md \<equiv> fill_shader_metadata ctx"
  shows "take (unat (md_descriptor_binding_count md)) (md_descriptor_bindings md) = declared \<and>
    length (md_descriptor_bindings md) = 64 \<and>
    (static \<longrightarrow> md_descriptor_used_binding_mask md = bc_descriptor_used_binding_mask ctx) \<and>
    (\<not> static \<longrightarrow> (\<forall>s < 4. \<forall>k < 64. bit (md_descriptor_used_binding_mask md ! s) k \<longleftrightarrow>
       (\<exists>b\<in>set declared. unat (db_set b) = s \<and> unat (db_binding b) = k)))"
proof -
  have count: "md_descriptor_binding_count md = opt_descriptor_binding_count (bc_options ctx)"
    by (simp add: md_def fill_descriptors meta_common_def meta_simps meta_descriptor_bindings_def Let_def)
  have bs: "md_descriptor_bindings md = declared @
      replicate (64 - unat (opt_descriptor_binding_count (bc_options ctx))) zero_binding"
    by (simp add: md_def fill_descriptors meta_common_def meta_simps meta_descriptor_bindings_def Let_def
        declared_def meta_header_def zero_metadata_def)
  have len: "length declared = unat (opt_descriptor_binding_count (bc_options ctx))"
    using assms(1,2) by (simp add: declared_def)
  have mask: "md_descriptor_used_binding_mask md =
      (if static then bc_descriptor_used_binding_mask ctx else fold declare_binding declared (replicate 4 0))"
    using len
    by (simp add: md_def fill_descriptors meta_common_def meta_used_bindings_def meta_simps static_def
        meta_descriptor_bindings_def Let_def declared_def meta_header_def zero_metadata_def)
  show ?thesis
    using assms(2) len by (auto simp: count bs mask declare_binding_fold(2))
qed

theorem descriptor_masks_reported_witness:
  "bit (md_descriptor_used_binding_mask (fill_shader_metadata (zero_context\<lparr>bc_options := zero_options
     \<lparr>opt_descriptor_binding_count := 1,
      opt_descriptor_bindings := zero_binding\<lparr>db_set := 2, db_binding := 5\<rparr> # replicate 63 zero_binding\<rparr>\<rparr>)) ! 2) 5"
proof -
  let ?ctx = "zero_context\<lparr>bc_options := zero_options\<lparr>opt_descriptor_binding_count := 1,
      opt_descriptor_bindings := zero_binding\<lparr>db_set := 2, db_binding := 5\<rparr> # replicate 63 zero_binding\<rparr>\<rparr>"
  have "length (opt_descriptor_bindings (bc_options ?ctx)) = 64"
    "unat (opt_descriptor_binding_count (bc_options ?ctx)) \<le> 64" by simp_all
  from descriptor_masks_reported [OF this] show ?thesis by (simp add: zero_options_def)
qed

end
