(* ===== verification/Pssl_Format.thy ===== *)
theory Pssl_Format
  imports Psbc_Prelude
begin

text \<open>
  The container of a shader binary, \<^verbatim>\<open>src/include/pssl_types.h\<close>: its header and its parameter block with their
  byte layouts, and the inline readers that locate the parts of a binary.  A pointer into a binary
  is its distance from the pointer the reader was given; \<open>None\<close> is a null pointer.  The lemmas show
  that the layouts can be read back, and that the tables behind the parameter block do not overlap.
\<close>

section \<open>Definitions\<close>

subsection \<open>Header\<close>

datatype PsslShaderType
  = PSSL_SHADER_VS | PSSL_SHADER_FS | PSSL_SHADER_CS | PSSL_SHADER_GS | PSSL_SHADER_HS | PSSL_SHADER_DS

primrec shader_type_value :: "PsslShaderType \<Rightarrow> u8" where
  "shader_type_value PSSL_SHADER_VS = 0" | "shader_type_value PSSL_SHADER_FS = 1"
| "shader_type_value PSSL_SHADER_CS = 2" | "shader_type_value PSSL_SHADER_GS = 3"
| "shader_type_value PSSL_SHADER_HS = 4" | "shader_type_value PSSL_SHADER_DS = 5"

datatype PsslCodeType = PSSL_CODE_IL | PSSL_CODE_ISA | PSSL_CODE_SCU

primrec code_type_value :: "PsslCodeType \<Rightarrow> u8" where
  "code_type_value PSSL_CODE_IL = 0" | "code_type_value PSSL_CODE_ISA = 1" | "code_type_value PSSL_CODE_SCU = 2"

datatype PsslCompilerType
  = PSSL_COMPILER_UNSPECIFIED | PSSL_COMPILER_ORBIS_PSSLC | PSSL_COMPILER_ORBIS_ESSLC
  | PSSL_COMPILER_ORBIS_WAVE | PSSL_COMPILER_ORBIS_CU_AS

primrec compiler_type_value :: "PsslCompilerType \<Rightarrow> u8" where
  "compiler_type_value PSSL_COMPILER_UNSPECIFIED = 0" | "compiler_type_value PSSL_COMPILER_ORBIS_PSSLC = 1"
| "compiler_type_value PSSL_COMPILER_ORBIS_ESSLC = 2" | "compiler_type_value PSSL_COMPILER_ORBIS_WAVE = 3"
| "compiler_type_value PSSL_COMPILER_ORBIS_CU_AS = 4"

text \<open>The four variants of the pipeline stage are a list of four bytes, the union of system attributes
  is a list of twelve.\<close>

record PsslBinaryHeader =
  bh_vermajor :: u8
  bh_verminor :: u8
  bh_compiler_revision :: u16
  bh_association_hash0 :: u32
  bh_association_hash1 :: u32
  bh_shadertype :: u8
  bh_codetype :: u8
  bh_uses_srt :: u8
  bh_compilertype :: u8
  bh_codesize :: u32
  bh_stageinfo :: bytes
  bh_sysattributeinfo :: bytes

abbreviation (input) sizeof_PsslBinaryHeader :: nat where
  "sizeof_PsslBinaryHeader \<equiv> 0x24"

definition encode_header :: "PsslBinaryHeader \<Rightarrow> bytes" where
  "encode_header h =
     [bh_vermajor h, bh_verminor h] @ le16 (bh_compiler_revision h) @ le32 (bh_association_hash0 h) @
     le32 (bh_association_hash1 h) @ [bh_shadertype h, bh_codetype h, bh_uses_srt h, bh_compilertype h] @
     le32 (bh_codesize h) @ bh_stageinfo h @ bh_sysattributeinfo h"

text \<open>What a reader that treats an address as a header sees there.\<close>

definition decode_header :: "bytes \<Rightarrow> PsslBinaryHeader" where
  "decode_header bs =
     \<lparr>bh_vermajor = bs ! 0, bh_verminor = bs ! 1, bh_compiler_revision = de16 (slice_at 2 2 bs),
      bh_association_hash0 = de32 (slice_at 4 4 bs), bh_association_hash1 = de32 (slice_at 8 4 bs),
      bh_shadertype = bs ! 12, bh_codetype = bs ! 13, bh_uses_srt = bs ! 14, bh_compilertype = bs ! 15,
      bh_codesize = de32 (slice_at 16 4 bs), bh_stageinfo = slice_at 20 4 bs,
      bh_sysattributeinfo = slice_at 24 12 bs\<rparr>"

text \<open>\<open>None\<close>: the assertion on the compiler type fails.\<close>

definition psslSbCompilerType :: "PsslBinaryHeader \<Rightarrow> u8 option" where
  "psslSbCompilerType hdr =
     (let val = bh_compilertype hdr AND 0xf in
      if val > compiler_type_value PSSL_COMPILER_ORBIS_CU_AS then None else Some val)"

subsection \<open>Parameter block\<close>

record PsslBinaryParamInfo =
  pi_numbufferresources :: u32
  pi_numconstants :: u32
  pi_numvariables :: u32
  pi_numsamplerresources :: u32
  pi_numinputattributes :: u8
  pi_numoutputattributes :: u8
  pi_numstreamout :: u8
  pi_unused :: u8
  pi_valuetablesize :: u32
  pi_stringtablesize :: u32

definition zero_param_info :: PsslBinaryParamInfo where
  "zero_param_info = \<lparr>pi_numbufferresources = 0, pi_numconstants = 0, pi_numvariables = 0,
     pi_numsamplerresources = 0, pi_numinputattributes = 0, pi_numoutputattributes = 0, pi_numstreamout = 0,
     pi_unused = 0, pi_valuetablesize = 0, pi_stringtablesize = 0\<rparr>"

definition encode_param_info :: "PsslBinaryParamInfo \<Rightarrow> bytes" where
  "encode_param_info p =
     le32 (pi_numbufferresources p) @ le32 (pi_numconstants p) @ le32 (pi_numvariables p) @
     le32 (pi_numsamplerresources p) @
     [pi_numinputattributes p, pi_numoutputattributes p, pi_numstreamout p, pi_unused p] @
     le32 (pi_valuetablesize p) @ le32 (pi_stringtablesize p)"

definition decode_param_info :: "bytes \<Rightarrow> PsslBinaryParamInfo" where
  "decode_param_info bs =
     \<lparr>pi_numbufferresources = de32 (slice_at 0 4 bs), pi_numconstants = de32 (slice_at 4 4 bs),
      pi_numvariables = de32 (slice_at 8 4 bs), pi_numsamplerresources = de32 (slice_at 12 4 bs),
      pi_numinputattributes = bs ! 16, pi_numoutputattributes = bs ! 17, pi_numstreamout = bs ! 18,
      pi_unused = bs ! 19, pi_valuetablesize = de32 (slice_at 20 4 bs),
      pi_stringtablesize = de32 (slice_at 24 4 bs)\<rparr>"

abbreviation (input) sizeof_PsslBinaryParamInfo :: nat where
  "sizeof_PsslBinaryParamInfo \<equiv> 0x1c"

abbreviation (input) sizeof_PsslBinaryBuffer :: nat where
  "sizeof_PsslBinaryBuffer \<equiv> 0x18"

abbreviation (input) sizeof_PsslBinaryConstant :: nat where
  "sizeof_PsslBinaryConstant \<equiv> 0x20"

abbreviation (input) sizeof_PsslBinaryElement :: nat where
  "sizeof_PsslBinaryElement \<equiv> 0x24"

abbreviation (input) sizeof_PsslBinarySamplerState :: nat where
  "sizeof_PsslBinarySamplerState \<equiv> 0x10"

abbreviation (input) sizeof_PsslBinaryAttribute :: nat where
  "sizeof_PsslBinaryAttribute \<equiv> 0x10"

subsection \<open>Readers\<close>

text \<open>The distance from the header; \<open>info_size\<close> is the size of the binary info, a structure of the GNM
  headers.\<close>

definition psslSbGnmShader :: "PsslBinaryHeader option \<Rightarrow> int option" where
  "psslSbGnmShader hdr = map_option (\<lambda>h. int sizeof_PsslBinaryHeader) hdr"

definition psslSbGnmShaderBinaryInfo :: "nat \<Rightarrow> PsslBinaryHeader option \<Rightarrow> int option" where
  "psslSbGnmShaderBinaryInfo info_size hdr =
     map_option (\<lambda>h. int sizeof_PsslBinaryHeader + int (unat (bh_codesize h)) - int info_size) hdr"

definition psslSbParameterInfo :: "PsslBinaryHeader option \<Rightarrow> int option" where
  "psslSbParameterInfo hdr = map_option (\<lambda>h. int sizeof_PsslBinaryHeader + int (unat (bh_codesize h))) hdr"

text \<open>The distance from the parameter block.\<close>

definition psslParamBuffer :: "PsslBinaryParamInfo option \<Rightarrow> u32 \<Rightarrow> nat option" where
  "psslParamBuffer info idx =
     (case info of None \<Rightarrow> None
      | Some p \<Rightarrow> if pi_numbufferresources p < idx then None
          else Some (sizeof_PsslBinaryParamInfo + sizeof_PsslBinaryBuffer * unat idx))"

definition psslParamConstant :: "PsslBinaryParamInfo option \<Rightarrow> u32 \<Rightarrow> nat option" where
  "psslParamConstant info idx =
     (case info of None \<Rightarrow> None
      | Some p \<Rightarrow> if pi_numconstants p < idx then None
          else Some (sizeof_PsslBinaryParamInfo + sizeof_PsslBinaryBuffer * unat (pi_numbufferresources p) +
                     sizeof_PsslBinaryConstant * unat idx))"

definition psslParamVariable :: "PsslBinaryParamInfo option \<Rightarrow> u32 \<Rightarrow> nat option" where
  "psslParamVariable info idx =
     (case info of None \<Rightarrow> None
      | Some p \<Rightarrow> if pi_numvariables p < idx then None
          else Some (sizeof_PsslBinaryParamInfo + sizeof_PsslBinaryBuffer * unat (pi_numbufferresources p) +
                     sizeof_PsslBinaryConstant * unat (pi_numconstants p) + sizeof_PsslBinaryElement * unat idx))"

definition psslParamSampler :: "PsslBinaryParamInfo option \<Rightarrow> u32 \<Rightarrow> nat option" where
  "psslParamSampler info idx =
     (case info of None \<Rightarrow> None
      | Some p \<Rightarrow> if pi_numsamplerresources p < idx then None
          else Some (sizeof_PsslBinaryParamInfo + sizeof_PsslBinaryBuffer * unat (pi_numbufferresources p) +
                     sizeof_PsslBinaryConstant * unat (pi_numconstants p) +
                     sizeof_PsslBinaryElement * unat (pi_numvariables p) +
                     sizeof_PsslBinarySamplerState * unat idx))"

definition psslParamInputAttr :: "PsslBinaryParamInfo option \<Rightarrow> u32 \<Rightarrow> nat option" where
  "psslParamInputAttr info idx =
     (case info of None \<Rightarrow> None
      | Some p \<Rightarrow> if ucast (pi_numinputattributes p) < idx then None
          else Some (sizeof_PsslBinaryParamInfo + sizeof_PsslBinaryBuffer * unat (pi_numbufferresources p) +
                     sizeof_PsslBinaryConstant * unat (pi_numconstants p) +
                     sizeof_PsslBinaryElement * unat (pi_numvariables p) +
                     sizeof_PsslBinarySamplerState * unat (pi_numsamplerresources p) +
                     sizeof_PsslBinaryAttribute * unat idx))"

definition psslParamOutputAttr :: "PsslBinaryParamInfo option \<Rightarrow> u32 \<Rightarrow> nat option" where
  "psslParamOutputAttr info idx =
     (case info of None \<Rightarrow> None
      | Some p \<Rightarrow> if ucast (pi_numoutputattributes p) < idx then None
          else Some (sizeof_PsslBinaryParamInfo + sizeof_PsslBinaryBuffer * unat (pi_numbufferresources p) +
                     sizeof_PsslBinaryConstant * unat (pi_numconstants p) +
                     sizeof_PsslBinaryElement * unat (pi_numvariables p) +
                     sizeof_PsslBinarySamplerState * unat (pi_numsamplerresources p) +
                     sizeof_PsslBinaryAttribute * unat (pi_numinputattributes p) +
                     sizeof_PsslBinaryAttribute * unat idx))"

definition psslParamStringTable :: "PsslBinaryParamInfo option \<Rightarrow> nat option" where
  "psslParamStringTable info =
     map_option (\<lambda>p. sizeof_PsslBinaryParamInfo + sizeof_PsslBinaryBuffer * unat (pi_numbufferresources p) +
        sizeof_PsslBinaryConstant * unat (pi_numconstants p) +
        sizeof_PsslBinaryElement * unat (pi_numvariables p) +
        sizeof_PsslBinarySamplerState * unat (pi_numsamplerresources p) +
        sizeof_PsslBinaryAttribute * unat (pi_numinputattributes p) +
        sizeof_PsslBinaryAttribute * unat (pi_numoutputattributes p) + unat (pi_valuetablesize p)) info"

section \<open>Round trips\<close>

lemma length_encode_header [simp, byte_simps]:
  "length (bh_stageinfo h) = 4 \<Longrightarrow> length (bh_sysattributeinfo h) = 12 \<Longrightarrow> length (encode_header h) = 0x24"
  by (simp add: encode_header_def)

lemma length_encode_param_info [simp, byte_simps]: "length (encode_param_info p) = 0x1c"
  by (simp add: encode_param_info_def)

lemma de32_le32_self [simp]: "de32 (le32 w) = w"
  using de32_le32 [of w "[]"] by simp

lemma de16_le16_self [simp]: "de16 (le16 w) = w"
  using de16_le16 [of w "[]"] by simp

lemma decode_encode_header:
  assumes "length (bh_stageinfo h) = 4" "length (bh_sysattributeinfo h) = 12"
  shows "decode_header (encode_header h @ r) = h"
proof -
  have [simp]: "take 4 (le32 w @ xs) = le32 w" "drop 4 (le32 w @ xs) = xs"
    "take 2 (le16 v @ xs) = le16 v" "drop 2 (le16 v @ xs) = xs" for w v xs by simp_all
  show ?thesis
    using assms
    by (cases h) (simp add: decode_header_def encode_header_def slice_at_def nth_append nth_Cons numeral_eq_Suc)
qed

lemma decode_encode_param_info: "decode_param_info (encode_param_info p @ r) = p"
proof -
  have [simp]: "take 4 (le32 w @ xs) = le32 w" "drop 4 (le32 w @ xs) = xs" for w xs by simp_all
  show ?thesis
    by (cases p) (simp add: decode_param_info_def encode_param_info_def slice_at_def nth_append nth_Cons numeral_eq_Suc)
qed

section \<open>Tables\<close>

lemmas param_readers = psslParamBuffer_def psslParamConstant_def psslParamVariable_def psslParamSampler_def
  psslParamInputAttr_def psslParamOutputAttr_def psslParamStringTable_def

text \<open>C38. The readers of the parameter block lay the tables out behind each other: an entry whose index is
  below the count of its table starts behind the block and ends at the latest where the next table
  starts, and the string table starts behind all of them. But the index that equals the count is
  not refused: such an entry is the place where the next table starts.\<close>
theorem param_tables_in_order:
  "(i < pi_numbufferresources p \<longrightarrow> (\<exists>a b. psslParamBuffer (Some p) i = Some a \<and>
      psslParamConstant (Some p) 0 = Some b \<and> 0x1c \<le> a \<and> a + 0x18 \<le> b)) \<and>
   (i < pi_numconstants p \<longrightarrow> (\<exists>a b. psslParamConstant (Some p) i = Some a \<and>
      psslParamVariable (Some p) 0 = Some b \<and> the (psslParamConstant (Some p) 0) \<le> a \<and> a + 0x20 \<le> b)) \<and>
   (i < pi_numvariables p \<longrightarrow> (\<exists>a b. psslParamVariable (Some p) i = Some a \<and>
      psslParamSampler (Some p) 0 = Some b \<and> the (psslParamVariable (Some p) 0) \<le> a \<and> a + 0x24 \<le> b)) \<and>
   (i < pi_numsamplerresources p \<longrightarrow> (\<exists>a b. psslParamSampler (Some p) i = Some a \<and>
      psslParamInputAttr (Some p) 0 = Some b \<and> the (psslParamSampler (Some p) 0) \<le> a \<and> a + 0x10 \<le> b)) \<and>
   (i < ucast (pi_numinputattributes p) \<longrightarrow> (\<exists>a b. psslParamInputAttr (Some p) i = Some a \<and>
      psslParamOutputAttr (Some p) 0 = Some b \<and> the (psslParamInputAttr (Some p) 0) \<le> a \<and> a + 0x10 \<le> b)) \<and>
   (i < ucast (pi_numoutputattributes p) \<longrightarrow> (\<exists>a b. psslParamOutputAttr (Some p) i = Some a \<and>
      psslParamStringTable (Some p) = Some b \<and> the (psslParamOutputAttr (Some p) 0) \<le> a \<and> a + 0x10 \<le> b)) \<and>
   psslParamBuffer (Some p) (pi_numbufferresources p) = psslParamConstant (Some p) 0 \<and>
   psslParamConstant (Some p) (pi_numconstants p) = psslParamVariable (Some p) 0 \<and>
   psslParamVariable (Some p) (pi_numvariables p) = psslParamSampler (Some p) 0 \<and>
   psslParamSampler (Some p) (pi_numsamplerresources p) = psslParamInputAttr (Some p) 0 \<and>
   psslParamInputAttr (Some p) (ucast (pi_numinputattributes p)) = psslParamOutputAttr (Some p) 0"
  by (intro conjI impI) (simp_all add: param_readers word_less_nat_alt unat_ucast_wider)

theorem param_tables_in_order_witness:
  "psslParamBuffer (Some (zero_param_info\<lparr>pi_numbufferresources := 2\<rparr>)) 1 = Some 52 \<and>
   psslParamBuffer (Some (zero_param_info\<lparr>pi_numbufferresources := 2\<rparr>)) 2 =
     psslParamConstant (Some (zero_param_info\<lparr>pi_numbufferresources := 2\<rparr>)) 0"
  using param_tables_in_order [of 1 "zero_param_info\<lparr>pi_numbufferresources := 2\<rparr>"]
  by (simp add: psslParamBuffer_def)

end
