(* ===== verification/Shader_Binary.thy ===== *)
theory Shader_Binary
  imports Crc32 Pssl_Format Reg_Words Target_Setup
begin

text \<open>
  \<^verbatim>\<open>buildshaderbinary\<close> and \<^verbatim>\<open>hashsb\<close> of \<^verbatim>\<open>src/libpsbc/psbc_compile.c\<close>: the emission of the shader binary into a
  buffer of precomputed size.  The structures of the GNM headers are records of the members the
  emitter sets; their byte representation and their sizes come from a header that is not part of the
  repository and are the parameter \<open>abi\<close>.  Memory is explicit: an allocation may fail, it has
  arbitrary contents, and a write outside of it is a result of its own.  The lemmas show that the
  emitter stays inside its buffer and initialises all of it, and that the readers of the container
  find the parts and the checksum it wrote.
\<close>

section \<open>Definitions\<close>

subsection \<open>GNM structures\<close>

text \<open>Enumerators of the GNM headers, by name.\<close>

datatype GnmShaderType
  = GNM_SHADER_VERTEX | GNM_SHADER_PIXEL | GNM_SHADER_GEOMETRY | GNM_SHADER_COMPUTE | GNM_SHADER_HULL

datatype GnmShaderBinaryType
  = GNM_SHB_VS_VS | GNM_SHB_DS_VS | GNM_SHB_VS_ES | GNM_SHB_VS_LS | GNM_SHB_PS | GNM_SHB_CS | GNM_SHB_GS
  | GNM_SHB_HS

datatype GnmTargetGpuMode = GNM_TARGETGPUMODE_BASE | GNM_TARGETGPUMODE_NEO

datatype GnmInputUsage
  = GNM_SHINPUTUSAGE_SUBPTR_FETCHSHADER | GNM_SHINPUTUSAGE_PTR_VERTEXBUFFERTABLE
  | GNM_SHINPUTUSAGE_PTR_INDIRECTRESOURCETABLE

record GnmShaderFileHeader =
  fh_vermajor :: u32
  fh_verminor :: u32
  fh_type :: GnmShaderType
  fh_headersizedwords :: u32
  fh_targetgpumodes :: GnmTargetGpuMode

record GnmShaderBinaryInfo =
  sb_version :: u32
  sb_ispsslcg :: u32
  sb_type :: GnmShaderBinaryType
  sb_length :: u32
  sb_chunkusagebaseoffsetdwords :: u32
  sb_numinputusageslots :: u32
  sb_shaderhash0 :: u32
  sb_shaderhash1 :: u32
  sb_crc32 :: u32

text \<open>The stage headers: the members common to all of them, the four program registers, the further
  registers of the stage by the names of their members, and the two semantic counts.\<close>

datatype gnm_header_kind = Gnm_Vs | Gnm_Ps | Gnm_Cs | Gnm_Gs | Gnm_Hs | Gnm_Es | Gnm_Ls

record gnm_stage_header =
  gh_kind :: gnm_header_kind
  gh_shadersize :: u32
  gh_numinputusageslots :: u32
  gh_pgm_lo :: u32
  gh_pgm_hi :: u32
  gh_rsrc1 :: u32
  gh_rsrc2 :: u32
  gh_registers :: "(string \<times> u32) list"
  gh_numinputsemantics :: u32
  gh_numexportsemantics :: u32

record GnmInputUsageSlot =
  us_usagetype :: GnmInputUsage
  us_startregister :: u8

record GnmVertexInputSemantic =
  vi_semantic :: u32
  vi_vgpr :: u8
  vi_sizeinelements :: u8

record GnmVertexExportSemantic =
  ve_semantic :: u32
  ve_outindex :: u32
  ve_exportf16 :: u32

record GnmPixelInputSemantic =
  pis_semantic :: u32
  pis_isflatshaded :: u32

text \<open>The representation of the structures: bytes of an object, and \<^verbatim>\<open>sizeof\<close> of its type.  The magic numbers
  that the emitter stores into the file header and the binary info are part of their bytes.\<close>

record gnm_abi =
  abi_file_header :: "GnmShaderFileHeader \<Rightarrow> bytes"
  abi_stage_header :: "gnm_stage_header \<Rightarrow> bytes"
  abi_slot :: "GnmInputUsageSlot \<Rightarrow> bytes"
  abi_vertex_input :: "GnmVertexInputSemantic \<Rightarrow> bytes"
  abi_vertex_export :: "GnmVertexExportSemantic \<Rightarrow> bytes"
  abi_pixel_input :: "GnmPixelInputSemantic \<Rightarrow> bytes"
  abi_binary_info :: "GnmShaderBinaryInfo \<Rightarrow> bytes"
  size_file_header :: nat
  size_stage_header :: "gnm_header_kind \<Rightarrow> nat"
  size_slot :: nat
  size_vertex_input :: nat
  size_vertex_export :: nat
  size_pixel_input :: nat
  size_binary_info :: nat

subsection \<open>Stage tables\<close>

definition psbshtype :: "PsbcStage \<Rightarrow> PsslShaderType" where
  "psbshtype s = (case s of
     PSBC_STAGE_FRAGMENT \<Rightarrow> PSSL_SHADER_FS | PSBC_STAGE_COMPUTE \<Rightarrow> PSSL_SHADER_CS | _ \<Rightarrow> PSSL_SHADER_VS)"

definition gnmshtype :: "PsbcStage \<Rightarrow> GnmShaderType" where
  "gnmshtype s = (case s of
     PSBC_STAGE_FRAGMENT \<Rightarrow> GNM_SHADER_PIXEL | PSBC_STAGE_COMPUTE \<Rightarrow> GNM_SHADER_COMPUTE
   | PSBC_STAGE_GEOMETRY \<Rightarrow> GNM_SHADER_GEOMETRY | PSBC_STAGE_TESS_CTRL \<Rightarrow> GNM_SHADER_HULL
   | _ \<Rightarrow> GNM_SHADER_VERTEX)"

definition shbintype :: "PsbcStage \<Rightarrow> GnmShaderBinaryType" where
  "shbintype s = (case s of
     PSBC_STAGE_TESS_EVAL \<Rightarrow> GNM_SHB_DS_VS | PSBC_STAGE_EXPORT \<Rightarrow> GNM_SHB_VS_ES
   | PSBC_STAGE_LOCAL \<Rightarrow> GNM_SHB_VS_LS | PSBC_STAGE_FRAGMENT \<Rightarrow> GNM_SHB_PS
   | PSBC_STAGE_COMPUTE \<Rightarrow> GNM_SHB_CS | PSBC_STAGE_GEOMETRY \<Rightarrow> GNM_SHB_GS
   | PSBC_STAGE_TESS_CTRL \<Rightarrow> GNM_SHB_HS | _ \<Rightarrow> GNM_SHB_VS_VS)"

definition headershsize :: "gnm_abi \<Rightarrow> PsbcStage \<Rightarrow> u32" where
  "headershsize abi s = of_nat (size_stage_header abi (case s of
     PSBC_STAGE_EXPORT \<Rightarrow> Gnm_Es | PSBC_STAGE_LOCAL \<Rightarrow> Gnm_Ls | PSBC_STAGE_FRAGMENT \<Rightarrow> Gnm_Ps
   | PSBC_STAGE_COMPUTE \<Rightarrow> Gnm_Cs | PSBC_STAGE_GEOMETRY \<Rightarrow> Gnm_Gs | PSBC_STAGE_TESS_CTRL \<Rightarrow> Gnm_Hs
   | _ \<Rightarrow> Gnm_Vs))"

subsection \<open>Hashes\<close>

text \<open>\<^verbatim>\<open>hashsb\<close>: the code, the padding to a multiple of eight bytes, and all of the binary info but its
  checksum, which is its last member.\<close>

definition hashsb :: "gnm_abi \<Rightarrow> bytes \<Rightarrow> GnmShaderBinaryInfo \<Rightarrow> u32" where
  "hashsb abi code sb =
     (let numpadbytes = (if sb_length sb AND 7 \<noteq> 0 then 8 - (sb_length sb AND 7) else 0);
          hash = crc32_sb code crc32_sb_begin;
          hash = crc32_sb (replicate (unat numpadbytes) 0) hash;
          hash = crc32_sb (take (size_binary_info abi - 4) (abi_binary_info abi sb)) hash
      in crc32_sb_end hash)"

primrec fnv1a :: "bytes \<Rightarrow> u64 \<Rightarrow> u64" where
  "fnv1a [] h = h"
| "fnv1a (b # bs) h = fnv1a bs ((h XOR ucast b) * 0x100000001b3)"

definition shader_hash :: "bytes option \<Rightarrow> u64" where
  "shader_hash spirv =
     (case spirv of None \<Rightarrow> 0
      | Some bs \<Rightarrow> if length bs > 0 then fnv1a bs 0xcbf29ce484222325 else 0)"

subsection \<open>Sizes\<close>

definition has_prolog :: "BuildContext \<Rightarrow> bool" where
  "has_prolog ctx \<longleftrightarrow> si_stage (nir_info (bc_nir ctx)) = MESA_SHADER_VERTEX \<and> vs_has_prolog (ri_vs (bc_rinfo ctx))"

definition code_size :: "BuildContext \<Rightarrow> u32 list \<Rightarrow> u32" where
  "code_size ctx code = of_nat (length code) * 4 + (if has_prolog ctx then 4 else 0)"

definition is_vs_family :: "BuildContext \<Rightarrow> bool" where
  "is_vs_family ctx \<longleftrightarrow> bc_stage ctx = MESA_SHADER_VERTEX \<or> bc_psbc_stage ctx = PSBC_STAGE_EXPORT \<or>
     bc_psbc_stage ctx = PSBC_STAGE_LOCAL"

definition numinputslots :: "BuildContext \<Rightarrow> u32" where
  "numinputslots ctx =
     bool_word (is_vs_family ctx \<and> arg_used (sa_prolog_inputs (bc_rargs ctx))) +
     bool_word (is_vs_family ctx \<and> arg_used (sa_vertex_buffers (bc_rargs ctx))) +
     bool_word (arg_used (sa_descriptors (bc_rargs ctx) ! 0))"

definition inputs_count :: "BuildContext \<Rightarrow> nat" where
  "inputs_count ctx = util_bitcount (si_inputs_read (nir_info (bc_nir ctx)))"

text \<open>\<^verbatim>\<open>VARYING_BIT_POS\<close> is bit 0.\<close>

definition outputs_count :: "BuildContext \<Rightarrow> nat" where
  "outputs_count ctx = util_bitcount (si_outputs_written (nir_info (bc_nir ctx)) AND NOT (BITFIELD64_BIT 0))"

text \<open>The words of the input semantics; the only caller passes a structure, which is empty for all stages
  but the pixel stage.\<close>

definition semantic_words :: "BuildContext \<Rightarrow> u32 list" where
  "semantic_words ctx = (case bc_input_semantics ctx of None \<Rightarrow> [] | Some s \<Rightarrow> is_words s)"

definition semantics_size :: "gnm_abi \<Rightarrow> BuildContext \<Rightarrow> u32" where
  "semantics_size abi ctx =
     (let inputs = of_nat (inputs_count ctx) * of_nat (size_vertex_input abi);
          exports = of_nat (outputs_count ctx) * of_nat (size_vertex_export abi)
      in case bc_stage ctx of
           MESA_SHADER_VERTEX \<Rightarrow> inputs + exports
         | MESA_SHADER_TESS_EVAL \<Rightarrow> inputs + exports
         | MESA_SHADER_FRAGMENT \<Rightarrow> of_nat (length (semantic_words ctx)) * of_nat (size_pixel_input abi)
         | MESA_SHADER_GEOMETRY \<Rightarrow> inputs + exports
         | MESA_SHADER_TESS_CTRL \<Rightarrow> inputs
         | _ \<Rightarrow> 0)"

definition unaligned_size :: "gnm_abi \<Rightarrow> BuildContext \<Rightarrow> u32" where
  "unaligned_size abi ctx =
     headershsize abi (bc_psbc_stage ctx) + numinputslots ctx * of_nat (size_slot abi) + semantics_size abi ctx"

definition align_bytes :: "gnm_abi \<Rightarrow> BuildContext \<Rightarrow> u32" where
  "align_bytes abi ctx = ((unaligned_size abi ctx + 3) AND - 4) - unaligned_size abi ctx"

definition specific_size :: "gnm_abi \<Rightarrow> BuildContext \<Rightarrow> u32" where
  "specific_size abi ctx = unaligned_size abi ctx + align_bytes abi ctx"

definition total_size :: "gnm_abi \<Rightarrow> BuildContext \<Rightarrow> u32 list \<Rightarrow> nat" where
  "total_size abi ctx code =
     sizeof_PsslBinaryHeader + size_file_header abi + unat (specific_size abi ctx) +
     unat (code_size ctx code) + size_binary_info abi + sizeof_PsslBinaryParamInfo"

subsection \<open>Headers\<close>

definition pssl_header :: "gnm_abi \<Rightarrow> BuildContext \<Rightarrow> u32 list \<Rightarrow> PsslBinaryHeader" where
  "pssl_header abi ctx code =
     \<lparr>bh_vermajor = 0, bh_verminor = 4, bh_compiler_revision = 0, bh_association_hash0 = 0,
      bh_association_hash1 = 0, bh_shadertype = shader_type_value (psbshtype (bc_psbc_stage ctx)),
      bh_codetype = code_type_value PSSL_CODE_ISA, bh_uses_srt = 0,
      bh_compilertype = compiler_type_value PSSL_COMPILER_UNSPECIFIED,
      bh_codesize = of_nat (size_file_header abi) + specific_size abi ctx + code_size ctx code +
        of_nat (size_binary_info abi),
      bh_stageinfo = replicate 4 0, bh_sysattributeinfo = replicate 12 0\<rparr>"

definition file_header :: "gnm_abi \<Rightarrow> BuildContext \<Rightarrow> GnmShaderFileHeader" where
  "file_header abi ctx =
     \<lparr>fh_vermajor = 7, fh_verminor = 2, fh_type = gnmshtype (bc_psbc_stage ctx),
      fh_headersizedwords = specific_size abi ctx div 4,
      fh_targetgpumodes =
        (if GFX10_3 \<le> bc_gfx_level ctx then GNM_TARGETGPUMODE_NEO
         else if bc_neo ctx then GNM_TARGETGPUMODE_NEO else GNM_TARGETGPUMODE_BASE)\<rparr>"

definition base_header :: "gnm_header_kind \<Rightarrow> gnm_abi \<Rightarrow> BuildContext \<Rightarrow> u32 list \<Rightarrow> gnm_stage_header" where
  "base_header kind abi ctx code =
     \<lparr>gh_kind = kind, gh_shadersize = code_size ctx code + of_nat (size_binary_info abi),
      gh_numinputusageslots = numinputslots ctx, gh_pgm_lo = specific_size abi ctx,
      gh_pgm_hi = 0xffffffff, gh_rsrc1 = cfg_rsrc1 (bc_config ctx), gh_rsrc2 = cfg_rsrc2 (bc_config ctx),
      gh_registers = [], gh_numinputsemantics = 0, gh_numexportsemantics = 0\<rparr>"

definition vs_header :: "gnm_abi \<Rightarrow> BuildContext \<Rightarrow> u32 list \<Rightarrow> gnm_stage_header" where
  "vs_header abi ctx code =
     (let nparams = max (ucast (oi_param_exports (ri_outinfo (bc_rinfo ctx)))) 1;
          num_pos_exports = fst (get_num_pos_exports (bc_rinfo ctx))
      in (base_header Gnm_Vs abi ctx code)
           \<lparr>gh_registers :=
              [(''spivsoutconfig'', S_0286C4_VS_EXPORT_COUNT (nparams - 1)),
               (''spishaderposformat'', build_spi_shader_pos_format num_pos_exports),
               (''paclvsoutcntl'', build_pa_cl_vs_out_cntl ctx num_pos_exports)],
            gh_numinputsemantics := of_nat (length (semantic_words ctx)),
            gh_numexportsemantics := of_nat (outputs_count ctx)\<rparr>)"

definition ps_header :: "gnm_abi \<Rightarrow> BuildContext \<Rightarrow> u32 list \<Rightarrow> gnm_stage_header" where
  "ps_header abi ctx code =
     (let ps = ri_ps (bc_rinfo ctx); cfg = bc_config ctx;
          param_gen = GFX11 \<le> bc_gfx_level ctx \<and> ps_num_inputs ps = 0 \<and> cfg_lds_size cfg \<noteq> 0
      in (base_header Gnm_Ps abi ctx code)
           \<lparr>gh_registers :=
              [(''spishaderzformat'', ac_get_spi_shader_z_format (ps_writes_z ps) (ps_writes_stencil ps)
                  (ps_writes_sample_mask ps) (ps_writes_mrt0_alpha ps)),
               (''spishadercolformat'', compact_spi_shader_col_format (ps_spi_shader_col_format ps)),
               (''spipsinputena'', cfg_spi_ps_input_ena cfg),
               (''spipsinputaddr'', cfg_spi_ps_input_addr cfg),
               (''spipsincontrol'', S_0286D8_NUM_INTERP (ps_num_inputs ps) OR
                  S_0286D8_PS_W32_EN (bool_word (ri_wave_size (bc_rinfo ctx) = 32)) OR
                  S_0286D8_PARAM_GEN (bool_word param_gen)),
               (''spibaryccntl'', S_0286E0_FRONT_FACE_ALL_BITS 0),
               (''dbshadercontrol'', compute_db_shader_control (bc_rinfo ctx)),
               (''cbshadermask'', ac_get_cb_shader_mask (ps_spi_shader_col_format ps))],
            gh_numinputsemantics := of_nat (inputs_count ctx)\<rparr>)"

definition cs_header :: "gnm_abi \<Rightarrow> BuildContext \<Rightarrow> u32 list \<Rightarrow> gnm_stage_header" where
  "cs_header abi ctx code =
     (let threads = (\<lambda>i. let n = si_workgroup_size (nir_info (bc_nir ctx)) ! i in if n \<noteq> 0 then ucast n else 1)
      in (base_header Gnm_Cs abi ctx code)
           \<lparr>gh_pgm_hi := 0,
            gh_registers := [(''computenumthreadx'', threads 0), (''computenumthready'', threads 1),
                             (''computenumthreadz'', threads 2)]\<rparr>)"

definition gs_header :: "gnm_abi \<Rightarrow> BuildContext \<Rightarrow> u32 list \<Rightarrow> gnm_stage_header" where
  "gs_header abi ctx code =
     (let gs_out_prim = (case si_gs_output_primitive (nir_info (bc_nir ctx)) of
            MESA_PRIM_POINTS \<Rightarrow> V_028A6C_POINTLIST | MESA_PRIM_LINE_STRIP \<Rightarrow> V_028A6C_LINESTRIP
          | _ \<Rightarrow> V_028A6C_TRISTRIP);
          invocations = gs_invocations (ri_gs (bc_rinfo ctx))
      in (base_header Gnm_Gs abi ctx code)
           \<lparr>gh_registers :=
              [(''vgtstrmoutconfig'', 0), (''vgtgsoutprimtype'', gs_out_prim),
               (''vgtgsinstancecnt'', S_028B90_CNT (min invocations 127) OR
                  S_028B90_ENABLE (bool_word (invocations > 0)))],
            gh_numinputsemantics := of_nat (inputs_count ctx),
            gh_numexportsemantics := of_nat (outputs_count ctx)\<rparr>)"

definition hs_header :: "gnm_abi \<Rightarrow> BuildContext \<Rightarrow> u32 list \<Rightarrow> gnm_stage_header" where
  "hs_header abi ctx code =
     (base_header Gnm_Hs abi ctx code)
       \<lparr>gh_registers := [(''vgttfparam'', tess_tf_param (bc_nir ctx)), (''vgthosmaxtesslevel'', 64),
                         (''vgthosmintesslevel'', 1)],
        gh_numinputsemantics := of_nat (inputs_count ctx)\<rparr>"

text \<open>The headers of the export and local variants of a vertex shader.\<close>

definition es_ls_header :: "gnm_header_kind \<Rightarrow> gnm_abi \<Rightarrow> BuildContext \<Rightarrow> u32 list \<Rightarrow> gnm_stage_header" where
  "es_ls_header kind abi ctx code =
     (base_header kind abi ctx code)
       \<lparr>gh_numinputsemantics := of_nat (inputs_count ctx), gh_numexportsemantics := of_nat (outputs_count ctx)\<rparr>"

text \<open>\<open>None\<close>: the stage has no header.\<close>

definition stage_header :: "gnm_abi \<Rightarrow> BuildContext \<Rightarrow> u32 list \<Rightarrow> gnm_stage_header option" where
  "stage_header abi ctx code =
     (case bc_psbc_stage ctx of
        PSBC_STAGE_VERTEX \<Rightarrow> Some (vs_header abi ctx code)
      | PSBC_STAGE_TESS_EVAL \<Rightarrow> Some (vs_header abi ctx code)
      | PSBC_STAGE_FRAGMENT \<Rightarrow> Some (ps_header abi ctx code)
      | PSBC_STAGE_COMPUTE \<Rightarrow> Some (cs_header abi ctx code)
      | PSBC_STAGE_GEOMETRY \<Rightarrow> Some (gs_header abi ctx code)
      | PSBC_STAGE_TESS_CTRL \<Rightarrow> Some (hs_header abi ctx code)
      | PSBC_STAGE_EXPORT \<Rightarrow> Some (es_ls_header Gnm_Es abi ctx code)
      | PSBC_STAGE_LOCAL \<Rightarrow> Some (es_ls_header Gnm_Ls abi ctx code)
      | _ \<Rightarrow> None)"

subsection \<open>Slots and semantics\<close>

definition register_of :: "BuildContext \<Rightarrow> ac_arg \<Rightarrow> u8" where
  "register_of ctx a = sa_arg_offset (bc_rargs ctx) ! arg_index a"

definition usage_slots :: "BuildContext \<Rightarrow> GnmInputUsageSlot list" where
  "usage_slots ctx =
     (let args = bc_rargs ctx in
      (if is_vs_family ctx \<and> arg_used (sa_prolog_inputs args)
       then [\<lparr>us_usagetype = GNM_SHINPUTUSAGE_SUBPTR_FETCHSHADER,
              us_startregister = register_of ctx (sa_prolog_inputs args)\<rparr>] else []) @
      (if is_vs_family ctx \<and> arg_used (sa_vertex_buffers args)
       then [\<lparr>us_usagetype = GNM_SHINPUTUSAGE_PTR_VERTEXBUFFERTABLE,
              us_startregister = register_of ctx (sa_vertex_buffers args)\<rparr>] else []) @
      (if arg_used (sa_descriptors args ! 0)
       then [\<lparr>us_usagetype = GNM_SHINPUTUSAGE_PTR_INDIRECTRESOURCETABLE,
              us_startregister = register_of ctx (sa_descriptors args ! 0)\<rparr>] else []))"

definition vertex_input :: "BuildContext \<Rightarrow> nat \<Rightarrow> GnmVertexInputSemantic" where
  "vertex_input ctx i =
     (let a = sa_vs_inputs (bc_rargs ctx) ! i in
      \<lparr>vi_semantic = of_nat i, vi_vgpr = register_of ctx a,
       vi_sizeinelements = sa_arg_size (bc_rargs ctx) ! arg_index a\<rparr>)"

definition plain_input :: "nat \<Rightarrow> GnmVertexInputSemantic" where
  "plain_input i = \<lparr>vi_semantic = of_nat i, vi_vgpr = 0, vi_sizeinelements = 0\<rparr>"

definition vertex_export :: "nat \<Rightarrow> GnmVertexExportSemantic" where
  "vertex_export i = \<lparr>ve_semantic = 15 + of_nat i, ve_outindex = of_nat i, ve_exportf16 = 0\<rparr>"

definition pixel_input :: "u32 \<Rightarrow> GnmPixelInputSemantic" where
  "pixel_input word = \<lparr>pis_semantic = word AND 0xff, pis_isflatshaded = drop_bit 22 word AND 1\<rparr>"

text \<open>The entries as they are written; \<open>None\<close> when the loop of the vertex stages would index the 32 vertex
  inputs of the arguments out of bounds.\<close>

definition semantics_chunks :: "gnm_abi \<Rightarrow> BuildContext \<Rightarrow> bytes list option" where
  "semantics_chunks abi ctx =
     (let vertex_inputs = map (abi_vertex_input abi \<circ> vertex_input ctx) [0..<inputs_count ctx];
          plain_inputs = map (abi_vertex_input abi \<circ> plain_input) [0..<inputs_count ctx];
          exports = map (abi_vertex_export abi \<circ> vertex_export) [0..<outputs_count ctx]
      in case bc_stage ctx of
           MESA_SHADER_VERTEX \<Rightarrow> if inputs_count ctx \<le> 32 then Some (vertex_inputs @ exports) else None
         | MESA_SHADER_TESS_EVAL \<Rightarrow> if inputs_count ctx \<le> 32 then Some (vertex_inputs @ exports) else None
         | MESA_SHADER_FRAGMENT \<Rightarrow> Some (map (abi_pixel_input abi \<circ> pixel_input) (semantic_words ctx))
         | MESA_SHADER_GEOMETRY \<Rightarrow> Some (plain_inputs @ exports)
         | MESA_SHADER_TESS_CTRL \<Rightarrow> Some plain_inputs
         | _ \<Rightarrow> Some [])"

subsection \<open>Emission\<close>

text \<open>A copy of bytes into an allocation; \<open>None\<close> when it leaves the allocation.\<close>

definition put_at :: "nat \<Rightarrow> bytes \<Rightarrow> bytes \<Rightarrow> bytes option" where
  "put_at off bs mem =
     (if off + length bs \<le> length mem then Some (take off mem @ bs @ drop (off + length bs) mem) else None)"

text \<open>The repeated \<^verbatim>\<open>memcpy (buf + offset, &x, sizeof (x)); offset += sizeof (x)\<close>.\<close>

fun write_chunks :: "bytes list \<Rightarrow> bytes \<times> nat \<Rightarrow> (bytes \<times> nat) option" where
  "write_chunks [] st = Some st"
| "write_chunks (c # cs) (mem, off) =
     (case put_at off c mem of None \<Rightarrow> None | Some mem' \<Rightarrow> write_chunks cs (mem', off + length c))"

text \<open>The code with the jump to the fetch shader in front, assembled in an allocation of its own.\<close>

definition assemble_code :: "BuildContext \<Rightarrow> u32 list \<Rightarrow> bytes \<Rightarrow> bytes option" where
  "assemble_code ctx code mem =
     map_option fst (write_chunks
       ((if has_prolog ctx then [le32 0xbe802100] else []) @ [concat (map le32 code)]) (mem, 0))"

definition binary_info :: "gnm_abi \<Rightarrow> BuildContext \<Rightarrow> u32 list \<Rightarrow> bytes \<Rightarrow> nat \<Rightarrow> GnmShaderBinaryInfo" where
  "binary_info abi ctx code newcode off =
     (let inputslots_offset = sizeof_PsslBinaryHeader + size_file_header abi +
            unat (headershsize abi (bc_psbc_stage ctx));
          chunkusageoffset = (if numinputslots ctx > 0 then of_nat ((off - inputslots_offset) div 4) else 0);
          shaderhash = shader_hash (bc_spirv ctx);
          bininfo = \<lparr>sb_version = 7, sb_ispsslcg = 1, sb_type = shbintype (bc_psbc_stage ctx),
            sb_length = code_size ctx code, sb_chunkusagebaseoffsetdwords = chunkusageoffset,
            sb_numinputusageslots = numinputslots ctx, sb_shaderhash0 = ucast (shaderhash AND 0xffffffff),
            sb_shaderhash1 = ucast (drop_bit 32 shaderhash), sb_crc32 = 0\<rparr>
      in bininfo\<lparr>sb_crc32 := hashsb abi newcode bininfo\<rparr>)"

text \<open>\<open>Build_undefined\<close>: an access outside of an object.\<close>

datatype build_result = Built bytes nat | Build_error PsbcResult | Build_undefined

definition emit_binary ::
  "gnm_abi \<Rightarrow> BuildContext \<Rightarrow> u32 list \<Rightarrow> bytes \<Rightarrow> gnm_stage_header \<Rightarrow> bytes \<Rightarrow> build_result" where
  "emit_binary abi ctx code newcode header buf =
     (case semantics_chunks abi ctx of
        None \<Rightarrow> Build_undefined
      | Some semantics \<Rightarrow>
          (case write_chunks
                  ([encode_header (pssl_header abi ctx code), abi_file_header abi (file_header abi ctx),
                    abi_stage_header abi header] @ map (abi_slot abi) (usage_slots ctx) @ semantics @
                   [replicate (unat (align_bytes abi ctx)) 0, newcode]) (buf, 0) of
             None \<Rightarrow> Build_undefined
           | Some (buf, off) \<Rightarrow>
               (case write_chunks [abi_binary_info abi (binary_info abi ctx code newcode off),
                                   encode_param_info zero_param_info] (buf, off) of
                  None \<Rightarrow> Build_undefined
                | Some (buf, off) \<Rightarrow> Built buf off)))"

definition buildshaderbinary ::
  "gnm_abi \<Rightarrow> (nat \<Rightarrow> bytes option) \<Rightarrow> (nat \<Rightarrow> bytes option) \<Rightarrow> BuildContext \<Rightarrow> u32 list \<Rightarrow> build_result" where
  "buildshaderbinary abi malloc_code malloc_buf ctx code =
     (case malloc_code (unat (code_size ctx code)) of
        None \<Rightarrow> Build_error PSBC_RESULT_OUT_OF_MEMORY
      | Some mem \<Rightarrow>
          (case assemble_code ctx code mem of
             None \<Rightarrow> Build_undefined
           | Some newcode \<Rightarrow>
               (case malloc_buf (total_size abi ctx code) of
                  None \<Rightarrow> Build_error PSBC_RESULT_OUT_OF_MEMORY
                | Some buf \<Rightarrow>
                    (case stage_header abi ctx code of
                       None \<Rightarrow> Build_error PSBC_RESULT_UNSUPPORTED_STAGE
                     | Some header \<Rightarrow> emit_binary abi ctx code newcode header buf))))"

section \<open>Writing in sequence\<close>

lemma write_chunks_fit:
  "off + length (concat cs) \<le> length mem \<Longrightarrow>
     write_chunks cs (mem, off) =
     Some (take off mem @ concat cs @ drop (off + length (concat cs)) mem, off + length (concat cs))"
proof (induction cs arbitrary: mem off)
  case (Cons c cs)
  let ?mem = "take off mem @ c @ drop (off + length c) mem"
  have "put_at off c mem = Some ?mem" using Cons.prems by (simp add: put_at_def)
  moreover have "write_chunks cs (?mem, off + length c) =
      Some (take (off + length c) ?mem @ concat cs @ drop (off + length c + length (concat cs)) ?mem,
            off + length c + length (concat cs))"
    using Cons.prems by (intro Cons.IH) simp
  moreover have "min off (length mem) = off" using Cons.prems by simp
  ultimately show ?case by (simp add: ac_simps)
qed simp

lemma write_chunks_fill:
  "length mem = length (concat cs) \<Longrightarrow> write_chunks cs (mem, 0) = Some (concat cs, length (concat cs))"
  using write_chunks_fit [of 0 cs mem] by simp

lemma write_chunks_append:
  "write_chunks (cs @ ds) st = (case write_chunks cs st of None \<Rightarrow> None | Some st' \<Rightarrow> write_chunks ds st')"
  by (induction cs st rule: write_chunks.induct) (auto split: option.split)

section \<open>Sizes\<close>

text \<open>What the emitter relies on of the GNM headers: objects have the size of their type, no structure is
  larger than 4096 bytes, and the checksum is the last member of the binary info.\<close>

definition abi_ok :: "gnm_abi \<Rightarrow> bool" where
  "abi_ok abi \<longleftrightarrow>
     (\<forall>x. length (abi_file_header abi x) = size_file_header abi) \<and>
     (\<forall>h. length (abi_stage_header abi h) = size_stage_header abi (gh_kind h)) \<and>
     (\<forall>x. length (abi_slot abi x) = size_slot abi) \<and>
     (\<forall>x. length (abi_vertex_input abi x) = size_vertex_input abi) \<and>
     (\<forall>x. length (abi_vertex_export abi x) = size_vertex_export abi) \<and>
     (\<forall>x. length (abi_pixel_input abi x) = size_pixel_input abi) \<and>
     (\<forall>x. length (abi_binary_info abi x) = size_binary_info abi) \<and>
     size_file_header abi \<le> 4096 \<and> (\<forall>k. size_stage_header abi k \<le> 4096) \<and> size_slot abi \<le> 4096 \<and>
     size_vertex_input abi \<le> 4096 \<and> size_vertex_export abi \<le> 4096 \<and> size_pixel_input abi \<le> 4096 \<and>
     4 \<le> size_binary_info abi \<and> size_binary_info abi \<le> 4096 \<and>
     (\<forall>x c. take (size_binary_info abi - 4) (abi_binary_info abi (x\<lparr>sb_crc32 := c\<rparr>)) =
            take (size_binary_info abi - 4) (abi_binary_info abi x)) \<and>
     (\<forall>x. drop (size_binary_info abi - 4) (abi_binary_info abi x) = le32 (sb_crc32 x))"

text \<open>What the caller of the emitter provides: the two stages of the context belong together, and there
  are no more inputs than the arrays of the arguments and semantics hold.\<close>

definition context_ok :: "BuildContext \<Rightarrow> bool" where
  "context_ok ctx \<longleftrightarrow>
     bc_stage ctx = psbc_to_mesa_stage (bc_psbc_stage ctx) \<and> length (semantic_words ctx) \<le> 32 \<and>
     (bc_stage ctx = MESA_SHADER_VERTEX \<or> bc_stage ctx = MESA_SHADER_TESS_EVAL \<longrightarrow> inputs_count ctx \<le> 32)"

lemma abi_lengths:
  assumes "abi_ok abi"
  shows "length (abi_file_header abi f) = size_file_header abi"
    "length (abi_stage_header abi h) = size_stage_header abi (gh_kind h)"
    "length (abi_binary_info abi b) = size_binary_info abi"
    "length (concat (map (abi_slot abi) us)) = length us * size_slot abi"
    "length (concat (map (abi_vertex_input abi \<circ> fi) is)) = length is * size_vertex_input abi"
    "length (concat (map (abi_vertex_export abi \<circ> fe) es)) = length es * size_vertex_export abi"
    "length (concat (map (abi_pixel_input abi \<circ> fp) ps)) = length ps * size_pixel_input abi"
proof -
  have const: "(\<And>x. length (f x) = n) \<Longrightarrow> length (concat (map f xs)) = length xs * n" for f :: "'x \<Rightarrow> bytes" and n xs
    by (induction xs) simp_all
  show "length (abi_file_header abi f) = size_file_header abi"
    "length (abi_stage_header abi h) = size_stage_header abi (gh_kind h)"
    "length (abi_binary_info abi b) = size_binary_info abi"
    "length (concat (map (abi_slot abi) us)) = length us * size_slot abi"
    "length (concat (map (abi_vertex_input abi \<circ> fi) is)) = length is * size_vertex_input abi"
    "length (concat (map (abi_vertex_export abi \<circ> fe) es)) = length es * size_vertex_export abi"
    "length (concat (map (abi_pixel_input abi \<circ> fp) ps)) = length ps * size_pixel_input abi"
    using assms by (auto simp: abi_ok_def intro!: const)
qed

lemma numinputslots_slots: "numinputslots ctx = of_nat (length (usage_slots ctx))"
  by (simp add: numinputslots_def usage_slots_def bool_word_def Let_def)

lemma slots_le: "length (usage_slots ctx) \<le> 3"
  by (simp add: usage_slots_def Let_def)

lemma inputs_le: "inputs_count ctx \<le> 64" "outputs_count ctx \<le> 64"
  using util_bitcount_le [of "si_inputs_read (nir_info (bc_nir ctx))"]
    util_bitcount_le [of "si_outputs_written (nir_info (bc_nir ctx)) AND NOT (BITFIELD64_BIT 0)"]
  by (simp_all add: inputs_count_def outputs_count_def)

lemma semantics_size_chunks:
  assumes "abi_ok abi" "semantics_chunks abi ctx = Some sem"
  shows "semantics_size abi ctx = of_nat (length (concat sem))"
  using assms(2)
  by (auto simp: semantics_chunks_def semantics_size_def Let_def abi_lengths [OF assms(1)]
      split: mesa_shader_stage.splits if_splits)

lemma semantics_length_le:
  assumes "abi_ok abi" "context_ok ctx" "semantics_chunks abi ctx = Some sem"
  shows "length (concat sem) \<le> 128 * 4096"
proof -
  have *: "n * m \<le> 64 * 4096" if "n \<le> 64" "m \<le> 4096" for n m :: nat using mult_le_mono [OF that] by simp
  have b: "inputs_count ctx * size_vertex_input abi \<le> 64 * 4096"
    "outputs_count ctx * size_vertex_export abi \<le> 64 * 4096"
    "length (semantic_words ctx) * size_pixel_input abi \<le> 64 * 4096"
    using assms(1,2) inputs_le [of ctx] by (intro *; simp add: abi_ok_def context_ok_def)+
  show ?thesis
    using assms(3) b
    by (auto simp: semantics_chunks_def Let_def abi_lengths [OF assms(1)]
        split: mesa_shader_stage.splits if_splits)
qed

lemma stage_header_kind:
  assumes "stage_header abi ctx code = Some h"
  shows "headershsize abi (bc_psbc_stage ctx) = of_nat (size_stage_header abi (gh_kind h))"
  using assms
  by (auto simp: stage_header_def headershsize_def vs_header_def ps_header_def cs_header_def gs_header_def
      hs_header_def es_ls_header_def base_header_def Let_def split: PsbcStage.splits)

lemma push_drop_bit: "push_bit k (drop_bit k x) = x AND NOT (mask k)" for x :: "'a::len word"
  by (rule bit_word_eqI) (auto simp: bit_simps)

lemma align_up_two: "(s + 3 AND - 4) - s = 3 - take_bit 2 (s + 3 :: u32)"
proof -
  have "(s + 3 AND NOT (mask 2)) + take_bit 2 (s + 3) = s + 3"
    using bits_ident [of 2 "s + 3"] by (simp only: push_drop_bit)
  moreover have "NOT (mask 2) = (- 4 :: u32)" by (simp add: mask_eq_exp_minus_1 not_eq_complement)
  ultimately have "s + 3 AND - 4 = s + 3 - take_bit 2 (s + 3)"
    by (simp add: eq_diff_eq)
  then show ?thesis by simp
qed

lemma unat_align: "unat (align_bytes abi ctx) = 3 - unat (take_bit 2 (unaligned_size abi ctx + 3))"
  and align_le: "unat (align_bytes abi ctx) \<le> 3"
proof -
  have le: "take_bit 2 (unaligned_size abi ctx + 3) \<le> 3"
    using take_bit_nat_less_exp [of 2 "unat (unaligned_size abi ctx + 3)"]
    by (simp only: word_le_nat_alt unsigned_take_bit_eq) simp
  then show "unat (align_bytes abi ctx) = 3 - unat (take_bit 2 (unaligned_size abi ctx + 3))"
    by (simp add: align_bytes_def align_up_two unat_sub)
  then show "unat (align_bytes abi ctx) \<le> 3" by simp
qed

section \<open>The emitted binary\<close>

text \<open>The binary without the memory it is written to: code bytes, the parts in front of the binary info, and
  the whole.\<close>

definition code_bytes :: "BuildContext \<Rightarrow> u32 list \<Rightarrow> bytes" where
  "code_bytes ctx code = (if has_prolog ctx then le32 0xbe802100 else []) @ concat (map le32 code)"

definition header_part :: "gnm_abi \<Rightarrow> BuildContext \<Rightarrow> gnm_stage_header \<Rightarrow> bytes list \<Rightarrow> bytes" where
  "header_part abi ctx header semantics =
     abi_stage_header abi header @ concat (map (abi_slot abi) (usage_slots ctx)) @ concat semantics @
     replicate (unat (align_bytes abi ctx)) 0"

definition info_offset :: "gnm_abi \<Rightarrow> BuildContext \<Rightarrow> u32 list \<Rightarrow> nat" where
  "info_offset abi ctx code = 0x24 + size_file_header abi + unat (specific_size abi ctx) + unat (code_size ctx code)"

definition binary_image ::
  "gnm_abi \<Rightarrow> BuildContext \<Rightarrow> u32 list \<Rightarrow> gnm_stage_header \<Rightarrow> bytes list \<Rightarrow> bytes" where
  "binary_image abi ctx code header semantics =
     encode_header (pssl_header abi ctx code) @ abi_file_header abi (file_header abi ctx) @
     header_part abi ctx header semantics @ code_bytes ctx code @
     abi_binary_info abi (binary_info abi ctx code (code_bytes ctx code) (info_offset abi ctx code)) @
     encode_param_info zero_param_info"

lemma length_code_words: "length (concat (map le32 code)) = 4 * length code"
  by (induction code) simp_all

lemma length_code_bytes:
  assumes "length code \<le> 2 ^ 29"
  shows "length (code_bytes ctx code) = unat (code_size ctx code)" "unat (code_size ctx code) \<le> 2 ^ 31 + 4"
proof -
  have "code_size ctx code = of_nat (4 * length code + (if has_prolog ctx then 4 else 0))"
    by (simp add: code_size_def)
  then have "unat (code_size ctx code) = 4 * length code + (if has_prolog ctx then 4 else 0)"
    using assms by (simp only:) (rule unat_of_nat_small, simp)
  then show "length (code_bytes ctx code) = unat (code_size ctx code)" "unat (code_size ctx code) \<le> 2 ^ 31 + 4"
    using assms by (simp_all add: code_bytes_def length_code_words)
qed

lemma length_pssl_header [simp]: "length (encode_header (pssl_header abi ctx code)) = 0x24"
  by (rule length_encode_header) (simp_all add: pssl_header_def)

lemma unat_unaligned:
  assumes "abi_ok abi" "context_ok ctx" "stage_header abi ctx code = Some h" "semantics_chunks abi ctx = Some sem"
  shows "unat (unaligned_size abi ctx) =
      size_stage_header abi (gh_kind h) + length (usage_slots ctx) * size_slot abi + length (concat sem)"
    "unat (unaligned_size abi ctx) \<le> 132 * 4096"
proof -
  let ?n = "size_stage_header abi (gh_kind h) + length (usage_slots ctx) * size_slot abi + length (concat sem)"
  have "length (usage_slots ctx) * size_slot abi \<le> 3 * 4096"
    using slots_le [of ctx] assms(1) by (intro mult_le_mono) (simp_all add: abi_ok_def)
  moreover have "size_stage_header abi (gh_kind h) \<le> 4096" using assms(1) by (simp add: abi_ok_def)
  ultimately have le: "?n \<le> 132 * 4096" using semantics_length_le [OF assms(1,2,4)] by simp
  have "unaligned_size abi ctx = of_nat ?n"
    by (simp add: unaligned_size_def stage_header_kind [OF assms(3)] numinputslots_slots
        semantics_size_chunks [OF assms(1,4)])
  then show eq: "unat (unaligned_size abi ctx) = ?n" using le by (simp only:) (rule unat_of_nat_small, simp)
  show "unat (unaligned_size abi ctx) \<le> 132 * 4096" using le eq by simp
qed

lemma unat_take_bit_two: "unat (take_bit 2 w) = unat (w :: u32) mod 4"
  by (subst unsigned_take_bit_eq) (simp add: take_bit_eq_mod)

lemma unat_specific:
  assumes "unat (unaligned_size abi ctx) \<le> 132 * 4096"
  shows "unat (specific_size abi ctx) = unat (unaligned_size abi ctx) + unat (align_bytes abi ctx)"
    "unat (specific_size abi ctx) \<le> 133 * 4096" "unat (specific_size abi ctx) mod 4 = 0"
proof -
  show eq: "unat (specific_size abi ctx) = unat (unaligned_size abi ctx) + unat (align_bytes abi ctx)"
    using assms align_le [of abi ctx] by (simp add: specific_size_def unat_add_small)
  then show "unat (specific_size abi ctx) \<le> 133 * 4096" using assms align_le [of abi ctx] by simp
  have "unat (unaligned_size abi ctx + 3) = unat (unaligned_size abi ctx) + 3"
    using assms by (simp add: unat_add_small)
  then have "unat (align_bytes abi ctx) = 3 - (unat (unaligned_size abi ctx) + 3) mod 4"
    by (simp only: unat_align unat_take_bit_two)
  then have "unat (specific_size abi ctx) + (unat (unaligned_size abi ctx) + 3) mod 4 =
      unat (unaligned_size abi ctx) + 3"
    using mod_less_divisor [of 4 "unat (unaligned_size abi ctx) + 3"] eq by linarith
  then show "unat (specific_size abi ctx) mod 4 = 0"
    by (metis add_diff_cancel_right' minus_mod_eq_mult_div mod_mult_self1_is_0)
qed

lemma length_header_part:
  assumes "abi_ok abi" "context_ok ctx" "stage_header abi ctx code = Some h" "semantics_chunks abi ctx = Some sem"
  shows "length (header_part abi ctx h sem) = unat (specific_size abi ctx)"
  using unat_unaligned [OF assms] unat_specific(1) [of abi ctx] abi_lengths [OF assms(1)]
  by (simp add: header_part_def)

lemma length_binary_image:
  assumes "abi_ok abi" "context_ok ctx" "stage_header abi ctx code = Some h" "semantics_chunks abi ctx = Some sem"
    and "length code \<le> 2 ^ 29"
  shows "length (binary_image abi ctx code h sem) = total_size abi ctx code"
  using length_header_part [OF assms(1-4)] length_code_bytes(1) [OF assms(5)] abi_lengths [OF assms(1)]
  by (simp add: binary_image_def total_size_def)

lemma assemble_code_bytes:
  assumes "length mem = unat (code_size ctx code)" "length code \<le> 2 ^ 29"
  shows "assemble_code ctx code mem = Some (code_bytes ctx code)"
proof -
  let ?cs = "(if has_prolog ctx then [le32 0xbe802100] else []) @ [concat (map le32 code)]"
  have "concat ?cs = code_bytes ctx code" by (simp add: code_bytes_def)
  moreover from this have "length mem = length (concat ?cs)"
    using assms length_code_bytes(1) [OF assms(2), of ctx] by simp
  ultimately show ?thesis unfolding assemble_code_def using write_chunks_fill by simp
qed

lemma emit_binary_image:
  assumes "abi_ok abi" "context_ok ctx" "stage_header abi ctx code = Some h" "semantics_chunks abi ctx = Some sem"
    and "length code \<le> 2 ^ 29" "length buf = total_size abi ctx code"
  shows "emit_binary abi ctx code (code_bytes ctx code) h buf =
    Built (binary_image abi ctx code h sem) (total_size abi ctx code)"
proof -
  define cs where "cs = [encode_header (pssl_header abi ctx code), abi_file_header abi (file_header abi ctx),
      abi_stage_header abi h] @ map (abi_slot abi) (usage_slots ctx) @ sem @
      [replicate (unat (align_bytes abi ctx)) 0, code_bytes ctx code]"
  define ds where "ds = [abi_binary_info abi (binary_info abi ctx code (code_bytes ctx code) (info_offset abi ctx code)),
      encode_param_info zero_param_info]"
  have cs: "concat cs = encode_header (pssl_header abi ctx code) @ abi_file_header abi (file_header abi ctx) @
      header_part abi ctx h sem @ code_bytes ctx code"
    by (simp add: cs_def header_part_def)
  have lc: "length (concat cs) = info_offset abi ctx code"
    using length_header_part [OF assms(1-4)] length_code_bytes(1) [OF assms(5), of ctx] abi_lengths [OF assms(1)]
    by (simp add: cs info_offset_def)
  have image: "concat cs @ concat ds = binary_image abi ctx code h sem"
    by (simp add: cs ds_def binary_image_def)
  have ld: "length (concat ds) = total_size abi ctx code - info_offset abi ctx code"
    using abi_lengths [OF assms(1)] by (simp add: ds_def total_size_def info_offset_def)
  have "info_offset abi ctx code \<le> total_size abi ctx code" by (simp add: info_offset_def total_size_def)
  then have fit: "length (concat cs) + length (concat ds) = length buf" using lc ld assms(6) by simp
  have w1: "write_chunks cs (buf, 0) =
      Some (concat cs @ drop (length (concat cs)) buf, info_offset abi ctx code)"
    using write_chunks_fit [of 0 cs buf] fit lc by simp
  have w2: "write_chunks ds (concat cs @ drop (length (concat cs)) buf, info_offset abi ctx code) =
      Some (binary_image abi ctx code h sem, total_size abi ctx code)"
    using write_chunks_fit [of "info_offset abi ctx code" ds "concat cs @ drop (length (concat cs)) buf"] fit
      assms(6) by (simp add: lc [symmetric] image)
  show ?thesis
    using w1 w2 by (simp add: emit_binary_def assms(4) cs_def ds_def)
qed

text \<open>An allocator returns memory of the requested size, or nothing.\<close>

definition malloc_ok :: "(nat \<Rightarrow> bytes option) \<Rightarrow> bool" where
  "malloc_ok malloc \<longleftrightarrow> (\<forall>n mem. malloc n = Some mem \<longrightarrow> length mem = n)"

lemma semantics_chunks_defined: "context_ok ctx \<Longrightarrow> \<exists>sem. semantics_chunks abi ctx = Some sem"
  by (auto simp: semantics_chunks_def context_ok_def Let_def split: mesa_shader_stage.split)

lemma stage_header_defined:
  "(\<exists>h. stage_header abi ctx code = Some h) \<longleftrightarrow>
     bc_psbc_stage ctx \<noteq> PSBC_STAGE_NONE \<and> bc_psbc_stage ctx \<noteq> PSBC_STAGE_TASK"
  by (cases "bc_psbc_stage ctx") (simp_all add: stage_header_def)

lemma buildshaderbinary_outcome:
  assumes "abi_ok abi" "context_ok ctx" "length code \<le> 2 ^ 29" "malloc_ok malloc_code" "malloc_ok malloc_buf"
  shows "(malloc_code (unat (code_size ctx code)) = None \<or> malloc_buf (total_size abi ctx code) = None \<longrightarrow>
      buildshaderbinary abi malloc_code malloc_buf ctx code = Build_error PSBC_RESULT_OUT_OF_MEMORY) \<and>
    (malloc_code (unat (code_size ctx code)) \<noteq> None \<and> malloc_buf (total_size abi ctx code) \<noteq> None \<longrightarrow>
      (if bc_psbc_stage ctx = PSBC_STAGE_NONE \<or> bc_psbc_stage ctx = PSBC_STAGE_TASK
       then buildshaderbinary abi malloc_code malloc_buf ctx code = Build_error PSBC_RESULT_UNSUPPORTED_STAGE
       else \<exists>header semantics.
         stage_header abi ctx code = Some header \<and> semantics_chunks abi ctx = Some semantics \<and>
         buildshaderbinary abi malloc_code malloc_buf ctx code =
           Built (binary_image abi ctx code header semantics) (total_size abi ctx code) \<and>
         length (binary_image abi ctx code header semantics) = total_size abi ctx code))"
proof (cases "malloc_code (unat (code_size ctx code))")
  case None
  then show ?thesis by (simp add: buildshaderbinary_def)
next
  case (Some mem)
  then have "length mem = unat (code_size ctx code)" using assms(4) by (simp add: malloc_ok_def)
  then have code: "assemble_code ctx code mem = Some (code_bytes ctx code)"
    by (rule assemble_code_bytes [OF _ assms(3)])
  show ?thesis
  proof (cases "malloc_buf (total_size abi ctx code)")
    case None
    then show ?thesis using Some code by (simp add: buildshaderbinary_def)
  next
    case buf: (Some buf)
    then have len: "length buf = total_size abi ctx code" using assms(5) by (simp add: malloc_ok_def)
    obtain sem where sem: "semantics_chunks abi ctx = Some sem" using semantics_chunks_defined [OF assms(2)] by blast
    show ?thesis
    proof (cases "stage_header abi ctx code")
      case None
      then show ?thesis using Some code buf stage_header_defined [of abi ctx code] by (simp add: buildshaderbinary_def)
    next
      case h: (Some h)
      then have "bc_psbc_stage ctx \<noteq> PSBC_STAGE_NONE \<and> bc_psbc_stage ctx \<noteq> PSBC_STAGE_TASK"
        using stage_header_defined by blast
      then show ?thesis
        using Some code buf h sem emit_binary_image [OF assms(1,2) h sem assms(3) len]
          length_binary_image [OF assms(1,2) h sem assms(3)]
        by (simp add: buildshaderbinary_def)
    qed
  qed
qed


text \<open>A concrete representation of the GNM structures, with the documented sizes of the file header and of the
  binary info.\<close>

definition sample_abi :: gnm_abi where
  "sample_abi =
     \<lparr>abi_file_header = \<lambda>f. le32 0x72646853 @ le32 (fh_headersizedwords f) @ replicate 8 0,
      abi_stage_header = \<lambda>h. le32 (gh_shadersize h) @ le32 (gh_numinputsemantics h),
      abi_slot = \<lambda>s. [us_startregister s, 0, 0, 0],
      abi_vertex_input = \<lambda>v. [vi_vgpr v, vi_sizeinelements v, 0, 0],
      abi_vertex_export = \<lambda>v. [ucast (ve_semantic v), ucast (ve_outindex v)],
      abi_pixel_input = \<lambda>p. [ucast (pis_semantic p), ucast (pis_isflatshaded p)],
      abi_binary_info = \<lambda>b. le32 (sb_length b) @ le32 (sb_chunkusagebaseoffsetdwords b) @ le32 (sb_shaderhash0 b) @
        le32 (sb_shaderhash1 b) @ replicate 8 0 @ le32 (sb_crc32 b),
      size_file_header = 0x10, size_stage_header = \<lambda>k. 8, size_slot = 4, size_vertex_input = 4,
      size_vertex_export = 2, size_pixel_input = 2, size_binary_info = 0x1c\<rparr>"

lemma sample_abi_ok: "abi_ok sample_abi"
  by (simp add: abi_ok_def sample_abi_def)

definition sample_malloc :: "nat \<Rightarrow> bytes option" where
  "sample_malloc n = (if n < 4096 then Some (replicate n 0xAA) else None)"

definition sample_pixel :: BuildContext where
  "sample_pixel = zero_context\<lparr>bc_stage := MESA_SHADER_FRAGMENT, bc_psbc_stage := PSBC_STAGE_FRAGMENT,
     bc_input_semantics := Some \<lparr>is_valid = True, is_words = [0x400010]\<rparr>\<rparr>"

lemma sample_pixel_ok: "context_ok sample_pixel"
  by (simp add: context_ok_def sample_pixel_def semantic_words_def)

lemma sample_pixel_stage: "bc_psbc_stage sample_pixel = PSBC_STAGE_FRAGMENT"
  by (simp add: sample_pixel_def)

lemma sample_malloc_ok: "malloc_ok sample_malloc"
  by (auto simp: malloc_ok_def sample_malloc_def split: if_splits)

lemma sample_pixel_sizes:
  "unaligned_size sample_abi sample_pixel = 10" "align_bytes sample_abi sample_pixel = 2"
  "specific_size sample_abi sample_pixel = 12"
  "code_size sample_pixel [0xbf810000] = 4" "total_size sample_abi sample_pixel [0xbf810000] = 124"
proof -
  show u: "unaligned_size sample_abi sample_pixel = 10"
    by (simp add: unaligned_size_def headershsize_def sample_abi_def sample_pixel_def numinputslots_def
        is_vs_family_def semantics_size_def semantic_words_def bool_word_def zero_context_def zero_args_def zero_arg_def)
  show a: "align_bytes sample_abi sample_pixel = 2" by (simp add: align_bytes_def u)
  show s: "specific_size sample_abi sample_pixel = 12" by (simp add: specific_size_def u a)
  show c: "code_size sample_pixel [0xbf810000] = 4"
    by (simp add: code_size_def has_prolog_def sample_pixel_def zero_context_def zero_info_def zero_vs_def)
  show "total_size sample_abi sample_pixel [0xbf810000] = 124"
    by (simp add: total_size_def s c) (simp add: sample_abi_def)
qed


section \<open>Reading the binary back\<close>

lemma pad_to_eight: "unat (if w AND 7 \<noteq> 0 then 8 - (w AND 7) else 0) = (8 - unat w mod 8) mod 8" for w :: u32
proof -
  have w: "w AND 7 = take_bit 3 w" using take_bit_eq_mask [of 3 w] by (simp add: mask_eq_exp_minus_1)
  have u: "unat (take_bit 3 w) = unat w mod 8" by (subst unsigned_take_bit_eq) (simp add: take_bit_eq_mod)
  then have "take_bit 3 w \<le> 8" by (simp only: word_le_nat_alt) simp
  then have "unat (8 - take_bit 3 w) = 8 - unat w mod 8" using u by (simp only: unat_sub) simp
  moreover have "take_bit 3 w = 0 \<longleftrightarrow> unat w mod 8 = 0" using u by (metis unat_0 unat_eq_0)
  ultimately show ?thesis unfolding w by (cases "take_bit 3 w = 0") auto
qed

lemma hash_words: "push_bit 32 (ucast (ucast (drop_bit 32 h) :: u32)) OR ucast (ucast (h AND 0xffffffff) :: u32) = h"
  for h :: u64
proof -
  have m: "(0xffffffff :: u64) = mask 32" by (simp add: mask_eq_exp_minus_1)
  show ?thesis unfolding m by (rule bit_word_eqI) (auto simp: bit_simps)
qed

lemma image_split:
  assumes "abi_ok abi" "context_ok ctx" "stage_header abi ctx code = Some h" "semantics_chunks abi ctx = Some sem"
    and "length code \<le> 2 ^ 29"
  shows "slice_at 0x24 (size_file_header abi) (binary_image abi ctx code h sem) =
      abi_file_header abi (file_header abi ctx)"
    "slice_at (0x24 + size_file_header abi + unat (specific_size abi ctx)) (unat (code_size ctx code))
       (binary_image abi ctx code h sem) = code_bytes ctx code"
    "slice_at (info_offset abi ctx code) (size_binary_info abi) (binary_image abi ctx code h sem) =
       abi_binary_info abi (binary_info abi ctx code (code_bytes ctx code) (info_offset abi ctx code))"
    "drop (info_offset abi ctx code + size_binary_info abi) (binary_image abi ctx code h sem) =
       encode_param_info zero_param_info"
  using length_header_part [OF assms(1-4)] length_code_bytes(1) [OF assms(5), of ctx] abi_lengths [OF assms(1)]
  by (simp_all add: binary_image_def slice_at_def info_offset_def)

lemma header_codesize:
  assumes "abi_ok abi" "unat (specific_size abi ctx) \<le> 133 * 4096" "length code \<le> 2 ^ 29"
  shows "unat (bh_codesize (pssl_header abi ctx code)) =
    size_file_header abi + unat (specific_size abi ctx) + unat (code_size ctx code) + size_binary_info abi"
proof -
  let ?n = "size_file_header abi + unat (specific_size abi ctx) + unat (code_size ctx code) + size_binary_info abi"
  have "?n < 2 ^ 32"
    using assms(1,2) length_code_bytes(2) [OF assms(3), of ctx] by (simp add: abi_ok_def)
  moreover have "bh_codesize (pssl_header abi ctx code) = of_nat ?n" by (simp add: pssl_header_def)
  ultimately show ?thesis by (simp only:) (rule unat_of_nat_small, simp)
qed

lemma decode_image_header:
  "decode_header (binary_image abi ctx code h sem) = pssl_header abi ctx code"
  unfolding binary_image_def by (rule decode_encode_header) (simp_all add: pssl_header_def)

text \<open>C6. The readers of the container find what the emitter wrote. Decoding the header of an emitted binary,
  they point at the GNM file header, at the binary info and at the parameter block; the block is empty and
  ends the file; and the code stands where the file header's dword count says, with the length that
  the binary info gives.\<close>
theorem readers_find_parts:
  assumes "abi_ok abi" "context_ok ctx" "length code \<le> 2 ^ 29"
    and "stage_header abi ctx code = Some h" "semantics_chunks abi ctx = Some sem"
  defines "bin \<equiv> binary_image abi ctx code h sem"
    and "info \<equiv> binary_info abi ctx code (code_bytes ctx code) (info_offset abi ctx code)"
  shows "psslSbGnmShader (Some (decode_header bin)) = Some 0x24 \<and>
    slice_at 0x24 (size_file_header abi) bin = abi_file_header abi (file_header abi ctx) \<and>
    psslSbGnmShaderBinaryInfo (size_binary_info abi) (Some (decode_header bin)) =
      Some (int (info_offset abi ctx code)) \<and>
    slice_at (info_offset abi ctx code) (size_binary_info abi) bin = abi_binary_info abi info \<and>
    psslSbParameterInfo (Some (decode_header bin)) = Some (int (length bin - 0x1c)) \<and>
    decode_param_info (drop (length bin - 0x1c) bin) = zero_param_info \<and>
    slice_at (0x24 + size_file_header abi + 4 * unat (fh_headersizedwords (file_header abi ctx)))
      (unat (sb_length info)) bin = code_bytes ctx code"
proof -
  note split = image_split [OF assms(1,2,4,5,3)]
  have small: "unat (unaligned_size abi ctx) \<le> 132 * 4096" by (rule unat_unaligned(2) [OF assms(1,2,4,5)])
  note codesize = header_codesize [OF assms(1) unat_specific(2) [OF small] assms(3)]
  have len: "length bin = info_offset abi ctx code + size_binary_info abi + 0x1c"
    unfolding bin_def length_binary_image [OF assms(1,2,4,5,3)] by (simp add: total_size_def info_offset_def)
  have dwords: "4 * unat (fh_headersizedwords (file_header abi ctx)) = unat (specific_size abi ctx)"
    using unat_specific(3) [OF small] by (simp add: file_header_def unat_div) (metis mod_0_imp_dvd dvd_mult_div_cancel)
  have info: "psslSbGnmShaderBinaryInfo (size_binary_info abi) (Some (decode_header bin)) =
      Some (int (info_offset abi ctx code))"
    and params: "psslSbParameterInfo (Some (decode_header bin)) = Some (int (length bin - 0x1c))"
    unfolding psslSbGnmShaderBinaryInfo_def psslSbParameterInfo_def bin_def decode_image_header option.map codesize
      len [unfolded bin_def]
    by (simp_all add: info_offset_def)
  have "sb_length info = code_size ctx code" by (simp add: info_def binary_info_def Let_def)
  moreover have "decode_param_info (drop (length bin - 0x1c) bin) = zero_param_info"
    using decode_encode_param_info [of zero_param_info "[]"] split(4) by (simp add: len [unfolded bin_def] bin_def)
  ultimately show ?thesis
    using split dwords info params by (simp add: bin_def info_def psslSbGnmShader_def)
qed

theorem readers_find_parts_witness:
  "\<exists>h sem. let bin = binary_image sample_abi sample_pixel [0xbf810000] h sem in
     psslSbGnmShaderBinaryInfo 0x1c (Some (decode_header bin)) = Some 68 \<and>
     slice_at 64 4 bin = le32 0xbf810000"
proof -
  obtain h sem where h: "stage_header sample_abi sample_pixel [0xbf810000] = Some h"
    and sem: "semantics_chunks sample_abi sample_pixel = Some sem"
    using stage_header_defined [of sample_abi sample_pixel] semantics_chunks_defined [OF sample_pixel_ok]
    by (metis PsbcStage.distinct sample_pixel_stage)
  have len: "length [0xbf810000 :: u32] \<le> 2 ^ 29" by simp
  have code: "code_bytes sample_pixel [0xbf810000] = le32 0xbf810000"
    by (simp add: code_bytes_def has_prolog_def sample_pixel_def zero_context_def zero_info_def zero_vs_def)
  have sizes: "size_file_header sample_abi = 0x10" "size_binary_info sample_abi = 0x1c"
    by (simp_all add: sample_abi_def)
  have off: "info_offset sample_abi sample_pixel [0xbf810000] = 68"
    by (simp add: info_offset_def sample_pixel_sizes sizes)
  have "4 * unat (fh_headersizedwords (file_header sample_abi sample_pixel)) = 12"
    by (simp add: file_header_def sample_pixel_sizes)
  then show ?thesis
    using readers_find_parts [OF sample_abi_ok sample_pixel_ok len h sem]
    by (intro exI [of _ h] exI [of _ sem])
      (simp add: Let_def off sizes code binary_info_def sample_pixel_sizes)
qed

text \<open>C39. The checksum and the shader hash of an emitted binary verify. A consumer that takes the code and
  the binary info out of the file, pads the code with zeros to a multiple of eight bytes and runs the
  checksum over code, padding and all of the info but its last word, obtains that last word; and the two
  hash words of the info are the halves of the FNV-1a hash of the SPIR-V module.\<close>
theorem binary_checksum_verifies:
  assumes "abi_ok abi" "context_ok ctx" "length code \<le> 2 ^ 29"
    and "stage_header abi ctx code = Some h" "semantics_chunks abi ctx = Some sem"
  defines "bin \<equiv> binary_image abi ctx code h sem"
    and "info \<equiv> binary_info abi ctx code (code_bytes ctx code) (info_offset abi ctx code)"
  shows "let stored = slice_at (info_offset abi ctx code) (size_binary_info abi) bin;
      text = slice_at (0x24 + size_file_header abi + unat (specific_size abi ctx)) (unat (code_size ctx code)) bin;
      pad = replicate ((8 - length text mod 8) mod 8) 0
    in de32 (drop (size_binary_info abi - 4) stored) =
         crc32_sb_end (crc32_sb (text @ pad @ take (size_binary_info abi - 4) stored) crc32_sb_begin) \<and>
       push_bit 32 (ucast (sb_shaderhash1 info)) OR ucast (sb_shaderhash0 info) = shader_hash (bc_spirv ctx)"
proof -
  note split = image_split [OF assms(1,2,4,5,3)]
  let ?bare = "info\<lparr>sb_crc32 := 0\<rparr>"
  have crc: "sb_crc32 info = hashsb abi (code_bytes ctx code) ?bare"
    by (simp add: info_def binary_info_def Let_def)
  have tail: "drop (size_binary_info abi - 4) (abi_binary_info abi info) = le32 (sb_crc32 info)"
    and front: "take (size_binary_info abi - 4) (abi_binary_info abi ?bare) =
      take (size_binary_info abi - 4) (abi_binary_info abi info)"
    using assms(1) by (simp_all add: abi_ok_def)
  have "sb_length ?bare = code_size ctx code" by (simp add: info_def binary_info_def Let_def)
  then have pad: "unat (if sb_length ?bare AND 7 \<noteq> 0 then 8 - (sb_length ?bare AND 7) else 0) =
      (8 - length (code_bytes ctx code) mod 8) mod 8"
    by (simp only: pad_to_eight length_code_bytes(1) [OF assms(3)])
  have hash: "hashsb abi (code_bytes ctx code) ?bare =
      crc32_sb_end (crc32_sb (code_bytes ctx code @ replicate ((8 - length (code_bytes ctx code) mod 8) mod 8) 0 @
        take (size_binary_info abi - 4) (abi_binary_info abi info)) crc32_sb_begin)"
    by (simp only: hashsb_def Let_def pad front crc.hash_append)
  have words: "push_bit 32 (ucast (sb_shaderhash1 info)) OR ucast (sb_shaderhash0 info) = shader_hash (bc_spirv ctx)"
    by (simp add: info_def binary_info_def Let_def hash_words)
  show ?thesis
    using split(2,3) crc hash words by (simp add: Let_def bin_def tail info_def [symmetric])
qed

lemma sample_pixel_parts:
  obtains h sem where "stage_header sample_abi sample_pixel [0xbf810000] = Some h"
    "semantics_chunks sample_abi sample_pixel = Some sem"
  using stage_header_defined [of sample_abi sample_pixel] semantics_chunks_defined [OF sample_pixel_ok]
  by (metis PsbcStage.distinct sample_pixel_stage)

theorem binary_checksum_verifies_witness:
  "\<exists>h sem. let bin = binary_image sample_abi sample_pixel [0xbf810000] h sem;
       stored = slice_at 68 0x1c bin; text = slice_at 64 4 bin
     in de32 (drop 0x18 stored) =
          crc32_sb_end (crc32_sb (text @ replicate 4 0 @ take 0x18 stored) crc32_sb_begin) \<and> length text = 4"
proof -
  obtain h sem where parts: "stage_header sample_abi sample_pixel [0xbf810000] = Some h"
    "semantics_chunks sample_abi sample_pixel = Some sem" by (rule sample_pixel_parts)
  have len: "length [0xbf810000 :: u32] \<le> 2 ^ 29" by simp
  have sizes: "size_file_header sample_abi = 0x10" "size_binary_info sample_abi = 0x1c"
    by (simp_all add: sample_abi_def)
  have off: "info_offset sample_abi sample_pixel [0xbf810000] = 68"
    by (simp add: info_offset_def sample_pixel_sizes sizes)
  have "length (binary_image sample_abi sample_pixel [0xbf810000] h sem) = 124"
    using length_binary_image [OF sample_abi_ok sample_pixel_ok parts len] by (simp add: sample_pixel_sizes)
  then show ?thesis
    using binary_checksum_verifies [OF sample_abi_ok sample_pixel_ok len parts]
    by (intro exI [of _ h] exI [of _ sem]) (simp add: Let_def off sizes sample_pixel_sizes)
qed

section \<open>Semantic counts\<close>

text \<open>C40. The number of input semantics in the header of a vertex, evaluation or pixel shader need not be the number of entries. For every
  other stage that has semantics the two counts of the header add up to the entries that follow it. The
  vertex header, however, counts the words of the input semantics, which are those of the pixel
  stage, while one entry per input read is written; and the pixel header counts the inputs read while
  one entry per word is written.\<close>
theorem semantic_counts_swapped:
  assumes "context_ok ctx" "stage_header abi ctx code = Some h" "semantics_chunks abi ctx = Some sem"
  shows "(bc_psbc_stage ctx = PSBC_STAGE_VERTEX \<or> bc_psbc_stage ctx = PSBC_STAGE_TESS_EVAL \<longrightarrow>
      unat (gh_numinputsemantics h) = length (semantic_words ctx) \<and>
      length sem = inputs_count ctx + unat (gh_numexportsemantics h)) \<and>
    (bc_psbc_stage ctx = PSBC_STAGE_FRAGMENT \<longrightarrow>
      unat (gh_numinputsemantics h) = inputs_count ctx \<and> length sem = length (semantic_words ctx)) \<and>
    (bc_psbc_stage ctx \<in> {PSBC_STAGE_GEOMETRY, PSBC_STAGE_TESS_CTRL, PSBC_STAGE_EXPORT, PSBC_STAGE_LOCAL} \<longrightarrow>
      unat (gh_numinputsemantics h) = inputs_count ctx \<and>
      length sem = unat (gh_numinputsemantics h) + unat (gh_numexportsemantics h))"
proof -
  have small: "unat (of_nat (inputs_count ctx) :: u32) = inputs_count ctx"
    "unat (of_nat (outputs_count ctx) :: u32) = outputs_count ctx"
    "unat (of_nat (length (semantic_words ctx)) :: u32) = length (semantic_words ctx)"
    using inputs_le [of ctx] assms(1) by (intro unat_of_nat_small; simp add: context_ok_def)+
  have stage: "bc_stage ctx = psbc_to_mesa_stage (bc_psbc_stage ctx)" using assms(1) by (simp add: context_ok_def)
  show ?thesis
    using assms(2,3) small
    by (cases "bc_psbc_stage ctx")
      (auto simp: stage_header_def semantics_chunks_def stage Let_def vs_header_def ps_header_def gs_header_def
        hs_header_def es_ls_header_def base_header_def split: if_splits)
qed

definition sample_vertex :: BuildContext where
  "sample_vertex = zero_context\<lparr>bc_psbc_stage := PSBC_STAGE_VERTEX, bc_stage := MESA_SHADER_VERTEX,
     bc_nir := zero_nir\<lparr>nir_info := zero_shader_info\<lparr>si_inputs_read := 3\<rparr>\<rparr>\<rparr>"

theorem semantic_counts_swapped_witness:
  "\<exists>h sem. stage_header sample_abi sample_vertex [] = Some h \<and> semantics_chunks sample_abi sample_vertex = Some sem \<and>
     unat (gh_numinputsemantics h) = 0 \<and> length sem = 2 + unat (gh_numexportsemantics h)"
proof -
  have count: "inputs_count sample_vertex = 2"
    by (simp add: inputs_count_def sample_vertex_def util_bitcount.simps)
  have words: "semantic_words sample_vertex = []"
    by (simp add: semantic_words_def sample_vertex_def zero_context_def)
  have ok: "context_ok sample_vertex" using count words by (simp add: context_ok_def) (simp add: sample_vertex_def)
  have stage: "bc_psbc_stage sample_vertex = PSBC_STAGE_VERTEX" by (simp add: sample_vertex_def)
  obtain h sem where "stage_header sample_abi sample_vertex [] = Some h" "semantics_chunks sample_abi sample_vertex = Some sem"
    using stage_header_defined [of sample_abi sample_vertex] semantics_chunks_defined [OF ok]
    by (metis PsbcStage.distinct stage)
  then show ?thesis using semantic_counts_swapped [OF ok] count words stage by fastforce
qed

end
