(* ===== verification/Compile_Driver.thy ===== *)
theory Compile_Driver
  imports Pipeline_Link Shader_Meta Shader_Binary
begin

text \<open>
  \<^verbatim>\<open>prepare_stage_nir\<close> and \<^verbatim>\<open>psbc_compile_impl\<close> of \<^verbatim>\<open>src/libpsbc/psbc_compile.c\<close>, from the guards to the
  returned output.  Mesa's passes are a parameter: a record of functions on the shaders and their
  information, which the driver calls in the order of the source.  Memory is tracked: the shaders, the
  compiled binary and the outputs are resources that are owned and released, the reference count of
  the library is part of the state, and a release of what is not owned is an outcome of its own.
  The lemmas show that every way out of a compilation releases exactly what it acquired.
\<close>

section \<open>Definitions\<close>

subsection \<open>Stages and Mesa's passes\<close>

text \<open>The members of \<^verbatim>\<open>radv_shader_stage\<close> that the driver sets.  The switch that keeps a disassembly is only a
  diagnostic.\<close>

record radv_shader_stage =
  rs_stage :: mesa_shader_stage
  rs_next_stage :: mesa_shader_stage
  rs_spirv :: "u32 list option"
  rs_spirv_size :: u32
  rs_internal_nir :: "nir_shader option"
  rs_entrypoint :: string
  rs_spec_info :: "((u32 \<times> nat \<times> nat) list \<times> bytes) option"
  rs_optimisations_disabled :: bool
  rs_storage_robustness2 :: bool
  rs_uniform_robustness2 :: bool
  rs_nir :: nir_shader
  rs_info :: radv_shader_info
  rs_args :: radv_shader_args
  rs_layout :: radv_shader_layout

definition zero_stage :: "mesa_shader_stage \<Rightarrow> mesa_shader_stage \<Rightarrow> radv_shader_stage" where
  "zero_stage s next_s =
     \<lparr>rs_stage = s, rs_next_stage = next_s, rs_spirv = None, rs_spirv_size = 0, rs_internal_nir = None,
      rs_entrypoint = [], rs_spec_info = None, rs_optimisations_disabled = False,
      rs_storage_robustness2 = False, rs_uniform_robustness2 = False, rs_nir = zero_nir, rs_info = zero_info,
      rs_args = zero_args, rs_layout = \<lparr>ly_num_sets = 0, ly_set = []\<rparr>\<rparr>"

datatype gs_lowering = Gs_per_stream | Gs_count_primitives | Gs_count_vertices_per_primitive | Gs_overwrite_incomplete

record radv_binary =
  rb_info :: radv_shader_info
  rb_config :: ac_shader_config
  rb_stats_size :: nat
  rb_code_size :: nat
  rb_data :: bytes

text \<open>Mesa, as the driver sees it.  A pass that rewrites a shader in place is a function on shaders; a pass
  with a callback takes the callback.  The compiler back end may rewrite the shaders it is given.\<close>

record mesa =
  ms_spirv_to_nir :: "radv_compiler_info \<Rightarrow> radv_shader_stage \<Rightarrow> bool \<Rightarrow> nir_shader option"
  ms_replace_defs :: "(nir_intrinsic_op \<Rightarrow> nir_def option) \<Rightarrow> nir_shader \<Rightarrow> nir_shader"
  ms_replace_bools :: "(nir_intrinsic_op \<Rightarrow> bool option) \<Rightarrow> nir_shader \<Rightarrow> nir_shader"
  ms_normalize_sin_cos :: "nir_shader \<Rightarrow> nir_shader"
  ms_optimize_nir :: "bool \<Rightarrow> nir_shader \<Rightarrow> nir_shader"
  ms_lower_indirect_derefs :: "nir_shader \<Rightarrow> bool \<times> nir_shader"
  ms_lower_vars_to_ssa :: "nir_shader \<Rightarrow> nir_shader"
  ms_lower_undef_to_zero :: "nir_shader \<Rightarrow> nir_shader"
  ms_peephole_select :: "nir_shader \<Rightarrow> nir_shader"
  ms_gather_info :: "nir_shader \<Rightarrow> nir_shader"
  ms_lower_io :: "nir_shader \<Rightarrow> nir_shader"
  ms_scalarize :: "nir_instr list \<Rightarrow> nir_instr list"
  ms_recompute_io_bases :: "nir_shader \<Rightarrow> nir_shader"
  ms_lower_gs_intrinsics :: "gs_lowering list \<Rightarrow> nir_shader \<Rightarrow> nir_shader"
  ms_lower_legacy_gs :: "amd_gfx_level \<Rightarrow> bool \<Rightarrow> nir_shader \<Rightarrow> nir_shader \<times> bool"
  ms_lower_frag_pos :: "bool \<Rightarrow> bool \<Rightarrow> nir_shader \<Rightarrow> nir_shader"
  ms_info_init :: "mesa_shader_stage \<Rightarrow> mesa_shader_stage \<Rightarrow> radv_shader_info \<Rightarrow> radv_shader_info"
  ms_info_pass :: "radv_compiler_info \<Rightarrow> radv_graphics_state_key \<Rightarrow> radv_shader_stage \<Rightarrow> radv_shader_info"
  ms_info_link :: "radv_compiler_info \<Rightarrow> radv_graphics_state_key \<Rightarrow>
     (mesa_shader_stage \<Rightarrow> radv_shader_stage option) \<Rightarrow> mesa_shader_stage \<Rightarrow> radv_shader_info"
  ms_declare_args :: "radv_compiler_info \<Rightarrow> radv_graphics_state_key \<Rightarrow> radv_shader_stage \<Rightarrow>
     mesa_shader_stage \<Rightarrow> radv_shader_args"
  ms_postprocess_nir :: "radv_compiler_info \<Rightarrow> radv_graphics_state_key \<Rightarrow> radv_shader_stage \<Rightarrow> radv_shader_stage"
  ms_opt_licm :: "nir_shader \<Rightarrow> nir_shader"
  ms_ngg_info :: "radv_compiler_info \<Rightarrow> radv_shader_info \<Rightarrow> radv_shader_info option \<Rightarrow> gfx10_ngg_info \<Rightarrow>
     gfx10_ngg_info \<times> u32"
  ms_nir_to_asm :: "radv_compiler_info \<Rightarrow> radv_shader_stage \<Rightarrow> nir_shader list \<Rightarrow> radv_graphics_state_key \<Rightarrow>
     radv_binary option \<times> nir_shader"

subsection \<open>Import of a stage\<close>

definition describe_stage ::
  "u32 list option \<Rightarrow> nat \<Rightarrow> nir_shader option \<Rightarrow> PsbcCompileOptions \<Rightarrow> radv_shader_stage \<Rightarrow> radv_shader_stage" where
  "describe_stage spirv spirv_size input_nir opts stage =
     stage\<lparr>rs_spirv := spirv, rs_spirv_size := of_nat spirv_size,
           rs_entrypoint := (case opt_entrypoint opts of None \<Rightarrow> ''main'' | Some e \<Rightarrow> e),
           rs_optimisations_disabled := \<not> opt_optimise opts,
           rs_storage_robustness2 := opt_robust_buffer_access2 opts,
           rs_uniform_robustness2 := opt_robust_buffer_access2 opts,
           rs_spec_info := (if opt_specialization_constant_count opts \<noteq> 0 then Some (specialization_map opts)
                            else rs_spec_info stage),
           rs_internal_nir := (if input_nir \<noteq> None then input_nir else rs_internal_nir stage)\<rparr>"

definition deliver_view_index :: "PsbcCompileOptions \<Rightarrow> radv_shader_stage \<Rightarrow> bool" where
  "deliver_view_index opts stage \<longleftrightarrow> rs_stage stage = MESA_SHADER_VERTEX \<or>
     (opt_target opts = PSBC_TARGET_PS5 \<and> rs_stage stage = MESA_SHADER_FRAGMENT)"

definition lower_subgroups ::
  "mesa \<Rightarrow> radv_compiler_info \<Rightarrow> PsbcCompileOptions \<Rightarrow> nir_shader \<Rightarrow> nir_shader" where
  "lower_subgroups M ci opts nir =
     (if opt_target opts = PSBC_TARGET_PS5 \<and> si_stage (nir_info nir) = MESA_SHADER_COMPUTE
      then ms_replace_defs M (lower_ps5_compute_subgroup_id (ucast (ci_cs_wave_size ci)) (nir_info nir)) nir
      else nir)"

definition lower_imported ::
  "mesa \<Rightarrow> nir_shader option \<Rightarrow> PsbcCompileOptions \<Rightarrow> nir_shader \<Rightarrow> nir_shader" where
  "lower_imported M input_nir opts nir =
     (if input_nir = None then nir
      else ms_normalize_sin_cos M
        (if opt_descriptor_binding_count opts \<noteq> 0 then map_intrinsics (snd \<circ> lower_gallium_ubo_index) nir else nir))"

definition optimise_imported :: "mesa \<Rightarrow> PsbcCompileOptions \<Rightarrow> nir_shader \<Rightarrow> nir_shader" where
  "optimise_imported M opts nir =
     (case ms_lower_indirect_derefs M (ms_optimize_nir M (\<not> opt_optimise opts) nir) of (lowered, nir) \<Rightarrow>
      (let nir = ms_lower_vars_to_ssa M nir in
       if \<not> lowered then nir
       else (let nir = ms_peephole_select M (ms_lower_undef_to_zero M nir)
             in if opt_optimise opts then ms_optimize_nir M False nir else nir)))"

text \<open>The widths of the distance arrays survive a new collection of the shader's information.\<close>

definition set_distance_sizes :: "u32 \<times> u32 \<Rightarrow> nir_shader \<Rightarrow> nir_shader" where
  "set_distance_sizes counts nir =
     (if si_stage (nir_info nir) = MESA_SHADER_FRAGMENT
      then nir\<lparr>nir_info := (nir_info nir)\<lparr>si_clip_distance_array_size := fst counts,
                                          si_cull_distance_array_size := snd counts\<rparr>\<rparr>
      else nir)"

definition regather_distances :: "mesa \<Rightarrow> PsbcCompileOptions \<Rightarrow> u32 \<times> u32 \<Rightarrow> nir_shader \<Rightarrow> nir_shader" where
  "regather_distances M opts counts nir =
     (if si_stage (nir_info nir) = MESA_SHADER_FRAGMENT \<and> opt_fragment_distance_layout_valid opts
      then (let nir = ms_gather_info M nir
            in nir\<lparr>nir_info := (nir_info nir)\<lparr>si_clip_distance_array_size := fst counts,
                                              si_cull_distance_array_size := snd counts\<rparr>\<rparr>)
      else nir)"

definition finish_imported :: "mesa \<Rightarrow> nir_shader \<Rightarrow> nir_shader" where
  "finish_imported M nir =
     (let nir = (if si_stage (nir_info nir) = MESA_SHADER_TESS_CTRL then ms_gather_info M nir else nir)
      in if si_stage (nir_info nir) = MESA_SHADER_FRAGMENT then ms_recompute_io_bases M nir else nir)"

definition prepare_stage_nir ::
  "mesa \<Rightarrow> radv_compiler_info \<Rightarrow> radv_shader_stage \<Rightarrow> u32 list option \<Rightarrow> nat \<Rightarrow> nir_shader option \<Rightarrow>
   PsbcCompileOptions \<Rightarrow> radv_shader_stage option" where
  "prepare_stage_nir M ci stage spirv spirv_size input_nir opts =
     (let stage = describe_stage spirv spirv_size input_nir opts stage in
      case ms_spirv_to_nir M ci stage (\<not> deliver_view_index opts stage) of
        None \<Rightarrow> None
      | Some nir \<Rightarrow>
          (let nir = lower_subgroups M ci opts nir;
               counts = (si_clip_distance_array_size (nir_info nir), si_cull_distance_array_size (nir_info nir));
               nir = optimise_imported M opts (lower_imported M input_nir opts nir);
               nir = ms_lower_io M (set_distance_sizes counts (ms_gather_info M nir))
           in case link_fragment_distance_layout (ms_scalarize M) opts nir of
                None \<Rightarrow> None
              | Some nir \<Rightarrow>
                  Some (stage\<lparr>rs_nir := finish_imported M (regather_distances M opts counts nir)\<rparr>)))"

subsection \<open>Resources\<close>

text \<open>The objects a compilation owns.  The control half of a merged geometry program is handed over to the
  geometry shader and dies with it.\<close>

datatype resource
  = Res_nir | Res_previous | Res_next_link | Res_control | Res_gs_copy | Res_binary | Res_data | Res_code

record compile_state =
  cs_library :: psbc_library
  cs_live :: "resource list"
  cs_stolen :: bool

definition own :: "resource \<Rightarrow> compile_state \<Rightarrow> compile_state" where
  "own r st = st\<lparr>cs_live := r # cs_live st\<rparr>"

definition release :: "resource \<Rightarrow> compile_state \<Rightarrow> compile_state option" where
  "release r st =
     (if r \<in> set (cs_live st)
      then (let live = remove1 r (cs_live st)
            in Some (if r = Res_nir \<and> cs_stolen st
                     then st\<lparr>cs_live := remove1 Res_control live, cs_stolen := False\<rparr>
                     else st\<lparr>cs_live := live\<rparr>))
      else None)"

fun release_all :: "resource list \<Rightarrow> compile_state \<Rightarrow> compile_state option" where
  "release_all [] st = Some st"
| "release_all (r # rs) st = (case release r st of None \<Rightarrow> None | Some st' \<Rightarrow> release_all rs st')"

text \<open>A part of the compilation goes on with a value, returns from the compilation, or is undefined: it
  reads outside of an array or releases what it does not own.\<close>

datatype 'a step = Go 'a compile_state | Stop PsbcResult compile_state | Fault

fun and_then :: "'a step \<Rightarrow> ('a \<Rightarrow> compile_state \<Rightarrow> 'b step) \<Rightarrow> 'b step" where
  "and_then (Go x st) f = f x st"
| "and_then (Stop result st) f = Stop result st"
| "and_then Fault f = Fault"

text \<open>The ends of the error paths: some releases, and the shutdown that matches the initialisation.\<close>

definition leave :: "resource list \<Rightarrow> PsbcResult \<Rightarrow> compile_state \<Rightarrow> 'a step" where
  "leave rs result st =
     (case release_all rs st of
        None \<Rightarrow> Fault
      | Some st' \<Rightarrow>
          (case psbc_shutdown (cs_library st') of
             None \<Rightarrow> Fault
           | Some l \<Rightarrow> Stop result (st'\<lparr>cs_library := l\<rparr>)))"

subsection \<open>Importing the halves\<close>

record pipeline =
  pl_stage :: radv_shader_stage
  pl_previous :: "radv_shader_stage option"
  pl_control :: "radv_shader_stage option"
  pl_next :: "next_link_facts option"

text \<open>What the error paths release once the shaders exist.\<close>

definition shaders_of :: "compile_input \<Rightarrow> resource list" where
  "shaders_of inp = (if paired_previous inp then [Res_previous] else []) @ [Res_nir]"

definition import_stage ::
  "mesa \<Rightarrow> radv_compiler_info \<Rightarrow> compile_input \<Rightarrow> PsbcCompileOptions \<Rightarrow> mesa_shader_stage \<Rightarrow>
   compile_state \<Rightarrow> radv_shader_stage step" where
  "import_stage M ci inp opts mesa_stage st =
     (if (case in_nir inp of None \<Rightarrow> False | Some n \<Rightarrow> si_stage (nir_info n) \<noteq> mesa_stage)
      then leave [] PSBC_RESULT_UNSUPPORTED_STAGE st
      else (case prepare_stage_nir M ci (zero_stage mesa_stage (next_stage_of mesa_stage)) (in_spirv inp)
                   (in_spirv_size inp) (in_nir inp) opts of
              None \<Rightarrow> leave [] PSBC_RESULT_COMPILE_NIR st
            | Some stage \<Rightarrow> Go stage (own Res_nir st)))"

definition import_previous ::
  "mesa \<Rightarrow> radv_compiler_info \<Rightarrow> compile_input \<Rightarrow> PsbcCompileOptions \<Rightarrow> mesa_shader_stage \<Rightarrow>
   compile_state \<Rightarrow> radv_shader_stage option step" where
  "import_previous M ci inp opts mesa_stage st =
     (if \<not> paired_previous inp then Go None st
      else (case prepare_stage_nir M ci (zero_stage (previous_half_stage inp mesa_stage) mesa_stage)
                   (in_previous_spirv inp) (in_previous_spirv_size inp) (in_previous_nir inp)
                   (select_linked_parameters opts (opt_previous_parameters opts)) of
              None \<Rightarrow> leave [Res_nir] PSBC_RESULT_COMPILE_NIR st
            | Some previous \<Rightarrow> Go (Some previous) (own Res_previous st)))"

definition set_nir :: "nir_shader \<Rightarrow> radv_shader_stage \<Rightarrow> radv_shader_stage" where
  "set_nir nir stage = stage\<lparr>rs_nir := nir\<rparr>"

definition import_next ::
  "mesa \<Rightarrow> radv_compiler_info \<Rightarrow> compile_input \<Rightarrow> PsbcCompileOptions \<Rightarrow> mesa_shader_stage \<Rightarrow>
   radv_shader_stage \<Rightarrow> compile_state \<Rightarrow> (radv_shader_stage \<times> next_link_facts option) step" where
  "import_next M ci inp opts mesa_stage stage st =
     (if \<not> (paired_hull inp mesa_stage \<and> in_next_link_spirv inp \<noteq> None) then Go (stage, None) st
      else (case prepare_stage_nir M ci (zero_stage MESA_SHADER_TESS_EVAL MESA_SHADER_FRAGMENT)
                   (in_next_link_spirv inp) (in_next_link_spirv_size inp) None
                   (select_linked_parameters opts (opt_next_link_parameters opts)) of
              None \<Rightarrow> leave [Res_previous, Res_nir] PSBC_RESULT_COMPILE_NIR st
            | Some next_link \<Rightarrow>
                (case release Res_next_link (own Res_next_link st) of
                   None \<Rightarrow> Fault
                 | Some st' \<Rightarrow>
                     (case link_next (rs_nir stage) (rs_nir next_link) of
                        (nir, facts) \<Rightarrow> Go (set_nir nir stage, Some facts) st'))))"

text \<open>\<open>cs_stolen\<close> is set by \<^verbatim>\<open>ralloc_steal (nir, control_link.nir)\<close>.\<close>

definition import_control ::
  "mesa \<Rightarrow> radv_compiler_info \<Rightarrow> compile_input \<Rightarrow> PsbcCompileOptions \<Rightarrow> mesa_shader_stage \<Rightarrow>
   compile_state \<Rightarrow> radv_shader_stage option step" where
  "import_control M ci inp opts mesa_stage st =
     (if \<not> paired_tess_geometry inp mesa_stage then Go None st
      else (case prepare_stage_nir M ci (zero_stage MESA_SHADER_TESS_CTRL MESA_SHADER_TESS_EVAL)
                   (in_next_link_spirv inp) (in_next_link_spirv_size inp) None
                   (select_linked_parameters opts (opt_next_link_parameters opts)) of
              None \<Rightarrow> leave [Res_previous, Res_nir] PSBC_RESULT_COMPILE_NIR st
            | Some control \<Rightarrow> Go (Some control) ((own Res_control st)\<lparr>cs_stolen := True\<rparr>)))"

text \<open>The merges of the tessellator configuration.\<close>

definition merge_halves :: "compile_input \<Rightarrow> mesa_shader_stage \<Rightarrow> pipeline \<Rightarrow> pipeline" where
  "merge_halves inp mesa_stage pl =
     (case pl_previous pl of
        None \<Rightarrow> pl
      | Some previous \<Rightarrow>
          if paired_domain inp mesa_stage
          then (case link_domain (rs_nir (pl_stage pl)) (rs_nir previous) of (nir, previous_nir) \<Rightarrow>
                pl\<lparr>pl_stage := set_nir nir (pl_stage pl), pl_previous := Some (set_nir previous_nir previous)\<rparr>)
          else (case pl_control pl of
                  None \<Rightarrow> pl
                | Some control \<Rightarrow>
                    (case link_control (rs_nir previous) (rs_nir control) of (previous_nir, control_nir) \<Rightarrow>
                     pl\<lparr>pl_previous := Some (set_nir previous_nir previous),
                        pl_control := Some (set_nir control_nir control)\<rparr>)))"

definition import_pipeline ::
  "mesa \<Rightarrow> radv_compiler_info \<Rightarrow> compile_input \<Rightarrow> PsbcCompileOptions \<Rightarrow> mesa_shader_stage \<Rightarrow>
   compile_state \<Rightarrow> pipeline step" where
  "import_pipeline M ci inp opts mesa_stage st =
     and_then (import_stage M ci inp opts mesa_stage st) (\<lambda>stage st.
     and_then (import_previous M ci inp opts mesa_stage st) (\<lambda>previous st.
     and_then (import_next M ci inp opts mesa_stage stage st) (\<lambda>(stage, facts) st.
     and_then (import_control M ci inp opts mesa_stage st) (\<lambda>control st.
       Go (merge_halves inp mesa_stage
             \<lparr>pl_stage = stage, pl_previous = previous, pl_control = control, pl_next = facts\<rparr>) st))))"

subsection \<open>Shader information\<close>

definition start_info :: "mesa \<Rightarrow> radv_shader_stage \<Rightarrow> radv_shader_stage" where
  "start_info M stage = stage\<lparr>rs_info := ms_info_init M (rs_stage stage) (rs_next_stage stage) (rs_info stage)\<rparr>"

definition set_info :: "radv_shader_info \<Rightarrow> radv_shader_stage \<Rightarrow> radv_shader_stage" where
  "set_info info stage = stage\<lparr>rs_info := info\<rparr>"

definition start_stage :: "mesa \<Rightarrow> PsbcCompileOptions \<Rightarrow> next_link_facts option \<Rightarrow> radv_shader_stage \<Rightarrow> radv_shader_stage" where
  "start_stage M opts facts stage =
     (let stage = start_info M stage;
          stage = set_info ((rs_info stage)\<lparr>ri_is_ngg := opt_ngg opts\<rparr>) stage
      in case facts of
           None \<Rightarrow> stage
         | Some f \<Rightarrow>
             set_nir (keep_outputs_read (nl_inputs_read f) (nl_patch_inputs_read f) (rs_nir stage))
               (set_info ((rs_info stage)\<lparr>ri_outputs_linked := True\<rparr>) stage))"

definition start_previous ::
  "mesa \<Rightarrow> compile_input \<Rightarrow> mesa_shader_stage \<Rightarrow> radv_shader_stage \<Rightarrow> radv_shader_stage" where
  "start_previous M inp mesa_stage previous =
     (let previous = start_info M previous
      in set_info ((rs_info previous)\<lparr>ri_is_ngg := paired_geometry inp mesa_stage,
           ri_outputs_linked := (paired_domain inp mesa_stage \<or> ri_outputs_linked (rs_info previous))\<rparr>) previous)"

definition start_control :: "mesa \<Rightarrow> radv_shader_stage \<Rightarrow> radv_shader_stage" where
  "start_control M control =
     (let control = start_info M control in set_info ((rs_info control)\<lparr>ri_outputs_linked := True\<rparr>) control)"

definition merged_gs_lowering :: "gs_lowering list" where
  "merged_gs_lowering =
     [Gs_per_stream, Gs_count_primitives, Gs_count_vertices_per_primitive, Gs_overwrite_incomplete]"

definition link_slots :: "mesa \<Rightarrow> compile_input \<Rightarrow> mesa_shader_stage \<Rightarrow> pipeline \<Rightarrow> pipeline" where
  "link_slots M inp mesa_stage pl =
     (let stage = pl_stage pl in
      case pl_previous pl of
        None \<Rightarrow> pl
      | Some previous \<Rightarrow>
          if paired_domain inp mesa_stage
          then pl\<lparr>pl_stage := set_info (evaluation_slots (rs_nir stage) (rs_info stage)) stage\<rparr>
          else if paired_geometry inp mesa_stage
          then (let nir = ms_lower_vars_to_ssa M (ms_lower_gs_intrinsics M merged_gs_lowering (rs_nir stage));
                    infos = geometry_slots (paired_tess_geometry inp mesa_stage) nir (rs_nir previous)
                              (rs_info stage, rs_info previous)
                in pl\<lparr>pl_stage := set_info (fst infos) (set_nir nir stage),
                      pl_previous := Some (set_info (snd infos) previous)\<rparr>)
          else pl)"

definition set_layout :: "radv_shader_layout \<Rightarrow> radv_shader_stage \<Rightarrow> radv_shader_stage" where
  "set_layout layout stage = stage\<lparr>rs_layout := layout\<rparr>"

definition start_pipeline ::
  "mesa \<Rightarrow> compile_input \<Rightarrow> PsbcCompileOptions \<Rightarrow> mesa_shader_stage \<Rightarrow> pipeline \<Rightarrow> pipeline" where
  "start_pipeline M inp opts mesa_stage pl =
     (let layout = descriptor_layout opts;
          pl = link_slots M inp mesa_stage
            (pl\<lparr>pl_stage := start_stage M opts (pl_next pl) (pl_stage pl),
                pl_previous := map_option (start_previous M inp mesa_stage) (pl_previous pl),
                pl_control := map_option (start_control M) (pl_control pl)\<rparr>)
      in pl\<lparr>pl_stage := set_layout layout (pl_stage pl),
            pl_previous := map_option (set_layout layout) (pl_previous pl),
            pl_control := map_option (set_layout layout) (pl_control pl)\<rparr>)"

subsection \<open>Lowering and linking\<close>

text \<open>Variable-rate shading is never enabled in the graphics state: the first argument of the coordinate
  pass is false.\<close>

definition lower_fragment_position ::
  "mesa \<Rightarrow> radv_graphics_state_key \<Rightarrow> mesa_shader_stage \<Rightarrow> nir_shader \<Rightarrow> nir_shader" where
  "lower_fragment_position M gfx_state mesa_stage nir =
     (if mesa_stage \<noteq> MESA_SHADER_FRAGMENT then nir
      else (let nir = ms_lower_frag_pos M False
                  (gk_sample_shading_enable gfx_state \<or> si_fs_uses_sample_shading (nir_info nir)) nir;
                sample_shaded = gk_sample_shading_enable gfx_state \<or> si_fs_uses_sample_shading (nir_info nir)
            in ms_replace_bools M (fold_use_float_frag_coord_xy sample_shaded) nir))"

definition gather_stage ::
  "mesa \<Rightarrow> radv_compiler_info \<Rightarrow> radv_graphics_state_key \<Rightarrow> radv_shader_stage \<Rightarrow> radv_shader_stage" where
  "gather_stage M ci gfx_state stage = set_info (ms_info_pass M ci gfx_state stage) stage"

text \<open>One merged program needs one stride for what its halves exchange.\<close>

definition share_stride :: "radv_shader_info \<Rightarrow> radv_shader_stage \<Rightarrow> radv_shader_stage" where
  "share_stride info previous =
     set_info ((rs_info previous)\<lparr>ri_vs := (ri_vs (rs_info previous))
       \<lparr>vs_num_linked_outputs := tc_num_linked_inputs (ri_tcs info)\<rparr>\<rparr>) previous"

definition gather_pipeline ::
  "mesa \<Rightarrow> radv_compiler_info \<Rightarrow> compile_input \<Rightarrow> mesa_shader_stage \<Rightarrow> radv_graphics_state_key \<Rightarrow> pipeline \<Rightarrow> pipeline" where
  "gather_pipeline M ci inp mesa_stage gfx_state pl =
     (let stage = pl_stage pl;
          stage = gather_stage M ci gfx_state
                    (set_nir (lower_fragment_position M gfx_state mesa_stage (rs_nir stage)) stage);
          previous = map_option (gather_stage M ci gfx_state) (pl_previous pl)
      in pl\<lparr>pl_stage := stage,
            pl_previous := (if paired_hull inp mesa_stage then map_option (share_stride (rs_info stage)) previous
                            else previous),
            pl_control := map_option (gather_stage M ci gfx_state) (pl_control pl)\<rparr>)"

text \<open>The half that is compiled into the same program.\<close>

definition merged_half :: "compile_input \<Rightarrow> mesa_shader_stage \<Rightarrow> pipeline \<Rightarrow> radv_shader_stage option" where
  "merged_half inp mesa_stage pl =
     (if paired_geometry inp mesa_stage \<or> paired_hull inp mesa_stage then pl_previous pl else None)"

record resource_use =
  ru_push :: "bool \<times> u64 \<times> u64"
  ru_hull_push :: "bool \<times> u64 \<times> u64"
  ru_bindings :: "u64 list"

definition used_half :: "radv_shader_stage \<Rightarrow> u32 \<times> nir_shader" where
  "used_half stage = (ri_desc_set_used_mask (rs_info stage), rs_nir stage)"

definition resources_used :: "compile_input \<Rightarrow> PsbcCompileOptions \<Rightarrow> mesa_shader_stage \<Rightarrow> pipeline \<Rightarrow> resource_use" where
  "resources_used inp opts mesa_stage pl =
     (let nir = rs_nir (pl_stage pl); half = merged_half inp mesa_stage pl
      in \<lparr>ru_push = pair_push_use nir (map_option rs_nir half),
          ru_hull_push = (if paired_hull inp mesa_stage then pair_push_use nir (map_option rs_nir half)
                          else (False, 0, 0)),
          ru_bindings = used_binding_masks opts (used_half (pl_stage pl)) (map_option used_half half)\<rparr>)"

definition map_info :: "(radv_shader_info \<Rightarrow> radv_shader_info) \<Rightarrow> radv_shader_stage \<Rightarrow> radv_shader_stage" where
  "map_info f stage = set_info (f (rs_info stage)) stage"

definition declare_use :: "PsbcCompileOptions \<Rightarrow> pipeline \<Rightarrow> pipeline" where
  "declare_use opts pl =
     (let f = map_info (force_indirect opts \<circ> use_declared_sets opts)
      in pl\<lparr>pl_stage := f (pl_stage pl), pl_previous := map_option f (pl_previous pl)\<rparr>)"

definition stages_of :: "mesa_shader_stage \<Rightarrow> pipeline \<Rightarrow> mesa_shader_stage \<Rightarrow> radv_shader_stage option" where
  "stages_of mesa_stage pl =
     (let stages = (\<lambda>s. None)(mesa_stage \<mapsto> pl_stage pl);
          stages = (case pl_previous pl of None \<Rightarrow> stages | Some p \<Rightarrow> stages(rs_stage p \<mapsto> p))
      in case pl_control pl of None \<Rightarrow> stages | Some c \<Rightarrow> stages(MESA_SHADER_TESS_CTRL \<mapsto> c))"

definition link_pipeline ::
  "mesa \<Rightarrow> radv_compiler_info \<Rightarrow> compile_input \<Rightarrow> PsbcCompileOptions \<Rightarrow> mesa_shader_stage \<Rightarrow>
   radv_graphics_state_key \<Rightarrow> pipeline \<Rightarrow> pipeline" where
  "link_pipeline M ci inp opts mesa_stage gfx_state pl =
     (if \<not> (opt_ngg opts \<or> paired_hull inp mesa_stage \<or> paired_domain inp mesa_stage) then pl
      else (let linked = ms_info_link M ci gfx_state (stages_of mesa_stage pl); stage = pl_stage pl
            in pl\<lparr>pl_stage := set_info (after_link opts mesa_stage (rs_nir stage) (pl_next pl) (linked mesa_stage)) stage,
                  pl_previous := map_option (\<lambda>p. set_info (linked (rs_stage p)) p) (pl_previous pl)\<rparr>))"

subsection \<open>Arguments and post-processing\<close>

definition select_abi :: "compile_input \<Rightarrow> PsbcCompileOptions \<Rightarrow> mesa_shader_stage \<Rightarrow> radv_shader_info \<Rightarrow> radv_shader_info" where
  "select_abi inp opts mesa_stage info =
     info\<lparr>ri_force_indirect_descriptors :=
            (if opt_descriptor_binding_count opts \<noteq> 0 then False else ri_force_indirect_descriptors info),
          ri_merged_shader_compiled_separately :=
            (if paired_hull inp mesa_stage then False else ri_merged_shader_compiled_separately info)\<rparr>"

definition adopt_args :: "radv_shader_args \<Rightarrow> radv_shader_stage \<Rightarrow> radv_shader_stage" where
  "adopt_args args stage =
     stage\<lparr>rs_args := args,
           rs_info := (rs_info stage)\<lparr>ri_shader_data := sa_shader_data args, ri_descriptor_sets := sa_descriptor_sets args,
                                      ri_inline_push_constant_mask := sa_inline_push_const_mask args\<rparr>\<rparr>"

definition declare_pipeline_args ::
  "mesa \<Rightarrow> radv_compiler_info \<Rightarrow> compile_input \<Rightarrow> PsbcCompileOptions \<Rightarrow> mesa_shader_stage \<Rightarrow>
   radv_graphics_state_key \<Rightarrow> pipeline \<Rightarrow> pipeline" where
  "declare_pipeline_args M ci inp opts mesa_stage gfx_state pl =
     (let f = map_info (select_abi inp opts mesa_stage);
          stage = f (pl_stage pl);
          args = ms_declare_args M ci gfx_state stage (previous_stage_of (paired_tess_geometry inp mesa_stage) mesa_stage);
          merged = (paired_geometry inp mesa_stage \<or> paired_hull inp mesa_stage)
      in pl\<lparr>pl_stage := adopt_args args stage,
            pl_previous := map_option ((if merged then adopt_args args else id) \<circ> f) (pl_previous pl)\<rparr>)"

text \<open>The legacy geometry path; the copy shader it may create is dropped at once.\<close>

definition lower_legacy_geometry ::
  "mesa \<Rightarrow> PsbcCompileOptions \<Rightarrow> mesa_shader_stage \<Rightarrow> radv_shader_stage \<Rightarrow> compile_state \<Rightarrow> radv_shader_stage step" where
  "lower_legacy_geometry M opts mesa_stage stage st =
     (if \<not> (mesa_stage = MESA_SHADER_GEOMETRY \<and> \<not> ri_is_ngg (rs_info stage)) then Go stage st
      else (case ms_lower_legacy_gs M (fst (setup_target (opt_target opts)))
                   (oi_param_exports (ri_outinfo (rs_info stage)) > 0)
                   (ms_lower_vars_to_ssa M (ms_lower_gs_intrinsics M [Gs_per_stream] (rs_nir stage))) of
              (nir, copy) \<Rightarrow>
                if copy
                then (case release Res_gs_copy (own Res_gs_copy st) of
                        None \<Rightarrow> Fault | Some st' \<Rightarrow> Go (set_nir nir stage) st')
                else Go (set_nir nir stage) st))"

definition provoke_last :: "PsbcCompileOptions \<Rightarrow> mesa_shader_stage \<Rightarrow> nir_shader \<Rightarrow> nir_shader" where
  "provoke_last opts mesa_stage nir =
     (if mesa_stage = MESA_SHADER_FRAGMENT \<and> opt_target opts = PSBC_TARGET_PS5 \<and> opt_provoking_vtx_last opts \<and>
         ps5_last_provoking_vertex (opt_primitive_type opts) \<noteq> 0
      then map_intrinsics (snd \<circ> lower_flat_input_vertex opts) nir else nir)"

definition split_inputs ::
  "compile_input \<Rightarrow> PsbcCompileOptions \<Rightarrow> mesa_shader_stage \<Rightarrow> radv_shader_stage \<Rightarrow> compile_state \<Rightarrow>
   radv_shader_stage step" where
  "split_inputs inp opts mesa_stage stage st =
     (if \<not> (mesa_stage = MESA_SHADER_FRAGMENT \<and> opt_target opts = PSBC_TARGET_PS5) then Go stage st
      else (case split_ps5_mixed_inputs (rs_nir stage) (rs_info stage) (opt_primitive_id_per_primitive opts) of
              None \<Rightarrow> leave (shaders_of inp) PSBC_RESULT_INTERNAL_ERROR st
            | Some (nir, info) \<Rightarrow> Go (set_info info (set_nir nir stage)) st))"

definition snapshot_semantics ::
  "PsbcCompileOptions \<Rightarrow> mesa_shader_stage \<Rightarrow> radv_shader_stage \<Rightarrow> compile_state \<Rightarrow> PsbcInputSemantics step" where
  "snapshot_semantics opts mesa_stage stage st =
     (if mesa_stage \<noteq> MESA_SHADER_FRAGMENT then Go \<lparr>is_valid = True, is_words = []\<rparr> st
      else (case build_input_semantics (rs_nir stage) (rs_info stage) (opt_primitive_id_per_primitive opts) of
              (ok, semantics) \<Rightarrow>
                if \<not> ok \<and> ps_prim_id_input (ri_ps (rs_info stage))
                then leave [Res_nir] PSBC_RESULT_INTERNAL_ERROR st else Go semantics st))"

text \<open>The NGG information also sets the size of the workgroup, of both halves of a merged program.\<close>

definition set_ngg_info ::
  "mesa \<Rightarrow> radv_compiler_info \<Rightarrow> compile_input \<Rightarrow> PsbcCompileOptions \<Rightarrow> mesa_shader_stage \<Rightarrow> pipeline \<Rightarrow> pipeline" where
  "set_ngg_info M ci inp opts mesa_stage pl =
     (if \<not> opt_ngg opts then pl
      else (let info = rs_info (pl_stage pl);
                es = (if paired_geometry inp mesa_stage then pl_previous pl else None);
                (ngg, workgroup_size) =
                  (case es of
                     None \<Rightarrow> ms_ngg_info M ci info None (ri_ngg_info info)
                   | Some p \<Rightarrow> ms_ngg_info M ci (rs_info p) (Some info) (ri_ngg_info info))
            in pl\<lparr>pl_stage := set_info (info\<lparr>ri_workgroup_size := workgroup_size, ri_ngg_info := ngg,
                                ri_nir_shared_size := ng_lds_size ngg\<rparr>) (pl_stage pl),
                  pl_previous := (case es of
                     None \<Rightarrow> pl_previous pl
                   | Some p \<Rightarrow> Some (set_info ((rs_info p)\<lparr>ri_workgroup_size := workgroup_size\<rparr>) p))\<rparr>))"

subsection \<open>Code and output\<close>

text \<open>What a compilation depends on besides its arguments: Mesa, the values of the generated enumeration of
  pixel formats, the GNM structures, and the three allocations.\<close>

record compile_env =
  ce_mesa :: mesa
  ce_pipe_format :: "string \<Rightarrow> u32"
  ce_abi :: gnm_abi
  ce_malloc_newcode :: "nat \<Rightarrow> bytes option"
  ce_malloc_buf :: "nat \<Rightarrow> bytes option"
  ce_malloc_machine_code :: "nat \<Rightarrow> bytes option"

text \<open>The code of a compiled binary as bytes and as words.\<close>

definition binary_code :: "radv_binary \<Rightarrow> bytes" where
  "binary_code b = slice_at (rb_stats_size b) (rb_code_size b) (rb_data b)"

definition words_of :: "bytes \<Rightarrow> u32 list" where
  "words_of bs = map (\<lambda>i. de32 (slice_at (4 * i) 4 bs)) [0..<length bs div 4]"

definition spirv_bytes :: "compile_input \<Rightarrow> bytes option" where
  "spirv_bytes inp = map_option (\<lambda>ws. take (in_spirv_size inp) (concat (map le32 ws))) (in_spirv inp)"

definition compile_shaders ::
  "mesa \<Rightarrow> radv_compiler_info \<Rightarrow> compile_input \<Rightarrow> mesa_shader_stage \<Rightarrow> radv_graphics_state_key \<Rightarrow>
   pipeline \<Rightarrow> compile_state \<Rightarrow> (radv_binary \<times> nir_shader) step" where
  "compile_shaders M ci inp mesa_stage gfx_state pl st =
     (let shaders = (case merged_half inp mesa_stage pl of None \<Rightarrow> [] | Some p \<Rightarrow> [rs_nir p]) @ [rs_nir (pl_stage pl)]
      in case ms_nir_to_asm M ci (pl_stage pl) shaders gfx_state of
           (None, nir) \<Rightarrow> leave (shaders_of inp) PSBC_RESULT_COMPILE_ACO st
         | (Some binary, nir) \<Rightarrow> Go (binary, nir) (own Res_binary st))"

definition build_context ::
  "compile_input \<Rightarrow> PsbcCompileOptions \<Rightarrow> mesa_shader_stage \<Rightarrow> pipeline \<Rightarrow> resource_use \<Rightarrow>
   PsbcInputSemantics \<Rightarrow> radv_binary \<Rightarrow> nir_shader \<Rightarrow> BuildContext" where
  "build_context inp opts mesa_stage pl use semantics binary nir =
     (case setup_target (opt_target opts) of (gfxlevel, chipfamily, neo) \<Rightarrow>
      \<lparr>bc_nir = nir, bc_rinfo = rb_info binary,
       bc_es_info = (if paired_geometry inp mesa_stage then map_option rs_info (pl_previous pl) else None),
       bc_ls_merged = paired_hull inp mesa_stage, bc_domain_linked = paired_domain inp mesa_stage,
       bc_rargs = rs_args (pl_stage pl), bc_config = rb_config binary, bc_gfx_level = gfxlevel,
       bc_family = chipfamily, bc_stage = mesa_stage, bc_psbc_stage = opt_stage opts, bc_spirv = spirv_bytes inp,
       bc_target = opt_target opts, bc_ngg = opt_ngg opts, bc_neo = neo,
       bc_address32_hi = opt_address32_hi opts, bc_options = opts, bc_input_semantics = Some semantics,
       bc_descriptor_used_binding_mask = ru_bindings use,
       bc_hull_push_use_valid = fst (ru_hull_push use), bc_push_use_valid = fst (ru_push use),
       bc_stage_push_dwords = fst (snd (ru_push use)),
       bc_previous_stage_push_dwords = snd (snd (ru_push use)),
       bc_hull_vertex_push_dwords = snd (snd (ru_hull_push use)),
       bc_hull_control_push_dwords = fst (snd (ru_hull_push use))\<rparr>)"

text \<open>The shader binary, the copy of the code, and the metadata.\<close>

definition emit_output ::
  "compile_env \<Rightarrow> compile_input \<Rightarrow> radv_binary \<Rightarrow> BuildContext \<Rightarrow> compile_state \<Rightarrow> PsbcShaderOutput step" where
  "emit_output E inp binary ctx st =
     (if length (rb_data binary) < rb_stats_size binary + rb_code_size binary then Fault
      else (case buildshaderbinary (ce_abi E) (ce_malloc_newcode E) (ce_malloc_buf E) ctx
                   (words_of (binary_code binary)) of
              Build_undefined \<Rightarrow> Fault
            | Build_error result \<Rightarrow> leave (Res_binary # shaders_of inp) result st
            | Built output_data output_size \<Rightarrow>
                (let st = own Res_data st in
                 case ce_malloc_machine_code E (rb_code_size binary) of
                   None \<Rightarrow> leave ([Res_data, Res_binary] @ shaders_of inp) PSBC_RESULT_OUT_OF_MEMORY st
                 | Some mem \<Rightarrow>
                     (case put_at 0 (binary_code binary) mem of
                        None \<Rightarrow> Fault
                      | Some machine_code \<Rightarrow>
                          Go \<lparr>out_data = Some output_data, out_size = output_size,
                              out_machine_code = Some machine_code, out_machine_code_size = rb_code_size binary,
                              out_metadata = fill_shader_metadata ctx\<rparr> (own Res_code st)))))"

subsection \<open>The compilation\<close>

definition dual_source :: "mesa_shader_stage \<Rightarrow> nir_shader \<Rightarrow> bool" where
  "dual_source mesa_stage nir \<longleftrightarrow> mesa_stage = MESA_SHADER_FRAGMENT \<and>
     si_outputs_written (nir_info nir) AND BITFIELD64_BIT FRAG_RESULT_DUAL_SRC_BLEND \<noteq> 0"

definition setup_graphics_state ::
  "(string \<Rightarrow> u32) \<Rightarrow> compile_input \<Rightarrow> PsbcCompileOptions \<Rightarrow> mesa_shader_stage \<Rightarrow> nir_shader \<Rightarrow>
   compile_state \<Rightarrow> radv_graphics_state_key step" where
  "setup_graphics_state pf inp opts mesa_stage nir st =
     (case graphics_state pf opts mesa_stage (dual_source mesa_stage nir) of
        Attr_ok gs \<Rightarrow> Go gs st
      | Attr_refused \<Rightarrow> leave (shaders_of inp) PSBC_RESULT_INTERNAL_ERROR st
      | Attr_out_of_bounds \<Rightarrow> Fault)"

text \<open>From the shader information to the last pass over the shaders.\<close>

definition lower_pipeline ::
  "mesa \<Rightarrow> radv_compiler_info \<Rightarrow> compile_input \<Rightarrow> PsbcCompileOptions \<Rightarrow> mesa_shader_stage \<Rightarrow>
   radv_graphics_state_key \<Rightarrow> pipeline \<Rightarrow> compile_state \<Rightarrow> (pipeline \<times> resource_use) step" where
  "lower_pipeline M ci inp opts mesa_stage gfx_state pl st =
     (let pl = gather_pipeline M ci inp mesa_stage gfx_state pl;
          use = resources_used inp opts mesa_stage pl;
          pl = declare_pipeline_args M ci inp opts mesa_stage gfx_state
                 (link_pipeline M ci inp opts mesa_stage gfx_state (declare_use opts pl))
      in and_then (lower_legacy_geometry M opts mesa_stage (pl_stage pl) st) (\<lambda>stage st.
         (let previous = (if merged_half inp mesa_stage pl = None then pl_previous pl
                          else map_option (ms_postprocess_nir M ci gfx_state) (pl_previous pl));
              stage = ms_postprocess_nir M ci gfx_state stage
          in and_then (split_inputs inp opts mesa_stage (set_nir (provoke_last opts mesa_stage (rs_nir stage)) stage) st)
               (\<lambda>stage st. Go (pl\<lparr>pl_stage := set_nir (ms_opt_licm M (rs_nir stage)) stage, pl_previous := previous\<rparr>, use) st))))"

definition compile_pipeline ::
  "compile_env \<Rightarrow> compile_input \<Rightarrow> PsbcCompileOptions \<Rightarrow> compile_state \<Rightarrow> PsbcShaderOutput step" where
  "compile_pipeline E inp opts st =
     (let M = ce_mesa E; mesa_stage = psbc_to_mesa_stage (opt_stage opts); ci = compile_compiler_info opts mesa_stage in
      and_then (import_pipeline M ci inp opts mesa_stage st) (\<lambda>pl st.
      and_then (setup_graphics_state (ce_pipe_format E) inp opts mesa_stage (rs_nir (pl_stage pl)) st) (\<lambda>gfx_state st.
      and_then (lower_pipeline M ci inp opts mesa_stage gfx_state (start_pipeline M inp opts mesa_stage pl) st)
        (\<lambda>(pl, use) st.
      and_then (snapshot_semantics opts mesa_stage (pl_stage pl) st) (\<lambda>semantics st.
        (let pl = set_ngg_info M ci inp opts mesa_stage pl in
      and_then (compile_shaders M ci inp mesa_stage gfx_state pl st) (\<lambda>(binary, nir) st.
        emit_output E inp binary (build_context inp opts mesa_stage pl use semantics binary nir) st)))))))"

text \<open>The result code, what the output structure then holds, and the state; a null pointer is \<open>None\<close>.\<close>

datatype compile_result = Returned PsbcResult "PsbcShaderOutput option" compile_state | Undefined

definition psbc_compile_impl ::
  "compile_env \<Rightarrow> compile_input \<Rightarrow> PsbcCompileOptions option \<Rightarrow> PsbcShaderOutput option \<Rightarrow> compile_state \<Rightarrow> compile_result" where
  "psbc_compile_impl E inp opts out st =
     (case (opts, out) of
        (Some opts, Some out0) \<Rightarrow>
          if in_spirv inp = None \<and> in_nir inp = None then Returned PSBC_RESULT_INTERNAL_ERROR out st
          else if compile_guards inp opts \<noteq> PSBC_RESULT_OK
          then Returned (compile_guards inp opts) (Some zero_output) st
          else (case compile_pipeline E inp opts (st\<lparr>cs_library := psbc_init (cs_library st)\<rparr>) of
                  Fault \<Rightarrow> Undefined
                | Stop result st' \<Rightarrow> Returned result (Some zero_output) st'
                | Go output st' \<Rightarrow>
                    (case (leave (Res_binary # shaders_of inp) PSBC_RESULT_OK st' :: unit step) of
                       Stop result st'' \<Rightarrow> Returned result (Some output) st''
                     | _ \<Rightarrow> Undefined))
      | _ \<Rightarrow> Returned PSBC_RESULT_INTERNAL_ERROR out st)"

section \<open>Resources\<close>

lemma library_restored: "library_inv (e, l) \<Longrightarrow> psbc_shutdown (psbc_init l) = Some l"
  by (auto simp: library_inv_def library_ops Let_def)

text \<open>The shaders that are alive after the import, and a state that owns them and \<open>extra\<close> on top of an
  initial state.\<close>

definition live_shaders :: "compile_input \<Rightarrow> mesa_shader_stage \<Rightarrow> resource list" where
  "live_shaders inp mesa_stage =
     (if paired_tess_geometry inp mesa_stage then [Res_control] else []) @
     (if paired_previous inp then [Res_previous] else []) @ [Res_nir]"

definition at_work :: "compile_input \<Rightarrow> mesa_shader_stage \<Rightarrow> resource list \<Rightarrow> compile_state \<Rightarrow> compile_state" where
  "at_work inp mesa_stage extra st =
     st\<lparr>cs_library := psbc_init (cs_library st), cs_live := extra @ live_shaders inp mesa_stage,
        cs_stolen := paired_tess_geometry inp mesa_stage\<rparr>"

definition idle :: "compile_state \<Rightarrow> bool" where
  "idle st \<longleftrightarrow> cs_live st = [] \<and> \<not> cs_stolen st \<and> (\<exists>e. library_inv (e, cs_library st))"

lemmas pairing_defs = paired_geometry_def paired_tess_geometry_def paired_hull_def paired_domain_def

lemma idle_state: "idle st \<Longrightarrow> st\<lparr>cs_live := [], cs_stolen := False\<rparr> = st"
  by (simp add: idle_def)

lemma leave_shaders:
  assumes "idle st" "extra \<in> {[], [Res_binary], [Res_data, Res_binary]}"
  shows "leave (extra @ shaders_of inp) result (at_work inp mesa_stage extra st) = Stop result st"
proof -
  have "psbc_shutdown (psbc_init (cs_library st)) = Some (cs_library st)"
    using assms(1) library_restored by (auto simp: idle_def)
  then show ?thesis
    using assms
    by (auto simp: leave_def shaders_of_def at_work_def live_shaders_def release_def idle_def pairing_defs
        split: if_splits)
qed

text \<open>A step that ends the compilation has released everything and reports an error; a step is undefined
  only when \<open>safe\<close> fails.\<close>

fun step_ok :: "bool \<Rightarrow> compile_state \<Rightarrow> ('a \<Rightarrow> compile_state \<Rightarrow> bool) \<Rightarrow> 'a step \<Rightarrow> bool" where
  "step_ok safe st P (Go x st') \<longleftrightarrow> P x st'"
| "step_ok safe st P (Stop result st') \<longleftrightarrow> result \<noteq> PSBC_RESULT_OK \<and> st' = st"
| "step_ok safe st P Fault \<longleftrightarrow> \<not> safe"

lemma step_ok_and_then:
  assumes "step_ok safe st P s" "\<And>x st'. P x st' \<Longrightarrow> step_ok safe st Q (f x st')"
  shows "step_ok safe st Q (and_then s f)"
  using assms by (cases s) auto

lemma step_ok_leave:
  assumes "idle st" "extra \<in> {[], [Res_binary], [Res_data, Res_binary]}" "result \<noteq> PSBC_RESULT_OK"
  shows "step_ok safe st P (leave (extra @ shaders_of inp) result (at_work inp mesa_stage extra st))"
  unfolding leave_shaders [OF assms(1,2)] using assms(3) by simp

section \<open>The phases\<close>

lemma leave_nothing:
  assumes "idle st" shows "leave [] result (st\<lparr>cs_library := psbc_init (cs_library st)\<rparr>) = Stop result st"
  using assms library_restored by (auto simp: leave_def idle_def)

lemma import_stage_ok:
  assumes "idle st"
  shows "step_ok safe st (\<lambda>stage st'. st' = st\<lparr>cs_library := psbc_init (cs_library st), cs_live := [Res_nir]\<rparr>)
    (import_stage M ci inp opts mesa_stage (st\<lparr>cs_library := psbc_init (cs_library st)\<rparr>))"
  using assms by (simp add: import_stage_def leave_nothing own_def split: option.split) (simp add: idle_def)

lemma import_previous_ok:
  assumes "idle st"
  shows "step_ok safe st
    (\<lambda>previous st'. (previous \<noteq> None \<longleftrightarrow> paired_previous inp) \<and>
       st' = st\<lparr>cs_library := psbc_init (cs_library st),
                cs_live := (if paired_previous inp then [Res_previous] else []) @ [Res_nir]\<rparr>)
    (import_previous M ci inp opts mesa_stage (st\<lparr>cs_library := psbc_init (cs_library st), cs_live := [Res_nir]\<rparr>))"
  using assms library_restored
  by (auto simp: import_previous_def leave_def release_def own_def idle_def split: option.split)

lemma import_next_ok:
  assumes "idle st"
  shows "step_ok safe st
    (\<lambda>x st'. st' = st\<lparr>cs_library := psbc_init (cs_library st),
                       cs_live := (if paired_previous inp then [Res_previous] else []) @ [Res_nir]\<rparr>)
    (import_next M ci inp opts mesa_stage stage (st\<lparr>cs_library := psbc_init (cs_library st),
       cs_live := (if paired_previous inp then [Res_previous] else []) @ [Res_nir]\<rparr>))"
  using assms library_restored
  by (auto simp: import_next_def leave_def release_def own_def idle_def paired_hull_def split: option.split prod.split)

lemma import_control_ok:
  assumes "idle st"
  shows "step_ok safe st (\<lambda>control st'. st' = at_work inp mesa_stage [] st)
    (import_control M ci inp opts mesa_stage (st\<lparr>cs_library := psbc_init (cs_library st),
       cs_live := (if paired_previous inp then [Res_previous] else []) @ [Res_nir]\<rparr>))"
  using assms library_restored
  by (auto simp: import_control_def leave_def release_def own_def idle_def at_work_def live_shaders_def pairing_defs
      split: option.split)

lemma import_pipeline_ok:
  assumes "idle st"
  shows "step_ok safe st (\<lambda>pl st'. st' = at_work inp mesa_stage [] st)
    (import_pipeline M ci inp opts mesa_stage (st\<lparr>cs_library := psbc_init (cs_library st)\<rparr>))"
  unfolding import_pipeline_def
  by (rule step_ok_and_then [OF import_stage_ok [OF assms]], clarify,
      rule step_ok_and_then [OF import_previous_ok [OF assms]], clarify,
      rule step_ok_and_then [OF import_next_ok [OF assms]], clarify,
      rule step_ok_and_then [OF import_control_ok [OF assms]], simp)

lemma lower_legacy_geometry_ok:
  "step_ok safe st (\<lambda>stage st''. st'' = st') (lower_legacy_geometry M opts mesa_stage stage st')"
  by (auto simp: lower_legacy_geometry_def own_def release_def split: prod.split)

lemma split_inputs_ok:
  assumes "idle st"
  shows "step_ok safe st (\<lambda>stage st'. st' = at_work inp mesa_stage [] st)
    (split_inputs inp opts mesa_stage stage (at_work inp mesa_stage [] st))"
  using step_ok_leave [OF assms, of "[]" PSBC_RESULT_INTERNAL_ERROR safe _ inp mesa_stage]
  by (auto simp: split_inputs_def split: option.split)

lemma lower_pipeline_ok:
  assumes "idle st"
  shows "step_ok safe st (\<lambda>x st'. st' = at_work inp mesa_stage [] st)
    (lower_pipeline M ci inp opts mesa_stage gfx_state pl (at_work inp mesa_stage [] st))"
  unfolding lower_pipeline_def Let_def
  by (rule step_ok_and_then [OF lower_legacy_geometry_ok], clarify,
      rule step_ok_and_then [OF split_inputs_ok [OF assms]], simp)

lemma setup_graphics_state_ok:
  assumes "idle st"
    and "safe \<Longrightarrow> unat (opt_vertex_attribute_count opts) \<le> length (opt_vertex_attributes opts)"
  shows "step_ok safe st (\<lambda>gs st'. st' = at_work inp mesa_stage [] st)
    (setup_graphics_state pf inp opts mesa_stage nir (at_work inp mesa_stage [] st))"
  using step_ok_leave [OF assms(1), of "[]" PSBC_RESULT_INTERNAL_ERROR safe _ inp mesa_stage] assms(2)
  by (auto simp: setup_graphics_state_def graphics_state_def vertex_attributes_closed Let_def
      split: attribute_result.split option.split)

lemma compile_shaders_ok:
  assumes "idle st"
  shows "step_ok safe st
    (\<lambda>(binary, nir) st'. st' = at_work inp mesa_stage [Res_binary] st \<and>
       (\<exists>stage shaders gs. ms_nir_to_asm M ci stage shaders gs = (Some binary, nir)))
    (compile_shaders M ci inp mesa_stage gfx_state pl (at_work inp mesa_stage [] st))"
  using step_ok_leave [OF assms, of "[]" PSBC_RESULT_COMPILE_ACO safe _ inp mesa_stage]
  by (auto simp: compile_shaders_def own_def at_work_def Let_def split: prod.split option.split)

lemma collect_words_le: "length (snd (collect_words m as acc)) \<le> length acc + length as"
proof (induction as arbitrary: acc)
  case (Cons a as)
  show ?case
  proof (cases "m a")
    case (Some w)
    then show ?thesis using Cons.IH [of "acc @ [w]"] by simp
  qed simp
qed simp

lemma build_input_semantics_le: "length (is_words (snd (build_input_semantics nir info pp))) \<le> 32"
proof -
  have "length (snd (collect_words m [0..<unat (ps_num_inputs (ri_ps info))] [])) \<le> unat (ps_num_inputs (ri_ps info))" for m
    using collect_words_le [of m "[0..<unat (ps_num_inputs (ri_ps info))]" "[]"] by simp
  then show ?thesis
    by (auto simp: build_input_semantics_def Let_def split: option.split prod.split) (metis le_trans not_le snd_conv)
qed

lemma snapshot_semantics_ok:
  assumes "idle st" "mesa_stage = MESA_SHADER_FRAGMENT \<Longrightarrow> \<not> paired_previous inp"
  shows "step_ok safe st (\<lambda>sem st'. st' = at_work inp mesa_stage [] st \<and> length (is_words sem) \<le> 32)
    (snapshot_semantics opts mesa_stage stage (at_work inp mesa_stage [] st))"
proof (cases "mesa_stage = MESA_SHADER_FRAGMENT")
  case True
  then have "shaders_of inp = [Res_nir]" using assms(2) by (simp add: shaders_of_def)
  then have "step_ok safe st P (leave [Res_nir] PSBC_RESULT_INTERNAL_ERROR (at_work inp mesa_stage [] st))"
    for P :: "PsbcInputSemantics \<Rightarrow> compile_state \<Rightarrow> bool"
    using step_ok_leave [OF assms(1), of "[]" PSBC_RESULT_INTERNAL_ERROR safe P inp mesa_stage] by simp
  then show ?thesis
    using True build_input_semantics_le [of "rs_nir stage" "rs_info stage" "opt_primitive_id_per_primitive opts"]
    by (auto simp: snapshot_semantics_def split: prod.split)
qed (simp add: snapshot_semantics_def)

section \<open>The emitted output\<close>

text \<open>What a compilation relies on: the structures of the GNM headers, allocations of the size asked for, a
  compiled binary that contains the code it announces, at most 2 GiB of it, and, for the stages that
  look up vertex inputs, no more inputs than the arguments can describe.  And the caller's count of vertex
  attributes must not exceed the array.\<close>

definition compile_safe :: "compile_env \<Rightarrow> PsbcCompileOptions \<Rightarrow> bool" where
  "compile_safe E opts \<longleftrightarrow>
     abi_ok (ce_abi E) \<and> malloc_ok (ce_malloc_newcode E) \<and> malloc_ok (ce_malloc_buf E) \<and>
     malloc_ok (ce_malloc_machine_code E) \<and>
     unat (opt_vertex_attribute_count opts) \<le> length (opt_vertex_attributes opts) \<and>
     (\<forall>ci stage shaders gs b nir. ms_nir_to_asm (ce_mesa E) ci stage shaders gs = (Some b, nir) \<longrightarrow>
        rb_stats_size b + rb_code_size b \<le> length (rb_data b) \<and> rb_code_size b \<le> 2 ^ 31 \<and>
        (psbc_to_mesa_stage (opt_stage opts) \<in> {MESA_SHADER_VERTEX, MESA_SHADER_TESS_EVAL} \<longrightarrow>
           util_bitcount (si_inputs_read (nir_info nir)) \<le> 32))"

text \<open>What a successful compilation hands out.\<close>

definition output_of :: "compile_env \<Rightarrow> BuildContext \<Rightarrow> bytes \<Rightarrow> PsbcShaderOutput \<Rightarrow> bool" where
  "output_of E ctx code out \<longleftrightarrow>
     (\<exists>data. buildshaderbinary (ce_abi E) (ce_malloc_newcode E) (ce_malloc_buf E) ctx (words_of code) =
               Built data (length data) \<and>
             out = \<lparr>out_data = Some data, out_size = length data, out_machine_code = Some code,
                    out_machine_code_size = length code, out_metadata = fill_shader_metadata ctx\<rparr>)"

lemma buildshaderbinary_result:
  assumes "abi_ok abi" "context_ok ctx" "length code \<le> 2 ^ 29" "malloc_ok m" "malloc_ok m'"
  shows "(\<exists>r. r \<noteq> PSBC_RESULT_OK \<and> buildshaderbinary abi m m' ctx code = Build_error r) \<or>
     (\<exists>data. buildshaderbinary abi m m' ctx code = Built data (length data))"
  using buildshaderbinary_outcome [OF assms]
  by (cases "m (unat (code_size ctx code)) = None \<or> m' (total_size abi ctx code) = None")
    (auto split: if_splits)

lemma length_words_of [simp]: "length (words_of bs) = length bs div 4"
  by (simp add: words_of_def)

lemma emit_output_ok:
  assumes "idle st" "compile_safe E opts" "context_ok ctx"
    and "ms_nir_to_asm (ce_mesa E) ci stage shaders gs = (Some b, nir)"
  shows "step_ok True st
    (\<lambda>out st'. st' = at_work inp mesa_stage [Res_code, Res_data, Res_binary] st \<and> output_of E ctx (binary_code b) out)
    (emit_output E inp b ctx (at_work inp mesa_stage [Res_binary] st))"
proof -
  have fits: "rb_stats_size b + rb_code_size b \<le> length (rb_data b)" "rb_code_size b \<le> 2 ^ 31"
    using assms(2,4) unfolding compile_safe_def by blast+
  have code: "length (binary_code b) = rb_code_size b" using fits(1) by (simp add: binary_code_def slice_at_def)
  have env: "abi_ok (ce_abi E)" "malloc_ok (ce_malloc_newcode E)" "malloc_ok (ce_malloc_buf E)"
    "malloc_ok (ce_malloc_machine_code E)" using assms(2) by (simp_all add: compile_safe_def)
  have "length (words_of (binary_code b)) \<le> 2 ^ 29" using fits(2) code by simp
  note result = buildshaderbinary_result [OF env(1) assms(3) this env(2,3)]
  have own: "own Res_data (at_work inp mesa_stage [Res_binary] st) = at_work inp mesa_stage [Res_data, Res_binary] st"
    "own Res_code (at_work inp mesa_stage [Res_data, Res_binary] st) =
       at_work inp mesa_stage [Res_code, Res_data, Res_binary] st"
    by (simp_all add: own_def at_work_def)
  have copy: "put_at 0 (binary_code b) mem = Some (binary_code b)"
    if "ce_malloc_machine_code E (rb_code_size b) = Some mem" for mem
    using that env(4) code by (simp add: put_at_def malloc_ok_def)
  show ?thesis
    using result fits(1) code copy step_ok_leave [OF assms(1), of "[Res_binary]" _ True _ inp mesa_stage]
      step_ok_leave [OF assms(1), of "[Res_data, Res_binary]" PSBC_RESULT_OUT_OF_MEMORY True _ inp mesa_stage]
    by (auto simp: emit_output_def own output_of_def Let_def split: option.split)
qed


lemma build_context_ok:
  assumes "length (is_words semantics) \<le> 32"
    and "psbc_to_mesa_stage (opt_stage opts) \<in> {MESA_SHADER_VERTEX, MESA_SHADER_TESS_EVAL} \<Longrightarrow>
      util_bitcount (si_inputs_read (nir_info nir)) \<le> 32"
  shows "context_ok (build_context inp opts (psbc_to_mesa_stage (opt_stage opts)) pl use semantics binary nir)"
  using assms
  by (auto simp: context_ok_def build_context_def semantic_words_def inputs_count_def split: prod.split)

lemma emitted_ok:
  assumes "idle st" "compile_safe E opts" "length (is_words semantics) \<le> 32"
    and "ms_nir_to_asm (ce_mesa E) ci stage shaders gs = (Some b, nir)"
  defines "mesa_stage \<equiv> psbc_to_mesa_stage (opt_stage opts)"
  shows "step_ok True st
    (\<lambda>out st'. st' = at_work inp mesa_stage [Res_code, Res_data, Res_binary] st \<and>
       (\<exists>ctx code. output_of E ctx code out \<and> bc_options ctx = opts \<and> bc_psbc_stage ctx = opt_stage opts))
    (emit_output E inp b (build_context inp opts mesa_stage pl use semantics b nir)
       (at_work inp mesa_stage [Res_binary] st))"
proof -
  let ?ctx = "build_context inp opts mesa_stage pl use semantics b nir"
  have "mesa_stage \<in> {MESA_SHADER_VERTEX, MESA_SHADER_TESS_EVAL} \<Longrightarrow>
      util_bitcount (si_inputs_read (nir_info nir)) \<le> 32"
    using assms(2,4) unfolding compile_safe_def mesa_stage_def by blast
  then have "context_ok ?ctx" using build_context_ok [OF assms(3)] unfolding mesa_stage_def by blast
  note emitted = emit_output_ok [OF assms(1,2) this assms(4), of inp mesa_stage]
  have "bc_options ?ctx = opts" "bc_psbc_stage ?ctx = opt_stage opts"
    by (simp_all add: build_context_def split: prod.split)
  then show ?thesis
    using emitted by (cases "emit_output E inp b ?ctx (at_work inp mesa_stage [Res_binary] st)") auto
qed

lemma compile_pipeline_ok:
  assumes "idle st" "compile_safe E opts" "compile_guards inp opts = PSBC_RESULT_OK"
  defines "mesa_stage \<equiv> psbc_to_mesa_stage (opt_stage opts)"
  shows "step_ok True st
    (\<lambda>out st'. st' = at_work inp mesa_stage [Res_code, Res_data, Res_binary] st \<and>
       (\<exists>ctx code. output_of E ctx code out \<and> bc_options ctx = opts \<and> bc_psbc_stage ctx = opt_stage opts))
    (compile_pipeline E inp opts (st\<lparr>cs_library := psbc_init (cs_library st)\<rparr>))"
proof -
  have unpaired: "mesa_stage = MESA_SHADER_FRAGMENT \<Longrightarrow> \<not> paired_previous inp"
    using compile_guards_ok(3) [OF assms(3)]
    by (auto simp: pairing_unsupported_def pairing_defs mesa_stage_def)
  have count: "unat (opt_vertex_attribute_count opts) \<le> length (opt_vertex_attributes opts)"
    using assms(2) by (simp add: compile_safe_def)
  show ?thesis
    unfolding compile_pipeline_def Let_def mesa_stage_def [symmetric]
    by (rule step_ok_and_then [OF import_pipeline_ok [OF assms(1)]], clarify,
        rule step_ok_and_then [OF setup_graphics_state_ok [OF assms(1) count]], clarify,
        rule step_ok_and_then [OF lower_pipeline_ok [OF assms(1)]], clarify,
        rule step_ok_and_then [OF snapshot_semantics_ok [OF assms(1) unpaired]], assumption, clarify,
        rule step_ok_and_then [OF compile_shaders_ok [OF assms(1)]], clarify,
        rule emitted_ok [OF assms(1,2), folded mesa_stage_def], assumption, assumption)
qed

lemma leave_success:
  assumes "idle st"
  shows "leave (Res_binary # shaders_of inp) result (at_work inp mesa_stage [Res_code, Res_data, Res_binary] st) =
    Stop result (st\<lparr>cs_live := [Res_code, Res_data]\<rparr>)"
proof -
  have "psbc_shutdown (psbc_init (cs_library st)) = Some (cs_library st)"
    using assms library_restored by (auto simp: idle_def)
  then show ?thesis
    using assms
    by (auto simp: leave_def shaders_of_def at_work_def live_shaders_def release_def idle_def pairing_defs
        split: if_splits)
qed

section \<open>Every compilation is balanced\<close>

text \<open>The state and the output after a call: a success hands out the two buffers, which the caller frees; any
  other result leaves nothing behind.\<close>

definition balanced ::
  "compile_env \<Rightarrow> PsbcCompileOptions \<Rightarrow> compile_state \<Rightarrow> PsbcShaderOutput option \<Rightarrow> compile_result \<Rightarrow> bool" where
  "balanced E opts st zero res \<longleftrightarrow>
     (case res of
        Undefined \<Rightarrow> False
      | Returned result out st' \<Rightarrow>
          if result = PSBC_RESULT_OK
          then st' = st\<lparr>cs_live := [Res_code, Res_data]\<rparr> \<and>
               (\<exists>ctx code o'. out = Some o' \<and> output_of E ctx code o' \<and> bc_options ctx = opts \<and>
                  bc_psbc_stage ctx = opt_stage opts)
          else st' = st \<and> out = zero)"

lemma psbc_compile_impl_balanced:
  assumes "idle st" "compile_safe E opts"
  shows "balanced E opts st (if in_spirv inp = None \<and> in_nir inp = None then Some out0 else Some zero_output)
     (psbc_compile_impl E inp (Some opts) (Some out0) st)"
proof (cases "(in_spirv inp = None \<and> in_nir inp = None) \<or> compile_guards inp opts \<noteq> PSBC_RESULT_OK")
  case False
  then have ok: "compile_guards inp opts = PSBC_RESULT_OK" by simp
  show ?thesis
    using compile_pipeline_ok [OF assms ok] False
    by (cases "compile_pipeline E inp opts (st\<lparr>cs_library := psbc_init (cs_library st)\<rparr>)")
      (auto simp: psbc_compile_impl_def balanced_def leave_success [OF assms(1)])
qed (auto simp: psbc_compile_impl_def balanced_def)

end
