(* ===== verification/Entry_Points.thy ===== *)
theory Entry_Points
  imports Compile_Driver
begin

text \<open>
  The entry points of \<^verbatim>\<open>src/libpsbc/psbc_compile.c\<close>: the functions that a caller of the library uses to compile a
  shader or a pipeline, the release of an output, and the names of results and stages.  The lemmas show
  that every entry point is defined on every input once the environment is as documented, that
  releasing its output restores the state before the call, and which modules pass the capability check.
\<close>

section \<open>Definitions\<close>

definition no_input :: compile_input where
  "no_input = \<lparr>in_spirv = None, in_spirv_size = 0, in_nir = None, in_previous_spirv = None,
     in_previous_spirv_size = 0, in_previous_nir = None, in_next_link_spirv = None, in_next_link_spirv_size = 0\<rparr>"

text \<open>A module is a pointer to words, \<open>None\<close> when null, with the size in bytes that the caller passes.\<close>

type_synonym spirv_module = "u32 list option \<times> nat"

definition with_spirv :: "spirv_module \<Rightarrow> compile_input \<Rightarrow> compile_input" where
  "with_spirv m inp = inp\<lparr>in_spirv := fst m, in_spirv_size := snd m\<rparr>"

definition with_previous :: "spirv_module \<Rightarrow> compile_input \<Rightarrow> compile_input" where
  "with_previous m inp = inp\<lparr>in_previous_spirv := fst m, in_previous_spirv_size := snd m\<rparr>"

definition with_next_link :: "spirv_module \<Rightarrow> compile_input \<Rightarrow> compile_input" where
  "with_next_link m inp = inp\<lparr>in_next_link_spirv := fst m, in_next_link_spirv_size := snd m\<rparr>"

definition psbc_compile_shader ::
  "compile_env \<Rightarrow> spirv_module \<Rightarrow> PsbcCompileOptions option \<Rightarrow> PsbcShaderOutput option \<Rightarrow> compile_state \<Rightarrow> compile_result" where
  "psbc_compile_shader E spirv opts out st = psbc_compile_impl E (with_spirv spirv no_input) opts out st"

definition psbc_compile_nir ::
  "compile_env \<Rightarrow> nir_shader option \<Rightarrow> PsbcCompileOptions option \<Rightarrow> PsbcShaderOutput option \<Rightarrow> compile_state \<Rightarrow> compile_result" where
  "psbc_compile_nir E nir opts out st = psbc_compile_impl E (no_input\<lparr>in_nir := nir\<rparr>) opts out st"

definition psbc_compile_geometry_pipeline ::
  "compile_env \<Rightarrow> spirv_module \<Rightarrow> spirv_module \<Rightarrow> PsbcCompileOptions option \<Rightarrow> PsbcShaderOutput option \<Rightarrow>
   compile_state \<Rightarrow> compile_result" where
  "psbc_compile_geometry_pipeline E vertex geometry opts out st =
     psbc_compile_impl E (with_previous vertex (with_spirv geometry no_input)) opts out st"

definition patch_points_ok :: "PsbcCompileOptions \<Rightarrow> bool" where
  "patch_points_ok opts \<longleftrightarrow> opt_patch_control_points opts \<noteq> 0 \<and> opt_patch_control_points opts \<le> 32"

definition psbc_compile_tess_pipeline ::
  "compile_env \<Rightarrow> spirv_module \<Rightarrow> spirv_module \<Rightarrow> spirv_module \<Rightarrow> PsbcCompileOptions option \<Rightarrow>
   PsbcShaderOutput option \<Rightarrow> compile_state \<Rightarrow> compile_result" where
  "psbc_compile_tess_pipeline E vertex tess_ctrl tess_eval opts out st =
     (case opts of
        None \<Rightarrow> Returned PSBC_RESULT_INVALID_SPIRV out st
      | Some options \<Rightarrow>
          if out = None \<or> fst vertex = None \<or> fst tess_ctrl = None \<or> fst tess_eval = None
          then Returned PSBC_RESULT_INVALID_SPIRV out st
          else if opt_stage options \<noteq> PSBC_STAGE_TESS_CTRL \<or> opt_target options \<noteq> PSBC_TARGET_PS5
          then Returned PSBC_RESULT_UNSUPPORTED_STAGE out st
          else if \<not> patch_points_ok options then Returned PSBC_RESULT_UNSUPPORTED_STAGE out st
          else psbc_compile_impl E (with_next_link tess_eval (with_previous vertex (with_spirv tess_ctrl no_input)))
                 opts out st)"

definition psbc_compile_domain_pipeline ::
  "compile_env \<Rightarrow> spirv_module \<Rightarrow> spirv_module \<Rightarrow> PsbcCompileOptions option \<Rightarrow> PsbcShaderOutput option \<Rightarrow>
   compile_state \<Rightarrow> compile_result" where
  "psbc_compile_domain_pipeline E tess_ctrl tess_eval opts out st =
     (case opts of
        None \<Rightarrow> Returned PSBC_RESULT_INVALID_SPIRV out st
      | Some options \<Rightarrow>
          if out = None \<or> fst tess_ctrl = None \<or> fst tess_eval = None
          then Returned PSBC_RESULT_INVALID_SPIRV out st
          else if opt_stage options \<noteq> PSBC_STAGE_TESS_EVAL \<or> opt_target options \<noteq> PSBC_TARGET_PS5
          then Returned PSBC_RESULT_UNSUPPORTED_STAGE out st
          else if \<not> patch_points_ok options then Returned PSBC_RESULT_UNSUPPORTED_STAGE out st
          else psbc_compile_impl E (with_previous tess_ctrl (with_spirv tess_eval no_input)) opts out st)"

text \<open>The two buffers of an output are freed when their pointers are not null.  \<open>None\<close> is the release of a
  buffer that is not allocated.\<close>

definition psbc_free_output ::
  "PsbcShaderOutput option \<Rightarrow> compile_state \<Rightarrow> (PsbcShaderOutput option \<times> compile_state) option" where
  "psbc_free_output out st =
     (case out of
        None \<Rightarrow> Some (None, st)
      | Some output \<Rightarrow>
          map_option (\<lambda>st'. (Some zero_output, st'))
            (release_all ((if out_data output \<noteq> None then [Res_data] else []) @
                          (if out_machine_code output \<noteq> None then [Res_code] else [])) st))"

definition merged_metadata_ok :: "PsbcShaderMetadata \<Rightarrow> bool" where
  "merged_metadata_ok metadata \<longleftrightarrow>
     md_merged_geometry metadata \<and> md_merged_es_source_stage metadata = PSBC_STAGE_TESS_EVAL \<and>
     md_ps5_ring_table_valid metadata"

text \<open>A merged program without its source stage or ring table is taken back.\<close>

definition check_merged :: "compile_result \<Rightarrow> compile_result" where
  "check_merged res =
     (case res of
        Returned result (Some output) st \<Rightarrow>
          if result = PSBC_RESULT_OK \<and> \<not> merged_metadata_ok (out_metadata output)
          then (case psbc_free_output (Some output) st of
                  None \<Rightarrow> Undefined
                | Some (out, st') \<Rightarrow> Returned PSBC_RESULT_INTERNAL_ERROR out st')
          else res
      | _ \<Rightarrow> res)"

definition psbc_compile_tess_geometry_pipeline ::
  "compile_env \<Rightarrow> spirv_module \<Rightarrow> spirv_module \<Rightarrow> spirv_module \<Rightarrow> PsbcCompileOptions option \<Rightarrow>
   PsbcShaderOutput option \<Rightarrow> compile_state \<Rightarrow> compile_result" where
  "psbc_compile_tess_geometry_pipeline E control evaluation geometry opts out0 st =
     (let out = map_option (\<lambda>_. zero_output) out0 in
      case opts of
        None \<Rightarrow> Returned PSBC_RESULT_INVALID_SPIRV out st
      | Some options \<Rightarrow>
          if out = None \<or> fst control = None \<or> fst evaluation = None \<or> fst geometry = None
          then Returned PSBC_RESULT_INVALID_SPIRV out st
          else if opt_target options \<noteq> PSBC_TARGET_PS5 \<or> opt_stage options \<noteq> PSBC_STAGE_GEOMETRY \<or>
                  \<not> opt_ngg options \<or> \<not> patch_points_ok options
          then Returned PSBC_RESULT_UNSUPPORTED_STAGE out st
          else (let validation = validate_spirv_capabilities (fst control) (snd control) options in
                if validation \<noteq> PSBC_RESULT_OK then Returned validation out st
                else check_merged (psbc_compile_impl E
                       (with_next_link control (with_previous evaluation (with_spirv geometry no_input)))
                       opts out st)))"

definition psbc_compile_nir_geometry_pipeline ::
  "compile_env \<Rightarrow> nir_shader option \<Rightarrow> nir_shader option \<Rightarrow> PsbcCompileOptions option \<Rightarrow> PsbcShaderOutput option \<Rightarrow>
   compile_state \<Rightarrow> compile_result" where
  "psbc_compile_nir_geometry_pipeline E vertex_nir geometry_nir opts out st =
     psbc_compile_impl E (no_input\<lparr>in_nir := geometry_nir, in_previous_nir := vertex_nir\<rparr>) opts out st"

primrec psbc_result_string :: "PsbcResult \<Rightarrow> string" where
  "psbc_result_string PSBC_RESULT_OK = ''success''"
| "psbc_result_string PSBC_RESULT_INVALID_SPIRV = ''invalid SPIR-V bytecode''"
| "psbc_result_string PSBC_RESULT_UNSUPPORTED_STAGE = ''unsupported shader stage''"
| "psbc_result_string PSBC_RESULT_COMPILE_NIR = ''SPIR-V to NIR compilation failed''"
| "psbc_result_string PSBC_RESULT_COMPILE_ACO = ''ACO shader compilation failed''"
| "psbc_result_string PSBC_RESULT_OUT_OF_MEMORY = ''out of memory''"
| "psbc_result_string PSBC_RESULT_INTERNAL_ERROR = ''internal error''"
| "psbc_result_string PSBC_RESULT_UNSUPPORTED_CAPABILITY = ''unsupported SPIR-V capability''"

definition psbc_stage_from_name :: "string option \<Rightarrow> PsbcStage" where
  "psbc_stage_from_name name =
     (case name of
        None \<Rightarrow> PSBC_STAGE_NONE
      | Some n \<Rightarrow>
          if n = ''vertex'' then PSBC_STAGE_VERTEX
          else if n = ''tess-ctrl'' then PSBC_STAGE_TESS_CTRL
          else if n = ''tess-eval'' then PSBC_STAGE_TESS_EVAL
          else if n = ''geometry'' then PSBC_STAGE_GEOMETRY
          else if n = ''fragment'' then PSBC_STAGE_FRAGMENT
          else if n = ''compute'' then PSBC_STAGE_COMPUTE
          else if n = ''task'' then PSBC_STAGE_TASK
          else if n = ''export'' then PSBC_STAGE_EXPORT
          else if n = ''local'' then PSBC_STAGE_LOCAL
          else PSBC_STAGE_NONE)"

section \<open>Calls\<close>

text \<open>The ways to compile, as a caller sees them.\<close>

datatype compile_call
  = Call_shader spirv_module
  | Call_nir "nir_shader option"
  | Call_geometry spirv_module spirv_module
  | Call_tess spirv_module spirv_module spirv_module
  | Call_domain spirv_module spirv_module
  | Call_tess_geometry spirv_module spirv_module spirv_module
  | Call_nir_geometry "nir_shader option" "nir_shader option"

primrec run_call ::
  "compile_env \<Rightarrow> compile_call \<Rightarrow> PsbcCompileOptions option \<Rightarrow> PsbcShaderOutput option \<Rightarrow> compile_state \<Rightarrow> compile_result" where
  "run_call E (Call_shader m) = psbc_compile_shader E m"
| "run_call E (Call_nir nir) = psbc_compile_nir E nir"
| "run_call E (Call_geometry v g) = psbc_compile_geometry_pipeline E v g"
| "run_call E (Call_tess v c e) = psbc_compile_tess_pipeline E v c e"
| "run_call E (Call_domain c e) = psbc_compile_domain_pipeline E c e"
| "run_call E (Call_tess_geometry c e g) = psbc_compile_tess_geometry_pipeline E c e g"
| "run_call E (Call_nir_geometry v g) = psbc_compile_nir_geometry_pipeline E v g"

text \<open>The calls that return before the output structure is cleared.\<close>

fun returns_early :: "PsbcCompileOptions \<Rightarrow> compile_call \<Rightarrow> bool" where
  "returns_early opts (Call_shader m) \<longleftrightarrow> fst m = None"
| "returns_early opts (Call_nir nir) \<longleftrightarrow> nir = None"
| "returns_early opts (Call_geometry v g) \<longleftrightarrow> fst g = None"
| "returns_early opts (Call_tess v c e) \<longleftrightarrow>
     fst v = None \<or> fst c = None \<or> fst e = None \<or> opt_stage opts \<noteq> PSBC_STAGE_TESS_CTRL \<or>
     opt_target opts \<noteq> PSBC_TARGET_PS5 \<or> \<not> patch_points_ok opts"
| "returns_early opts (Call_domain c e) \<longleftrightarrow>
     fst c = None \<or> fst e = None \<or> opt_stage opts \<noteq> PSBC_STAGE_TESS_EVAL \<or>
     opt_target opts \<noteq> PSBC_TARGET_PS5 \<or> \<not> patch_points_ok opts"
| "returns_early opts (Call_tess_geometry c e g) \<longleftrightarrow> False"
| "returns_early opts (Call_nir_geometry v g) \<longleftrightarrow> g = None"

lemmas input_defs = no_input_def with_spirv_def with_previous_def with_next_link_def

lemmas entry_defs = psbc_compile_shader_def psbc_compile_nir_def psbc_compile_geometry_pipeline_def
  psbc_compile_tess_pipeline_def psbc_compile_domain_pipeline_def psbc_compile_nir_geometry_pipeline_def

lemma output_of_buffers: "output_of E ctx code out \<Longrightarrow> out_data out \<noteq> None \<and> out_machine_code out \<noteq> None"
  by (auto simp: output_of_def)

lemma free_live_output:
  assumes "idle st" "output_of E ctx code out"
  shows "psbc_free_output (Some out) (st\<lparr>cs_live := [Res_code, Res_data]\<rparr>) = Some (Some zero_output, st)"
  using output_of_buffers [OF assms(2)] assms(1)
  by (simp add: psbc_free_output_def release_def) (simp add: idle_def)

lemma free_zero_output: "psbc_free_output (Some zero_output) st = Some (Some zero_output, st)"
  by (simp add: psbc_free_output_def zero_output_def)

lemma balanced_check_merged:
  assumes "idle st" "balanced E opts st (Some zero_output) res"
  shows "balanced E opts st (Some zero_output) (check_merged res)"
proof (cases res)
  case (Returned result out st')
  then show ?thesis
    using assms free_live_output [OF assms(1)]
    by (cases "result = PSBC_RESULT_OK") (auto simp: balanced_def check_merged_def, blast)
qed (use assms in \<open>simp add: balanced_def\<close>)

lemma balanced_error: "result \<noteq> PSBC_RESULT_OK \<Longrightarrow> balanced E opts st out (Returned result out st)"
  by (simp add: balanced_def)

lemma run_call_balanced:
  assumes "idle st" "compile_safe E opts"
  shows "balanced E opts st (Some (if returns_early opts call then out0 else zero_output))
     (run_call E call (Some opts) (Some out0) st)"
proof -
  have empty: "balanced E opts st (Some out0) (psbc_compile_impl E inp (Some opts) (Some out0) st)"
    if "in_spirv inp = None" "in_nir inp = None" for inp
    using psbc_compile_impl_balanced [OF assms, of inp out0] that by simp
  have given: "balanced E opts st (Some zero_output) (psbc_compile_impl E inp (Some opts) (Some out0) st)"
    if "in_spirv inp = None \<longrightarrow> in_nir inp \<noteq> None" for inp
    using psbc_compile_impl_balanced [OF assms, of inp out0] that by (auto split: if_splits)
  show ?thesis
  proof (cases call)
    case (Call_tess_geometry control evaluation geometry)
    let ?inp = "with_next_link control (with_previous evaluation (with_spirv geometry no_input))"
    have "balanced E opts st (Some zero_output) (check_merged (psbc_compile_impl E ?inp (Some opts) (Some zero_output) st))"
      using balanced_check_merged [OF assms(1)] psbc_compile_impl_balanced [OF assms, of ?inp zero_output]
      by (auto split: if_splits)
    then show ?thesis
      using Call_tess_geometry by (auto simp: psbc_compile_tess_geometry_pipeline_def Let_def balanced_error)
  qed (auto simp: entry_defs input_defs balanced_error intro: empty given)
qed


text \<open>A caller that compiles and frees, again and again.\<close>

fun run_session ::
  "compile_env \<Rightarrow> (compile_call \<times> PsbcCompileOptions) list \<Rightarrow> compile_state \<Rightarrow> (PsbcResult list \<times> compile_state) option" where
  "run_session E [] st = Some ([], st)"
| "run_session E ((call, opts) # calls) st =
     (case run_call E call (Some opts) (Some zero_output) st of
        Undefined \<Rightarrow> None
      | Returned result out st' \<Rightarrow>
          (case psbc_free_output out st' of
             None \<Rightarrow> None
           | Some (out', st'') \<Rightarrow> map_option (\<lambda>(rs, s). (result # rs, s)) (run_session E calls st'')))"

lemma run_call_free:
  assumes "idle st" "compile_safe E opts"
  obtains result out st' where "run_call E call (Some opts) (Some zero_output) st = Returned result out st'"
    "psbc_free_output out st' = Some (Some zero_output, st)"
proof -
  note balanced = run_call_balanced [OF assms, of call zero_output]
  then obtain result out st' where res: "run_call E call (Some opts) (Some zero_output) st = Returned result out st'"
    by (auto simp: balanced_def split: compile_result.splits)
  have "psbc_free_output out st' = Some (Some zero_output, st)"
    using balanced free_live_output [OF assms(1)] unfolding res
    by (auto simp: balanced_def free_zero_output split: if_splits)
  with res show ?thesis by (rule that)
qed


section \<open>Modules that are checked\<close>

lemma impl_success_guards:
  "psbc_compile_impl E inp (Some opts) out st = Returned PSBC_RESULT_OK out' st' \<Longrightarrow>
     compile_guards inp opts = PSBC_RESULT_OK"
  by (auto simp: psbc_compile_impl_def split: option.splits if_splits)

lemma success_validated:
  assumes "psbc_compile_impl E inp (Some opts) out st = Returned PSBC_RESULT_OK out' st'"
  shows "(in_nir inp = None \<longrightarrow>
      validate_spirv_capabilities (in_spirv inp) (in_spirv_size inp) opts = PSBC_RESULT_OK) \<and>
    (in_previous_spirv inp \<noteq> None \<longrightarrow>
      validate_spirv_capabilities (in_previous_spirv inp) (in_previous_spirv_size inp) opts = PSBC_RESULT_OK)"
  using impl_success_guards [OF assms] by (auto simp: compile_guards_def Let_def split: if_splits)

lemma check_merged_success:
  "check_merged res = Returned PSBC_RESULT_OK out st \<Longrightarrow> res = Returned PSBC_RESULT_OK out st"
  by (auto simp: check_merged_def split: compile_result.splits option.splits if_splits)

text \<open>The parts of a compilation that look at its inputs see the module of the next stage only as present.\<close>

lemma pairing_next_link [simp]:
  "paired_previous (with_next_link m inp) = paired_previous inp"
  "paired_geometry (with_next_link m inp) = paired_geometry inp"
  "paired_hull (with_next_link m inp) = paired_hull inp"
  "paired_domain (with_next_link m inp) = paired_domain inp"
  by (simp_all add: fun_eq_iff paired_previous_def pairing_defs with_next_link_def)

lemma fields_next_link [simp]:
  "in_spirv (with_next_link m inp) = in_spirv inp" "in_spirv_size (with_next_link m inp) = in_spirv_size inp"
  "in_nir (with_next_link m inp) = in_nir inp" "in_previous_spirv (with_next_link m inp) = in_previous_spirv inp"
  "in_previous_spirv_size (with_next_link m inp) = in_previous_spirv_size inp"
  "in_previous_nir (with_next_link m inp) = in_previous_nir inp"
  "in_next_link_spirv (with_next_link m inp) = fst m" "in_next_link_spirv_size (with_next_link m inp) = snd m"
  by (simp_all add: with_next_link_def)

lemma not_tess_geometry: "mesa_stage \<noteq> MESA_SHADER_GEOMETRY \<Longrightarrow> \<not> paired_tess_geometry inp mesa_stage"
  by (simp add: pairing_defs)

lemma shaders_next_link [simp]:
  "shaders_of (with_next_link m inp) = shaders_of inp" "spirv_bytes (with_next_link m inp) = spirv_bytes inp"
  "merged_half (with_next_link m inp) = merged_half inp" "select_abi (with_next_link m inp) = select_abi inp"
  by (simp_all add: fun_eq_iff shaders_of_def spirv_bytes_def merged_half_def select_abi_def)

lemma parts_next_link [simp]:
  "import_stage M ci (with_next_link m inp) = import_stage M ci inp"
  "merge_halves (with_next_link m inp) = merge_halves inp"
  "gather_pipeline M ci (with_next_link m inp) = gather_pipeline M ci inp"
  "set_ngg_info M ci (with_next_link m inp) = set_ngg_info M ci inp"
  "start_previous M (with_next_link m inp) = start_previous M inp"
  "link_pipeline M ci (with_next_link m inp) = link_pipeline M ci inp"
  "emit_output E (with_next_link m inp) = emit_output E inp"
  "build_context (with_next_link m inp) = build_context inp"
  "split_inputs (with_next_link m inp) = split_inputs inp"
  "resources_used (with_next_link m inp) = resources_used inp"
  "compile_shaders M ci (with_next_link m inp) = compile_shaders M ci inp"
  "setup_graphics_state pf (with_next_link m inp) = setup_graphics_state pf inp"
  unfolding fun_eq_iff import_stage_def merge_halves_def gather_pipeline_def set_ngg_info_def start_previous_def
    link_pipeline_def emit_output_def build_context_def split_inputs_def resources_used_def compile_shaders_def
    setup_graphics_state_def pairing_next_link fields_next_link shaders_next_link
  by (rule allI refl)+

text \<open>Outside the merged geometry program, the remaining parts do not see it either.\<close>

lemma hull_parts_next_link:
  assumes "mesa_stage \<noteq> MESA_SHADER_GEOMETRY"
  shows "import_previous M ci (with_next_link m inp) opts mesa_stage = import_previous M ci inp opts mesa_stage"
    "import_control M ci (with_next_link m inp) opts mesa_stage = import_control M ci inp opts mesa_stage"
    "start_pipeline M (with_next_link m inp) opts mesa_stage = start_pipeline M inp opts mesa_stage"
    "lower_pipeline M ci (with_next_link m inp) opts mesa_stage = lower_pipeline M ci inp opts mesa_stage"
proof -
  have tess: "paired_tess_geometry (with_next_link m inp) mesa_stage = False"
    "paired_tess_geometry inp mesa_stage = False"
    using assms by (simp_all add: not_tess_geometry)
  have half: "previous_half_stage (with_next_link m inp) mesa_stage = previous_half_stage inp mesa_stage"
    by (simp add: previous_half_stage_def tess)
  show "import_previous M ci (with_next_link m inp) opts mesa_stage = import_previous M ci inp opts mesa_stage"
    unfolding fun_eq_iff import_previous_def pairing_next_link fields_next_link half by (rule allI refl)+
  show "import_control M ci (with_next_link m inp) opts mesa_stage = import_control M ci inp opts mesa_stage"
    unfolding fun_eq_iff import_control_def tess by simp
  have "link_slots M (with_next_link m inp) mesa_stage = link_slots M inp mesa_stage"
    unfolding fun_eq_iff link_slots_def pairing_next_link tess by (rule allI refl)+
  then show "start_pipeline M (with_next_link m inp) opts mesa_stage = start_pipeline M inp opts mesa_stage"
    by (simp add: fun_eq_iff start_pipeline_def)
  have "declare_pipeline_args M ci (with_next_link m inp) opts mesa_stage = declare_pipeline_args M ci inp opts mesa_stage"
    unfolding fun_eq_iff declare_pipeline_args_def pairing_next_link shaders_next_link tess by (rule allI refl)+
  then show "lower_pipeline M ci (with_next_link m inp) opts mesa_stage = lower_pipeline M ci inp opts mesa_stage"
    unfolding fun_eq_iff lower_pipeline_def by simp
qed

lemma guards_next_link:
  assumes "psbc_to_mesa_stage (opt_stage opts) \<noteq> MESA_SHADER_GEOMETRY"
  shows "compile_guards (with_next_link m inp) opts = compile_guards inp opts"
proof -
  have half: "previous_half_stage (with_next_link m inp) (psbc_to_mesa_stage (opt_stage opts)) =
      previous_half_stage inp (psbc_to_mesa_stage (opt_stage opts))"
    using assms by (simp add: previous_half_stage_def not_tess_geometry)
  show ?thesis
    unfolding compile_guards_def pairing_unsupported_def Let_def pairing_next_link fields_next_link half
    by (rule refl)
qed

text \<open>Two modules that Mesa reads as the same shader.\<close>

definition read_alike :: "mesa \<Rightarrow> mesa_shader_stage \<Rightarrow> mesa_shader_stage \<Rightarrow> spirv_module \<Rightarrow> spirv_module \<Rightarrow> bool" where
  "read_alike M s next_s m m' \<longleftrightarrow> fst m \<noteq> None \<and> fst m' \<noteq> None \<and>
     (\<forall>ci opts. map_option rs_nir (prepare_stage_nir M ci (zero_stage s next_s) (fst m) (snd m) None opts) =
                map_option rs_nir (prepare_stage_nir M ci (zero_stage s next_s) (fst m') (snd m') None opts))"

lemma import_next_alike:
  assumes "read_alike M MESA_SHADER_TESS_EVAL MESA_SHADER_FRAGMENT m m'"
  shows "import_next M ci (with_next_link m inp) opts mesa_stage stage st =
    import_next M ci (with_next_link m' inp) opts mesa_stage stage st"
proof -
  let ?p = "\<lambda>m. prepare_stage_nir M ci (zero_stage MESA_SHADER_TESS_EVAL MESA_SHADER_FRAGMENT) (fst m) (snd m) None
    (select_linked_parameters opts (opt_next_link_parameters opts))"
  have "map_option rs_nir (?p m) = map_option rs_nir (?p m')" "fst m \<noteq> None" "fst m' \<noteq> None"
    using assms by (auto simp: read_alike_def)
  then show ?thesis
    by (cases "?p m"; cases "?p m'") (simp_all add: import_next_def split: option.split)
qed

lemma compile_hull_alike:
  assumes "read_alike (ce_mesa E) MESA_SHADER_TESS_EVAL MESA_SHADER_FRAGMENT m m'"
    and stage: "psbc_to_mesa_stage (opt_stage opts) \<noteq> MESA_SHADER_GEOMETRY"
  shows "psbc_compile_impl E (with_next_link m inp) (Some opts) out st =
    psbc_compile_impl E (with_next_link m' inp) (Some opts) out st"
proof -
  have "compile_pipeline E (with_next_link m inp) opts st = compile_pipeline E (with_next_link m' inp) opts st" for st
    unfolding compile_pipeline_def import_pipeline_def Let_def parts_next_link hull_parts_next_link [OF stage]
      import_next_alike [OF assms(1), of _ inp]
    by (rule refl)
  then show ?thesis
    by (cases out; cases "compile_pipeline E (with_next_link m' inp) opts (st\<lparr>cs_library := psbc_init (cs_library st)\<rparr>)")
      (simp_all add: psbc_compile_impl_def guards_next_link [OF stage])
qed

text \<open>C19. The capability check of the library covers every module that becomes part of a program. A pipeline of
  control, evaluation and geometry stage with one module that fails the check is refused, whichever module
  it is; so are a domain pair and a hull pair whose compiled or linked halves fail it.  The evaluation
  module of a hull pair is the exception: no check ever looks at it, and the outcome depends on it only
  through the shader that Mesa makes of it.\<close>
theorem linked_modules_validated:
  fixes opts :: PsbcCompileOptions
  defines "refused \<equiv> \<lambda>m. validate_spirv_capabilities (fst m) (snd m) opts \<noteq> PSBC_RESULT_OK"
  shows "((\<exists>m\<in>{control, evaluation, geometry}. refused m) \<longrightarrow>
      psbc_compile_tess_geometry_pipeline E control evaluation geometry (Some opts) (Some out) st \<noteq>
        Returned PSBC_RESULT_OK out' st') \<and>
    ((\<exists>m\<in>{control, evaluation}. refused m) \<longrightarrow>
      psbc_compile_domain_pipeline E control evaluation (Some opts) (Some out) st \<noteq> Returned PSBC_RESULT_OK out' st') \<and>
    ((\<exists>m\<in>{vertex, control}. refused m) \<longrightarrow>
      psbc_compile_tess_pipeline E vertex control evaluation (Some opts) (Some out) st \<noteq>
        Returned PSBC_RESULT_OK out' st') \<and>
    (read_alike (ce_mesa E) MESA_SHADER_TESS_EVAL MESA_SHADER_FRAGMENT evaluation evaluation' \<longrightarrow>
      psbc_compile_tess_pipeline E vertex control evaluation (Some opts) (Some out) st =
      psbc_compile_tess_pipeline E vertex control evaluation' (Some opts) (Some out) st)"
proof (intro conjI impI)
  show "psbc_compile_tess_geometry_pipeline E control evaluation geometry (Some opts) (Some out) st \<noteq>
      Returned PSBC_RESULT_OK out' st'" if "\<exists>m\<in>{control, evaluation, geometry}. refused m"
    using that
    by (auto simp: psbc_compile_tess_geometry_pipeline_def refused_def Let_def input_defs
        dest!: check_merged_success success_validated)
  show "psbc_compile_domain_pipeline E control evaluation (Some opts) (Some out) st \<noteq> Returned PSBC_RESULT_OK out' st'"
    if "\<exists>m\<in>{control, evaluation}. refused m"
    using that by (auto simp: psbc_compile_domain_pipeline_def refused_def input_defs dest!: success_validated)
  show "psbc_compile_tess_pipeline E vertex control evaluation (Some opts) (Some out) st \<noteq> Returned PSBC_RESULT_OK out' st'"
    if "\<exists>m\<in>{vertex, control}. refused m"
    using that by (auto simp: psbc_compile_tess_pipeline_def refused_def input_defs dest!: success_validated)
  show "psbc_compile_tess_pipeline E vertex control evaluation (Some opts) (Some out) st =
      psbc_compile_tess_pipeline E vertex control evaluation' (Some opts) (Some out) st"
    if "read_alike (ce_mesa E) MESA_SHADER_TESS_EVAL MESA_SHADER_FRAGMENT evaluation evaluation'"
    using that compile_hull_alike [OF that]
    by (auto simp: psbc_compile_tess_pipeline_def read_alike_def)
qed

section \<open>A concrete environment\<close>

text \<open>A compiler whose passes change nothing and whose back end always emits one instruction, with allocations
  that succeed.\<close>

definition sample_binary :: radv_binary where
  "sample_binary = \<lparr>rb_info = zero_info, rb_config = zero_config, rb_stats_size = 0, rb_code_size = 4,
     rb_data = [0, 0, 0x81, 0xbf]\<rparr>"

definition sample_mesa :: mesa where
  "sample_mesa =
     \<lparr>ms_spirv_to_nir = \<lambda>ci stage v. Some zero_nir, ms_replace_defs = \<lambda>f nir. nir, ms_replace_bools = \<lambda>f nir. nir,
      ms_normalize_sin_cos = id, ms_optimize_nir = \<lambda>d nir. nir, ms_lower_indirect_derefs = \<lambda>nir. (False, nir),
      ms_lower_vars_to_ssa = id, ms_lower_undef_to_zero = id, ms_peephole_select = id, ms_gather_info = id,
      ms_lower_io = id, ms_scalarize = id, ms_recompute_io_bases = id, ms_lower_gs_intrinsics = \<lambda>fs nir. nir,
      ms_lower_legacy_gs = \<lambda>g p nir. (nir, True), ms_lower_frag_pos = \<lambda>v s nir. nir,
      ms_info_init = \<lambda>s n info. info, ms_info_pass = \<lambda>ci gs stage. rs_info stage,
      ms_info_link = \<lambda>ci gs stages s. zero_info, ms_declare_args = \<lambda>ci gs stage p. zero_args,
      ms_postprocess_nir = \<lambda>ci gs stage. stage, ms_opt_licm = id, ms_ngg_info = \<lambda>ci i j n. (n, 0),
      ms_nir_to_asm = \<lambda>ci stage shaders gs. (Some sample_binary, zero_nir)\<rparr>"

definition sample_env :: compile_env where
  "sample_env = \<lparr>ce_mesa = sample_mesa, ce_pipe_format = \<lambda>n. 0, ce_abi = sample_abi,
     ce_malloc_newcode = \<lambda>n. Some (replicate n 0), ce_malloc_buf = \<lambda>n. Some (replicate n 0),
     ce_malloc_machine_code = \<lambda>n. Some (replicate n 0)\<rparr>"

definition idle_start :: compile_state where
  "idle_start = \<lparr>cs_library = \<lparr>g_init_refcount = 0, g_type_cache = \<lparr>gtc_users = 0, gtc_live = False\<rparr>\<rparr>,
     cs_live = [], cs_stolen = False\<rparr>"

definition sample_vertex_options :: PsbcCompileOptions where
  "sample_vertex_options = zero_options\<lparr>opt_stage := PSBC_STAGE_VERTEX, opt_entrypoint := Some ''main'',
     opt_vertex_attributes := replicate PSBC_MAX_VERTEX_ATTRIBUTES
       \<lparr>va_location = 0, va_binding = 0, va_format = PSBC_VERTEX_FORMAT_NONE, va_offset = 0, va_stride = 0,
        va_alignment = 0, va_instance_divisor = 0\<rparr>,
     opt_descriptor_bindings := replicate PSBC_MAX_DESCRIPTOR_BINDINGS zero_binding\<rparr>"

definition plain_module :: spirv_module where
  "plain_module = (Some [0x07230203, 0x10000, 0, 1, 0], 20)"

text \<open>A module that asks for 8-bit integers, which no option enables here.\<close>

definition int8_module :: spirv_module where
  "int8_module = (Some [0x07230203, 0x10000, 0, 1, 0, 0x20011, 39], 28)"

lemma idle_start: "idle idle_start"
  by (auto simp: idle_def idle_start_def library_inv_def)

lemma sample_safe:
  assumes "unat (opt_vertex_attribute_count opts) \<le> length (opt_vertex_attributes opts)"
  shows "compile_safe sample_env opts"
  using assms
  by (auto simp: compile_safe_def sample_env_def sample_abi_ok malloc_ok_def sample_mesa_def sample_binary_def
      zero_nir_def zero_shader_info_def util_bitcount.simps)

lemma module_checks:
  "validate_spirv_capabilities (fst plain_module) (snd plain_module) opts = PSBC_RESULT_OK"
  "\<not> opt_enable_int8 opts \<Longrightarrow>
     validate_spirv_capabilities (fst int8_module) (snd int8_module) opts = PSBC_RESULT_UNSUPPORTED_CAPABILITY"
  by (simp_all add: validate_spirv_capabilities_def plain_module_def int8_module_def scan_instructions.simps
      capability_enabled_def)

lemma sample_vertex_guards: "compile_guards (with_spirv plain_module no_input) sample_vertex_options = PSBC_RESULT_OK"
proof -
  have "bindings_ok sample_vertex_options"
    by (simp add: bindings_ok_def sample_vertex_options_def zero_options_def)
  moreover have "all_specialization_valid sample_vertex_options" "color_formats_ok sample_vertex_options"
    by (simp_all add: all_specialization_valid_def color_formats_ok_def sample_vertex_options_def zero_options_def
        specialization_parameters_valid_def zero_linked_parameters_def list_all_iff)
  ultimately show ?thesis
    by (simp add: compile_guards_def module_checks inconsistent_capabilities_def pairing_unsupported_def
        paired_previous_def paired_geometry_def Let_def input_defs sample_vertex_options_def zero_options_def)
qed

lemma sample_emits:
  assumes "context_ok ctx" "bc_psbc_stage ctx = PSBC_STAGE_VERTEX"
  shows "\<exists>out st'. emit_output sample_env inp sample_binary ctx st = Go out st'"
proof -
  let ?code = "words_of (binary_code sample_binary)"
  have "length (binary_code sample_binary) = 4"
    by (simp add: binary_code_def slice_at_def sample_binary_def)
  then have "length ?code \<le> 2 ^ 29" by simp
  then obtain bin where "buildshaderbinary sample_abi (\<lambda>n. Some (replicate n 0)) (\<lambda>n. Some (replicate n 0)) ctx ?code =
      Built bin (length bin)"
    using buildshaderbinary_outcome [OF sample_abi_ok assms(1), of ?code "\<lambda>n. Some (replicate n 0)" "\<lambda>n. Some (replicate n 0)"]
      assms(2) by (auto simp: malloc_ok_def)
  then show ?thesis
    by (simp add: emit_output_def sample_env_def Let_def) (simp add: put_at_def binary_code_def slice_at_def sample_binary_def)
qed

lemma sample_compiles:
  "\<exists>out st'. compile_pipeline sample_env (with_spirv plain_module no_input) sample_vertex_options st = Go out st'"
proof -
  let ?inp = "with_spirv plain_module no_input" and ?opts = sample_vertex_options
  have alone: "\<not> paired_previous ?inp" by (simp add: paired_previous_def input_defs)
  have M: "ce_mesa sample_env = sample_mesa" by (simp add: sample_env_def)
  have stage: "psbc_to_mesa_stage (opt_stage ?opts) = MESA_SHADER_VERTEX"
    by (simp add: sample_vertex_options_def)
  have import_ok: "\<exists>pl st'. import_pipeline sample_mesa ci ?inp ?opts MESA_SHADER_VERTEX st = Go pl st'" for ci st
    using alone
    by (simp add: import_pipeline_def import_stage_def import_previous_def import_next_def import_control_def pairing_defs
        prepare_stage_nir_def sample_mesa_def link_fragment_distance_layout_def sample_vertex_options_def zero_options_def
        input_defs Let_def optimise_imported_def)
  have gs: "\<exists>gs. setup_graphics_state pf ?inp ?opts MESA_SHADER_VERTEX nir st = Go gs st" for pf nir st
    by (simp add: setup_graphics_state_def graphics_state_def vertex_attributes_closed samples_ok_def topology_of_def
        sample_vertex_options_def zero_options_def)
  have low: "\<exists>x. lower_pipeline M ci ?inp ?opts MESA_SHADER_VERTEX gs pl st = Go x st" for M ci gs pl st
    by (simp add: lower_pipeline_def lower_legacy_geometry_def split_inputs_def Let_def)
  have snap: "snapshot_semantics ?opts MESA_SHADER_VERTEX s st = Go \<lparr>is_valid = True, is_words = []\<rparr> st" for s st
    by (simp add: snapshot_semantics_def)
  have asm: "compile_shaders sample_mesa ci ?inp ms gs pl st = Go (sample_binary, zero_nir) (own Res_binary st)"
    for ci ms gs pl st
    by (simp add: compile_shaders_def sample_mesa_def)
  have emit: "\<exists>out st'. emit_output sample_env ?inp sample_binary (build_context ?inp ?opts MESA_SHADER_VERTEX pl use
      \<lparr>is_valid = True, is_words = []\<rparr> sample_binary zero_nir) st = Go out st'" for pl use st
  proof (rule sample_emits)
    show "context_ok (build_context ?inp ?opts MESA_SHADER_VERTEX pl use \<lparr>is_valid = True, is_words = []\<rparr> sample_binary zero_nir)"
      using build_context_ok [of "\<lparr>is_valid = True, is_words = []\<rparr>" ?opts zero_nir]
      by (simp add: stage zero_nir_def zero_shader_info_def util_bitcount.simps)
  qed (simp add: build_context_def sample_vertex_options_def split: prod.split)
  obtain pl st1 where 1: "import_pipeline sample_mesa (compile_compiler_info ?opts MESA_SHADER_VERTEX) ?inp ?opts
      MESA_SHADER_VERTEX st = Go pl st1" using import_ok by blast
  obtain gs where 2: "setup_graphics_state (ce_pipe_format sample_env) ?inp ?opts MESA_SHADER_VERTEX
      (rs_nir (pl_stage pl)) st1 = Go gs st1" using gs by blast
  obtain x where 3: "lower_pipeline sample_mesa (compile_compiler_info ?opts MESA_SHADER_VERTEX) ?inp ?opts MESA_SHADER_VERTEX gs
      (start_pipeline sample_mesa ?inp ?opts MESA_SHADER_VERTEX pl) st1 = Go x st1" using low by blast
  show ?thesis
    unfolding compile_pipeline_def Let_def M stage
    by (simp add: 1 2 3 snap asm emit split: prod.split)
qed

lemma sample_succeeds:
  assumes "idle st"
  shows "\<exists>out st'. run_call sample_env (Call_shader plain_module) (Some sample_vertex_options) (Some out0) st =
    Returned PSBC_RESULT_OK (Some out) st'"
proof -
  let ?inp = "with_spirv plain_module no_input"
  obtain out st' where go: "compile_pipeline sample_env ?inp sample_vertex_options (st\<lparr>cs_library := psbc_init (cs_library st)\<rparr>) =
      Go out st'" using sample_compiles by blast
  have "compile_safe sample_env sample_vertex_options"
    by (rule sample_safe) (simp add: sample_vertex_options_def zero_options_def)
  from compile_pipeline_ok [OF assms this sample_vertex_guards]
  have "st' = at_work ?inp (psbc_to_mesa_stage (opt_stage sample_vertex_options)) [Res_code, Res_data, Res_binary] st"
    using go by simp
  with go show ?thesis
    by (simp add: psbc_compile_shader_def psbc_compile_impl_def sample_vertex_guards leave_success [OF assms])
      (simp add: input_defs plain_module_def)
qed

section \<open>Witnesses\<close>



definition sample_hull_options :: PsbcCompileOptions where
  "sample_hull_options = zero_options\<lparr>opt_stage := PSBC_STAGE_TESS_CTRL, opt_target := PSBC_TARGET_PS5,
     opt_patch_control_points := 3\<rparr>"

definition sample_merged_options :: PsbcCompileOptions where
  "sample_merged_options = zero_options\<lparr>opt_stage := PSBC_STAGE_GEOMETRY, opt_target := PSBC_TARGET_PS5,
     opt_ngg := True, opt_patch_control_points := 3\<rparr>"

lemma sample_modules_alike: "read_alike (ce_mesa sample_env) s next_s int8_module plain_module"
  by (auto simp: read_alike_def sample_env_def sample_mesa_def prepare_stage_nir_def Let_def int8_module_def
      plain_module_def link_fragment_distance_layout_def lower_subgroups_def split: option.splits)

theorem linked_modules_validated_witness:
  "psbc_compile_tess_geometry_pipeline sample_env int8_module plain_module plain_module (Some sample_merged_options)
     (Some zero_output) idle_start \<noteq> Returned PSBC_RESULT_OK (Some zero_output) idle_start \<and>
   validate_spirv_capabilities (fst int8_module) (snd int8_module) sample_hull_options = PSBC_RESULT_UNSUPPORTED_CAPABILITY \<and>
   psbc_compile_tess_pipeline sample_env plain_module plain_module int8_module (Some sample_hull_options)
     (Some zero_output) idle_start =
   psbc_compile_tess_pipeline sample_env plain_module plain_module plain_module (Some sample_hull_options)
     (Some zero_output) idle_start"
proof -
  have "validate_spirv_capabilities (fst int8_module) (snd int8_module) opts = PSBC_RESULT_UNSUPPORTED_CAPABILITY"
    if "opts \<in> {sample_hull_options, sample_merged_options}" for opts
    using that by (intro module_checks(2)) (auto simp: sample_hull_options_def sample_merged_options_def zero_options_def)
  then show ?thesis
    using linked_modules_validated [of int8_module plain_module plain_module sample_merged_options sample_env zero_output
        idle_start "Some zero_output" idle_start]
      linked_modules_validated [of plain_module int8_module plain_module sample_hull_options sample_env zero_output
        idle_start "Some zero_output" idle_start plain_module plain_module]
      sample_modules_alike
    by simp
qed

end
