(* ===== verification/Cli_Options.thy ===== *)
theory Cli_Options
  imports C_Text Entry_Points
begin

text \<open>
  The option parser of the command line tool, \<^verbatim>\<open>src/cmd/psbc/main.c\<close>: the tables of names, the handlers of the
  options, and the loop over the arguments, program name included.  An option either takes its value and
  leaves it in place to be looked at again, or takes it out of the list.  The lemmas show that no command line
  makes a counter exceed its array, and that vertex attributes and descriptor bindings written as options
  come back unchanged.
\<close>

section \<open>Definitions\<close>

subsection \<open>Names\<close>

text \<open>The comparisons run in the order of the source and the first one that holds decides.\<close>

definition vertex_format_names :: "(string \<times> PsbcVertexFormat) list" where
  "vertex_format_names =
     [(''r32_float'', PSBC_VERTEX_FORMAT_R32_FLOAT),
      (''r32g32_float'', PSBC_VERTEX_FORMAT_R32G32_FLOAT),
      (''r32g32b32_float'', PSBC_VERTEX_FORMAT_R32G32B32_FLOAT),
      (''r32g32b32a32_float'', PSBC_VERTEX_FORMAT_R32G32B32A32_FLOAT),
      (''b8g8r8a8_unorm'', PSBC_VERTEX_FORMAT_B8G8R8A8_UNORM),
      (''r10g10b10a2_unorm'', PSBC_VERTEX_FORMAT_R10G10B10A2_UNORM),
      (''b10g10r10a2_unorm'', PSBC_VERTEX_FORMAT_B10G10R10A2_UNORM),
      (''r10g10b10a2_snorm'', PSBC_VERTEX_FORMAT_R10G10B10A2_SNORM),
      (''b10g10r10a2_snorm'', PSBC_VERTEX_FORMAT_B10G10R10A2_SNORM),
      (''r10g10b10a2_uscaled'', PSBC_VERTEX_FORMAT_R10G10B10A2_USCALED),
      (''b10g10r10a2_uscaled'', PSBC_VERTEX_FORMAT_B10G10R10A2_USCALED),
      (''r10g10b10a2_sscaled'', PSBC_VERTEX_FORMAT_R10G10B10A2_SSCALED),
      (''b10g10r10a2_sscaled'', PSBC_VERTEX_FORMAT_B10G10R10A2_SSCALED),
      (''r32_sint'', PSBC_VERTEX_FORMAT_R32_SINT),
      (''r32g32_sint'', PSBC_VERTEX_FORMAT_R32G32_SINT),
      (''r32g32b32_sint'', PSBC_VERTEX_FORMAT_R32G32B32_SINT),
      (''r32g32b32a32_sint'', PSBC_VERTEX_FORMAT_R32G32B32A32_SINT),
      (''r32_uint'', PSBC_VERTEX_FORMAT_R32_UINT),
      (''r32g32_uint'', PSBC_VERTEX_FORMAT_R32G32_UINT),
      (''r32g32b32_uint'', PSBC_VERTEX_FORMAT_R32G32B32_UINT),
      (''r32g32b32a32_uint'', PSBC_VERTEX_FORMAT_R32G32B32A32_UINT),
      (''r8_unorm'', PSBC_VERTEX_FORMAT_R8_UNORM),
      (''r8_snorm'', PSBC_VERTEX_FORMAT_R8_SNORM),
      (''r8_uint'', PSBC_VERTEX_FORMAT_R8_UINT),
      (''r8_sint'', PSBC_VERTEX_FORMAT_R8_SINT),
      (''r8g8_unorm'', PSBC_VERTEX_FORMAT_R8G8_UNORM),
      (''r8g8_snorm'', PSBC_VERTEX_FORMAT_R8G8_SNORM),
      (''r8g8_uint'', PSBC_VERTEX_FORMAT_R8G8_UINT),
      (''r8g8_sint'', PSBC_VERTEX_FORMAT_R8G8_SINT),
      (''r8g8b8a8_unorm'', PSBC_VERTEX_FORMAT_R8G8B8A8_UNORM),
      (''r8g8b8a8_snorm'', PSBC_VERTEX_FORMAT_R8G8B8A8_SNORM),
      (''r8g8b8a8_uint'', PSBC_VERTEX_FORMAT_R8G8B8A8_UINT),
      (''r8g8b8a8_sint'', PSBC_VERTEX_FORMAT_R8G8B8A8_SINT),
      (''r16_unorm'', PSBC_VERTEX_FORMAT_R16_UNORM),
      (''r16_snorm'', PSBC_VERTEX_FORMAT_R16_SNORM),
      (''r16_uint'', PSBC_VERTEX_FORMAT_R16_UINT),
      (''r16_sint'', PSBC_VERTEX_FORMAT_R16_SINT),
      (''r16_float'', PSBC_VERTEX_FORMAT_R16_FLOAT),
      (''r16g16_unorm'', PSBC_VERTEX_FORMAT_R16G16_UNORM),
      (''r16g16_snorm'', PSBC_VERTEX_FORMAT_R16G16_SNORM),
      (''r16g16_uint'', PSBC_VERTEX_FORMAT_R16G16_UINT),
      (''r16g16_sint'', PSBC_VERTEX_FORMAT_R16G16_SINT),
      (''r16g16_float'', PSBC_VERTEX_FORMAT_R16G16_FLOAT),
      (''r16g16b16a16_unorm'', PSBC_VERTEX_FORMAT_R16G16B16A16_UNORM),
      (''r16g16b16a16_snorm'', PSBC_VERTEX_FORMAT_R16G16B16A16_SNORM),
      (''r16g16b16a16_uint'', PSBC_VERTEX_FORMAT_R16G16B16A16_UINT),
      (''r16g16b16a16_sint'', PSBC_VERTEX_FORMAT_R16G16B16A16_SINT),
      (''r16g16b16a16_float'', PSBC_VERTEX_FORMAT_R16G16B16A16_FLOAT)]"

definition parse_vertex_format :: "string \<Rightarrow> PsbcVertexFormat" where
  "parse_vertex_format name =
     (case map_of vertex_format_names name of None \<Rightarrow> PSBC_VERTEX_FORMAT_NONE | Some f \<Rightarrow> f)"

definition descriptor_type_names :: "(string \<times> PsbcDescriptorType) list" where
  "descriptor_type_names =
     [(''uniform_buffer'', PSBC_DESCRIPTOR_UNIFORM_BUFFER),
      (''uniform_texel_buffer'', PSBC_DESCRIPTOR_UNIFORM_TEXEL_BUFFER),
      (''combined_image_sampler'', PSBC_DESCRIPTOR_COMBINED_IMAGE_SAMPLER),
      (''storage_buffer'', PSBC_DESCRIPTOR_STORAGE_BUFFER),
      (''sampler'', PSBC_DESCRIPTOR_SAMPLER),
      (''sampled_image'', PSBC_DESCRIPTOR_SAMPLED_IMAGE),
      (''storage_texel_buffer'', PSBC_DESCRIPTOR_STORAGE_TEXEL_BUFFER)]"

definition parse_descriptor_type :: "string \<Rightarrow> PsbcDescriptorType" where
  "parse_descriptor_type name =
     (case map_of descriptor_type_names name of None \<Rightarrow> PSBC_DESCRIPTOR_NONE | Some t \<Rightarrow> t)"

definition primitive_type_names :: "(string \<times> u32) list" where
  "primitive_type_names =
     [(''point-list'', 1), (''line-list'', 2), (''line-strip'', 3), (''triangle-list'', 4), (''triangle-fan'', 5),
      (''triangle-strip'', 6), (''line-list-adjacency'', 10), (''line-strip-adjacency'', 11),
      (''triangle-list-adjacency'', 12), (''triangle-strip-adjacency'', 13)]"

abbreviation (input) UINT32_MAX :: u32 where
  "UINT32_MAX \<equiv> 0xffffffff"

definition parse_primitive_type :: "string \<Rightarrow> u32" where
  "parse_primitive_type name = (case map_of primitive_type_names name of None \<Rightarrow> UINT32_MAX | Some t \<Rightarrow> t)"

subsection \<open>Options\<close>

record CmdOptions =
  co_inputfile :: "string option"
  co_previousfile :: "string option"
  co_outputfile :: "string option"
  co_metadatafile :: "string option"
  co_entrypoint :: string
  co_stage :: PsbcStage
  co_showhelp :: bool
  co_target :: PsbcTarget
  co_optimise :: bool
  co_verbose :: bool
  co_ngg :: bool
  co_ps5_global_streamout :: bool
  co_force_accelerated_dot :: bool
  co_provoking_vtx_last :: bool
  co_raw :: bool
  co_primitive_type :: u32
  co_address32_hi :: u32
  co_vertex_attribute_count :: u32
  co_vertex_attributes :: "PsbcVertexAttribute list"
  co_descriptor_binding_count :: u32
  co_descriptor_bindings :: "PsbcDescriptorBinding list"
  co_parse_error :: bool

definition zero_attribute :: PsbcVertexAttribute where
  "zero_attribute = \<lparr>va_location = 0, va_binding = 0, va_format = PSBC_VERTEX_FORMAT_NONE, va_offset = 0, va_stride = 0,
     va_alignment = 0, va_instance_divisor = 0\<rparr>"

definition initial_options :: CmdOptions where
  "initial_options =
     \<lparr>co_inputfile = None, co_previousfile = None, co_outputfile = None, co_metadatafile = None,
      co_entrypoint = ''main'', co_stage = PSBC_STAGE_NONE, co_showhelp = False, co_target = PSBC_TARGET_PS5,
      co_optimise = True, co_verbose = False, co_ngg = False, co_ps5_global_streamout = False,
      co_force_accelerated_dot = False, co_provoking_vtx_last = False, co_raw = False, co_primitive_type = 0,
      co_address32_hi = 0, co_vertex_attribute_count = 0,
      co_vertex_attributes = replicate PSBC_MAX_VERTEX_ATTRIBUTES zero_attribute, co_descriptor_binding_count = 0,
      co_descriptor_bindings = replicate PSBC_MAX_DESCRIPTOR_BINDINGS zero_binding, co_parse_error = False\<rparr>"

definition set_primitive_type :: "string \<Rightarrow> CmdOptions \<Rightarrow> CmdOptions" where
  "set_primitive_type arg res =
     (let t = parse_primitive_type arg
      in res\<lparr>co_primitive_type := t, co_parse_error := (co_parse_error res \<or> t = UINT32_MAX)\<rparr>)"

definition set_address32_hi :: "string \<Rightarrow> CmdOptions \<Rightarrow> CmdOptions" where
  "set_address32_hi arg res =
     (case strtoul 0 arg of (v, rest) \<Rightarrow>
        if rest \<noteq> [] \<or> v > ucast UINT32_MAX then res\<lparr>co_parse_error := True\<rparr>
        else res\<lparr>co_address32_hi := ucast v\<rparr>)"

definition attribute_directives :: "directive list" where
  "attribute_directives =
     [Scan_u, Scan_char CHR '':'', Scan_name 31, Scan_char CHR '':'', Scan_u, Scan_char CHR '':'', Scan_u,
      Scan_char CHR '':'', Scan_u, Scan_char CHR '':'', Scan_u, Scan_char CHR '':'', Scan_u]"

text \<open>The attribute that six or seven conversions give, with the location and binding as read.\<close>

fun scanned_attribute :: "scanned list \<Rightarrow> (u32 \<times> u32 \<times> PsbcVertexAttribute) option" where
  "scanned_attribute [Read_u l, Read_name f, Read_u b, Read_u off, Read_u str, Read_u al] =
     Some (l, b, \<lparr>va_location = ucast l, va_binding = ucast b, va_format = parse_vertex_format f, va_offset = off,
       va_stride = str, va_alignment = al, va_instance_divisor = 0\<rparr>)"
| "scanned_attribute [Read_u l, Read_name f, Read_u b, Read_u off, Read_u str, Read_u al, Read_u d] =
     Some (l, b, \<lparr>va_location = ucast l, va_binding = ucast b, va_format = parse_vertex_format f, va_offset = off,
       va_stride = str, va_alignment = al, va_instance_divisor = d\<rparr>)"
| "scanned_attribute _ = None"

definition add_vertex_attribute :: "string \<Rightarrow> CmdOptions \<Rightarrow> CmdOptions" where
  "add_vertex_attribute arg res =
     (case scanned_attribute (sscanf attribute_directives arg) of
        None \<Rightarrow> res\<lparr>co_parse_error := True\<rparr>
      | Some (l, b, attribute) \<Rightarrow>
          res\<lparr>co_vertex_attributes := (co_vertex_attributes res)[unat (co_vertex_attribute_count res) := attribute],
              co_vertex_attribute_count := co_vertex_attribute_count res + 1,
              co_parse_error := (co_parse_error res \<or> unat l \<ge> PSBC_MAX_VERTEX_ATTRIBUTES \<or> b \<ge> 32 \<or>
                va_format attribute = PSBC_VERTEX_FORMAT_NONE)\<rparr>)"

definition binding_directives :: "directive list" where
  "binding_directives =
     [Scan_u, Scan_char CHR '':'', Scan_u, Scan_char CHR '':'', Scan_name 31, Scan_char CHR '':'', Scan_u,
      Scan_char CHR '':'', Scan_u, Scan_char CHR '':'', Scan_u]"

fun scanned_binding :: "scanned list \<Rightarrow> (u32 \<times> u32 \<times> PsbcDescriptorBinding) option" where
  "scanned_binding [Read_u s, Read_u b, Read_name t, Read_u n, Read_u off, Read_u str] =
     Some (s, b, \<lparr>db_set = ucast s, db_binding = ucast b, db_type = parse_descriptor_type t, db_array_size = n,
       db_offset = off, db_stride = str\<rparr>)"
| "scanned_binding _ = None"

definition add_descriptor_binding :: "string \<Rightarrow> CmdOptions \<Rightarrow> CmdOptions" where
  "add_descriptor_binding arg res =
     (case scanned_binding (sscanf binding_directives arg) of
        None \<Rightarrow> res\<lparr>co_parse_error := True\<rparr>
      | Some (s, b, descriptor) \<Rightarrow>
          res\<lparr>co_descriptor_bindings :=
                (co_descriptor_bindings res)[unat (co_descriptor_binding_count res) := descriptor],
              co_descriptor_binding_count := co_descriptor_binding_count res + 1,
              co_parse_error := (co_parse_error res \<or> s \<noteq> ucast (db_set descriptor) \<or> b \<noteq> ucast (db_binding descriptor) \<or>
                db_type descriptor = PSBC_DESCRIPTOR_NONE)\<rparr>)"

text \<open>An option whose value stays in the list, and one whose value is taken out of it: the updated options
  and the number of arguments to skip.\<close>

definition peek_value :: "string list \<Rightarrow> (string \<Rightarrow> CmdOptions) \<Rightarrow> CmdOptions \<Rightarrow> nat \<times> CmdOptions" where
  "peek_value rest f res = (0, case rest of [] \<Rightarrow> res | v # _ \<Rightarrow> f v)"

definition take_value :: "string list \<Rightarrow> bool \<Rightarrow> (string \<Rightarrow> CmdOptions) \<Rightarrow> CmdOptions \<Rightarrow> nat \<times> CmdOptions" where
  "take_value rest room f res =
     (case rest of
        [] \<Rightarrow> (0, res\<lparr>co_parse_error := True\<rparr>)
      | v # _ \<Rightarrow> if room then (1, f v) else (0, res\<lparr>co_parse_error := True\<rparr>))"

definition parse_option :: "string \<Rightarrow> string list \<Rightarrow> CmdOptions \<Rightarrow> nat \<times> CmdOptions" where
  "parse_option curarg rest res =
     (if curarg = ''-h'' then (0, res\<lparr>co_showhelp := True\<rparr>)
      else if curarg = ''-f'' then peek_value rest (\<lambda>v. res\<lparr>co_inputfile := Some v\<rparr>) res
      else if curarg = ''-o'' then peek_value rest (\<lambda>v. res\<lparr>co_outputfile := Some v\<rparr>) res
      else if curarg = ''--previous'' then peek_value rest (\<lambda>v. res\<lparr>co_previousfile := Some v\<rparr>) res
      else if curarg = ''--metadata'' then peek_value rest (\<lambda>v. res\<lparr>co_metadatafile := Some v\<rparr>) res
      else if curarg = ''-e'' then peek_value rest (\<lambda>v. res\<lparr>co_entrypoint := v\<rparr>) res
      else if curarg = ''-s'' then peek_value rest (\<lambda>v. res\<lparr>co_stage := psbc_stage_from_name (Some v)\<rparr>) res
      else if curarg = ''-4'' then (0, res\<lparr>co_target := PSBC_TARGET_PS4_BASE\<rparr>)
      else if curarg = ''-n'' then (0, res\<lparr>co_target := PSBC_TARGET_PS4_NEO\<rparr>)
      else if curarg = ''-g'' then (0, res\<lparr>co_target := PSBC_TARGET_PS5\<rparr>)
      else if curarg = ''-Od'' then (0, res\<lparr>co_optimise := False\<rparr>)
      else if curarg = ''-vv'' then (0, res\<lparr>co_verbose := True\<rparr>)
      else if curarg = ''--ngg'' then (0, res\<lparr>co_ngg := True\<rparr>)
      else if curarg = ''--ps5-global-streamout'' then (0, res\<lparr>co_ps5_global_streamout := True\<rparr>)
      else if curarg = ''--force-accelerated-dot'' then (0, res\<lparr>co_force_accelerated_dot := True\<rparr>)
      else if curarg = ''--provoking-vertex-last'' then (0, res\<lparr>co_provoking_vtx_last := True\<rparr>)
      else if curarg = ''--raw'' then (0, res\<lparr>co_raw := True\<rparr>)
      else if curarg = ''--primitive-type'' then take_value rest True (\<lambda>v. set_primitive_type v res) res
      else if curarg = ''--address32-hi''
      then (case rest of [] \<Rightarrow> (0, res) | v # _ \<Rightarrow> (1, set_address32_hi v res))
      else if curarg = ''--vertex-attribute''
      then take_value rest (unat (co_vertex_attribute_count res) < PSBC_MAX_VERTEX_ATTRIBUTES)
             (\<lambda>v. add_vertex_attribute v res) res
      else if curarg = ''--descriptor-binding''
      then take_value rest (unat (co_descriptor_binding_count res) < PSBC_MAX_DESCRIPTOR_BINDINGS)
             (\<lambda>v. add_descriptor_binding v res) res
      else (0, res))"

function parse_args :: "string list \<Rightarrow> CmdOptions \<Rightarrow> CmdOptions" where
  "parse_args [] res = res"
| "parse_args (curarg # rest) res =
     (case parse_option curarg rest res of (n, res') \<Rightarrow> parse_args (drop n rest) res')"
  by pat_completeness auto
termination by (relation "measure (length \<circ> fst)") auto

definition parsecmdoptions :: "string list \<Rightarrow> CmdOptions" where
  "parsecmdoptions argv = parse_args argv initial_options"

section \<open>Bounds\<close>

text \<open>What holds of the options after any number of arguments.\<close>

definition attribute_named :: "PsbcVertexAttribute \<Rightarrow> bool" where
  "attribute_named a \<longleftrightarrow> unat (va_location a) < 32 \<and> unat (va_binding a) < 32 \<and> va_format a \<noteq> PSBC_VERTEX_FORMAT_NONE"

definition options_ok :: "CmdOptions \<Rightarrow> bool" where
  "options_ok res \<longleftrightarrow>
     length (co_vertex_attributes res) = 32 \<and> unat (co_vertex_attribute_count res) \<le> 32 \<and>
     length (co_descriptor_bindings res) = 64 \<and> unat (co_descriptor_binding_count res) \<le> 64 \<and>
     (\<not> co_parse_error res \<longrightarrow>
        (\<forall>i < unat (co_vertex_attribute_count res). attribute_named (co_vertex_attributes res ! i)) \<and>
        (\<forall>i < unat (co_descriptor_binding_count res). db_type (co_descriptor_bindings res ! i) \<noteq> PSBC_DESCRIPTOR_NONE))"

lemma unat_Suc_small: "unat (w :: u32) < 64 \<Longrightarrow> unat (w + 1) = Suc (unat w)"
  by (simp add: unat_add_small)

lemma scanned_attribute_fields:
  "scanned_attribute fs = Some (l, b, a) \<Longrightarrow> va_location a = ucast l \<and> va_binding a = ucast b"
  by (induction fs rule: scanned_attribute.induct) auto

lemma unat_ucast_byte: "unat (w :: u32) < 32 \<Longrightarrow> unat (ucast w :: u8) < 32"
  by (simp add: unat_ucast_small)

lemma add_vertex_attribute_ok:
  assumes "options_ok res" "unat (co_vertex_attribute_count res) < 32"
  shows "options_ok (add_vertex_attribute arg res)"
proof (cases "scanned_attribute (sscanf attribute_directives arg)")
  case (Some x)
  then obtain l b a where x: "scanned_attribute (sscanf attribute_directives arg) = Some (l, b, a)" by (cases x) auto
  have "attribute_named a" if "unat l < 32" "\<not> 32 \<le> b" "va_format a \<noteq> PSBC_VERTEX_FORMAT_NONE"
    using that scanned_attribute_fields [OF x] unat_ucast_byte [of l] unat_ucast_byte [of b]
    by (simp add: attribute_named_def word_le_nat_alt)
  then show ?thesis
    using assms x unat_Suc_small [of "co_vertex_attribute_count res"]
    by (auto simp: add_vertex_attribute_def options_ok_def nth_list_update less_Suc_eq)
qed (use assms in \<open>simp add: add_vertex_attribute_def options_ok_def\<close>)

lemma add_descriptor_binding_ok:
  assumes "options_ok res" "unat (co_descriptor_binding_count res) < 64"
  shows "options_ok (add_descriptor_binding arg res)"
  using assms unat_Suc_small [of "co_descriptor_binding_count res"]
  by (auto simp: add_descriptor_binding_def options_ok_def nth_list_update less_Suc_eq split: option.split)

lemma peek_value_ok:
  "options_ok res \<Longrightarrow> (\<And>v. options_ok (f v)) \<Longrightarrow> options_ok (snd (peek_value rest f res))"
  by (simp add: peek_value_def split: list.split)

lemma take_value_ok:
  "options_ok res \<Longrightarrow> (\<And>v. room \<Longrightarrow> options_ok (f v)) \<Longrightarrow> options_ok (snd (take_value rest room f res))"
  by (simp add: take_value_def options_ok_def split: list.split)

lemma set_value_ok:
  assumes "options_ok res"
  shows "options_ok (set_primitive_type v res)" "options_ok (set_address32_hi v res)"
  using assms by (simp_all add: options_ok_def set_primitive_type_def set_address32_hi_def Let_def split: prod.split)

lemma options_ok_branch:
  "options_ok (snd x) \<Longrightarrow> options_ok (snd y) \<Longrightarrow> options_ok (snd (if c then x else y))"
  by simp

lemma parse_option_ok:
  assumes "options_ok res"
  shows "options_ok (snd (parse_option curarg rest res))"
  unfolding parse_option_def
  by (intro options_ok_branch peek_value_ok take_value_ok assms set_value_ok add_vertex_attribute_ok add_descriptor_binding_ok)
    (use assms set_value_ok in \<open>simp_all add: options_ok_def split: list.split\<close>)

lemma parse_args_ok: "options_ok res \<Longrightarrow> options_ok (parse_args args res)"
proof (induction args res rule: parse_args.induct)
  case (2 curarg rest res)
  then show ?case using parse_option_ok [OF "2.prems", of curarg rest] by (auto split: prod.split)
qed simp

lemma parsecmdoptions_ok: "options_ok (parsecmdoptions argv)"
  unfolding parsecmdoptions_def by (rule parse_args_ok) (simp add: options_ok_def initial_options_def)

section \<open>Round trip\<close>

definition format_name :: "PsbcVertexFormat \<Rightarrow> string" where
  "format_name f = the (map_of (map (\<lambda>(n, g). (g, n)) vertex_format_names) f)"

definition type_name :: "PsbcDescriptorType \<Rightarrow> string" where
  "type_name t = the (map_of (map (\<lambda>(n, g). (g, n)) descriptor_type_names) t)"

text \<open>A name that the directive \<^verbatim>\<open>%31[^:]\<close> reads whole.\<close>

definition scannable :: "string \<Rightarrow> bool" where
  "scannable name \<longleftrightarrow> name \<noteq> [] \<and> length name \<le> 31 \<and> list_all (\<lambda>c. c \<noteq> CHR '':'') name"

text \<open>A table without repeated names can be read in both directions.\<close>

lemma table_round_trip:
  assumes "distinct (map fst table)" "list_all (scannable \<circ> fst) table" "v \<in> snd ` set table"
  shows "map_of table (the (map_of (map (\<lambda>(n, g). (g, n)) table) v)) = Some v \<and>
     scannable (the (map_of (map (\<lambda>(n, g). (g, n)) table) v))"
proof -
  obtain n where "(v, n) \<in> set (map (\<lambda>(n, g). (g, n)) table)" using assms(3) by force
  then obtain n' where n': "map_of (map (\<lambda>(n, g). (g, n)) table) v = Some n'"
    by (metis map_of_eq_None_iff fst_conv imageI option.exhaust)
  then have "(n', v) \<in> set table" using map_of_SomeD [OF n'] by auto
  then show ?thesis using assms(1,2) n' by (auto simp: list_all_iff)
qed

lemma format_table:
  "distinct (map fst vertex_format_names)" "list_all (scannable \<circ> fst) vertex_format_names"
  unfolding vertex_format_names_def scannable_def by code_simp+

lemma type_table:
  "distinct (map fst descriptor_type_names)" "list_all (scannable \<circ> fst) descriptor_type_names"
  unfolding descriptor_type_names_def scannable_def by code_simp+

lemma format_names:
  assumes "f \<noteq> PSBC_VERTEX_FORMAT_NONE"
  shows "parse_vertex_format (format_name f) = f \<and> scannable (format_name f)"
proof -
  have "f \<in> set (map snd vertex_format_names)"
    unfolding vertex_format_names_def list.map snd_conv using assms by (cases f) simp_all
  then have "f \<in> snd ` set vertex_format_names" by simp
  from table_round_trip [OF format_table this] show ?thesis
    by (simp add: format_name_def parse_vertex_format_def)
qed

lemma type_names:
  assumes "t \<in> snd ` set descriptor_type_names"
  shows "parse_descriptor_type (type_name t) = t \<and> scannable (type_name t)"
  using table_round_trip [OF type_table assms] by (simp add: type_name_def parse_descriptor_type_def)

text \<open>The options as a user writes them, the divisor included.\<close>

definition attribute_text :: "PsbcVertexAttribute \<Rightarrow> string" where
  "attribute_text a =
     print_u (va_location a) @ CHR '':'' # format_name (va_format a) @ CHR '':'' # print_u (va_binding a) @ CHR '':'' #
     print_u (va_offset a) @ CHR '':'' # print_u (va_stride a) @ CHR '':'' # print_u (va_alignment a) @ CHR '':'' #
     print_u (va_instance_divisor a)"

definition binding_text :: "PsbcDescriptorBinding \<Rightarrow> string" where
  "binding_text d =
     print_u (db_set d) @ CHR '':'' # print_u (db_binding d) @ CHR '':'' # type_name (db_type d) @ CHR '':'' #
     print_u (db_array_size d) @ CHR '':'' # print_u (db_offset d) @ CHR '':'' # print_u (db_stride d)"

lemma no_digit_first_colon [simp]: "no_digit_first (CHR '':'' # s)" "no_digit_first []"
  by (simp_all add: no_digit_first_def is_digit_of_def digit_value_def)

lemma print_u_ucast: "print_u (w :: u8) = print_u (ucast w :: u32)"
  by (simp add: print_u_def unat_ucast_wider)

lemma sscanf_u [simp]:
  "no_digit_first rest \<Longrightarrow> sscanf (Scan_u # ds) (print_u (w :: u32) @ rest) = Read_u w # sscanf ds rest"
  by (simp add: print_u_def scan_u_print)

lemma sscanf_u_end [simp]: "sscanf [Scan_u] (print_u (w :: u32)) = [Read_u w]"
  using sscanf_u [of "[]" "[]" w] by simp

lemma sscanf_name:
  assumes "scannable name"
  shows "sscanf (Scan_name 31 # ds) (name @ CHR '':'' # rest) = Read_name name # sscanf ds (CHR '':'' # rest)"
proof -
  have "\<forall>c\<in>set name. c \<noteq> CHR '':''" using assms by (simp add: scannable_def list_all_iff)
  then have "takeWhile (\<lambda>c. c \<noteq> CHR '':'') (take 31 (name @ CHR '':'' # rest)) = name"
    using assms by (cases "length name = 31") (auto simp: scannable_def take_Cons' takeWhile_eq_all_conv)
  then show ?thesis using assms by (simp add: scannable_def)
qed

declare sscanf.simps(2,3) [simp del]

lemma ucast_back [simp]: "ucast (ucast (w :: u8) :: u32) = w"
  by (rule bit_word_eqI) (simp add: bit_ucast_iff)

lemma scanned_attribute_text:
  assumes "attribute_named a"
  shows "scanned_attribute (sscanf attribute_directives (attribute_text a)) =
     Some (ucast (va_location a), ucast (va_binding a), a)"
  using assms format_names [of "va_format a"]
  by (simp add: attribute_named_def attribute_text_def attribute_directives_def print_u_ucast sscanf_name)

lemma scanned_binding_text:
  assumes "db_type d \<in> snd ` set descriptor_type_names"
  shows "scanned_binding (sscanf binding_directives (binding_text d)) =
     Some (ucast (db_set d), ucast (db_binding d), d)"
  using type_names [OF assms]
  by (simp add: binding_text_def binding_directives_def print_u_ucast sscanf_name)

definition record_attribute :: "PsbcVertexAttribute \<Rightarrow> CmdOptions \<Rightarrow> CmdOptions" where
  "record_attribute a res =
     res\<lparr>co_vertex_attributes := (co_vertex_attributes res)[unat (co_vertex_attribute_count res) := a],
         co_vertex_attribute_count := co_vertex_attribute_count res + 1\<rparr>"

definition record_binding :: "PsbcDescriptorBinding \<Rightarrow> CmdOptions \<Rightarrow> CmdOptions" where
  "record_binding d res =
     res\<lparr>co_descriptor_bindings := (co_descriptor_bindings res)[unat (co_descriptor_binding_count res) := d],
         co_descriptor_binding_count := co_descriptor_binding_count res + 1\<rparr>"

lemma parse_attribute:
  assumes "attribute_named a" "unat (co_vertex_attribute_count res) < 32"
  shows "parse_args (''--vertex-attribute'' # attribute_text a # rest) res = parse_args rest (record_attribute a res)"
proof -
  have "unat (ucast (va_location a) :: u32) < 32" "\<not> (32 :: u32) \<le> ucast (va_binding a)"
    "va_format a \<noteq> PSBC_VERTEX_FORMAT_NONE"
    using assms(1) by (simp_all add: attribute_named_def word_le_nat_alt unat_ucast_wider)
  then have "add_vertex_attribute (attribute_text a) res = record_attribute a res"
    by (simp add: add_vertex_attribute_def scanned_attribute_text [OF assms(1)] record_attribute_def)
  then show ?thesis using assms(2) by (simp add: parse_option_def take_value_def)
qed

lemma parse_binding:
  assumes "db_type d \<in> snd ` set descriptor_type_names" "unat (co_descriptor_binding_count res) < 64"
  shows "parse_args (''--descriptor-binding'' # binding_text d # rest) res = parse_args rest (record_binding d res)"
proof -
  have "db_type d \<noteq> PSBC_DESCRIPTOR_NONE" using assms(1) by (auto simp: descriptor_type_names_def)
  then have "add_descriptor_binding (binding_text d) res = record_binding d res"
    by (simp add: add_descriptor_binding_def scanned_binding_text [OF assms(1)] record_binding_def)
  then show ?thesis using assms(2) by (simp add: parse_option_def take_value_def)
qed

lemma record_attributes:
  assumes "list_all attribute_named as" "length (co_vertex_attributes res) = 32"
    "unat (co_vertex_attribute_count res) + length as \<le> 32"
  defines "n \<equiv> unat (co_vertex_attribute_count res)"
    and "res' \<equiv> fold record_attribute as res"
  shows "parse_args (concat (map (\<lambda>a. [''--vertex-attribute'', attribute_text a]) as) @ rest) res = parse_args rest res' \<and>
     unat (co_vertex_attribute_count res') = n + length as \<and> length (co_vertex_attributes res') = 32 \<and>
     take (n + length as) (co_vertex_attributes res') = take n (co_vertex_attributes res) @ as \<and>
     co_descriptor_bindings res' = co_descriptor_bindings res \<and>
     co_descriptor_binding_count res' = co_descriptor_binding_count res \<and> co_parse_error res' = co_parse_error res"
  using assms(1-3) unfolding n_def res'_def
proof (induction as arbitrary: res)
  case (Cons a as)
  let ?n = "unat (co_vertex_attribute_count res)"
  have n: "unat (co_vertex_attribute_count (record_attribute a res)) = Suc ?n"
    using Cons.prems unat_Suc_small [of "co_vertex_attribute_count res"] by (simp add: record_attribute_def)
  have "take (Suc ?n) (co_vertex_attributes (record_attribute a res)) = take ?n (co_vertex_attributes res) @ [a]"
    using Cons.prems by (simp add: record_attribute_def take_Suc_conv_app_nth)
  then show ?case
    using Cons.prems Cons.IH [of "record_attribute a res"] n parse_attribute [of a res]
    by (simp add: record_attribute_def)
qed simp

lemma record_bindings:
  assumes "\<forall>d\<in>set ds. db_type d \<in> snd ` set descriptor_type_names" "length (co_descriptor_bindings res) = 64"
    "unat (co_descriptor_binding_count res) + length ds \<le> 64"
  defines "n \<equiv> unat (co_descriptor_binding_count res)"
    and "res' \<equiv> fold record_binding ds res"
  shows "parse_args (concat (map (\<lambda>d. [''--descriptor-binding'', binding_text d]) ds) @ rest) res = parse_args rest res' \<and>
     unat (co_descriptor_binding_count res') = n + length ds \<and> length (co_descriptor_bindings res') = 64 \<and>
     take (n + length ds) (co_descriptor_bindings res') = take n (co_descriptor_bindings res) @ ds \<and>
     co_vertex_attributes res' = co_vertex_attributes res \<and>
     co_vertex_attribute_count res' = co_vertex_attribute_count res \<and> co_parse_error res' = co_parse_error res"
  using assms(1-3) unfolding n_def res'_def
proof (induction ds arbitrary: res)
  case (Cons d ds)
  let ?n = "unat (co_descriptor_binding_count res)"
  have n: "unat (co_descriptor_binding_count (record_binding d res)) = Suc ?n"
    using Cons.prems unat_Suc_small [of "co_descriptor_binding_count res"] by (simp add: record_binding_def)
  have "take (Suc ?n) (co_descriptor_bindings (record_binding d res)) = take ?n (co_descriptor_bindings res) @ [d]"
    using Cons.prems by (simp add: record_binding_def take_Suc_conv_app_nth)
  then show ?case
    using Cons.prems Cons.IH [of "record_binding d res"] n parse_binding [of d res]
    by (simp add: record_binding_def)
qed simp

text \<open>C18. Vertex attributes and descriptor bindings survive the command line. Any attributes with a location and
  binding below 32 and a format, at most 32 of them, and any bindings of a type that has a name, at most
  64, written as options in this order, are parsed without an error into exactly these attributes
  and bindings.\<close>
theorem options_round_trip:
  assumes "list_all attribute_named as" "length as \<le> 32"
    and "\<forall>d\<in>set ds. db_type d \<in> snd ` set descriptor_type_names" "length ds \<le> 64"
  defines "res \<equiv> parsecmdoptions (''psbc'' # concat (map (\<lambda>a. [''--vertex-attribute'', attribute_text a]) as) @
                   concat (map (\<lambda>d. [''--descriptor-binding'', binding_text d]) ds))"
  shows "\<not> co_parse_error res \<and>
     take (unat (co_vertex_attribute_count res)) (co_vertex_attributes res) = as \<and>
     take (unat (co_descriptor_binding_count res)) (co_descriptor_bindings res) = ds"
proof -
  let ?args = "concat (map (\<lambda>d. [''--descriptor-binding'', binding_text d]) ds)"
  let ?mid = "fold record_attribute as initial_options"
  have start: "length (co_vertex_attributes initial_options) = 32" "co_vertex_attribute_count initial_options = 0"
    "length (co_descriptor_bindings initial_options) = 64" "co_descriptor_binding_count initial_options = 0"
    "\<not> co_parse_error initial_options"
    by (simp_all add: initial_options_def)
  have "parse_option ''psbc'' rest initial_options = (0, initial_options)" for rest
    by (simp add: parse_option_def)
  then have "res = parse_args (concat (map (\<lambda>a. [''--vertex-attribute'', attribute_text a]) as) @ ?args) initial_options"
    by (simp add: res_def parsecmdoptions_def)
  moreover note record_attributes [OF assms(1), of initial_options ?args] start assms(2)
  moreover note record_bindings [OF assms(3), of ?mid "[]"] assms(4)
  ultimately show ?thesis by simp
qed

definition sample_attribute :: PsbcVertexAttribute where
  "sample_attribute = \<lparr>va_location = 3, va_binding = 1, va_format = PSBC_VERTEX_FORMAT_R32G32_FLOAT, va_offset = 8,
     va_stride = 16, va_alignment = 4, va_instance_divisor = 0\<rparr>"

definition sample_descriptor :: PsbcDescriptorBinding where
  "sample_descriptor = \<lparr>db_set = 0, db_binding = 2, db_type = PSBC_DESCRIPTOR_UNIFORM_BUFFER, db_array_size = 1,
     db_offset = 64, db_stride = 16\<rparr>"

lemma sample_texts:
  "attribute_text sample_attribute = ''3:r32g32_float:1:8:16:4:0''"
  "binding_text sample_descriptor = ''0:2:uniform_buffer:1:64:16''"
  by (simp_all add: attribute_text_def binding_text_def sample_attribute_def sample_descriptor_def print_u_def
      dec_string.simps format_name_def type_name_def vertex_format_names_def descriptor_type_names_def char_of_eq_iff
      take_bit_eq_mod)

theorem options_round_trip_witness:
  "let res = parsecmdoptions [''psbc'', ''--vertex-attribute'', ''3:r32g32_float:1:8:16:4:0'',
       ''--descriptor-binding'', ''0:2:uniform_buffer:1:64:16'']
   in \<not> co_parse_error res \<and>
      take (unat (co_vertex_attribute_count res)) (co_vertex_attributes res) = [sample_attribute] \<and>
      take (unat (co_descriptor_binding_count res)) (co_descriptor_bindings res) = [sample_descriptor]"
proof -
  have named: "list_all attribute_named [sample_attribute]"
    by (simp add: attribute_named_def sample_attribute_def)
  have type: "\<forall>d\<in>set [sample_descriptor]. db_type d \<in> snd ` set descriptor_type_names"
    by (simp add: sample_descriptor_def descriptor_type_names_def)
  show ?thesis
    using options_round_trip [OF named _ type] by (simp add: sample_texts Let_def)
qed

section \<open>Values that stay in the list\<close>

text \<open>The value of these options is looked at again as an option of its own.\<close>

lemma peeked_value_parsed_again:
  "parse_args (''-e'' # v # rest) res = parse_args (v # rest) (res\<lparr>co_entrypoint := v\<rparr>)"
  "parse_args (''-f'' # v # rest) res = parse_args (v # rest) (res\<lparr>co_inputfile := Some v\<rparr>)"
  "parse_args (''-o'' # v # rest) res = parse_args (v # rest) (res\<lparr>co_outputfile := Some v\<rparr>)"
  by (simp_all add: parse_option_def peek_value_def)

text \<open>An empty value is a number to \<^verbatim>\<open>--address32-hi\<close>.\<close>

lemma empty_address_accepted: "set_address32_hi [] res = res\<lparr>co_address32_hi := 0\<rparr>"
  by (simp add: set_address32_hi_def strtoul_def strip_sign_def strip_base_def)

end
