(* ===== verification/Cli_Json.thy ===== *)
theory Cli_Json
  imports C_Text Psbc_Types
begin

text \<open>
  The metadata file of the command line tool: \<^verbatim>\<open>write_registers\<close>, \<^verbatim>\<open>write_semantics\<close> and the text that \<^verbatim>\<open>write_metadata\<close> of
  \<^verbatim>\<open>src/cmd/psbc/main.c\<close> prints, and a reader for JSON texts with numbers, keys without escapes, arrays and
  objects.  The lemmas show that the reader takes every text built by the printing functions apart into
  the values it was built from, and so that a consumer of the file finds every field of the metadata.
\<close>

section \<open>Definitions\<close>

subsection \<open>Enumerations as numbers\<close>

primrec target_value :: "PsbcTarget \<Rightarrow> nat" where
  "target_value PSBC_TARGET_PS4_BASE = 0" | "target_value PSBC_TARGET_PS4_NEO = 1" | "target_value PSBC_TARGET_PS5 = 2"

primrec stage_value :: "PsbcStage \<Rightarrow> nat" where
  "stage_value PSBC_STAGE_NONE = 0" | "stage_value PSBC_STAGE_VERTEX = 1" | "stage_value PSBC_STAGE_TESS_CTRL = 2"
| "stage_value PSBC_STAGE_TESS_EVAL = 3" | "stage_value PSBC_STAGE_GEOMETRY = 4" | "stage_value PSBC_STAGE_FRAGMENT = 5"
| "stage_value PSBC_STAGE_COMPUTE = 6" | "stage_value PSBC_STAGE_TASK = 7" | "stage_value PSBC_STAGE_EXPORT = 8"
| "stage_value PSBC_STAGE_LOCAL = 9"

primrec hardware_stage_value :: "PsbcHardwareStage \<Rightarrow> nat" where
  "hardware_stage_value PSBC_HW_STAGE_UNKNOWN = 0" | "hardware_stage_value PSBC_HW_STAGE_VERTEX = 1"
| "hardware_stage_value PSBC_HW_STAGE_PIXEL = 2" | "hardware_stage_value PSBC_HW_STAGE_NGG = 3"
| "hardware_stage_value PSBC_HW_STAGE_HULL = 4"

primrec descriptor_type_value :: "PsbcDescriptorType \<Rightarrow> nat" where
  "descriptor_type_value PSBC_DESCRIPTOR_NONE = 0" | "descriptor_type_value PSBC_DESCRIPTOR_UNIFORM_BUFFER = 1"
| "descriptor_type_value PSBC_DESCRIPTOR_UNIFORM_TEXEL_BUFFER = 2"
| "descriptor_type_value PSBC_DESCRIPTOR_COMBINED_IMAGE_SAMPLER = 3"
| "descriptor_type_value PSBC_DESCRIPTOR_STORAGE_BUFFER = 4" | "descriptor_type_value PSBC_DESCRIPTOR_INPUT_ATTACHMENT = 5"
| "descriptor_type_value PSBC_DESCRIPTOR_STORAGE_IMAGE = 6" | "descriptor_type_value PSBC_DESCRIPTOR_SAMPLER = 7"
| "descriptor_type_value PSBC_DESCRIPTOR_SAMPLED_IMAGE = 8"
| "descriptor_type_value PSBC_DESCRIPTOR_STORAGE_TEXEL_BUFFER = 9"

subsection \<open>Text\<close>

abbreviation newline :: string where
  "newline \<equiv> [CHR 0x0A]"

abbreviation double_quote :: char where
  "double_quote \<equiv> CHR 0x22"

text \<open>The loops that print a separator before every element but the first.\<close>

fun separated :: "string \<Rightarrow> string list \<Rightarrow> string" where
  "separated sep [] = []"
| "separated sep [t] = t"
| "separated sep (t # ts) = t @ sep @ separated sep ts"

text \<open>A key and the printed value, an object and an array.  The first text follows the opening bracket, the second
  one every comma, the third one precedes the closing bracket.\<close>

definition member_text :: "string \<times> string \<Rightarrow> string" where
  "member_text m = double_quote # fst m @ double_quote # '': '' @ snd m"

definition object_text :: "string \<Rightarrow> string \<Rightarrow> string \<Rightarrow> (string \<times> string) list \<Rightarrow> string" where
  "object_text w1 w2 w3 ms = ''{'' @ w1 @ separated ('','' @ w2) (map member_text ms) @ w3 @ ''}''"

definition array_text :: "string \<Rightarrow> string \<Rightarrow> string \<Rightarrow> string list \<Rightarrow> string" where
  "array_text w1 w2 w3 ts = ''['' @ w1 @ separated ('','' @ w2) ts @ w3 @ '']''"

definition bool_text :: "bool \<Rightarrow> string" where
  "bool_text b = (if b then ''true'' else ''false'')"

definition optional_u :: "bool \<Rightarrow> u32 \<Rightarrow> string" where
  "optional_u valid v = (if valid then print_u v else ''null'')"

definition register_text :: "PsbcRegisterWrite \<Rightarrow> string" where
  "register_text r = object_text '''' '' '' '''' [(''offset'', print_u (rw_offset r)), (''value'', print_u (rw_value r))]"

definition write_registers :: "PsbcRegisterWrite list \<Rightarrow> string" where
  "write_registers rs = separated ('','' @ newline) (map (\<lambda>r. ''    '' @ register_text r) rs)"

definition write_semantics :: "u32 list \<Rightarrow> string" where
  "write_semantics ws = separated ('','' @ newline) (map (\<lambda>w. ''    '' @ print_u w) ws)"

definition linkage_text :: "PsbcShaderMetadata \<Rightarrow> string" where
  "linkage_text md =
     (if md_linkage_valid md
      then object_text (newline @ ''    '') (newline @ ''    '') (newline @ ''  '')
             [(''ge_cntl'', register_text (md_linkage_ge_cntl md)),
              (''stages_en'', register_text (md_linkage_stages_en md)),
              (''user_vgpr_en'', register_text (md_linkage_user_vgpr_en md))]
      else ''null'')"

definition descriptor_sets_text :: "PsbcShaderMetadata \<Rightarrow> string" where
  "descriptor_sets_text md =
     array_text '''' '' '' ''''
       (map (\<lambda>s. optional_u (md_descriptor_set_valid md ! s) (md_descriptor_set_user_data_dword md ! s))
          [0..<PSBC_MAX_DESCRIPTOR_SETS])"

definition lds_layout_text :: "PsbcShaderMetadata \<Rightarrow> string" where
  "lds_layout_text md =
     (if md_ngg_lds_layout_valid md
      then object_text '''' '' '' ''''
             [(''user_data_dword'', print_u (md_ngg_lds_layout_user_data_dword md)),
              (''value'', print_u (md_ngg_lds_layout md))]
      else ''null'')"

definition streamout_text :: "PsbcShaderMetadata \<Rightarrow> string" where
  "streamout_text md =
     (if md_streamout_valid md
      then object_text (newline @ ''    '') (newline @ ''    '') (newline @ ''  '')
             [(''buffer_table_user_data_dword'', print_u (md_streamout_buffer_table_user_data_dword md)),
              (''enabled_stream_buffers_mask'', print_u (md_streamout_enabled_stream_buffers_mask md)),
              (''strides_dwords'', array_text '''' '' '' ''''
                 (map (\<lambda>i. print_u (md_streamout_strides_dwords md ! i)) [0..<4])),
              (''config_sgpr'', print_u (md_streamout_config_sgpr md)),
              (''write_index_sgpr'', print_u (md_streamout_write_index_sgpr md)),
              (''offset_sgprs'', array_text '''' '' '' ''''
                 (map (\<lambda>i. optional_u (md_streamout_strides_dwords md ! i \<noteq> 0) (md_streamout_offset_sgprs md ! i)) [0..<4]))]
      else ''null'')"

definition binding_json :: "PsbcDescriptorBinding \<Rightarrow> string" where
  "binding_json b =
     object_text '''' '' '' ''''
       [(''set'', print_u (db_set b)), (''binding'', print_u (db_binding b)),
        (''type'', dec_string (descriptor_type_value (db_type b))), (''array_size'', print_u (db_array_size b)),
        (''offset'', print_u (db_offset b)), (''stride'', print_u (db_stride b))]"

definition write_bindings :: "PsbcShaderMetadata \<Rightarrow> string" where
  "write_bindings md = separated ('','' @ newline)
     (map (\<lambda>i. ''    '' @ binding_json (md_descriptor_bindings md ! i)) [0..<unat (md_descriptor_binding_count md)])"

text \<open>The arrays that start on a line of their own.\<close>

definition block_array :: "string \<Rightarrow> string" where
  "block_array body = ''['' @ newline @ body @ newline @ ''  ]''"

text \<open>The fields in the order of the file.\<close>

definition metadata_members :: "PsbcShaderOutput \<Rightarrow> (string \<times> string) list" where
  "metadata_members output =
     (let md = out_metadata output in
      [(''version'', print_u (md_version md)),
       (''target'', dec_string (target_value (md_target md))),
       (''source_stage'', dec_string (stage_value (md_source_stage md))),
       (''hardware_stage'', dec_string (hardware_stage_value (md_hardware_stage md))),
       (''machine_code_size'', dec_string (out_machine_code_size output)),
       (''unresolved_fields'', print_u (md_unresolved_fields md)),
       (''linkage'', linkage_text md),
       (''context_registers'', block_array (write_registers (md_context_registers md))),
       (''shader_registers'', block_array (write_registers (md_shader_registers md))),
       (''input_semantics'', block_array (write_semantics (md_input_semantics md))),
       (''output_semantics'', block_array (write_semantics (md_output_semantics md))),
       (''address32_hi'', print_u (md_address32_hi md)),
       (''user_sgpr_count'', print_u (md_user_sgpr_count md)),
       (''vertex_buffer_table_user_data_dword'',
          optional_u (md_vertex_buffer_table_valid md) (md_vertex_buffer_table_user_data_dword md)),
       (''vertex_buffer_usage_mask'', print_u (md_vertex_buffer_usage_mask md)),
       (''vertex_buffer_per_attribute'', bool_text (md_vertex_buffer_per_attribute md)),
       (''descriptor_set0_user_data_dword'',
          optional_u (md_descriptor_set0_valid md) (md_descriptor_set0_user_data_dword md)),
       (''descriptor_set_user_data_dwords'', descriptor_sets_text md),
       (''base_vertex_user_data_dword'', optional_u (md_base_vertex_valid md) (md_base_vertex_user_data_dword md)),
       (''draw_id_user_data_dword'', optional_u (md_draw_id_valid md) (md_draw_id_user_data_dword md)),
       (''view_index_user_data_dword'', optional_u (md_view_index_valid md) (md_view_index_user_data_dword md)),
       (''start_instance_user_data_dword'',
          optional_u (md_start_instance_valid md) (md_start_instance_user_data_dword md)),
       (''ngg_lds_layout'', lds_layout_text md),
       (''streamout'', streamout_text md),
       (''descriptor_bindings'', block_array (write_bindings md))])"

definition metadata_text :: "PsbcShaderOutput \<Rightarrow> string" where
  "metadata_text output =
     object_text (newline @ ''  '') (newline @ ''  '') newline (metadata_members output) @ newline"

section \<open>A JSON reader\<close>

datatype json = J_null | J_bool bool | J_num nat | J_array "json list" | J_object "(string \<times> json) list"

definition is_json_space :: "char \<Rightarrow> bool" where
  "is_json_space c \<longleftrightarrow> c = CHR '' '' \<or> c = CHR 0x0A \<or> c = CHR 0x0D \<or> c = CHR 0x09"

abbreviation skip_ws :: "string \<Rightarrow> string" where
  "skip_ws \<equiv> dropWhile is_json_space"

text \<open>The words of the grammar.\<close>

definition read_word :: "string \<Rightarrow> (json \<times> string) option" where
  "read_word s =
     (if take 4 s = ''null'' then Some (J_null, drop 4 s)
      else if take 4 s = ''true'' then Some (J_bool True, drop 4 s)
      else if take 5 s = ''false'' then Some (J_bool False, drop 5 s) else None)"

text \<open>A key with its colon.\<close>

definition read_key :: "string \<Rightarrow> (string \<times> string) option" where
  "read_key s =
     (case skip_ws s of
        [] \<Rightarrow> None
      | c # t \<Rightarrow>
          if c \<noteq> double_quote then None
          else (let k = takeWhile (\<lambda>x. x \<noteq> double_quote) t
                in case skip_ws (drop (Suc (length k)) t) of
                     [] \<Rightarrow> None
                   | d # u \<Rightarrow> if d = CHR '':'' \<and> length k < length t \<and> CHR 0x5C \<notin> set k then Some (k, u) else None))"

text \<open>The fuel bounds the depth of the recursion; the length of the text is enough.\<close>

fun read_value :: "nat \<Rightarrow> string \<Rightarrow> (json \<times> string) option"
  and read_elements :: "nat \<Rightarrow> string \<Rightarrow> (json list \<times> string) option"
  and read_members :: "nat \<Rightarrow> string \<Rightarrow> ((string \<times> json) list \<times> string) option" where
  "read_value 0 s = None"
| "read_value (Suc n) s =
     (case skip_ws s of
        [] \<Rightarrow> None
      | c # cs \<Rightarrow>
          if c = CHR ''{''
          then map_option (\<lambda>(ms, r). (J_object ms, r))
                 (if skip_ws cs \<noteq> [] \<and> hd (skip_ws cs) = CHR ''}'' then Some ([], tl (skip_ws cs)) else read_members n cs)
          else if c = CHR ''[''
          then map_option (\<lambda>(vs, r). (J_array vs, r))
                 (if skip_ws cs \<noteq> [] \<and> hd (skip_ws cs) = CHR '']'' then Some ([], tl (skip_ws cs)) else read_elements n cs)
          else if is_digit c
          then Some (J_num (digits_value 10 (takeWhile is_digit (c # cs))), dropWhile is_digit (c # cs))
          else read_word (c # cs))"
| "read_elements 0 s = None"
| "read_elements (Suc n) s =
     (case read_value n s of
        None \<Rightarrow> None
      | Some (v, r) \<Rightarrow>
          (case skip_ws r of
             [] \<Rightarrow> None
           | c # cs \<Rightarrow>
               if c = CHR '','' then map_option (\<lambda>(vs, q). (v # vs, q)) (read_elements n cs)
               else if c = CHR '']'' then Some ([v], cs) else None))"
| "read_members 0 s = None"
| "read_members (Suc n) s =
     (case read_key s of
        None \<Rightarrow> None
      | Some (k, u) \<Rightarrow>
          (case read_value n u of
             None \<Rightarrow> None
           | Some (v, r) \<Rightarrow>
               (case skip_ws r of
                  [] \<Rightarrow> None
                | c # cs \<Rightarrow>
                    if c = CHR '','' then map_option (\<lambda>(ms, q). ((k, v) # ms, q)) (read_members n cs)
                    else if c = CHR ''}'' then Some ([(k, v)], cs) else None)))"

definition read_json :: "string \<Rightarrow> json option" where
  "read_json s =
     (case read_value (length s) s of
        None \<Rightarrow> None
      | Some (v, r) \<Rightarrow> if skip_ws r = [] then Some v else None)"

section \<open>Printed texts are read back\<close>

definition is_blank :: "string \<Rightarrow> bool" where
  "is_blank w \<longleftrightarrow> list_all is_json_space w"

text \<open>A text that the reader takes for the value, whatever follows it.\<close>

definition reads :: "json \<Rightarrow> string \<Rightarrow> bool" where
  "reads v s \<longleftrightarrow> (\<forall>rest n. no_digit_first rest \<longrightarrow> length s \<le> n \<longrightarrow> read_value n (s @ rest) = Some (v, rest))"

lemma readsD: "reads v s \<Longrightarrow> no_digit_first rest \<Longrightarrow> length s \<le> n \<Longrightarrow> read_value n (s @ rest) = Some (v, rest)"
  by (simp add: reads_def)

lemma reads_not_empty: "reads v s \<Longrightarrow> s \<noteq> []"
  using readsD [of v s "[]" 0] by (auto simp: no_digit_first_def)

lemma skip_blank [simp]: "is_blank w \<Longrightarrow> skip_ws (w @ s) = skip_ws s"
  by (induction w) (simp_all add: is_blank_def)

lemma space_cases [simp]:
  "is_json_space CHR '' ''" "is_json_space CHR 0x0A" "\<not> is_json_space CHR ''{''" "\<not> is_json_space CHR ''}''"
  "\<not> is_json_space CHR ''[''" "\<not> is_json_space CHR '']''" "\<not> is_json_space CHR '',''" "\<not> is_json_space CHR '':''"
  "\<not> is_json_space CHR 0x22"
  by (simp_all add: is_json_space_def)

lemma digit_cases [simp]:
  "\<not> is_digit CHR '']''" "\<not> is_digit CHR ''}''" "\<not> is_digit CHR '',''" "\<not> is_digit CHR ''n''" "\<not> is_digit CHR ''t''"
  "\<not> is_digit CHR ''f''" "\<not> is_digit CHR 0x0A"
  by (simp_all add: is_digit_of_def digit_value_def)

lemma digit_no_space: "is_digit c \<Longrightarrow> \<not> is_json_space c"
  by (auto simp: is_digit_of_def digit_value_def is_json_space_def Let_def split: if_splits)

lemma space_no_digit: "is_json_space c \<Longrightarrow> \<not> is_digit c"
  using digit_no_space by blast

lemma no_digit_first_Cons [simp]: "no_digit_first (c # s) \<longleftrightarrow> \<not> is_digit c"
  by (simp add: no_digit_first_def)

lemma no_digit_first_blank: "is_blank w \<Longrightarrow> no_digit_first s \<Longrightarrow> no_digit_first (w @ s)"
  by (cases w) (simp_all add: is_blank_def space_no_digit)

lemma read_value_blank [simp]: "is_blank w \<Longrightarrow> read_value n (w @ s) = read_value n s"
  by (cases n) simp_all

lemma read_elements_blank [simp]: "is_blank w \<Longrightarrow> read_elements n (w @ s) = read_elements n s"
  by (cases n) simp_all

lemma reads_blank: "reads v s \<Longrightarrow> is_blank w \<Longrightarrow> reads v (w @ s)"
  by (simp add: reads_def)

lemma reads_dec: "reads (J_num n) (dec_string n)"
  unfolding reads_def
proof (intro allI impI)
  fix rest m
  assume rest: "no_digit_first rest" and "length (dec_string n) \<le> m"
  then obtain m' where m: "m = Suc m'" by (cases m) simp_all
  obtain c cs where s: "dec_string n = c # cs" by (meson dec_string_not_empty list.exhaust)
  then have c: "is_digit c" using dec_string_digits [of n] by simp
  then have brackets: "c \<noteq> CHR ''{''" "c \<noteq> CHR ''[''"
    by (auto simp: is_digit_of_def digit_value_def Let_def split: if_splits)
  have take: "takeWhile is_digit (c # cs @ rest) = dec_string n" using takeWhile_dec [OF rest, of n] s by simp
  have "dropWhile is_digit (dec_string n @ rest) = rest"
    using takeWhile_dec [OF rest, of n] takeWhile_dropWhile_id [of is_digit "dec_string n @ rest"] by simp
  then have drop: "dropWhile is_digit (c # cs @ rest) = rest" using s by simp
  have "digits_value 10 (c # cs) = n" using digits_value_dec_string [of n] s by simp
  then show "read_value m (dec_string n @ rest) = Some (J_num n, rest)"
    using c brackets digit_no_space [OF c] take drop by (simp add: s m)
qed

lemma reads_word:
  "reads J_null ''null''" "reads (J_bool b) (bool_text b)"
  unfolding reads_def bool_text_def
  by (auto simp: read_word_def is_json_space_def is_digit_of_def digit_value_def dest!: Suc_le_D)

lemma reads_not_closing:
  assumes "reads v s"
  shows "skip_ws (s @ r) \<noteq> [] \<and> hd (skip_ws (s @ r)) \<noteq> CHR '']''"
proof (cases "skip_ws s")
  case Nil
  then show ?thesis
    using readsD [OF assms, of "[]" "Suc (length s)"]
    by (simp add: no_digit_first_def del: dropWhile_eq_Nil_conv)
next
  case (Cons c cs)
  then obtain x where x: "x \<in> set s" "\<not> is_json_space x" by (metis dropWhile_eq_Nil_conv list.distinct(1))
  have "c \<noteq> CHR '']''"
    using readsD [OF assms, of "[]" "Suc (length s)"] Cons
    by (auto simp: no_digit_first_def read_word_def is_digit_of_def digit_value_def split: if_splits)
  moreover have "skip_ws (s @ r) = skip_ws s @ r" using x by (rule dropWhile_append1)
  ultimately show ?thesis by (simp add: Cons)
qed

lemma separated_Cons: "ts \<noteq> [] \<Longrightarrow> separated sep (t # ts) = t @ sep @ separated sep ts"
  by (cases ts) simp_all

lemma read_elements_separated:
  assumes "list_all2 reads vs ts" "ts \<noteq> []" "is_blank w2" "is_blank w3"
    "Suc (length (separated ('','' @ w2) ts)) \<le> n"
  shows "read_elements n (separated ('','' @ w2) ts @ w3 @ CHR '']'' # rest) = Some (vs, rest)"
  using assms
proof (induction ts arbitrary: vs n rule: list.induct)
  case (Cons t ts)
  obtain v vs' where vs: "vs = v # vs'" and v: "reads v t" and vs': "list_all2 reads vs' ts"
    using Cons.prems(1) by (auto simp: list_all2_Cons2)
  obtain m where n: "n = Suc m" using Cons.prems(5) by (cases n) simp_all
  show ?case
  proof (cases "ts = []")
    case True
    then have "read_value m (t @ w3 @ CHR '']'' # rest) = Some (v, w3 @ CHR '']'' # rest)"
      using readsD [OF v no_digit_first_blank [OF assms(4)], of "CHR '']'' # rest" m] Cons.prems(5) n by simp
    then show ?thesis using True vs vs' n assms(4) by simp
  next
    case False
    let ?more = "CHR '','' # w2 @ separated ('','' @ w2) ts @ w3 @ CHR '']'' # rest"
    have first: "read_value m (t @ ?more) = Some (v, ?more)"
      using readsD [OF v, of ?more m] Cons.prems(5) n False by (simp add: separated_Cons)
    have "read_elements m (separated ('','' @ w2) ts @ w3 @ CHR '']'' # rest) = Some (vs', rest)"
      using Cons.IH [OF vs' False assms(3,4), of m] Cons.prems(5) n by (simp add: separated_Cons [OF False])
    then show ?thesis using first vs n assms(3) by (simp add: separated_Cons [OF False])
  qed
qed simp

lemma reads_array:
  assumes "list_all2 reads vs ts" "is_blank w1" "is_blank w2" "is_blank w3"
  shows "reads (J_array vs) (array_text w1 w2 w3 ts)"
  unfolding reads_def
proof (intro allI impI)
  fix rest n
  assume "length (array_text w1 w2 w3 ts) \<le> n"
  then obtain m where n: "n = Suc m" and m: "Suc (length (separated ('','' @ w2) ts)) \<le> m"
    by (cases n) (simp_all add: array_text_def)
  show "read_value n (array_text w1 w2 w3 ts @ rest) = Some (J_array vs, rest)"
  proof (cases "ts = []")
    case True
    then show ?thesis using assms by (simp add: array_text_def n)
  next
    case False
    then obtain v t ts' where "ts = t # ts'" "reads v t" using assms(1) by (cases ts) (auto simp: list_all2_Cons2)
    then have "skip_ws (separated ('','' @ w2) ts @ w3 @ CHR '']'' # rest) \<noteq> []"
      "hd (skip_ws (separated ('','' @ w2) ts @ w3 @ CHR '']'' # rest)) \<noteq> CHR '']''"
      using reads_not_closing [of v t] by (cases ts'; simp add: separated_Cons)+
    then show ?thesis
      using read_elements_separated [OF assms(1) False assms(3,4) m] assms(2)
      by (simp add: array_text_def n del: dropWhile_eq_Nil_conv)
  qed
qed

definition plain_key :: "string \<Rightarrow> bool" where
  "plain_key k \<longleftrightarrow> double_quote \<notin> set k \<and> CHR 0x5C \<notin> set k"

definition reads_member :: "string \<times> json \<Rightarrow> string \<times> string \<Rightarrow> bool" where
  "reads_member m t \<longleftrightarrow> fst m = fst t \<and> plain_key (fst t) \<and> reads (snd m) (snd t)"

lemma read_key_member:
  assumes "plain_key k"
  shows "read_key (double_quote # k @ double_quote # CHR '':'' # u) = Some (k, u)"
proof -
  have "takeWhile (\<lambda>x. x \<noteq> double_quote) (k @ double_quote # CHR '':'' # u) = k"
    using assms by (subst takeWhile_append2) (auto simp: plain_key_def)
  then show ?thesis using assms by (simp add: read_key_def plain_key_def)
qed

lemma read_key_blank [simp]: "is_blank w \<Longrightarrow> read_key (w @ s) = read_key s"
  by (simp add: read_key_def)

lemma read_members_blank [simp]: "is_blank w \<Longrightarrow> read_members n (w @ s) = read_members n s"
  by (cases n) simp_all

lemma read_members_separated:
  assumes "list_all2 reads_member ms ts" "ts \<noteq> []" "is_blank w2" "is_blank w3"
    "Suc (length (separated ('','' @ w2) (map member_text ts))) \<le> n"
  shows "read_members n (separated ('','' @ w2) (map member_text ts) @ w3 @ CHR ''}'' # rest) = Some (ms, rest)"
  using assms
proof (induction ts arbitrary: ms n rule: list.induct)
  case (Cons t ts)
  obtain k v ms' where kv: "ms = (k, v) # ms'" "reads_member (k, v) t" and ms': "list_all2 reads_member ms' ts"
    using Cons.prems(1) by (auto simp: list_all2_Cons2)
  then have ms: "ms = (fst t, v) # ms'" and v: "reads v (snd t)" "plain_key (fst t)"
    by (simp_all add: reads_member_def)
  obtain m where n: "n = Suc m" using Cons.prems(5) by (cases n) simp_all
  have key: "read_key (member_text t @ more) = Some (fst t, '' '' @ snd t @ more)" for more
    using read_key_member [OF v(2)] by (simp add: member_text_def)
  have space: "read_value m (CHR '' '' # s) = read_value m s" for s
    using read_value_blank [of "'' ''" m s] by (simp add: is_blank_def)
  show ?case
  proof (cases "ts = []")
    case True
    then have "read_value m (snd t @ w3 @ CHR ''}'' # rest) = Some (v, w3 @ CHR ''}'' # rest)"
      using readsD [OF v(1) no_digit_first_blank [OF assms(4)], of "CHR ''}'' # rest" m] Cons.prems(5) n
      by (simp add: member_text_def)
    then show ?thesis using True ms ms' n assms(4) key by (simp add: space)
  next
    case False
    then have some: "map member_text ts \<noteq> []" by simp
    let ?more = "CHR '','' # w2 @ separated ('','' @ w2) (map member_text ts) @ w3 @ CHR ''}'' # rest"
    have "length (member_text t) + Suc (length (separated ('','' @ w2) (map member_text ts))) \<le> m"
      using Cons.prems(5) n by (simp add: separated_Cons [OF some])
    moreover have "length (snd t) \<le> length (member_text t)" by (simp add: member_text_def)
    ultimately have first: "read_value m (snd t @ ?more) = Some (v, ?more)"
      and "read_members m (separated ('','' @ w2) (map member_text ts) @ w3 @ CHR ''}'' # rest) = Some (ms', rest)"
      using readsD [OF v(1), of ?more m] Cons.IH [OF ms' False assms(3,4), of m] by simp_all
    then show ?thesis using first ms n assms(3) key by (simp add: separated_Cons [OF some] space)
  qed
qed simp

lemma reads_object:
  assumes "list_all2 reads_member ms ts" "is_blank w1" "is_blank w2" "is_blank w3"
  shows "reads (J_object ms) (object_text w1 w2 w3 ts)"
  unfolding reads_def
proof (intro allI impI)
  fix rest n
  assume "length (object_text w1 w2 w3 ts) \<le> n"
  then obtain m where n: "n = Suc m" and m: "Suc (length (separated ('','' @ w2) (map member_text ts))) \<le> m"
    by (cases n) (simp_all add: object_text_def)
  show "read_value n (object_text w1 w2 w3 ts @ rest) = Some (J_object ms, rest)"
  proof (cases ts)
    case Nil
    then show ?thesis using assms by (simp add: object_text_def n)
  next
    case (Cons t ts')
    have "\<exists>s. separated ('','' @ w2) (map member_text ts) = double_quote # s"
      by (cases ts') (simp_all add: Cons member_text_def)
    then show ?thesis
      using read_members_separated [OF assms(1) _ assms(3,4) m] assms(2) Cons
      by (auto simp: object_text_def n)
  qed
qed

section \<open>The metadata file\<close>

text \<open>What the file says, as a JSON value.\<close>

definition optional_json :: "bool \<Rightarrow> u32 \<Rightarrow> json" where
  "optional_json valid v = (if valid then J_num (unat v) else J_null)"

definition register_json :: "PsbcRegisterWrite \<Rightarrow> json" where
  "register_json r = J_object [(''offset'', J_num (unat (rw_offset r))), (''value'', J_num (unat (rw_value r)))]"

definition linkage_json :: "PsbcShaderMetadata \<Rightarrow> json" where
  "linkage_json md =
     (if md_linkage_valid md
      then J_object [(''ge_cntl'', register_json (md_linkage_ge_cntl md)),
                     (''stages_en'', register_json (md_linkage_stages_en md)),
                     (''user_vgpr_en'', register_json (md_linkage_user_vgpr_en md))]
      else J_null)"

definition streamout_json :: "PsbcShaderMetadata \<Rightarrow> json" where
  "streamout_json md =
     (if md_streamout_valid md
      then J_object
             [(''buffer_table_user_data_dword'', J_num (unat (md_streamout_buffer_table_user_data_dword md))),
              (''enabled_stream_buffers_mask'', J_num (unat (md_streamout_enabled_stream_buffers_mask md))),
              (''strides_dwords'', J_array (map (\<lambda>i. J_num (unat (md_streamout_strides_dwords md ! i))) [0..<4])),
              (''config_sgpr'', J_num (unat (md_streamout_config_sgpr md))),
              (''write_index_sgpr'', J_num (unat (md_streamout_write_index_sgpr md))),
              (''offset_sgprs'', J_array (map (\<lambda>i. optional_json (md_streamout_strides_dwords md ! i \<noteq> 0)
                 (md_streamout_offset_sgprs md ! i)) [0..<4]))]
      else J_null)"

definition binding_value :: "PsbcDescriptorBinding \<Rightarrow> json" where
  "binding_value b =
     J_object [(''set'', J_num (unat (db_set b))), (''binding'', J_num (unat (db_binding b))),
       (''type'', J_num (descriptor_type_value (db_type b))), (''array_size'', J_num (unat (db_array_size b))),
       (''offset'', J_num (unat (db_offset b))), (''stride'', J_num (unat (db_stride b)))]"

definition metadata_json :: "PsbcShaderOutput \<Rightarrow> json" where
  "metadata_json output =
     (let md = out_metadata output in
      J_object
      [(''version'', J_num (unat (md_version md))),
       (''target'', J_num (target_value (md_target md))),
       (''source_stage'', J_num (stage_value (md_source_stage md))),
       (''hardware_stage'', J_num (hardware_stage_value (md_hardware_stage md))),
       (''machine_code_size'', J_num (out_machine_code_size output)),
       (''unresolved_fields'', J_num (unat (md_unresolved_fields md))),
       (''linkage'', linkage_json md),
       (''context_registers'', J_array (map register_json (md_context_registers md))),
       (''shader_registers'', J_array (map register_json (md_shader_registers md))),
       (''input_semantics'', J_array (map (\<lambda>w. J_num (unat w)) (md_input_semantics md))),
       (''output_semantics'', J_array (map (\<lambda>w. J_num (unat w)) (md_output_semantics md))),
       (''address32_hi'', J_num (unat (md_address32_hi md))),
       (''user_sgpr_count'', J_num (unat (md_user_sgpr_count md))),
       (''vertex_buffer_table_user_data_dword'',
          optional_json (md_vertex_buffer_table_valid md) (md_vertex_buffer_table_user_data_dword md)),
       (''vertex_buffer_usage_mask'', J_num (unat (md_vertex_buffer_usage_mask md))),
       (''vertex_buffer_per_attribute'', J_bool (md_vertex_buffer_per_attribute md)),
       (''descriptor_set0_user_data_dword'',
          optional_json (md_descriptor_set0_valid md) (md_descriptor_set0_user_data_dword md)),
       (''descriptor_set_user_data_dwords'', J_array (map (\<lambda>s. optional_json (md_descriptor_set_valid md ! s)
          (md_descriptor_set_user_data_dword md ! s)) [0..<4])),
       (''base_vertex_user_data_dword'', optional_json (md_base_vertex_valid md) (md_base_vertex_user_data_dword md)),
       (''draw_id_user_data_dword'', optional_json (md_draw_id_valid md) (md_draw_id_user_data_dword md)),
       (''view_index_user_data_dword'', optional_json (md_view_index_valid md) (md_view_index_user_data_dword md)),
       (''start_instance_user_data_dword'',
          optional_json (md_start_instance_valid md) (md_start_instance_user_data_dword md)),
       (''ngg_lds_layout'', if md_ngg_lds_layout_valid md
          then J_object [(''user_data_dword'', J_num (unat (md_ngg_lds_layout_user_data_dword md))),
                         (''value'', J_num (unat (md_ngg_lds_layout md)))] else J_null),
       (''streamout'', streamout_json md),
       (''descriptor_bindings'', J_array (map (\<lambda>i. binding_value (md_descriptor_bindings md ! i))
          [0..<unat (md_descriptor_binding_count md)]))])"

lemma blank_cases [simp]: "is_blank []" "is_blank (CHR '' '' # w) = is_blank w" "is_blank (CHR 0x0A # w) = is_blank w"
  by (simp_all add: is_blank_def)

lemma reads_print_u: "reads (J_num (unat w)) (print_u w)"
  by (simp add: print_u_def reads_dec)

lemma reads_optional: "reads (optional_json valid w) (optional_u valid w)"
  by (simp add: optional_json_def optional_u_def reads_print_u reads_word)

lemma reads_member_pair: "plain_key k \<Longrightarrow> reads v t \<Longrightarrow> reads_member (k, v) (k, t)"
  by (simp add: reads_member_def)

lemma reads_each: "(\<And>x. x \<in> set xs \<Longrightarrow> reads (f x) (g x)) \<Longrightarrow> list_all2 reads (map f xs) (map g xs)"
  by (simp add: list_all2_map1 list_all2_map2 list_all2_same)

lemma block_array_text: "block_array (separated ('','' @ newline) ts) = array_text newline newline (newline @ ''  '') ts"
  by (simp add: block_array_def array_text_def)

lemma reads_register: "reads (register_json r) (register_text r)"
  unfolding register_json_def register_text_def
  by (rule reads_object) (simp_all add: reads_member_def plain_key_def reads_print_u)

lemma reads_block:
  assumes "\<And>x. x \<in> set xs \<Longrightarrow> reads (f x) (g x)"
  shows "reads (J_array (map f xs)) (block_array (separated ('','' @ newline) (map (\<lambda>x. ''    '' @ g x) xs)))"
  unfolding block_array_text
proof (rule reads_array, rule reads_each)
  show "reads (f x) (''    '' @ g x)" if "x \<in> set xs" for x
    using assms [OF that] by (rule reads_blank) simp
qed simp_all

lemma reads_parts:
  "reads (linkage_json md) (linkage_text md)" "reads (streamout_json md) (streamout_text md)"
  "reads (binding_value b) (binding_json b)"
  by (auto simp: linkage_json_def linkage_text_def streamout_json_def streamout_text_def binding_value_def
      binding_json_def reads_member_def plain_key_def reads_print_u reads_dec reads_register reads_word
      intro!: reads_object reads_array reads_each reads_optional)

lemma reads_blocks:
  "reads (J_array (map register_json rs)) (block_array (write_registers rs))"
  "reads (J_array (map (\<lambda>w. J_num (unat w)) ws)) (block_array (write_semantics ws))"
  "reads (J_array (map (\<lambda>i. binding_value (md_descriptor_bindings md ! i)) [0..<unat (md_descriptor_binding_count md)]))
     (block_array (write_bindings md))"
  unfolding write_registers_def write_semantics_def write_bindings_def
  by (rule reads_block, simp add: reads_register reads_print_u reads_parts)+

lemma reads_arrays:
  "reads (J_array (map (\<lambda>s. optional_json (md_descriptor_set_valid md ! s) (md_descriptor_set_user_data_dword md ! s)) [0..<4]))
     (descriptor_sets_text md)"
  "reads (if md_ngg_lds_layout_valid md
      then J_object [(''user_data_dword'', J_num (unat (md_ngg_lds_layout_user_data_dword md))),
                     (''value'', J_num (unat (md_ngg_lds_layout md)))] else J_null) (lds_layout_text md)"
  unfolding descriptor_sets_text_def lds_layout_text_def
  by (auto simp: reads_member_def plain_key_def reads_print_u reads_word intro!: reads_array reads_object reads_each reads_optional)

text \<open>C7. The metadata file is JSON and says what the metadata says. A reader that knows nothing of the
  program takes the printed text apart into one object with the fields of the output: numbers as they are,
  missing user-data slots as null, registers, semantics and bindings as arrays in their order, also when these
  are empty.\<close>
theorem metadata_file_reads_back: "read_json (metadata_text output) = Some (metadata_json output)"
proof -
  let ?text = "object_text (newline @ ''  '') (newline @ ''  '') newline (metadata_members output)"
  have "reads (metadata_json output) ?text"
    unfolding metadata_json_def metadata_members_def Let_def
    by (rule reads_object)
      (simp_all add: reads_member_def plain_key_def reads_print_u reads_dec reads_optional reads_word reads_parts
        reads_blocks reads_arrays del: upt_rec_numeral)
  then have "read_value (length (?text @ newline)) (?text @ newline) = Some (metadata_json output, newline)"
    by (rule readsD) simp_all
  then show ?thesis by (simp add: read_json_def metadata_text_def)
qed

end
