(* ===== verification/Cli_Main.thy ===== *)
theory Cli_Main
  imports Cli_Options Cli_Json
begin

text \<open>
  The \<^verbatim>\<open>main\<close> of the command line tool, \<^verbatim>\<open>src/cmd/psbc/main.c\<close>: the order of its checks, the files it reads, the options
  it hands to the library, and the files it writes.  The file system and \<^verbatim>\<open>malloc\<close> are a parameter: what an
  open, a read, a write or a close gives.  The lemmas show that no command line and no behaviour of the
  file system makes the program undefined, and what is in the files after it ends.
\<close>

section \<open>Definitions\<close>

text \<open>Opening a file for reading gives an error message, or the length that \<^verbatim>\<open>ftell\<close> reports and the bytes
  that \<^verbatim>\<open>fread\<close> delivers.  A write accepts a number of bytes into the buffer of the stream; how many of them are
  in the file after \<^verbatim>\<open>fclose\<close> is \<open>ev_flushed\<close>, and what \<^verbatim>\<open>fclose\<close> reports is \<open>ev_close_error\<close>.\<close>

record cli_env =
  ev_compile :: compile_env
  ev_open_read :: "string \<Rightarrow> string + nat \<times> bytes"
  ev_read_error :: "string \<Rightarrow> string"
  ev_malloc :: "nat \<Rightarrow> bool"
  ev_open_write :: "string \<Rightarrow> string option"
  ev_write :: "string \<Rightarrow> nat \<Rightarrow> nat"
  ev_flushed :: "string \<Rightarrow> nat \<Rightarrow> nat"
  ev_write_error :: "string \<Rightarrow> string"
  ev_close_error :: "string \<Rightarrow> string option"

record cli_state =
  ws_files :: "string \<rightharpoonup> bytes"
  ws_stdout :: string
  ws_library :: compile_state

datatype exit_status = EXIT_SUCCESS | EXIT_FAILURE string | Aborted

datatype 'a cli = Cli_go 'a cli_state | Cli_exit exit_status cli_state | Cli_fault

fun cli_then :: "'a cli \<Rightarrow> ('a \<Rightarrow> cli_state \<Rightarrow> 'b cli) \<Rightarrow> 'b cli" where
  "cli_then (Cli_go x st) f = f x st"
| "cli_then (Cli_exit status st) f = Cli_exit status st"
| "cli_then Cli_fault f = Cli_fault"

definition fatal :: "string \<Rightarrow> cli_state \<Rightarrow> 'a cli" where
  "fatal msg st = Cli_exit (EXIT_FAILURE msg) st"

definition VERSION_STR :: string where
  "VERSION_STR = ''0.1.0''"

definition showhelp :: string where
  "showhelp =
     (let tab = [CHR 0x09] in
      concat (map (\<lambda>line. line @ newline)
     [''opengnm-psbc '' @ VERSION_STR,
      ''Usage:'',
      tab @ ''-f [path] -- The input SPIRV file to compile'',
      tab @ ''-o [path] -- The output compiled GCN shader file'',
      tab @ ''--metadata [path] -- Write typed hardware metadata as JSON'',
      tab @ ''--previous [path] -- Vertex SPIR-V for a merged NGG geometry pipeline'',
      tab @ ''-e [entrypoint] -- The entrypoint's name (default: \"main\")'',
      tab @ ''-s [stage] -- The shader's stage name'',
      tab @ ''-Od -- Disable some optimisations'',
      tab @ ''-4 -- Target PS4 base (GFX7) instead of PS5'',
      tab @ ''-n -- Target PS4 Pro (NEO/GFX8) instead of PS5'',
      tab @ ''-g -- Target PS5 (RDNA2/GFX10.3) [default]'',
      tab @ ''--ngg -- Experimental PS5 vertex NGG lowering (VS -> FS)'',
      tab @ ''--ps5-global-streamout -- Ordered no-GDS merged GS streamout'',
      tab @ ''--force-accelerated-dot -- Diagnostic only: emit native packed-dot ISA'',
      tab @ ''--provoking-vertex-last -- Select the final flat-shaded primitive vertex'',
      tab @ ''--raw -- Write raw ACO machine code instead of a GNM wrapper'',
      tab @ ''--primitive-type [point-list|line-list|line-strip|triangle-list|triangle-fan|triangle-stri'' @
      ''p|line-list-adjacency|line-strip-adjacency|triangle-list-adjacency|triangle-strip-adjacenc'' @
      ''y]'',
      tab @ ''--address32-hi [value] -- Upper 32 bits for 32-bit GPU pointers'',
      tab @ ''--vertex-attribute loc:format:binding:offset:stride:alignment[:divisor]'',
      tab @ ''--descriptor-binding set:binding:type:array:offset:stride'',
      tab @ ''-vv -- Enable verbose messages output'',
      tab @ ''-h -- Show this help message'']))"

definition read_file :: "cli_env \<Rightarrow> string \<Rightarrow> string \<Rightarrow> string \<Rightarrow> cli_state \<Rightarrow> bytes cli" where
  "read_file env open_msg read_msg path st =
     (case ev_open_read env path of
        Inl err \<Rightarrow> fatal (open_msg @ err) st
      | Inr (len, bs) \<Rightarrow>
          if \<not> ev_malloc env len then Cli_exit Aborted st
          else if length bs \<noteq> len then fatal (read_msg @ ev_read_error env path) st
          else Cli_go bs st)"

definition read_previous :: "cli_env \<Rightarrow> string option \<Rightarrow> cli_state \<Rightarrow> bytes option cli" where
  "read_previous env path st =
     (case path of
        None \<Rightarrow> Cli_go None st
      | Some p \<Rightarrow>
          cli_then (read_file env ''Failed to open previous-stage input with '' ''Failed to read previous-stage input with '' p st)
            (\<lambda>bs st. Cli_go (Some bs) st))"

definition compile_options :: "CmdOptions \<Rightarrow> PsbcCompileOptions" where
  "compile_options opts =
     zero_options\<lparr>opt_target := co_target opts, opt_stage := co_stage opts, opt_entrypoint := Some (co_entrypoint opts),
       opt_optimise := co_optimise opts, opt_ngg := co_ngg opts,
       opt_ps5_global_streamout := co_ps5_global_streamout opts,
       opt_force_accelerated_dot := co_force_accelerated_dot opts, opt_primitive_type := co_primitive_type opts,
       opt_provoking_vtx_last := co_provoking_vtx_last opts, opt_address32_hi := co_address32_hi opts,
       opt_vertex_attribute_count := co_vertex_attribute_count opts,
       opt_vertex_attributes := co_vertex_attributes opts,
       opt_descriptor_binding_count := co_descriptor_binding_count opts,
       opt_descriptor_bindings := co_descriptor_bindings opts\<rparr>"

text \<open>The bytes of a file as a module of the library.\<close>

definition file_module :: "bytes \<Rightarrow> spirv_module" where
  "file_module bs = (Some (words_of bs), length bs)"

definition compile_input_files ::
  "cli_env \<Rightarrow> CmdOptions \<Rightarrow> bytes \<Rightarrow> bytes option \<Rightarrow> cli_state \<Rightarrow> PsbcShaderOutput cli" where
  "compile_input_files env opts input previous st =
     (let compile_opts = compile_options opts;
          res = (case previous of
                   Some p \<Rightarrow> psbc_compile_geometry_pipeline (ev_compile env) (file_module p) (file_module input)
                               (Some compile_opts) (Some zero_output) (ws_library st)
                 | None \<Rightarrow> psbc_compile_shader (ev_compile env) (file_module input) (Some compile_opts) (Some zero_output)
                               (ws_library st))
      in case res of
           Returned result (Some output) lib \<Rightarrow>
             if result \<noteq> PSBC_RESULT_OK
             then fatal (''Shader compilation failed: '' @ psbc_result_string result) (st\<lparr>ws_library := lib\<rparr>)
             else Cli_go output (st\<lparr>ws_library := lib\<rparr>)
         | _ \<Rightarrow> Cli_fault)"

text \<open>The buffer that goes to the output file and its size.  NGG programs have no wrapper.\<close>

definition write_raw :: "CmdOptions \<Rightarrow> bool" where
  "write_raw opts \<longleftrightarrow> co_raw opts \<or> co_ngg opts"

definition write_data :: "CmdOptions \<Rightarrow> PsbcShaderOutput \<Rightarrow> bytes option" where
  "write_data opts output = (if write_raw opts then out_machine_code output else out_data output)"

definition write_size :: "CmdOptions \<Rightarrow> PsbcShaderOutput \<Rightarrow> nat" where
  "write_size opts output = (if write_raw opts then out_machine_code_size output else out_size output)"

definition free_output :: "PsbcShaderOutput \<Rightarrow> cli_state \<Rightarrow> unit cli" where
  "free_output output st =
     (case psbc_free_output (Some output) (ws_library st) of
        None \<Rightarrow> Cli_fault
      | Some (out, lib) \<Rightarrow> Cli_go () (st\<lparr>ws_library := lib\<rparr>))"

definition write_output :: "cli_env \<Rightarrow> CmdOptions \<Rightarrow> string \<Rightarrow> PsbcShaderOutput \<Rightarrow> cli_state \<Rightarrow> unit cli" where
  "write_output env opts path output st =
     (case ev_open_write env path of
        Some err \<Rightarrow> fatal (''Failed to open output file with '' @ err) st
      | None \<Rightarrow>
          (case write_data opts output of
             None \<Rightarrow> Cli_fault
           | Some buf \<Rightarrow>
               if length buf < write_size opts output then Cli_fault
               else (let n = min (write_size opts output) (ev_write env path (write_size opts output));
                         st = st\<lparr>ws_files := (ws_files st)(path \<mapsto> take (min n (ev_flushed env path n)) buf)\<rparr>
                     in if n \<noteq> write_size opts output
                        then cli_then (free_output output st) (\<lambda>_ st.
                               fatal (''Failed to write output file with '' @ ev_write_error env path) st)
                        else Cli_go () st)))"

definition text_bytes :: "string \<Rightarrow> bytes" where
  "text_bytes s = map of_char s"

definition write_metadata :: "cli_env \<Rightarrow> string \<Rightarrow> PsbcShaderOutput \<Rightarrow> cli_state \<Rightarrow> unit cli" where
  "write_metadata env path output st =
     (case ev_open_write env path of
        Some err \<Rightarrow> fatal (''Failed to open metadata file with '' @ err) st
      | None \<Rightarrow>
          (let text = text_bytes (metadata_text output);
               st = st\<lparr>ws_files := (ws_files st)(path \<mapsto> take (ev_flushed env path (length text)) text)\<rparr>
           in case ev_close_error env path of
                Some err \<Rightarrow> fatal (''Failed to write metadata file with '' @ err) st
              | None \<Rightarrow> Cli_go () st))"

definition verbose_text :: "CmdOptions \<Rightarrow> string \<Rightarrow> string \<Rightarrow> PsbcShaderOutput \<Rightarrow> string" where
  "verbose_text opts inputfile outputfile output =
     ''Compiled '' @ inputfile @ '' ('' @ co_entrypoint opts @ '') -> '' @ outputfile @ '' ('' @
     dec_string (write_size opts output) @ '' bytes'' @ (if write_raw opts then '', raw'' else '''') @ '')'' @ newline"

definition finish_output ::
  "cli_env \<Rightarrow> CmdOptions \<Rightarrow> string \<Rightarrow> string \<Rightarrow> PsbcShaderOutput \<Rightarrow> cli_state \<Rightarrow> unit cli" where
  "finish_output env opts inputfile outputfile output st =
     cli_then (write_output env opts outputfile output st) (\<lambda>_ st.
     cli_then (case co_metadatafile opts of None \<Rightarrow> Cli_go () st | Some p \<Rightarrow> write_metadata env p output st) (\<lambda>_ st.
     cli_then (free_output output
                (if co_verbose opts
                 then st\<lparr>ws_stdout := ws_stdout st @ verbose_text opts inputfile outputfile output\<rparr> else st)) (\<lambda>_ st.
       Cli_exit EXIT_SUCCESS st)))"

definition run_options :: "cli_env \<Rightarrow> CmdOptions \<Rightarrow> cli_state \<Rightarrow> unit cli" where
  "run_options env opts st =
     (if co_showhelp opts then Cli_exit EXIT_SUCCESS (st\<lparr>ws_stdout := ws_stdout st @ showhelp\<rparr>)
      else (case co_inputfile opts of
              None \<Rightarrow> fatal ''Please pass an input file'' st
            | Some inputfile \<Rightarrow>
                if co_parse_error opts then fatal ''Invalid compiler option'' st
                else (case co_outputfile opts of
                        None \<Rightarrow> fatal ''Please pass an output file'' st
                      | Some outputfile \<Rightarrow>
                          if co_stage opts = PSBC_STAGE_NONE then fatal ''Please pass a valid shader stage'' st
                          else cli_then (read_file env ''Failed to open input file with '' ''Failed to read input file with ''
                                           inputfile st) (\<lambda>input st.
                               cli_then (read_previous env (co_previousfile opts) st) (\<lambda>previous st.
                               cli_then (compile_input_files env opts input previous st) (\<lambda>output st.
                                 finish_output env opts inputfile outputfile output st))))))"

definition cli_main :: "cli_env \<Rightarrow> string list \<Rightarrow> cli_state \<Rightarrow> unit cli" where
  "cli_main env argv st = run_options env (parsecmdoptions argv) st"

section \<open>What the program leaves behind\<close>

text \<open>The library and its environment are as documented for every set of options whose attribute count fits the
  array.\<close>

definition env_safe :: "cli_env \<Rightarrow> bool" where
  "env_safe env \<longleftrightarrow>
     (\<forall>opts. unat (opt_vertex_attribute_count opts) \<le> length (opt_vertex_attributes opts) \<longrightarrow>
        compile_safe (ev_compile env) opts)"

text \<open>The file was read whole.\<close>

definition whole_file :: "cli_env \<Rightarrow> string \<Rightarrow> bytes \<Rightarrow> bool" where
  "whole_file env path bs \<longleftrightarrow> ev_open_read env path = Inr (length bs, bs)"

definition whole_previous :: "cli_env \<Rightarrow> string option \<Rightarrow> bytes option \<Rightarrow> bool" where
  "whole_previous env path previous \<longleftrightarrow>
     (case path of None \<Rightarrow> previous = None | Some p \<Rightarrow> \<exists>bs. previous = Some bs \<and> whole_file env p bs)"

text \<open>The library made the output from the whole input files with the options of the command line.\<close>

definition made_from :: "cli_env \<Rightarrow> CmdOptions \<Rightarrow> cli_state \<Rightarrow> bytes \<Rightarrow> bytes option \<Rightarrow> PsbcShaderOutput \<Rightarrow> bool" where
  "made_from env opts st input previous output \<longleftrightarrow>
     compile_input_files env opts input previous st =
       Cli_go output (st\<lparr>ws_library := (ws_library st)\<lparr>cs_live := [Res_code, Res_data]\<rparr>\<rparr>) \<and>
     (\<exists>ctx code. output_of (ev_compile env) ctx code output \<and> bc_options ctx = compile_options opts)"

definition compiled :: "cli_env \<Rightarrow> CmdOptions \<Rightarrow> cli_state \<Rightarrow> PsbcShaderOutput \<Rightarrow> bool" where
  "compiled env opts st output \<longleftrightarrow>
     (\<exists>path input previous. co_inputfile opts = Some path \<and> whole_file env path input \<and>
        whole_previous env (co_previousfile opts) previous \<and> made_from env opts st input previous output)"

text \<open>The files after the metadata is written: the text of \<^const>\<open>metadata_text\<close>, as far as the file system takes
  it.  The program sees a lost byte here only through \<^verbatim>\<open>fclose\<close>.\<close>

definition add_metadata :: "cli_env \<Rightarrow> CmdOptions \<Rightarrow> PsbcShaderOutput \<Rightarrow> (string \<rightharpoonup> bytes) \<Rightarrow> (string \<rightharpoonup> bytes)" where
  "add_metadata env opts output files =
     (case co_metadatafile opts of
        None \<Rightarrow> files
      | Some p \<Rightarrow>
          (let text = text_bytes (metadata_text output) in files(p \<mapsto> take (ev_flushed env p (length text)) text)))"

lemma compile_options_fit:
  "options_ok opts \<Longrightarrow>
     unat (opt_vertex_attribute_count (compile_options opts)) \<le> length (opt_vertex_attributes (compile_options opts))"
  by (simp add: compile_options_def options_ok_def)

lemma made_from_sizes:
  assumes "made_from env opts st input previous output"
  obtains buf where "write_data opts output = Some buf" "write_size opts output = length buf"
proof -
  obtain ctx code where "output_of (ev_compile env) ctx code output" using assms by (auto simp: made_from_def)
  then have "\<exists>buf. write_data opts output = Some buf \<and> write_size opts output = length buf"
    by (auto simp: output_of_def write_data_def write_size_def)
  then show ?thesis using that by blast
qed

text \<open>The outcomes of a step that reads: it goes on in the same state, or ends with an error.\<close>

definition reads_or_fails :: "('a \<Rightarrow> bool) \<Rightarrow> cli_state \<Rightarrow> 'a cli \<Rightarrow> bool" where
  "reads_or_fails P st r \<longleftrightarrow>
     (\<exists>x. r = Cli_go x st \<and> P x) \<or> (\<exists>status. r = Cli_exit status st \<and> status \<noteq> EXIT_SUCCESS)"

lemma read_file_cases: "reads_or_fails (whole_file env path) st (read_file env m m' path st)"
  by (auto simp: reads_or_fails_def read_file_def fatal_def whole_file_def split: sum.split prod.split)

lemma read_previous_cases: "reads_or_fails (whole_previous env path) st (read_previous env path st)"
proof (cases path)
  case (Some p)
  then show ?thesis
    using read_file_cases [of env p st "''Failed to open previous-stage input with ''" "''Failed to read previous-stage input with ''"]
    by (auto simp: read_previous_def reads_or_fails_def whole_previous_def)
qed (simp add: read_previous_def reads_or_fails_def whole_previous_def)

lemma compile_input_files_cases:
  assumes "env_safe env" "options_ok opts" "idle (ws_library st)"
  shows "(\<exists>output. made_from env opts st input previous output) \<or>
     (\<exists>msg. compile_input_files env opts input previous st = Cli_exit (EXIT_FAILURE msg) st)"
proof -
  let ?call = "case previous of Some p \<Rightarrow> Call_geometry (file_module p) (file_module input) | None \<Rightarrow> Call_shader (file_module input)"
  have safe: "compile_safe (ev_compile env) (compile_options opts)"
    using assms(1) compile_options_fit [OF assms(2)] by (simp add: env_safe_def)
  have "\<not> returns_early (compile_options opts) ?call" by (simp add: file_module_def split: option.split)
  with run_call_balanced [OF assms(3) safe, of ?call zero_output]
  have "balanced (ev_compile env) (compile_options opts) (ws_library st) (Some zero_output)
      (run_call (ev_compile env) ?call (Some (compile_options opts)) (Some zero_output) (ws_library st))" by simp
  then show ?thesis
    by (cases previous) (auto 4 4 simp: compile_input_files_def balanced_def made_from_def fatal_def Let_def
        split: compile_result.splits if_splits)
qed

lemma free_output_made:
  assumes "idle lib" "made_from env opts st input previous output"
  shows "free_output output (st'\<lparr>ws_library := lib\<lparr>cs_live := [Res_code, Res_data]\<rparr>\<rparr>) = Cli_go () (st'\<lparr>ws_library := lib\<rparr>)"
  using assms(2) free_live_output [OF assms(1)] by (auto simp: made_from_def free_output_def)

text \<open>The end of a run with the given output: the files it names are the only ones that change, and success
  means that their streams accepted everything and the buffers of the library are released.\<close>

definition finished ::
  "cli_env \<Rightarrow> CmdOptions \<Rightarrow> cli_state \<Rightarrow> string \<Rightarrow> PsbcShaderOutput \<Rightarrow> exit_status \<Rightarrow> cli_state \<Rightarrow> bool" where
  "finished env opts st outputfile output status st' \<longleftrightarrow>
     (\<forall>p. p \<noteq> outputfile \<and> co_metadatafile opts \<noteq> Some p \<longrightarrow> ws_files st' p = ws_files st p) \<and>
     (status = EXIT_SUCCESS \<longrightarrow> ws_library st' = ws_library st \<and>
        (\<exists>buf. write_data opts output = Some buf \<and>
           ws_files st' = add_metadata env opts output ((ws_files st)(outputfile \<mapsto> take (ev_flushed env outputfile (length buf)) buf))))"

lemma finish_output_ok:
  assumes "idle (ws_library st)" "made_from env opts st input previous output"
  defines "st1 \<equiv> st\<lparr>ws_library := (ws_library st)\<lparr>cs_live := [Res_code, Res_data]\<rparr>\<rparr>"
  shows "\<exists>status st'. finish_output env opts inputfile outputfile output st1 = Cli_exit status st' \<and>
    finished env opts st outputfile output status st'"
proof -
  obtain buf where buf: "write_data opts output = Some buf" "write_size opts output = length buf"
    using made_from_sizes [OF assms(2)] .
  have free: "free_output output st' = Cli_go () (st'\<lparr>ws_library := ws_library st\<rparr>)"
    if "ws_library st' = (ws_library st)\<lparr>cs_live := [Res_code, Res_data]\<rparr>" for st'
  proof -
    have "st' = st'\<lparr>ws_library := (ws_library st)\<lparr>cs_live := [Res_code, Res_data]\<rparr>\<rparr>"
      using that by (simp flip: that)
    then show ?thesis using free_output_made [OF assms(1,2), of st'] by simp
  qed
  have flushed: "take (min (length buf) k) buf = take k buf" for k by (simp add: min_def)
  show ?thesis
    using buf
    by (auto simp: flushed finish_output_def write_output_def write_metadata_def fatal_def Let_def free st1_def finished_def
        add_metadata_def split: option.split)
qed

lemma cli_main_path:
  fixes argv :: "string list"
  defines "opts \<equiv> parsecmdoptions argv"
  assumes "env_safe env" "idle (ws_library st)"
  obtains (early) status st' where "cli_main env argv st = Cli_exit status st'" "ws_files st' = ws_files st"
      "status = EXIT_SUCCESS \<longrightarrow> co_showhelp opts"
    | (compiles) inputfile input previous out outputfile where
      "co_inputfile opts = Some inputfile" "co_outputfile opts = Some outputfile" "whole_file env inputfile input"
      "whole_previous env (co_previousfile opts) previous" "made_from env opts st input previous out"
      "cli_main env argv st = finish_output env opts inputfile outputfile out
         (st\<lparr>ws_library := (ws_library st)\<lparr>cs_live := [Res_code, Res_data]\<rparr>\<rparr>)"
proof -
  note run = cli_main_def [of env argv st, folded opts_def] run_options_def
  show ?thesis
  proof (cases "co_showhelp opts \<or> co_inputfile opts = None \<or> co_parse_error opts \<or> co_outputfile opts = None \<or>
      co_stage opts = PSBC_STAGE_NONE")
    case True
    then have "\<exists>status st'. cli_main env argv st = Cli_exit status st' \<and> ws_files st' = ws_files st \<and>
        (status = EXIT_SUCCESS \<longrightarrow> co_showhelp opts)"
      by (auto simp: run fatal_def split: option.split)
    then show ?thesis using early by blast
  next
    case False
    then obtain inputfile outputfile where files: "co_inputfile opts = Some inputfile" "co_outputfile opts = Some outputfile"
      by auto
    let ?read = "read_file env ''Failed to open input file with '' ''Failed to read input file with '' inputfile st"
    have main: "cli_main env argv st = cli_then ?read (\<lambda>input st.
        cli_then (read_previous env (co_previousfile opts) st) (\<lambda>previous st.
        cli_then (compile_input_files env opts input previous st) (\<lambda>out st.
          finish_output env opts inputfile outputfile out st)))"
      using False files by (simp add: run)
    show ?thesis
    proof (cases "\<exists>input previous out. whole_file env inputfile input \<and> whole_previous env (co_previousfile opts) previous \<and>
        ?read = Cli_go input st \<and> read_previous env (co_previousfile opts) st = Cli_go previous st \<and>
        made_from env opts st input previous out")
      case True
      then obtain input previous out where ok: "whole_file env inputfile input" "?read = Cli_go input st"
        "whole_previous env (co_previousfile opts) previous"
        "read_previous env (co_previousfile opts) st = Cli_go previous st" "made_from env opts st input previous out"
        by blast
      with main have "cli_main env argv st = finish_output env opts inputfile outputfile out
         (st\<lparr>ws_library := (ws_library st)\<lparr>cs_live := [Res_code, Res_data]\<rparr>\<rparr>)"
        by (simp add: made_from_def)
      with files ok show ?thesis using compiles by blast
    next
      case False
      have "options_ok opts" by (simp add: opts_def parsecmdoptions_ok)
      then have "\<exists>status. cli_main env argv st = Cli_exit status st \<and> status \<noteq> EXIT_SUCCESS"
        using False read_file_cases [of env inputfile st "''Failed to open input file with ''" "''Failed to read input file with ''"]
          read_previous_cases [of env "co_previousfile opts" st] compile_input_files_cases [OF assms(2) _ assms(3), of opts]
        unfolding main reads_or_fails_def by fastforce
      then show ?thesis by (auto intro: early)
    qed
  qed
qed


text \<open>A run of the sample library with a file that holds a module, and a disk that takes every write.\<close>

definition plain_file :: bytes where
  "plain_file = [3, 2, 0x23, 7, 0, 0, 1, 0, 0, 0, 0, 0, 1, 0, 0, 0, 0, 0, 0, 0]"

definition sample_cli :: cli_env where
  "sample_cli = \<lparr>ev_compile = sample_env,
     ev_open_read = \<lambda>path. if path = ''a.spv'' then Inr (length plain_file, plain_file) else Inl ''No such file'',
     ev_read_error = \<lambda>path. '''', ev_malloc = \<lambda>n. True, ev_open_write = \<lambda>path. None, ev_write = \<lambda>path n. n,
     ev_flushed = \<lambda>path n. n,
     ev_write_error = \<lambda>path. '''', ev_close_error = \<lambda>path. None\<rparr>"

definition sample_start :: cli_state where
  "sample_start = \<lparr>ws_files = (\<lambda>path. None), ws_stdout = '''', ws_library = idle_start\<rparr>"

definition sample_argv :: "string list" where
  "sample_argv = [''psbc'', ''-4'', ''-Od'', ''-f'', ''a.spv'', ''-s'', ''vertex'', ''-o'', ''a.sb'']"

lemma sample_parsed:
  "parsecmdoptions sample_argv =
     initial_options\<lparr>co_target := PSBC_TARGET_PS4_BASE, co_optimise := False, co_inputfile := Some ''a.spv'',
       co_stage := PSBC_STAGE_VERTEX, co_outputfile := Some ''a.sb''\<rparr>"
  by (simp add: sample_argv_def parsecmdoptions_def parse_option_def peek_value_def take_value_def
      psbc_stage_from_name_def initial_options_def)

lemma plain_file_module: "file_module plain_file = plain_module"
  by code_simp

lemma sample_options: "compile_options (parsecmdoptions sample_argv) = sample_vertex_options"
  by (simp add: sample_parsed compile_options_def sample_vertex_options_def initial_options_def zero_attribute_def
      zero_options_def)

lemma sample_run_succeeds: "\<exists>st'. cli_main sample_cli sample_argv sample_start = Cli_exit EXIT_SUCCESS st'"
proof -
  let ?opts = "parsecmdoptions sample_argv"
  have safe: "env_safe sample_cli" by (simp add: env_safe_def sample_cli_def sample_safe)
  have idle: "idle (ws_library sample_start)" by (simp add: sample_start_def idle_start)
  obtain out st' where "psbc_compile_shader sample_env plain_module (Some sample_vertex_options) (Some zero_output) idle_start =
      Returned PSBC_RESULT_OK (Some out) st'"
    using sample_succeeds [OF idle_start, of zero_output] by auto
  then have go: "compile_input_files sample_cli ?opts plain_file None sample_start =
      Cli_go out (sample_start\<lparr>ws_library := st'\<rparr>)"
    by (simp add: compile_input_files_def plain_file_module sample_options)
      (simp add: sample_cli_def sample_start_def)
  with compile_input_files_cases [OF safe parsecmdoptions_ok idle, of sample_argv plain_file None]
  have made: "made_from sample_cli ?opts sample_start plain_file None out"
    by (auto simp: made_from_def)
  then obtain buf where "write_data ?opts out = Some buf" "write_size ?opts out = length buf"
    by (rule made_from_sizes)
  then have "\<exists>st'. finish_output sample_cli ?opts ''a.spv'' ''a.sb'' out
      (sample_start\<lparr>ws_library := (ws_library sample_start)\<lparr>cs_live := [Res_code, Res_data]\<rparr>\<rparr>) = Cli_exit EXIT_SUCCESS st'"
    using free_output_made [OF idle made, of "sample_start\<lparr>ws_files := [''a.sb'' \<mapsto> buf]\<rparr>"]
    by (simp add: finish_output_def write_output_def sample_parsed initial_options_def)
      (simp add: sample_cli_def sample_start_def)
  moreover have "cli_main sample_cli sample_argv sample_start = finish_output sample_cli ?opts ''a.spv'' ''a.sb'' out
      (sample_start\<lparr>ws_library := (ws_library sample_start)\<lparr>cs_live := [Res_code, Res_data]\<rparr>\<rparr>)"
    using made
    by (simp add: cli_main_def run_options_def read_file_def read_previous_def made_from_def sample_parsed
        initial_options_def) (simp add: sample_cli_def)
  ultimately show ?thesis by simp
qed


end
