(* ===== verification/User_Sgprs.thy ===== *)
theory User_Sgprs
  imports Shader_Args
begin

text \<open>
  The user data of a stage: how many registers the declarations of Shader_Args take, the allocation of
  descriptor sets and inlined push constants that the second pass makes, and the proof that the
  result never exceeds what the hardware loads.  The locale \<open>every_argument\<close> carries a predicate on
  declarations from the kinds of arguments to whole stages; it is interpreted for every such predicate.
\<close>

section \<open>Sizes of declarations\<close>

fun user_size :: "arg_decl \<Rightarrow> nat" where
  "user_size (RADV_ADD_UD_ARG sz ty m ud) = sz"
| "user_size (Descriptor_set s) = 1"
| "user_size (Descriptor_heap h) = 1"
| "user_size _ = 0"

fun file_size :: "ac_arg_regfile \<Rightarrow> arg_decl \<Rightarrow> nat" where
  "file_size f (RADV_ADD_ARG g sz ty m) = (if f = g then sz else 0)"
| "file_size f (RADV_ADD_NULL_ARG g sz ty) = (if f = g then sz else 0)"
| "file_size f d = (if f = AC_ARG_SGPR then user_size d else 0)"

fun arg_number :: "arg_decl \<Rightarrow> nat" where
  "arg_number (RADV_ADD_ARG g sz ty m) = 1"
| "arg_number (RADV_ADD_NULL_ARG g sz ty) = 1"
| "arg_number (RADV_ADD_UD_ARG sz ty m ud) = 1"
| "arg_number d = user_size d"

definition decl_total :: "(arg_decl \<Rightarrow> nat) \<Rightarrow> arg_decl list \<Rightarrow> nat" where
  "decl_total f ds = sum_list (map f ds)"

lemma decl_total_simps [simp]:
  "decl_total f [] = 0" "decl_total f (d # ds) = f d + decl_total f ds" "decl_total f (ds @ ds') = decl_total f ds + decl_total f ds'"
  by (simp_all add: decl_total_def)

lemma decl_total_only_if: "decl_total f (only_if b ds) = (if b then decl_total f ds else 0)"
  by (simp add: only_if_def)

lemma decl_total_map_const: "(\<And>x. x \<in> set xs \<Longrightarrow> f (g x) = c) \<Longrightarrow> decl_total f (map g xs) = c * length xs"
  by (induction xs) simp_all

lemma decl_total_append_le: "decl_total f a \<le> m \<Longrightarrow> decl_total f b \<le> n \<Longrightarrow> decl_total f (a @ b) \<le> m + n"
  by simp

lemma decl_total_Cons_le: "f a \<le> m \<Longrightarrow> decl_total f b \<le> n \<Longrightarrow> decl_total f (a # b) \<le> m + n"
  by simp

lemma decl_total_only_if_le: "decl_total f ds \<le> n \<Longrightarrow> decl_total f (only_if b ds) \<le> n"
  by (simp add: only_if_def)

lemma decl_total_if_le: "decl_total f a \<le> m \<Longrightarrow> decl_total f b \<le> n \<Longrightarrow> decl_total f (if c then a else b) \<le> max m n"
  by (simp add: max.coboundedI1 max.coboundedI2)

lemmas decl_total_le = decl_total_append_le decl_total_only_if_le decl_total_if_le

lemma user_file_size: "user_size d \<le> file_size AC_ARG_SGPR d"
  by (cases d) simp_all

lemma ac_add_arg_fields [simp]:
  "as_num_user_sgprs (ac_add_arg f sz ty m st) = as_num_user_sgprs st"
  "as_shader_data (ac_add_arg f sz ty m st) = as_shader_data st"
  "as_inline_push_const_mask (ac_add_arg f sz ty m st) = as_inline_push_const_mask st"
  "as_num_sgprs_used (ac_add_arg f sz ty m st) = as_num_sgprs_used st + (if f = AC_ARG_SGPR then of_nat sz else 0)"
  "as_num_vgprs_used (ac_add_arg f sz ty m st) = as_num_vgprs_used st + (if f = AC_ARG_VGPR then of_nat sz else 0)"
  by (cases f; simp add: ac_add_arg_def Let_def)+

lemma run_decl_user: "d \<noteq> Restart_user_sgprs \<Longrightarrow> as_num_user_sgprs (run_decl d st) = as_num_user_sgprs st + of_nat (user_size d)"
  by (cases d) (simp_all add: add_ud_arg_def add_descriptor_set_def add_descriptor_heap_def ac_add_preserved_def
      ac_compact_ps_vgpr_args_def Let_def split: prod.split)

lemma run_user:
  "Restart_user_sgprs \<notin> set ds \<Longrightarrow> as_num_user_sgprs (fold run_decl ds st) = as_num_user_sgprs st + of_nat (decl_total user_size ds)"
  by (induction ds arbitrary: st) (auto simp: run_decl_user)

section \<open>User data\<close>

lemma global_resources:
  "decl_total f (declare_global_input_sgprs ci info (Some us)) =
   decl_total f (declare_global_input_sgprs ci info None) + decl_total f (resource_decls info us)"
  by (simp add: declare_global_input_sgprs_def)

lemmas stage_defs = compute_decls_def vertex_decls_def tess_ctrl_decls_def tess_eval_decls_def merged_geometry_decls_def
  geometry_decls_def fragment_decls_def declare_unmerged_vs_tcs_args_def declare_unmerged_vs_tes_gs_args_def

lemma stage_resources:
  assumes "stage_decls ci gfx_state info stage previous_stage q p None = Some ds"
  shows "\<exists>ds'. stage_decls ci gfx_state info stage previous_stage q p (Some us) = Some ds' \<and>
    decl_total f ds' = decl_total f ds + decl_total f (resource_decls info us)"
  using assms
  by (cases stage) (auto simp: stage_decls_def stage_defs global_resources Let_def split: if_splits)

text \<open>Predicates that hold for every declaration of a list, component by component.\<close>

lemma all_only_if [simp]: "list_all P (only_if b ds) \<longleftrightarrow> (b \<longrightarrow> list_all P ds)"
  by (simp add: only_if_def)

lemma all_map: "list_all P (map g xs) \<longleftrightarrow> (\<forall>x\<in>set xs. P (g x))"
  by (simp add: list_all_iff)

lemma all_concat: "list_all P (concat xss) \<longleftrightarrow> (\<forall>xs\<in>set xss. list_all P xs)"
  by (auto simp: list_all_iff)

lemma all_if: "list_all P (if c then a else b) \<longleftrightarrow> (c \<longrightarrow> list_all P a) \<and> (\<not> c \<longrightarrow> list_all P b)"
  by simp

text \<open>A predicate that every kind of argument satisfies holds for whole stages; only the mask of inlined
  constants and the statements outside the stage lists need care.\<close>

locale every_argument =
  fixes P :: "arg_decl \<Rightarrow> bool"
  assumes arguments: "0 < sz \<Longrightarrow> P (RADV_ADD_UD_ARG sz ty m ud)" "0 < sz \<Longrightarrow> P (RADV_ADD_ARG f sz ty m)"
      "0 < sz \<Longrightarrow> P (RADV_ADD_NULL_ARG f sz ty)"
      "P (Descriptor_set s)" "P (Descriptor_heap s)"
    and marks: "P (Preserved m)" "P (Pending_vmem m)" "P (Mark_used m)"
begin

lemma parts:
  "list_all P (declare_vs_specific_input_sgprs info)"
  "list_all P (declare_vs_input_vgprs ci info b)"
  "list_all P (declare_streamout_sgprs info stage)"
  "list_all P declare_tes_input_vgprs"
  "list_all P (declare_ms_input_sgprs info)"
  "list_all P (declare_ms_input_vgprs ci)"
  "list_all P (declare_ngg_sgprs info b)"
  "list_all P (gs_input_vgprs ci)"
  by (simp_all add: arguments marks declare_vs_specific_input_sgprs_def Let_def declare_vs_input_vgprs_def
      vs_hardware_vgprs_def declare_streamout_sgprs_def declare_tes_input_vgprs_def declare_ms_input_sgprs_def
      declare_ms_input_vgprs_def declare_ngg_sgprs_def gs_input_vgprs_def all_map all_concat)

lemma global:
  assumes "\<And>u. us = Some u \<Longrightarrow> P (Inline_mask (us_inline_push_constant_mask u))"
  shows "list_all P (declare_global_input_sgprs ci info us)"
  using assms
  by (simp add: arguments declare_global_input_sgprs_def resource_decls_def descriptor_decls_def all_map Let_def
      split: option.split)

lemma stages:
  assumes "\<And>u. us = Some u \<Longrightarrow> P (Inline_mask (us_inline_push_constant_mask u))"
  shows "list_all P (compute_decls ci info stage q us)"
    "list_all P (vertex_decls ci info us)"
    "list_all P (tess_ctrl_decls ci gfx_state info previous_stage us)"
    "list_all P (tess_eval_decls ci info us)"
    "list_all P (geometry_decls ci info previous_stage q v us)"
  by (simp_all add: arguments marks stage_defs Let_def all_map parts global [OF assms])

lemma fragment:
  assumes "\<And>u. us = Some u \<Longrightarrow> P (Inline_mask (us_inline_push_constant_mask u))"
    and "P (Compact_ps_vgprs (ai_ps_spi_ps_input_ena info))"
  shows "list_all P (fragment_decls ci gfx_state info us)"
  using assms(2) by (simp add: arguments fragment_decls_def declare_ps_input_vgprs_def global [OF assms(1)])

lemma whole_stage:
  assumes "stage_decls ci gfx_state info stage previous_stage q v us = Some ds"
    and "\<And>u. us = Some u \<Longrightarrow> P (Inline_mask (us_inline_push_constant_mask u))"
    and "stage = MESA_SHADER_FRAGMENT \<Longrightarrow> P (Compact_ps_vgprs (ai_ps_spi_ps_input_ena info))"
  shows "list_all P ds"
  using assms(1,3) stages [OF assms(2)] fragment [OF assms(2)]
  by (cases stage) (auto simp: stage_decls_def split: if_splits)

end

interpretation no_restart: every_argument "\<lambda>d. d \<noteq> Restart_user_sgprs"
  by unfold_locales simp_all

text \<open>The only mask that a list stores.\<close>

definition only_mask :: "u64 \<Rightarrow> arg_decl \<Rightarrow> bool" where
  "only_mask w d \<longleftrightarrow> (\<forall>w'. d = Inline_mask w' \<longrightarrow> w' = w)"

interpretation one_mask: every_argument "only_mask w" for w
  by unfold_locales (simp_all add: only_mask_def)

lemma stage_no_restart:
  assumes "stage_decls ci gfx_state info stage previous_stage q v us = Some ds"
  shows "Restart_user_sgprs \<notin> set ds"
  using no_restart.whole_stage [OF assms] by (auto simp: list_all_iff)

lemma run_mask:
  "list_all (only_mask w) ds \<Longrightarrow> Inline_mask w \<in> set ds \<or> as_inline_push_const_mask st = w \<Longrightarrow>
     as_inline_push_const_mask (fold run_decl ds st) = w"
proof (induction ds arbitrary: st)
  case (Cons d ds)
  have "as_inline_push_const_mask (run_decl d st) = (case d of Inline_mask w' \<Rightarrow> w' | _ \<Rightarrow> as_inline_push_const_mask st)"
    by (cases d) (simp_all add: add_ud_arg_def add_descriptor_set_def add_descriptor_heap_def ac_add_preserved_def
        ac_compact_ps_vgpr_args_def Let_def split: prod.split)
  with Cons show ?case by (auto simp: only_mask_def split: arg_decl.splits)
qed simp

lemma stage_mask:
  assumes "stage_decls ci gfx_state info stage previous_stage q v (Some us) = Some ds"
  shows "as_inline_push_const_mask (fold run_decl ds st) = us_inline_push_constant_mask us"
proof (rule run_mask)
  let ?w = "us_inline_push_constant_mask us"
  show "list_all (only_mask ?w) ds"
    by (rule one_mask.whole_stage [OF assms]) (simp_all add: only_mask_def)
  have "Inline_mask ?w \<in> set (declare_global_input_sgprs ci info (Some us))"
    by (simp add: declare_global_input_sgprs_def resource_decls_def Let_def)
  then show "Inline_mask ?w \<in> set ds \<or> as_inline_push_const_mask st = ?w"
    using assms by (cases stage) (auto simp: stage_decls_def stage_defs Let_def split: if_splits)
qed

subsection \<open>Push constants\<close>

lemma util_last_bit_bound: "util_last_bit w \<le> i \<Longrightarrow> \<not> bit w i"
proof (induction w arbitrary: i rule: util_last_bit.induct)
  case (1 u)
  show ?case
  proof (cases "u = 0")
    case False
    with 1 have "util_last_bit (drop_bit 1 u) \<le> i - 1" "i > 0"
      using util_last_bit.simps [of u] by auto
    with 1(1) [OF False] have "\<not> bit (drop_bit 1 u) (i - 1)" by blast
    with \<open>i > 0\<close> show ?thesis by (simp add: bit_drop_bit_eq)
  qed simp
qed

lemma util_last_bit_highest: "w \<noteq> 0 \<Longrightarrow> bit w (util_last_bit w - 1)"
proof (induction w rule: util_last_bit.induct)
  case (1 u)
  show ?case
  proof (cases "drop_bit 1 u = 0")
    case True
    have "bit u 0"
    proof (rule ccontr)
      assume "\<not> bit u 0"
      with True have "\<not> bit u i" for i
        using bit_drop_bit_eq [of 1 u] by (cases i) (simp_all add: fun_eq_iff)
      with 1 show False by (simp add: bit_eq_iff)
    qed
    moreover have "util_last_bit u = 1"
      using True 1 util_last_bit.simps [of u] util_last_bit.simps [of "0 :: 'a word"] by simp
    ultimately show ?thesis by simp
  next
    case False
    with 1 have "bit (drop_bit 1 u) (util_last_bit (drop_bit 1 u) - 1)" by blast
    moreover have "util_last_bit u = util_last_bit (drop_bit 1 u) + 1" "util_last_bit (drop_bit 1 u) \<noteq> 0"
      using 1 False util_last_bit.simps [of u] util_last_bit.simps [of "drop_bit 1 u"] by simp_all
    ultimately show ?thesis by (simp add: bit_drop_bit_eq)
  qed
qed

lemma util_last_bit_le: "util_last_bit (w :: 'a::len word) \<le> LENGTH('a)"
proof (rule ccontr)
  assume large: "\<not> util_last_bit w \<le> LENGTH('a)"
  then have "\<not> bit w (util_last_bit w - 1)" using bit_imp_le_length [of w "util_last_bit w - 1"] by auto
  then have "w = 0" using util_last_bit_highest by blast
  with large show False by (simp add: util_last_bit.simps [of 0])
qed

text \<open>The constants that are kept, as the list of their dwords.\<close>

definition dwords :: "u64 \<Rightarrow> nat list" where
  "dwords w = filter (bit w) [0..<64]"

lemma length_dwords: "length (dwords w) = util_bitcount w"
  by (simp add: dwords_def util_bitcount_popcount popcount_def del: upt_rec_numeral)

lemma bits_drop_last:
  assumes "(w :: 'a::len word) \<noteq> 0"
  shows "filter (bit (unset_bit (util_last_bit w - 1) w)) [0..<LENGTH('a)] = butlast (filter (bit w) [0..<LENGTH('a)])"
proof -
  let ?k = "util_last_bit w - 1"
  have k: "bit w ?k" by (rule util_last_bit_highest [OF assms])
  then have "?k < LENGTH('a)" by (rule bit_imp_le_length)
  then have split: "[0..<LENGTH('a)] = [0..<?k] @ ?k # [Suc ?k..<LENGTH('a)]"
    using upt_add_eq_append [of 0 ?k "LENGTH('a) - ?k"] by (simp add: upt_conv_Cons)
  have none: "filter P [Suc ?k..<LENGTH('a)] = []" if "\<And>i. P i \<Longrightarrow> bit w i" for P
    using that util_last_bit_bound [of w] by (fastforce simp: filter_empty_conv)
  have "filter (bit w) [0..<LENGTH('a)] = filter (bit w) [0..<?k] @ [?k]"
    unfolding split using k none [of "bit w"] by simp
  moreover have "filter (bit (unset_bit ?k w)) [0..<LENGTH('a)] = filter (bit w) [0..<?k]"
    unfolding split using none [of "bit (unset_bit ?k w)"] by (auto simp: bit_unset_bit_iff intro!: filter_cong)
  ultimately show ?thesis by simp
qed

lemma dwords_drop_last:
  assumes "w \<noteq> 0"
  shows "dwords (w AND NOT (BITFIELD64_BIT (util_last_bit w - 1))) = butlast (dwords w)"
proof -
  have "w AND NOT (BITFIELD64_BIT k) = unset_bit k w" for k
    by (rule bit_word_eqI) (auto simp: BITFIELD64_BIT_def bit_simps)
  then show ?thesis using bits_drop_last [OF assms] by (simp add: dwords_def del: upt_rec_numeral)
qed

lemma clamp_push_consts_keeps:
  "n = util_bitcount w \<Longrightarrow> dwords (clamp_push_consts limit n w) = take limit (dwords w)"
proof (induction n arbitrary: w)
  case 0
  then show ?case using length_dwords [of w] by (simp add: clamp_push_consts.simps)
next
  case (Suc n)
  show ?case
  proof (cases "Suc n > limit")
    case True
    have "w \<noteq> 0" using Suc.prems by (auto simp: util_bitcount.simps)
    let ?w = "w AND NOT (BITFIELD64_BIT (util_last_bit w - 1))"
    have w: "dwords ?w = butlast (dwords w)" by (rule dwords_drop_last [OF \<open>w \<noteq> 0\<close>])
    then have "n = util_bitcount ?w" using Suc.prems by (simp flip: length_dwords)
    then have "dwords (clamp_push_consts limit n ?w) = take limit (butlast (dwords w))" using Suc.IH w by simp
    also have "\<dots> = take limit (dwords w)"
      using True Suc.prems by (auto simp: butlast_conv_take length_dwords min_def)
    finally show ?thesis using True by (simp add: clamp_push_consts.simps [of limit "Suc n"])
  next
    case False
    then show ?thesis using Suc.prems length_dwords [of w] by (simp add: clamp_push_consts.simps)
  qed
qed

subsection \<open>The limit of the hardware\<close>

text \<open>What the caller of this code guarantees about the information of a stage: it is that of the stage, NGG is
  used only where it exists, push constants to inline are loaded, and a compute stage neither writes
  transform feedback nor is the prolog of a ray-tracing pipeline.\<close>

definition args_wf :: "args_compiler_info \<Rightarrow> args_info \<Rightarrow> mesa_shader_stage \<Rightarrow> bool" where
  "args_wf ci info stage \<longleftrightarrow> ri_stage info = stage \<and> \<not> ri_merged_shader_compiled_separately info \<and>
     (ri_is_ngg info \<longrightarrow> gfx_level ci \<ge> GFX10 \<and> stage \<noteq> MESA_SHADER_COMPUTE \<and> stage \<noteq> MESA_SHADER_TASK) \<and>
     (ri_inline_push_constant_mask info \<noteq> 0 \<longrightarrow> ri_loads_push_constants info) \<and>
     (stage = MESA_SHADER_COMPUTE \<or> stage = MESA_SHADER_TASK \<longrightarrow>
        so_enabled_stream_buffers_mask (ri_so info) = 0 \<and> ai_type info \<noteq> RADV_SHADER_TYPE_RT_PROLOG)"

text \<open>The user registers that come before the declarations of the stage.\<close>

definition head_user :: "args_compiler_info \<Rightarrow> mesa_shader_stage \<Rightarrow> mesa_shader_stage \<Rightarrow> nat" where
  "head_user ci stage previous_stage =
     (if previous_stage \<noteq> MESA_SHADER_NONE then 0
      else (if gfx_level ci < GFX11 \<or> stage \<noteq> MESA_SHADER_COMPUTE \<and> stage \<noteq> MESA_SHADER_TASK then 2 else 0) +
           (if stage = MESA_SHADER_TASK then 2 else 0))"

lemma head_user:
  "as_num_user_sgprs (fold run_decl (head_decls ci s p) radv_init_shader_args) = of_nat (head_user ci s p)"
  by (simp add: head_decls_def only_if_def head_user_def add_ud_arg_def radv_init_shader_args_def Let_def)

lemma body_user:
  assumes "stage_decls ci gfx_state info s p q v us = Some body"
  shows "as_num_user_sgprs (fold run_decl (head_decls ci s p @ body) radv_init_shader_args) =
    of_nat (head_user ci s p + decl_total user_size body)"
  by (simp add: head_user run_user [OF stage_no_restart [OF assms]])

lemma declared_args:
  assumes "radv_declare_shader_args ci gfx_state info stage previous_stage = Some st"
  obtains s p q v body0 us body where "effective_stages ci info stage previous_stage = (s, p)"
    "stage_decls ci gfx_state info s p q v None = Some body0"
    "allocate_user_sgprs info (available_sgprs ci stage) (of_nat (head_user ci s p + decl_total user_size body0)) = Some us"
    "stage_decls ci gfx_state info s p q v (Some us) = Some body"
    "st = fold run_decl (head_decls ci s p @ body) radv_init_shader_args"
proof -
  obtain s p where eff: "effective_stages ci info stage previous_stage = (s, p)" by fastforce
  show ?thesis
    using assms that [OF eff] body_user
    unfolding radv_declare_shader_args_def declare_shader_args_def eff Let_def
    by (auto split: option.splits)
qed

lemma user_global:
  "decl_total user_size (declare_global_input_sgprs ci info None) \<le>
     (if ri_stage info \<in> {MESA_SHADER_VERTEX, MESA_SHADER_FRAGMENT} then 2 else 4)"
  by (simp add: declare_global_input_sgprs_def decl_total_only_if)

lemma user_global_compute:
  assumes "ri_stage info = MESA_SHADER_COMPUTE \<or> ri_stage info = MESA_SHADER_TASK" "\<not> ri_merged_shader_compiled_separately info"
    "so_enabled_stream_buffers_mask (ri_so info) = 0"
  shows "decl_total user_size (declare_global_input_sgprs ci info None) = 0"
  using assms by (auto simp: declare_global_input_sgprs_def decl_total_only_if)

lemma user_parts:
  "decl_total user_size (declare_vs_specific_input_sgprs info) \<le> 6"
  "decl_total user_size (declare_vs_input_vgprs ci info b) = 0"
  "decl_total user_size (declare_streamout_sgprs info stage) = 0"
  "decl_total user_size declare_tes_input_vgprs = 0"
  "decl_total user_size (declare_ms_input_sgprs info) \<le> 5"
  "decl_total user_size (declare_ms_input_vgprs ci) = 0"
  "decl_total user_size (declare_ngg_sgprs info b) \<le> 7"
  "decl_total user_size (gs_input_vgprs ci) = 0"
  "decl_total user_size (declare_ps_input_vgprs ci info) = 0"
proof -
  have "decl_total user_size (concat (map (\<lambda>i. [RADV_ADD_ARG AC_ARG_VGPR 4 AC_ARG_VALUE (vs_inputs i), Pending_vmem (vs_inputs i)]) xs)) = 0" for xs
    by (induction xs) simp_all
  moreover have "decl_total user_size (map (\<lambda>i. sgpr (streamout_offset i)) xs) = 0" for xs
    by (induction xs) simp_all
  ultimately show "decl_total user_size (declare_vs_input_vgprs ci info b) = 0" "decl_total user_size (declare_streamout_sgprs info stage) = 0"
    by (simp_all add: declare_vs_input_vgprs_def vs_hardware_vgprs_def declare_streamout_sgprs_def decl_total_only_if)
qed (simp_all add: declare_vs_specific_input_sgprs_def declare_tes_input_vgprs_def declare_ms_input_sgprs_def
    declare_ms_input_vgprs_def declare_ngg_sgprs_def gs_input_vgprs_def declare_ps_input_vgprs_def decl_total_only_if)

lemmas user_zero = user_parts(2,3,4,6,8,9)

lemma user_stages:
  assumes "\<not> ri_merged_shader_compiled_separately info"
  shows "decl_total user_size (vertex_decls ci info None) \<le> 8 + decl_total user_size (declare_global_input_sgprs ci info None)"
    "decl_total user_size (tess_ctrl_decls ci gfx_state info p None) \<le> (if p = MESA_SHADER_NONE then 6 else 12)"
    "decl_total user_size (tess_eval_decls ci info None) \<le> 6"
    "decl_total user_size (geometry_decls ci info p q v None) \<le>
       (if p = MESA_SHADER_NONE then 6 else if ri_is_ngg info then 21 else 12)"
    "decl_total user_size (fragment_decls ci gfx_state info None) \<le> 3 + decl_total user_size (declare_global_input_sgprs ci info None)"
proof -
  have global: "decl_total user_size (declare_global_input_sgprs ci info None) \<le> 4"
    using user_global [of ci info] by (simp split: if_splits)
  note parts = user_parts(1) [of info] user_parts(5) [of info] user_parts(7) [of info]
  show "decl_total user_size (vertex_decls ci info None) \<le> 8 + decl_total user_size (declare_global_input_sgprs ci info None)"
    using parts(1) by (simp add: vertex_decls_def user_zero decl_total_only_if)
  show "decl_total user_size (tess_ctrl_decls ci gfx_state info p None) \<le> (if p = MESA_SHADER_NONE then 6 else 12)"
    using parts(1) global assms by (simp add: tess_ctrl_decls_def user_zero decl_total_only_if Let_def)
  show "decl_total user_size (tess_eval_decls ci info None) \<le> 6"
    using global by (simp add: tess_eval_decls_def user_zero decl_total_only_if)
  show "decl_total user_size (fragment_decls ci gfx_state info None) \<le> 3 + decl_total user_size (declare_global_input_sgprs ci info None)"
    by (simp add: fragment_decls_def user_zero decl_total_only_if)
  have first: "decl_total user_size (if p = MESA_SHADER_VERTEX then declare_vs_specific_input_sgprs info
      else if p = MESA_SHADER_MESH then declare_ms_input_sgprs info else []) \<le> 6"
    using parts by simp
  have one: "decl_total user_size (only_if b [RADV_ADD_UD_ARG 1 ty m u]) \<le> 1" for b ty m u by (simp add: only_if_def)
  have ngg: "decl_total user_size (only_if (ri_is_ngg info) (declare_ngg_sgprs info b @ only_if c [RADV_ADD_UD_ARG 1 ty m u])) \<le>
      (if ri_is_ngg info then 8 else 0)" for b c ty m u
    using user_parts(7) [of info b] by (simp add: only_if_def)
  have vgprs: "decl_total user_size (only_if b (gs_input_vgprs ci)) \<le> 0" for b
    by (simp add: only_if_def user_zero)
  have "decl_total user_size (merged_geometry_decls ci info p q v None) \<le>
      6 + (4 + (1 + (1 + ((if ri_is_ngg info then 1 else 0) + ((if ri_is_ngg info then 8 else 0) + 0)))))"
    unfolding merged_geometry_decls_def decl_total_simps
    by (intro add_mono first global one ngg vgprs) (simp add: only_if_def)
  then have "decl_total user_size (merged_geometry_decls ci info p q v None) \<le> (if ri_is_ngg info then 21 else 12)"
    by (simp split: if_splits)
  then show "decl_total user_size (geometry_decls ci info p q v None) \<le>
       (if p = MESA_SHADER_NONE then 6 else if ri_is_ngg info then 21 else 12)"
    using global assms by (auto simp: geometry_decls_def user_zero decl_total_only_if)
qed

lemma user_compute:
  assumes "args_wf ci info stage" "stage = MESA_SHADER_COMPUTE \<or> stage = MESA_SHADER_TASK"
  shows "decl_total user_size (compute_decls ci info stage q None) \<le> 6"
proof -
  have "decl_total user_size (map (\<lambda>i. if b then Mark_used (Ac (workgroup_ids i)) else sgpr (workgroup_ids i)) xs) = 0" for b xs
    by (induction xs) simp_all
  then show ?thesis
    using assms user_global_compute [of info ci] by (auto simp: compute_decls_def args_wf_def decl_total_only_if)
qed

lemma unat_available:
  "unat (available_sgprs ci stage) =
     (if gfx_level ci \<ge> GFX9 \<and> stage \<noteq> MESA_SHADER_COMPUTE \<and> stage \<noteq> MESA_SHADER_TASK then 32 else 16)"
  by (simp add: available_sgprs_def)

lemma fixed_user:
  assumes wf: "args_wf ci info stage" and eff: "effective_stages ci info stage previous_stage = (s, p)"
    and body: "stage_decls ci gfx_state info s p q v None = Some body"
  shows "head_user ci s p + decl_total user_size body + 4 \<le> unat (available_sgprs ci stage)"
proof -
  have sep: "\<not> ri_merged_shader_compiled_separately info" and st: "ri_stage info = stage"
    using wf by (simp_all add: args_wf_def)
  have head: "head_user ci s p \<le> (if p = MESA_SHADER_NONE then if s = MESA_SHADER_TASK then 4 else 2 else 0)"
    by (simp add: head_user_def)
  have avail: "16 \<le> unat (available_sgprs ci stage)" by (simp add: unat_available)
  show ?thesis
  proof (cases "gfx_level ci \<ge> GFX10 \<and> ri_is_ngg info \<and> stage \<noteq> MESA_SHADER_GEOMETRY")
    case True
    then have s: "s = MESA_SHADER_GEOMETRY" "p = stage" using eff sep by (simp_all add: effective_stages_def)
    have "gfx_level ci \<ge> GFX9" using True by (auto simp: less_eq_amd_gfx_level_def)
    then have "unat (available_sgprs ci stage) = 32" using True wf by (auto simp: unat_available args_wf_def)
    then show ?thesis
      using body s head user_stages(4) [OF sep, of ci p q v] by (simp add: stage_decls_def split: if_splits)
  next
    case False
    then have s: "s = stage" "p = previous_stage" using eff sep by (auto simp: effective_stages_def)
    have ngg: "unat (available_sgprs ci stage) = 32" if "ri_is_ngg info"
    proof -
      have "gfx_level ci \<ge> GFX9" using that wf by (auto simp: args_wf_def less_eq_amd_gfx_level_def)
      then show ?thesis using that wf by (auto simp: unat_available args_wf_def)
    qed
    note global = user_global [of ci info, unfolded st]
    show ?thesis
    proof (cases stage)
      case MESA_SHADER_COMPUTE
      then show ?thesis using body s head avail user_compute [OF wf, of q] by (simp add: stage_decls_def split: if_splits)
    next
      case MESA_SHADER_TASK
      then show ?thesis using body s head avail user_compute [OF wf, of q] by (simp add: stage_decls_def split: if_splits)
    next
      case MESA_SHADER_VERTEX
      then show ?thesis using body s head avail global user_stages(1) [OF sep, of ci] by (simp add: stage_decls_def split: if_splits)
    next
      case MESA_SHADER_TESS_CTRL
      then show ?thesis
        using body s head avail user_stages(2) [OF sep, of ci gfx_state p] by (simp add: stage_decls_def split: if_splits)
    next
      case MESA_SHADER_TESS_EVAL
      then show ?thesis using body s head avail user_stages(3) [OF sep, of ci] by (simp add: stage_decls_def split: if_splits)
    next
      case MESA_SHADER_GEOMETRY
      then show ?thesis
        using body s head avail ngg user_stages(4) [OF sep, of ci p q v] by (simp add: stage_decls_def split: if_splits)
    next
      case MESA_SHADER_FRAGMENT
      then show ?thesis
        using body s head avail global user_stages(5) [OF sep, of ci gfx_state] by (simp add: stage_decls_def split: if_splits)
    qed (use body s in \<open>simp_all add: stage_decls_def\<close>)
  qed
qed

lemma small_words:
  assumes "r \<le> 32"
  shows "ucast (of_nat r :: u32) = (of_nat r :: u8)" "unat (of_nat r :: u8) = r" "unat (of_nat r :: u32) = r"
proof -
  have "r < 2 ^ 8" "r < 2 ^ 32" using assms by simp_all
  then show "unat (of_nat r :: u8) = r" "unat (of_nat r :: u32) = r" "ucast (of_nat r :: u32) = (of_nat r :: u8)"
    by (simp_all add: unat_of_nat unsigned_of_nat take_bit_nat_eq_self)
qed

lemma sub_small:
  assumes "j \<le> r" "r \<le> 32"
  shows "unat (of_nat r - (of_nat j :: u8)) = r - j"
proof -
  have "of_nat r - (of_nat j :: u8) = of_nat (r - j)" using assms(1) by (rule of_nat_diff [symmetric])
  then show ?thesis using small_words(2) [of "r - j"] assms(2) by simp
qed

lemma user_resources:
  assumes "\<not> ri_merged_shader_compiled_separately info"
  shows "decl_total user_size (resource_decls info us) =
    (if ai_descriptor_heap info then 2 else if us_indirect_all_descriptor_sets us then 1
     else util_bitcount (ri_desc_set_used_mask info)) +
    (if ri_loads_push_constants info \<and> \<not> us_inlined_all_push_consts us then 1 else 0) +
    (if ai_loads_dynamic_offsets info then 1 + (if ai_loads_dynamic_descriptors_offset_addr info then 1 else 0) else 0) +
    util_bitcount (us_inline_push_constant_mask us)"
proof -
  have "decl_total user_size (map Descriptor_set xs) = length xs" for xs by (induction xs) simp_all
  then have "decl_total user_size (descriptor_decls info us) =
      (if ai_descriptor_heap info then 2 else if us_indirect_all_descriptor_sets us then 1
       else util_bitcount (ri_desc_set_used_mask info))"
    by (simp add: descriptor_decls_def util_bitcount_popcount popcount_def del: upt_rec_numeral)
  moreover have "decl_total user_size (map (\<lambda>i. ud_value 1 (Ac (inline_push_consts i)) AC_UD_INLINE_PUSH_CONSTANTS) xs) = length xs" for xs
    by (induction xs) simp_all
  ultimately show ?thesis
    using assms by (simp add: resource_decls_def decl_total_only_if Let_def)
qed

text \<open>The allocation of the second pass, in natural numbers: \<open>r\<close> registers are left.\<close>

lemma inline_fits:
  fixes info :: args_info
  assumes "us_inline_push_constant_mask us = 0" "\<not> us_inlined_all_push_consts us"
  defines "us' \<equiv> allocate_inline_push_consts info us"
  shows "util_bitcount (us_inline_push_constant_mask us') \<le>
      unat (us_remaining_sgprs us) + (if us_inlined_all_push_consts us' then 1 else 0)"
    "us_indirect_all_descriptor_sets us' = us_indirect_all_descriptor_sets us"
    "us_inlined_all_push_consts us' \<Longrightarrow> ri_inline_push_constant_mask info \<noteq> 0"
proof -
  let ?w = "ri_inline_push_constant_mask info" and ?r = "us_remaining_sgprs us"
  have "util_bitcount (clamp_push_consts (min (unat ?r) 8) (util_bitcount ?w) ?w) \<le> unat ?r"
    using clamp_push_consts_keeps [of "util_bitcount ?w" ?w "min (unat ?r) 8"] by (simp flip: length_dwords)
  moreover have "util_bitcount (0 :: u64) = 0" by (simp add: util_bitcount.simps)
  ultimately show "util_bitcount (us_inline_push_constant_mask us') \<le>
      unat (us_remaining_sgprs us) + (if us_inlined_all_push_consts us' then 1 else 0)"
    using assms by (auto simp: allocate_inline_push_consts_def Let_def)
qed (auto simp: us'_def allocate_inline_push_consts_def Let_def assms(2))

lemma allocated_user:
  assumes sep: "\<not> ri_merged_shader_compiled_separately info"
    and push: "ri_inline_push_constant_mask info \<noteq> 0 \<longrightarrow> ri_loads_push_constants info"
    and fits: "n + 4 \<le> unat available" "unat available \<le> 32"
    and alloc: "allocate_user_sgprs info available (of_nat n) = Some us"
  shows "n + decl_total user_size (resource_decls info us) \<le> unat available"
proof -
  let ?e = "(if ri_loads_push_constants info then 1 else 0) +
    (if ai_loads_dynamic_offsets info then 1 + (if ai_loads_dynamic_descriptors_offset_addr info then 1 else 0) else 0) :: nat"
  let ?k = "util_bitcount (ri_desc_set_used_mask info)"
  define r where "r = unat available - (n + ?e)"
  have r: "1 \<le> r" "r \<le> 32" "n + ?e + r = unat available" using fits by (auto simp: r_def)
  have "of_nat n + bool_word (ri_loads_push_constants info) +
      (if ai_loads_dynamic_offsets info then 1 + bool_word (ai_loads_dynamic_descriptors_offset_addr info) else 0) =
      (of_nat (n + ?e) :: u32)"
    by (simp add: bool_word_def)
  moreover have "available - of_nat (n + ?e) = (of_nat r :: u32)"
  proof -
    have "available = of_nat (unat available)" by simp
    also have "\<dots> = of_nat (n + ?e) + of_nat r" by (simp only: of_nat_add flip: r(3))
    finally show ?thesis by (simp only: add_diff_cancel_left')
  qed
  ultimately have rem: "available - (of_nat n + bool_word (ri_loads_push_constants info) +
      (if ai_loads_dynamic_offsets info then 1 + bool_word (ai_loads_dynamic_descriptors_offset_addr info) else 0)) =
      (of_nat r :: u32)"
    by (simp only:)
  have r8: "ucast (of_nat r :: u32) = (of_nat r :: u8)" "unat (of_nat r :: u8) = r" "unat (of_nat r :: u32) = r"
    by (rule small_words [OF r(2)])+
  have k: "?k \<le> 32" using util_bitcount_le [of "ri_desc_set_used_mask info"] by simp
  have k8: "ucast (of_nat ?k :: u32) = (of_nat ?k :: u8)" "unat (of_nat ?k :: u8) = ?k" "unat (of_nat ?k :: u32) = ?k"
    by (rule small_words [OF k])+
  note sub = sub_small [OF _ r(2)]
  obtain us0 where us: "us = allocate_inline_push_consts info us0"
    and start: "us_inline_push_constant_mask us0 = 0" "\<not> us_inlined_all_push_consts us0"
    and left: "unat (us_remaining_sgprs us0) +
      (if ai_descriptor_heap info then 2 else if us_indirect_all_descriptor_sets us0 then 1 else ?k) = r"
  proof -
    show ?thesis
    proof (cases "ai_descriptor_heap info")
      case True
      with alloc have "2 \<le> r" using r8
        by (auto simp: allocate_user_sgprs_def rem Let_def word_less_nat_alt split: if_splits)
      with True alloc sep show ?thesis
        by (intro that) (auto simp: allocate_user_sgprs_def rem Let_def r8 sub [of 2, simplified] split: if_splits)
    next
      case False
      show ?thesis
      proof (cases "ri_force_indirect_descriptors info \<or> r < ?k")
        case True
        with False alloc sep r(1) show ?thesis
          by (intro that) (auto simp: allocate_user_sgprs_def rem Let_def r8 k8 word_less_nat_alt sub [of 1, simplified] split: if_splits)
      next
        case direct: False
        with False alloc sep show ?thesis
          by (intro that) (auto simp: allocate_user_sgprs_def rem Let_def r8 k8 word_less_nat_alt sub split: if_splits)
      qed
    qed
  qed
  show ?thesis
    using inline_fits [OF start, of info] left r(3) push user_resources [OF sep, of us]
    by (auto simp: us split: if_splits)
qed

lemma allocated_mask:
  assumes "allocate_user_sgprs info available n = Some us"
  shows "\<exists>k. dwords (us_inline_push_constant_mask us) = take k (dwords (ri_inline_push_constant_mask info))"
proof -
  have zero: "\<exists>k. dwords 0 = take k (dwords w)" for w
    by (rule exI [of _ 0]) (simp add: dwords_def)
  have "\<exists>k. dwords (us_inline_push_constant_mask (allocate_inline_push_consts info us0)) =
      take k (dwords (ri_inline_push_constant_mask info))" if "us_inline_push_constant_mask us0 = 0" for us0
    using that zero clamp_push_consts_keeps [OF refl]
    by (auto simp: allocate_inline_push_consts_def Let_def intro: exI [of _ 64])
      (metis length_dwords take_all order_refl)
  then show ?thesis
    using assms zero by (auto simp: allocate_user_sgprs_def Let_def split: if_splits)
qed

text \<open>The second pass of a well-formed stage, with the room that the first pass left.\<close>

lemma declared_fits:
  assumes "args_wf ci info stage" "radv_declare_shader_args ci gfx_state info stage previous_stage = Some st"
  obtains s p q v body0 us body where "effective_stages ci info stage previous_stage = (s, p)"
    "allocate_user_sgprs info (available_sgprs ci stage) (of_nat (head_user ci s p + decl_total user_size body0)) = Some us"
    "stage_decls ci gfx_state info s p q v (Some us) = Some body"
    "st = fold run_decl (head_decls ci s p @ body) radv_init_shader_args"
    "head_user ci s p + decl_total user_size body \<le> unat (available_sgprs ci stage)"
proof -
  obtain s p q v body0 us body where eff: "effective_stages ci info stage previous_stage = (s, p)"
    and body0: "stage_decls ci gfx_state info s p q v None = Some body0"
    and us: "allocate_user_sgprs info (available_sgprs ci stage) (of_nat (head_user ci s p + decl_total user_size body0)) = Some us"
    and body: "stage_decls ci gfx_state info s p q v (Some us) = Some body"
    and st: "st = fold run_decl (head_decls ci s p @ body) radv_init_shader_args"
    by (rule declared_args [OF assms(2)])
  have "decl_total user_size body = decl_total user_size body0 + decl_total user_size (resource_decls info us)"
    using stage_resources [OF body0, of us user_size] body by auto
  moreover have avail: "unat (available_sgprs ci stage) \<le> 32" by (simp add: unat_available)
  have "head_user ci s p + decl_total user_size body0 + decl_total user_size (resource_decls info us) \<le> unat (available_sgprs ci stage)"
    by (rule allocated_user [OF _ _ fixed_user [OF assms(1) eff body0] avail us])
      (use assms(1) in \<open>auto simp: args_wf_def\<close>)
  ultimately have "head_user ci s p + decl_total user_size body \<le> unat (available_sgprs ci stage)" by simp
  with eff us body st show ?thesis by (rule that)
qed

lemma declared_user:
  assumes "args_wf ci info stage" "radv_declare_shader_args ci gfx_state info stage previous_stage = Some st"
  shows "unat (as_num_user_sgprs st) \<le> unat (available_sgprs ci stage) \<and>
    (\<exists>k. dwords (as_inline_push_const_mask st) = take k (dwords (ri_inline_push_constant_mask info)))"
proof -
  obtain s p q v body0 us body where
    us: "allocate_user_sgprs info (available_sgprs ci stage) (of_nat (head_user ci s p + decl_total user_size body0)) = Some us"
    and body: "stage_decls ci gfx_state info s p q v (Some us) = Some body"
    and st: "st = fold run_decl (head_decls ci s p @ body) radv_init_shader_args"
    and fits: "head_user ci s p + decl_total user_size body \<le> unat (available_sgprs ci stage)"
    by (rule declared_fits [OF assms])
  have "unat (available_sgprs ci stage) \<le> 32" by (simp add: unat_available)
  then have "unat (as_num_user_sgprs st) = head_user ci s p + decl_total user_size body"
    using fits by (simp only: st body_user [OF body] small_words)
  moreover have "as_inline_push_const_mask st = us_inline_push_constant_mask us"
    by (simp add: st stage_mask [OF body])
  ultimately show ?thesis using fits allocated_mask [OF us] by simp
qed

text \<open>The stages that declare arguments under their own name; mesh shaders always run as NGG programs.\<close>

definition declaring_stage :: "mesa_shader_stage \<Rightarrow> bool" where
  "declaring_stage stage \<longleftrightarrow>
     stage \<in> {MESA_SHADER_VERTEX, MESA_SHADER_TESS_CTRL, MESA_SHADER_TESS_EVAL, MESA_SHADER_GEOMETRY, MESA_SHADER_FRAGMENT,
       MESA_SHADER_COMPUTE, MESA_SHADER_TASK}"

lemma declares:
  assumes "args_wf ci info stage" "\<not> ai_descriptor_heap info"
    "declaring_stage stage"
  shows "\<exists>st. radv_declare_shader_args ci gfx_state info stage previous_stage = Some st"
proof -
  have alloc: "\<exists>us. allocate_user_sgprs info a n = Some us" for a n
    using assms(2) by (simp add: allocate_user_sgprs_def Let_def)
  obtain s p where eff: "effective_stages ci info stage previous_stage = (s, p)" by fastforce
  have stage: "stage_decls ci gfx_state info s p q v us \<noteq> None" for q v us
    using assms(1,3) eff by (auto simp: effective_stages_def args_wf_def stage_decls_def declaring_stage_def split: if_splits)
  have pass: "declare_shader_args ci gfx_state info stage previous_stage us \<noteq> None" for us
    by (simp add: declare_shader_args_def eff Let_def stage)
  then obtain a where a: "declare_shader_args ci gfx_state info stage previous_stage None = Some a" by blast
  obtain us where "allocate_user_sgprs info (available_sgprs ci stage) (as_num_user_sgprs a) = Some us" using alloc by blast
  with a pass [of "Some us"] show ?thesis by (simp add: radv_declare_shader_args_def)
qed


text \<open>Programs for the PS5 that the examples below declare.\<close>

definition sample_args_ci :: args_compiler_info where
  "sample_args_ci = radv_compiler_info.extend
     (compile_compiler_info (zero_options\<lparr>opt_target := PSBC_TARGET_PS5, opt_ngg := True\<rparr>) MESA_SHADER_VERTEX)
     (args_compiler_info.fields False False)"

definition sample_args_key :: args_state_key where
  "sample_args_key = radv_graphics_state_key.extend (initial_graphics_state zero_options False 0)
     (args_state_key.fields False False False False)"

definition sample_args_info :: "radv_shader_info \<Rightarrow> args_info" where
  "sample_args_info ri = radv_shader_info.extend ri
     (args_info.fields RADV_SHADER_TYPE_DEFAULT False False False False False False False 0 True False True False False
        MESA_SHADER_NONE False 0 False False False False 0x0302 False False False False False False [False, False, False]
        False False False False False)"

definition sample_vertex_info :: args_info where
  "sample_vertex_info = sample_args_info (zero_info\<lparr>ri_stage := MESA_SHADER_VERTEX, ri_is_ngg := True, ri_loads_push_constants := True,
     ri_inline_push_constant_mask := 0xFFFFFFFFFF, ri_desc_set_used_mask := 5\<rparr>)"

definition sample_fragment_info :: args_info where
  "sample_fragment_info = sample_args_info (zero_info\<lparr>ri_stage := MESA_SHADER_FRAGMENT, ri_desc_set_used_mask := 5\<rparr>)"

definition sample_hull_info :: args_info where
  "sample_hull_info = sample_args_info (zero_info\<lparr>ri_stage := MESA_SHADER_TESS_CTRL, ri_desc_set_used_mask := 3\<rparr>)"

lemma sample_args:
  "args_wf sample_args_ci sample_vertex_info MESA_SHADER_VERTEX" "\<not> ai_descriptor_heap sample_vertex_info"
  "ri_is_ngg sample_vertex_info"
  "args_wf sample_args_ci sample_fragment_info MESA_SHADER_FRAGMENT" "\<not> ai_descriptor_heap sample_fragment_info"
  "ri_inline_push_constant_mask sample_vertex_info = 0xFFFFFFFFFF"
  by code_simp+

lemma sample_hull_args:
  "args_wf sample_args_ci sample_hull_info MESA_SHADER_TESS_CTRL" "ci_ps5_tess_ring_table sample_args_ci"
  "\<not> ri_is_ngg sample_hull_info" "\<not> ai_descriptor_heap sample_hull_info"
  by code_simp+


end
