(* ===== verification/Arg_Layout.thy ===== *)
theory Arg_Layout
  imports User_Sgprs
begin

text \<open>
  Registers of arguments: every argument starts where the earlier ones of its file end, also after the
  inputs of a pixel shader have been compacted, and no counter of the declaration overflows.
\<close>

section \<open>Registers of arguments\<close>

subsection \<open>Consecutive registers\<close>

definition live_before :: "ac_arg_regfile \<Rightarrow> ac_shader_arg list \<Rightarrow> nat" where
  "live_before f as = sum_list (map (unat \<circ> aa_size) (filter (\<lambda>a. aa_file a = f \<and> \<not> aa_skip a) as))"

text \<open>Every argument that is not skipped starts behind the earlier ones of its file.\<close>

definition laid_out :: "ac_shader_arg list \<Rightarrow> bool" where
  "laid_out as \<longleftrightarrow>
     (\<forall>i<length as. \<not> aa_skip (as ! i) \<longrightarrow> unat (aa_offset (as ! i)) = live_before (aa_file (as ! i)) (take i as))"

lemma live_before_simps [simp]:
  "live_before f [] = 0" "live_before f (as @ bs) = live_before f as + live_before f bs"
  "live_before f (a # as) = (if aa_file a = f \<and> \<not> aa_skip a then unat (aa_size a) else 0) + live_before f as"
  by (simp_all add: live_before_def)

lemma laid_out_Nil [simp]: "laid_out []"
  by (simp add: laid_out_def)

lemma laid_out_snoc:
  "laid_out (as @ [a]) \<longleftrightarrow> laid_out as \<and> (\<not> aa_skip a \<longrightarrow> unat (aa_offset a) = live_before (aa_file a) as)"
  by (auto simp: laid_out_def nth_append less_Suc_eq)

lemma live_before_mono: "i \<le> j \<Longrightarrow> live_before f (take i as) \<le> live_before f (take j as)"
proof -
  assume "i \<le> j"
  then have "take j as = take i as @ drop i (take j as)" by (metis append_take_drop_id min.absorb1 take_take)
  then show ?thesis by (metis le_add1 live_before_simps(2))
qed

lemma laid_out_stop:
  assumes "laid_out as" "k < length as" "\<not> aa_skip (as ! k)"
  shows "unat (aa_offset (as ! k)) + unat (aa_size (as ! k)) = live_before (aa_file (as ! k)) (take (Suc k) as)"
  using assms by (simp add: laid_out_def take_Suc_conv_app_nth)

lemma laid_out_disjoint:
  assumes "laid_out as" "i < j" "j < length as" "aa_file (as ! i) = aa_file (as ! j)"
    "\<not> aa_skip (as ! i)" "\<not> aa_skip (as ! j)"
  shows "unat (aa_offset (as ! i)) + unat (aa_size (as ! i)) \<le> unat (aa_offset (as ! j))"
proof -
  have "unat (aa_offset (as ! j)) = live_before (aa_file (as ! j)) (take j as)"
    using assms by (simp add: laid_out_def)
  then show ?thesis
    using laid_out_stop [of as i] assms live_before_mono [of "Suc i" j "aa_file (as ! j)" as] by simp
qed

lemma laid_out_within:
  assumes "laid_out as" "i < length as" "\<not> aa_skip (as ! i)"
  shows "unat (aa_offset (as ! i)) + unat (aa_size (as ! i)) \<le> live_before (aa_file (as ! i)) as"
  using laid_out_stop [OF assms] assms(2) live_before_mono [of "Suc i" "length as" "aa_file (as ! i)" as] by simp

text \<open>The marks do not matter.\<close>

definition shape :: "ac_shader_arg \<Rightarrow> ac_arg_regfile \<times> u8 \<times> u8 \<times> bool" where
  "shape a = (aa_file a, aa_offset a, aa_size a, aa_skip a)"

lemma same_shape:
  assumes "map shape as = map shape bs"
  shows "live_before f as = live_before f bs" "laid_out as = laid_out bs" "length as = length bs"
proof -
  show len: "length as = length bs" using assms by (metis length_map)
  have live: "live_before f as = live_before f bs" if "map shape as = map shape bs" for as bs f
    using map_eq_imp_length_eq [OF that] that
    by (induction as bs rule: list_induct2) (auto simp: shape_def)
  then show "live_before f as = live_before f bs" using assms .
  have nth: "shape (as ! i) = shape (bs ! i)" if "i < length bs" for i
    using that assms len by (metis nth_map)
  have "live_before f (take i as) = live_before f (take i bs)" for f i
    by (rule live) (simp add: assms flip: take_map)
  then show "laid_out as = laid_out bs"
    using nth len by (simp add: laid_out_def shape_def)
qed

lemma shape_update: "shape x = shape (as ! i) \<Longrightarrow> map shape (as[i := x]) = map shape as"
  by (cases "i < length as") (simp_all add: map_update list_update_same_conv list_update_beyond)

definition args_inv :: "radv_args_state \<Rightarrow> bool" where
  "args_inv st \<longleftrightarrow> laid_out (as_args st) \<and> (\<forall>a\<in>set (as_args st). \<not> aa_skip a) \<and>
     unat (as_num_sgprs_used st) = live_before AC_ARG_SGPR (as_args st) \<and>
     unat (as_num_vgprs_used st) = live_before AC_ARG_VGPR (as_args st)"

lemma ac_add_arg_inv:
  assumes "args_inv st" "live_before f (as_args st) + sz \<le> 255"
  shows "args_inv (ac_add_arg f sz ty m st)"
    "live_before g (as_args (ac_add_arg f sz ty m st)) = live_before g (as_args st) + (if f = g then sz else 0)"
    "length (as_args (ac_add_arg f sz ty m st)) = length (as_args st) + 1"
proof -
  let ?n = "case f of AC_ARG_SGPR \<Rightarrow> as_num_sgprs_used st | AC_ARG_VGPR \<Rightarrow> as_num_vgprs_used st"
  have n: "unat ?n = live_before f (as_args st)" using assms(1) by (cases f) (simp_all add: args_inv_def)
  have sz: "unat (of_nat sz :: u8) = sz" using assms(2) by (intro unat_of_nat_small) simp
  have off: "unat (ucast ?n :: u8) = live_before f (as_args st)"
    using n assms(2) by (subst unat_ucast_small) simp_all
  have sum: "unat (?n + of_nat sz) = live_before f (as_args st) + sz"
    using n assms(2) by (subst unat_add_small) (simp_all add: unat_of_nat_small)
  have args: "as_args (ac_add_arg f sz ty m st) = as_args st @
      [\<lparr>aa_type = ty, aa_file = f, aa_offset = ucast ?n, aa_size = of_nat sz, aa_skip = False, aa_pending_vmem = False,
        aa_preserved = False\<rparr>]"
    by (cases f) (simp_all add: ac_add_arg_def Let_def)
  show "args_inv (ac_add_arg f sz ty m st)"
    unfolding args_inv_def args
    using assms(1) off sum n by (cases f) (auto simp: args_inv_def laid_out_snoc sz)
  show "live_before g (as_args (ac_add_arg f sz ty m st)) = live_before g (as_args st) + (if f = g then sz else 0)"
    "length (as_args (ac_add_arg f sz ty m st)) = length (as_args st) + 1"
    by (simp_all add: args sz)
qed

lemma same_args_inv:
  assumes "args_inv st" "map shape (as_args st') = map shape (as_args st)"
    "as_num_sgprs_used st' = as_num_sgprs_used st" "as_num_vgprs_used st' = as_num_vgprs_used st"
  shows "args_inv st'"
proof -
  have "(\<forall>a\<in>set as. \<not> aa_skip a) \<longleftrightarrow> (\<forall>a\<in>set (map shape as). \<not> snd (snd (snd a)))" for as
    by (simp add: shape_def)
  then have "(\<forall>a\<in>set (as_args st'). \<not> aa_skip a) \<longleftrightarrow> (\<forall>a\<in>set (as_args st). \<not> aa_skip a)"
    by (simp only: assms(2))
  then show ?thesis using assms same_shape [OF assms(2)] by (simp add: args_inv_def)
qed

text \<open>One declaration, unless it compacts the arguments.\<close>

lemma run_decl_inv:
  assumes "args_inv st" "\<forall>f. live_before f (as_args st) + file_size f d \<le> 255" "\<forall>w. d \<noteq> Compact_ps_vgprs w"
  shows "args_inv (run_decl d st) \<and> (\<forall>g. live_before g (as_args (run_decl d st)) = live_before g (as_args st) + file_size g d) \<and>
    length (as_args (run_decl d st)) = length (as_args st) + arg_number d"
proof -
  have bound: "live_before f (as_args st) + file_size f d \<le> 255" for f using assms(2) by blast
  have keep: ?thesis if "map shape (as_args (run_decl d st)) = map shape (as_args st)"
    "as_num_sgprs_used (run_decl d st) = as_num_sgprs_used st" "as_num_vgprs_used (run_decl d st) = as_num_vgprs_used st"
    "\<forall>g. file_size g d = 0" "arg_number d = 0"
    using same_args_inv [OF assms(1) that(1,2,3)] same_shape [OF that(1)] that(4,5) by simp
  have marks: "map shape ((as_args st)[i := (as_args st ! i)\<lparr>aa_preserved := True\<rparr>]) = map shape (as_args st)"
    "map shape ((as_args st)[i := (as_args st ! i)\<lparr>aa_pending_vmem := True\<rparr>]) = map shape (as_args st)" for i
    by (rule shape_update, simp add: shape_def)+
  have same: "args_inv st' \<and> (\<forall>g. live_before g (as_args st') = live_before g (as_args st) + (if g = f then sz else 0)) \<and>
      length (as_args st') = length (as_args st) + 1"
    if "live_before f (as_args st) + sz \<le> 255" "as_args st' = as_args (ac_add_arg f sz ty m st)"
      "as_num_sgprs_used st' = as_num_sgprs_used (ac_add_arg f sz ty m st)"
      "as_num_vgprs_used st' = as_num_vgprs_used (ac_add_arg f sz ty m st)" for st' f sz ty m
    using ac_add_arg_inv(3) [OF assms(1) that(1), of ty m] same_args_inv [OF ac_add_arg_inv(1) [OF assms(1) that(1), of ty m], of st'] that(2-4)
    by (auto simp: ac_add_arg_inv(2) [OF assms(1) that(1)])
  show ?thesis
  proof (cases d)
    case (RADV_ADD_UD_ARG sz ty m ud)
    then show ?thesis using bound [of AC_ARG_SGPR] same [of AC_ARG_SGPR sz "run_decl d st" ty "Some m"]
      by (simp add: add_ud_arg_def Let_def)
  next
    case (RADV_ADD_ARG f sz ty m)
    then show ?thesis using bound [of f] same [of f sz "run_decl d st" ty "Some m"] by simp
  next
    case (RADV_ADD_NULL_ARG f sz ty)
    then show ?thesis using bound [of f] same [of f sz "run_decl d st" ty None] by simp
  next
    case (Descriptor_set s)
    then show ?thesis using bound [of AC_ARG_SGPR] same [of AC_ARG_SGPR 1 "run_decl d st" AC_ARG_CONST_ADDR "Some (descriptors s)"]
      by (simp add: add_descriptor_set_def Let_def)
  next
    case (Descriptor_heap s)
    then show ?thesis using bound [of AC_ARG_SGPR] same [of AC_ARG_SGPR 1 "run_decl d st" AC_ARG_CONST_ADDR "Some (descriptors s)"]
      by (simp add: add_descriptor_heap_def Let_def)
  next
    case (Compact_ps_vgprs enabled)
    then show ?thesis
      using assms(3) by blast
  qed (rule keep; simp add: ac_add_preserved_def Let_def marks)+
qed

lemma run_inv:
  assumes "args_inv st" "\<forall>f. live_before f (as_args st) + decl_total (file_size f) ds \<le> 255"
    "list_all (\<lambda>d. \<forall>w. d \<noteq> Compact_ps_vgprs w) ds"
  shows "args_inv (fold run_decl ds st) \<and>
    (\<forall>f. live_before f (as_args (fold run_decl ds st)) = live_before f (as_args st) + decl_total (file_size f) ds) \<and>
    length (as_args (fold run_decl ds st)) = length (as_args st) + decl_total arg_number ds"
  using assms
proof (induction ds arbitrary: st)
  case (Cons d ds)
  have "\<forall>f. live_before f (as_args st) + file_size f d \<le> 255"
  proof
    fix f
    show "live_before f (as_args st) + file_size f d \<le> 255" using Cons.prems(2) [rule_format, of f] by simp
  qed
  from run_decl_inv [OF Cons.prems(1) this] Cons.prems(3)
  have d: "args_inv (run_decl d st)" "\<And>g. live_before g (as_args (run_decl d st)) = live_before g (as_args st) + file_size g d"
    "length (as_args (run_decl d st)) = length (as_args st) + arg_number d" by auto
  have "\<forall>f. live_before f (as_args (run_decl d st)) + decl_total (file_size f) ds \<le> 255"
    using Cons.prems(2) by (simp add: d(2) add.assoc)
  from Cons.IH [OF d(1) this] Cons.prems(3) show ?case by (simp add: d add.assoc)
qed simp

text \<open>The same, from given first registers of both files.\<close>

fun laid_from :: "nat \<Rightarrow> nat \<Rightarrow> ac_shader_arg list \<Rightarrow> bool" where
  "laid_from s v [] = True"
| "laid_from s v (a # as) =
     (if aa_skip a then laid_from s v as
      else (case aa_file a of
              AC_ARG_SGPR \<Rightarrow> unat (aa_offset a) = s \<and> laid_from (s + unat (aa_size a)) v as
            | AC_ARG_VGPR \<Rightarrow> unat (aa_offset a) = v \<and> laid_from s (v + unat (aa_size a)) as))"

lemma laid_from_iff:
  "laid_from s v as \<longleftrightarrow>
     (\<forall>i<length as. \<not> aa_skip (as ! i) \<longrightarrow>
        unat (aa_offset (as ! i)) = (case aa_file (as ! i) of AC_ARG_SGPR \<Rightarrow> s | AC_ARG_VGPR \<Rightarrow> v) +
          live_before (aa_file (as ! i)) (take i as))"
  by (induction as arbitrary: s v) (auto simp: All_less_Suc2 split: ac_arg_regfile.splits)

lemma laid_out_from: "laid_out as \<longleftrightarrow> laid_from 0 0 as"
proof -
  have "(case f of AC_ARG_SGPR \<Rightarrow> 0 | AC_ARG_VGPR \<Rightarrow> 0) = (0 :: nat)" for f by (cases f) simp_all
  then show ?thesis by (simp add: laid_out_def laid_from_iff)
qed

lemma compact_args_laid:
  assumes "laid_from s v as" "\<forall>a\<in>set as. \<not> aa_skip a" "n + live_before AC_ARG_VGPR as \<le> 255"
    "compact_args w k n as = (as', m)"
  shows "laid_from s n as' \<and> m = n + live_before AC_ARG_VGPR as' \<and>
    live_before AC_ARG_VGPR as' \<le> live_before AC_ARG_VGPR as \<and>
    live_before AC_ARG_SGPR as' = live_before AC_ARG_SGPR as \<and> length as' = length as"
  using assms
proof (induction as arbitrary: s v k n as')
  case (Cons a as)
  show ?case
  proof (cases "aa_file a")
    case AC_ARG_SGPR
    with Cons.prems obtain bs where "compact_args w k n as = (bs, m)" "as' = a # bs" by (auto split: prod.splits)
    with AC_ARG_SGPR Cons.prems Cons.IH [of "s + unat (aa_size a)" v n k bs] show ?thesis by simp
  next
    case AC_ARG_VGPR
    show ?thesis
    proof (cases "bit w k")
      case True
      with AC_ARG_VGPR Cons.prems obtain bs where "compact_args w (k + 1) (n + unat (aa_size a)) as = (bs, m)"
        "as' = a\<lparr>aa_offset := of_nat n\<rparr> # bs" by (auto split: prod.splits)
      moreover have "unat (of_nat n :: u8) = n" using Cons.prems(3) by (intro unat_of_nat_small) simp
      ultimately show ?thesis
        using AC_ARG_VGPR Cons.prems Cons.IH [of s "v + unat (aa_size a)" "n + unat (aa_size a)" "k + 1" bs] by simp
    next
      case False
      with AC_ARG_VGPR Cons.prems obtain bs where "compact_args w (k + 1) n as = (bs, m)"
        "as' = a\<lparr>aa_skip := True\<rparr> # bs" by (auto split: prod.splits)
      with AC_ARG_VGPR Cons.prems Cons.IH [of s "v + unat (aa_size a)" n "k + 1" bs] show ?thesis by simp
    qed
  qed
qed auto

definition compact_inv :: "radv_args_state \<Rightarrow> bool" where
  "compact_inv st \<longleftrightarrow> laid_out (as_args st) \<and>
     unat (as_num_sgprs_used st) = live_before AC_ARG_SGPR (as_args st) \<and>
     unat (as_num_vgprs_used st) = live_before AC_ARG_VGPR (as_args st)"

lemma compact_ps_inv:
  assumes "args_inv st" "live_before AC_ARG_VGPR (as_args st) \<le> 255"
  shows "compact_inv (ac_compact_ps_vgpr_args w st)" "length (as_args (ac_compact_ps_vgpr_args w st)) = length (as_args st)"
proof -
  obtain as m where c: "compact_args w 0 0 (as_args st) = (as, m)" by fastforce
  have "laid_from 0 0 as \<and> m = 0 + live_before AC_ARG_VGPR as \<and>
    live_before AC_ARG_VGPR as \<le> live_before AC_ARG_VGPR (as_args st) \<and>
    live_before AC_ARG_SGPR as = live_before AC_ARG_SGPR (as_args st) \<and> length as = length (as_args st)"
    by (rule compact_args_laid [where v = 0, OF _ _ _ c]) (use assms in \<open>simp_all add: args_inv_def laid_out_from\<close>)
  moreover from this have "unat (of_nat m :: u16) = m" using assms(2) by (intro unat_of_nat_small) simp
  ultimately show "compact_inv (ac_compact_ps_vgpr_args w st)" "length (as_args (ac_compact_ps_vgpr_args w st)) = length (as_args st)"
    using assms(1) by (simp_all add: ac_compact_ps_vgpr_args_def c compact_inv_def laid_out_from args_inv_def)
qed

subsection \<open>Number of registers\<close>

text \<open>The scalar registers that the hardware fills besides the user data.\<close>

fun hw_size :: "arg_decl \<Rightarrow> nat" where
  "hw_size (RADV_ADD_ARG f sz ty m) = (if f = AC_ARG_SGPR then sz else 0)"
| "hw_size (RADV_ADD_NULL_ARG f sz ty) = (if f = AC_ARG_SGPR then sz else 0)"
| "hw_size d = 0"

lemma sgpr_size: "decl_total (file_size AC_ARG_SGPR) ds = decl_total user_size ds + decl_total hw_size ds"
proof (induction ds)
  case (Cons d ds)
  have "file_size AC_ARG_SGPR d = user_size d + hw_size d" by (cases d) simp_all
  with Cons show ?case by simp
qed simp

lemma decl_total_zero: "(\<And>x. x \<in> set xs \<Longrightarrow> f (g x) = 0) \<Longrightarrow> decl_total f (map g xs) = 0"
  by (simp add: decl_total_map_const)

lemma filter_upt_le: "length (filter P [0..<n]) \<le> n"
  using length_filter_le [of P "[0..<n]"] by simp

lemma hw_parts:
  "decl_total hw_size (declare_global_input_sgprs ci info us) = 0"
  "decl_total hw_size (declare_vs_specific_input_sgprs info) = 0"
  "decl_total hw_size (declare_ms_input_sgprs info) = 0"
  "decl_total hw_size (declare_ngg_sgprs info b) = 0"
  "decl_total hw_size (declare_vs_input_vgprs ci info b) = 0"
  "decl_total hw_size declare_tes_input_vgprs = 0"
  "decl_total hw_size (declare_ms_input_vgprs ci) = 0"
  "decl_total hw_size (gs_input_vgprs ci) = 0"
  "decl_total hw_size (declare_ps_input_vgprs ci info) = 0"
  "decl_total hw_size (map Preserved ms) = 0"
proof -
  have "decl_total hw_size (concat (map (\<lambda>i. [RADV_ADD_ARG AC_ARG_VGPR 4 AC_ARG_VALUE (vs_inputs i), Pending_vmem (vs_inputs i)]) xs)) = 0" for xs
    by (induction xs) simp_all
  then show "decl_total hw_size (declare_vs_input_vgprs ci info b) = 0"
    by (simp add: declare_vs_input_vgprs_def vs_hardware_vgprs_def decl_total_only_if)
  show "decl_total hw_size (declare_global_input_sgprs ci info us) = 0"
    by (cases us) (simp_all add: declare_global_input_sgprs_def resource_decls_def descriptor_decls_def decl_total_only_if decl_total_zero Let_def)
qed (simp_all add: declare_vs_specific_input_sgprs_def declare_tes_input_vgprs_def declare_ms_input_sgprs_def
    declare_ms_input_vgprs_def declare_ngg_sgprs_def gs_input_vgprs_def declare_ps_input_vgprs_def decl_total_only_if decl_total_zero)

lemma hw_streamout: "decl_total hw_size (declare_streamout_sgprs info stage) \<le> 6"
proof -
  let ?xs = "filter (\<lambda>i. so_strides (ri_so info) ! i \<noteq> 0) [0..<4]"
  have "decl_total hw_size (map (\<lambda>i. sgpr (streamout_offset i)) ?xs) = 1 * length ?xs" by (rule decl_total_map_const) simp
  moreover have "length ?xs \<le> 4" by (rule filter_upt_le)
  ultimately show ?thesis unfolding declare_streamout_sgprs_def decl_total_simps by (simp add: decl_total_only_if del: upt_rec_numeral)
qed

lemma hw_compute: "decl_total hw_size (compute_decls ci info stage q us) \<le> 5"
proof -
  let ?xs = "filter (\<lambda>i. ai_cs_uses_block_id info ! i) [0..<3]"
  have "decl_total hw_size (map (\<lambda>i. if b then Mark_used (Ac (workgroup_ids i)) else sgpr (workgroup_ids i)) ?xs) \<le> 3" for b
    using filter_upt_le [of "\<lambda>i. ai_cs_uses_block_id info ! i" 3]
    by (cases b) (simp_all add: decl_total_zero decl_total_map_const del: upt_rec_numeral)
  from this [of "gfx_level ci \<ge> GFX12"] show ?thesis
    by (simp add: compute_decls_def hw_parts decl_total_only_if del: upt_rec_numeral)
qed

lemma hw_stage:
  assumes "stage_decls ci gfx_state info stage previous_stage q v us = Some ds"
  shows "decl_total hw_size ds \<le> 8"
proof -
  have "decl_total hw_size (compute_decls ci info stage q us) \<le> 8" using hw_compute [of ci info stage q us] by simp
  moreover have "decl_total hw_size (vertex_decls ci info us) \<le> 8"
    using hw_streamout [of info MESA_SHADER_VERTEX] by (simp add: vertex_decls_def hw_parts decl_total_only_if)
  moreover have "decl_total hw_size (tess_eval_decls ci info us) \<le> 8"
    using hw_streamout [of info MESA_SHADER_TESS_EVAL] by (simp add: tess_eval_decls_def hw_parts decl_total_only_if)
  moreover have "decl_total hw_size (tess_ctrl_decls ci gfx_state info previous_stage us) \<le> 8"
    by (simp add: tess_ctrl_decls_def declare_unmerged_vs_tcs_args_def hw_parts decl_total_only_if Let_def)
  moreover have "decl_total hw_size (geometry_decls ci info previous_stage q v us) \<le> 8"
    by (simp add: geometry_decls_def declare_unmerged_vs_tes_gs_args_def merged_geometry_decls_def hw_parts decl_total_only_if)
  moreover have "decl_total hw_size (fragment_decls ci gfx_state info us) \<le> 8"
    by (simp add: fragment_decls_def hw_parts decl_total_only_if)
  ultimately show ?thesis
    using assms by (cases stage) (auto simp: stage_decls_def split: if_splits)
qed

abbreviation (input) vgpr_size :: "arg_decl \<Rightarrow> nat" where
  "vgpr_size \<equiv> file_size AC_ARG_VGPR"

lemma vgpr_parts:
  "decl_total vgpr_size (declare_global_input_sgprs ci info us) = 0"
  "decl_total vgpr_size (declare_vs_specific_input_sgprs info) = 0"
  "decl_total vgpr_size (declare_ms_input_sgprs info) = 0"
  "decl_total vgpr_size (declare_ngg_sgprs info b) = 0"
  "decl_total vgpr_size (declare_streamout_sgprs info stage) = 0"
  "decl_total vgpr_size declare_tes_input_vgprs = 4"
  "decl_total vgpr_size (declare_ps_input_vgprs ci info) = 24"
  "decl_total vgpr_size (map Preserved ms) = 0"
proof -
  show "decl_total vgpr_size (declare_global_input_sgprs ci info us) = 0"
    by (cases us) (simp_all add: declare_global_input_sgprs_def resource_decls_def descriptor_decls_def decl_total_only_if decl_total_zero Let_def)
qed (simp_all add: declare_vs_specific_input_sgprs_def declare_tes_input_vgprs_def declare_ms_input_sgprs_def
    declare_streamout_sgprs_def declare_ngg_sgprs_def declare_ps_input_vgprs_def decl_total_only_if decl_total_zero)

lemma vgpr_small_parts:
  "decl_total vgpr_size (declare_ms_input_vgprs ci) \<le> 4"
  "decl_total vgpr_size (gs_input_vgprs ci) \<le> 5"
  by (simp_all add: declare_ms_input_vgprs_def gs_input_vgprs_def)

lemma vgpr_vs: "decl_total vgpr_size (declare_vs_input_vgprs ci info b) \<le> 132"
proof -
  have "decl_total vgpr_size (concat (map (\<lambda>i. [RADV_ADD_ARG AC_ARG_VGPR 4 AC_ARG_VALUE (vs_inputs i), Pending_vmem (vs_inputs i)]) xs)) =
      4 * length xs" for xs
    by (induction xs) simp_all
  then have "decl_total vgpr_size (concat (map (\<lambda>i. [RADV_ADD_ARG AC_ARG_VGPR 4 AC_ARG_VALUE (vs_inputs i), Pending_vmem (vs_inputs i)])
      [0..<util_last_bit (ai_vs_input_slot_usage_mask info)])) \<le> 128"
    using util_last_bit_le [of "ai_vs_input_slot_usage_mask info"] by simp
  moreover have "decl_total vgpr_size (vs_hardware_vgprs ci info b) \<le> 3" by (simp add: vs_hardware_vgprs_def)
  ultimately show ?thesis by (simp add: declare_vs_input_vgprs_def decl_total_only_if)
qed

lemma vgpr_stage:
  assumes "stage_decls ci gfx_state info stage previous_stage q v us = Some ds"
  shows "decl_total vgpr_size ds \<le> 140"
proof -
  have "decl_total vgpr_size (map (\<lambda>i. if b then Mark_used (Ac (workgroup_ids i)) else sgpr (workgroup_ids i)) xs) = 0" for b xs
    by (simp add: decl_total_zero)
  then have "decl_total vgpr_size (compute_decls ci info stage q us) \<le> 140"
    by (simp add: compute_decls_def vgpr_parts decl_total_only_if)
  moreover have "decl_total vgpr_size (vertex_decls ci info us) \<le> 140"
    using vgpr_vs [of ci info False] by (simp add: vertex_decls_def vgpr_parts decl_total_only_if)
  moreover have "decl_total vgpr_size (tess_eval_decls ci info us) \<le> 140"
    by (simp add: tess_eval_decls_def vgpr_parts decl_total_only_if)
  moreover have "decl_total vgpr_size (tess_ctrl_decls ci gfx_state info previous_stage us) \<le> 140"
    using vgpr_vs [of ci info True]
    by (simp add: tess_ctrl_decls_def declare_unmerged_vs_tcs_args_def vgpr_parts decl_total_only_if Let_def)
  moreover have "decl_total vgpr_size (geometry_decls ci info previous_stage q v us) \<le> 140"
    using vgpr_vs [of ci info False] vgpr_small_parts [of ci]
    by (simp add: geometry_decls_def declare_unmerged_vs_tes_gs_args_def merged_geometry_decls_def vgpr_parts decl_total_only_if)
  moreover have "decl_total vgpr_size (fragment_decls ci gfx_state info us) \<le> 140"
    by (simp add: fragment_decls_def vgpr_parts decl_total_only_if)
  ultimately show ?thesis
    using assms by (cases stage) (auto simp: stage_decls_def split: if_splits)
qed

text \<open>No argument is empty, so there are at most as many arguments as registers.\<close>

definition sized :: "arg_decl \<Rightarrow> bool" where
  "sized d \<longleftrightarrow> arg_number d \<le> file_size AC_ARG_SGPR d + file_size AC_ARG_VGPR d"

interpretation sized_args: every_argument sized
proof
  fix f :: ac_arg_regfile and sz ty m
  assume "0 < (sz :: nat)"
  then show "sized (RADV_ADD_ARG f sz ty m)" "sized (RADV_ADD_NULL_ARG f sz ty)"
    by (cases f; simp add: sized_def)+
qed (simp_all add: sized_def)

lemma sized_number:
  "list_all sized ds \<Longrightarrow> decl_total arg_number ds \<le> decl_total (file_size AC_ARG_SGPR) ds + decl_total (file_size AC_ARG_VGPR) ds"
  by (induction ds) (auto simp: sized_def)

text \<open>Compaction is the last statement of a list, if it occurs at all.\<close>

definition not_compact :: "arg_decl \<Rightarrow> bool" where
  "not_compact d \<longleftrightarrow> (\<forall>w. d \<noteq> Compact_ps_vgprs w)"

interpretation uncompacted: every_argument not_compact
  by unfold_locales (simp_all add: not_compact_def)

lemma compact_last:
  assumes "stage_decls ci gfx_state info stage previous_stage q v us = Some ds"
  shows "list_all not_compact ds \<or> (\<exists>ds' w. ds = ds' @ [Compact_ps_vgprs w] \<and> list_all not_compact ds')"
proof (cases "stage = MESA_SHADER_FRAGMENT")
  case True
  have "list_all not_compact (declare_global_input_sgprs ci info us)"
    by (rule uncompacted.global) (simp add: not_compact_def)
  with True assms show ?thesis
    by (cases "ci_use_llvm ci")
      (auto simp: stage_decls_def fragment_decls_def declare_ps_input_vgprs_def only_if_def not_compact_def)
next
  case False
  with uncompacted.whole_stage [OF assms] show ?thesis by (simp add: not_compact_def)
qed

lemma head_total:
  "decl_total (file_size AC_ARG_SGPR) (head_decls ci s p) \<le> 4" "decl_total vgpr_size (head_decls ci s p) = 0"
  "decl_total arg_number (head_decls ci s p) \<le> 2" "list_all not_compact (head_decls ci s p)"
  by (simp_all add: head_decls_def decl_total_only_if not_compact_def)

lemma uncompacted_run:
  assumes "list_all not_compact ds" "decl_total (file_size AC_ARG_SGPR) ds \<le> 255" "decl_total vgpr_size ds \<le> 255"
  defines "st \<equiv> fold run_decl ds radv_init_shader_args"
  shows "args_inv st" "live_before AC_ARG_VGPR (as_args st) \<le> 255" "length (as_args st) = decl_total arg_number ds"
proof -
  let ?init = "radv_init_shader_args"
  have init: "args_inv ?init" "as_args ?init = []" by (simp_all add: args_inv_def radv_init_shader_args_def Let_def)
  have room: "\<forall>f. live_before f (as_args ?init) + decl_total (file_size f) ds \<le> 255"
  proof
    fix f
    show "live_before f (as_args ?init) + decl_total (file_size f) ds \<le> 255" using assms(2,3) by (cases f) (simp_all add: init)
  qed
  have "list_all (\<lambda>d. \<forall>w. d \<noteq> Compact_ps_vgprs w) ds" using assms(1) by (simp add: not_compact_def cong: list.pred_cong)
  from run_inv [OF init(1) room this] assms(3)
  show "args_inv st" "live_before AC_ARG_VGPR (as_args st) \<le> 255" "length (as_args st) = decl_total arg_number ds"
    by (simp_all add: st_def init)
qed

lemma declared_layout:
  assumes "args_wf ci info stage" "radv_declare_shader_args ci gfx_state info stage previous_stage = Some st"
  shows "compact_inv st" "length (as_args st) \<le> 256"
proof -
  obtain s p q v body0 us body where
    body: "stage_decls ci gfx_state info s p q v (Some us) = Some body"
    and st: "st = fold run_decl (head_decls ci s p @ body) radv_init_shader_args"
    and fits: "head_user ci s p + decl_total user_size body \<le> unat (available_sgprs ci stage)"
    by (rule declared_fits [OF assms])
  have "unat (available_sgprs ci stage) \<le> 32" by (simp add: unat_available)
  then have sgprs: "decl_total (file_size AC_ARG_SGPR) body \<le> 40" using fits hw_stage [OF body] by (simp add: sgpr_size)
  note vgprs = vgpr_stage [OF body]
  have "list_all sized body" by (rule sized_args.whole_stage [OF body]) (simp_all add: sized_def)
  then have number: "decl_total arg_number body \<le> 180" using sgprs vgprs sized_number [of body] by simp
  note head = head_total [of ci s p]
  have "compact_inv st \<and> length (as_args st) \<le> 256"
  proof (cases "list_all not_compact body")
    case True
    then show ?thesis
      using uncompacted_run [of "head_decls ci s p @ body"] head sgprs vgprs number
      by (simp add: st compact_inv_def args_inv_def)
  next
    case False
    then obtain ds w where ds: "body = ds @ [Compact_ps_vgprs w]" "list_all not_compact ds"
      using compact_last [OF body] by blast
    with head sgprs vgprs number uncompacted_run [of "head_decls ci s p @ ds"]
    have "args_inv (fold run_decl (head_decls ci s p @ ds) radv_init_shader_args)"
      "live_before AC_ARG_VGPR (as_args (fold run_decl (head_decls ci s p @ ds) radv_init_shader_args)) \<le> 255"
      "length (as_args (fold run_decl (head_decls ci s p @ ds) radv_init_shader_args)) \<le> 256"
      by simp_all
    with compact_ps_inv [OF this(1,2), of w] show ?thesis by (simp add: st ds(1))
  qed
  then show "compact_inv st" "length (as_args st) \<le> 256" by simp_all
qed

text \<open>C14. No two arguments of a shader share a register: of two arguments in the same register file that the
  hardware loads, the earlier one ends before the later one begins, also after the unused inputs of a
  pixel shader have been squeezed out.  All of them lie within the number of registers that the
  compiler is told, no 8-bit offset wraps, and the array of arguments is never full.\<close>
theorem arguments_disjoint:
  assumes "args_wf ci info stage" "radv_declare_shader_args ci gfx_state info stage previous_stage = Some st"
  shows "length (as_args st) < AC_MAX_ARGS \<and>
    (\<forall>i j. i < j \<and> j < length (as_args st) \<and> aa_file (as_args st ! i) = aa_file (as_args st ! j) \<and>
       \<not> aa_skip (as_args st ! i) \<and> \<not> aa_skip (as_args st ! j) \<longrightarrow>
       unat (aa_offset (as_args st ! i)) + unat (aa_size (as_args st ! i)) \<le> unat (aa_offset (as_args st ! j))) \<and>
    (\<forall>i < length (as_args st). \<not> aa_skip (as_args st ! i) \<longrightarrow>
       unat (aa_offset (as_args st ! i)) + unat (aa_size (as_args st ! i)) \<le>
       unat (case aa_file (as_args st ! i) of AC_ARG_SGPR \<Rightarrow> as_num_sgprs_used st | AC_ARG_VGPR \<Rightarrow> as_num_vgprs_used st))"
proof -
  note inv = declared_layout [OF assms, unfolded compact_inv_def]
  have used: "unat (case f of AC_ARG_SGPR \<Rightarrow> as_num_sgprs_used st | AC_ARG_VGPR \<Rightarrow> as_num_vgprs_used st) =
      live_before f (as_args st)" for f
    using inv by (cases f) simp_all
  show ?thesis
    unfolding used using inv laid_out_disjoint [of "as_args st"] laid_out_within [of "as_args st"] by auto
qed

theorem arguments_disjoint_witness:
  "\<exists>st. radv_declare_shader_args sample_args_ci sample_args_key sample_fragment_info MESA_SHADER_FRAGMENT MESA_SHADER_NONE = Some st \<and>
     length (as_args st) < AC_MAX_ARGS"
proof -
  have "declaring_stage MESA_SHADER_FRAGMENT" by (simp add: declaring_stage_def)
  from declares [OF sample_args(4,5) this] arguments_disjoint [OF sample_args(4), of sample_args_key MESA_SHADER_NONE]
  show ?thesis by blast
qed

end
