(* ===== verification/User_Window.thy ===== *)
theory User_Window
  imports Arg_Layout
begin

text \<open>
  The user-data window of merged programs, from the declaration of the arguments to the published
  metadata: behind the ring offsets and six registers that the hardware fills, an argument's register
  is eight above its user-data dword.  The locale \<open>window_state\<close> states what the declarations before
  the user data leave; it is interpreted for geometry and for hull programs.
\<close>

section \<open>The user-data window\<close>

subsection \<open>Where a declaration puts its argument\<close>

fun slot_free :: "nat \<Rightarrow> arg_decl \<Rightarrow> bool" where
  "slot_free k (RADV_ADD_UD_ARG sz ty m ud) \<longleftrightarrow> ud \<noteq> k"
| "slot_free k d \<longleftrightarrow> True"

fun member_free :: "arg_member \<Rightarrow> arg_decl \<Rightarrow> bool" where
  "member_free m (RADV_ADD_UD_ARG sz ty m' ud) \<longleftrightarrow> m' \<noteq> m"
| "member_free m (RADV_ADD_ARG f sz ty m') \<longleftrightarrow> m' \<noteq> m"
| "member_free m (Descriptor_set s) \<longleftrightarrow> m \<noteq> descriptors s"
| "member_free m (Descriptor_heap s) \<longleftrightarrow> m \<noteq> descriptors s"
| "member_free m (Mark_used m') \<longleftrightarrow> m' \<noteq> m"
| "member_free m d \<longleftrightarrow> True"

lemmas add_defs = add_ud_arg_def add_descriptor_set_def add_descriptor_heap_def ac_add_preserved_def
  ac_compact_ps_vgpr_args_def Let_def

lemma ac_add_arg_member [simp]:
  "as_member (ac_add_arg f sz ty mo st) =
     (case mo of None \<Rightarrow> as_member st | Some m \<Rightarrow> (as_member st)(m := \<lparr>arg_index = length (as_args st), arg_used = True\<rparr>))"
  by (cases f) (simp_all add: ac_add_arg_def Let_def)

lemma ac_add_arg_args:
  "\<exists>a. as_args (ac_add_arg f sz ty mo st) = as_args st @ [a] \<and>
    aa_offset a = ucast (case f of AC_ARG_SGPR \<Rightarrow> as_num_sgprs_used st | AC_ARG_VGPR \<Rightarrow> as_num_vgprs_used st)"
  by (cases f) (simp_all add: ac_add_arg_def Let_def)

lemma run_decl_sgprs: "as_num_sgprs_used (run_decl d st) = as_num_sgprs_used st + of_nat (file_size AC_ARG_SGPR d)"
  by (cases d) (simp_all add: add_defs split: prod.split)

lemma run_sgprs: "as_num_sgprs_used (fold run_decl ds st) = as_num_sgprs_used st + of_nat (decl_total (file_size AC_ARG_SGPR) ds)"
  by (induction ds arbitrary: st) (simp_all add: run_decl_sgprs)

lemma run_decl_slot: "slot_free k d \<Longrightarrow> as_shader_data (run_decl d st) ! k = as_shader_data st ! k"
  by (cases d) (simp_all add: add_defs split: prod.split)

lemma run_decl_slots: "length (as_shader_data (run_decl d st)) = length (as_shader_data st)"
  by (cases d) (simp_all add: add_defs split: prod.split)

lemma run_decl_set_slot:
  assumes "ud_sgpr_idx (as_shader_data st ! k) \<noteq> -1"
  shows "ud_sgpr_idx (as_shader_data (run_decl d st) ! k) = ud_sgpr_idx (as_shader_data st ! k)"
proof (cases "slot_free k d")
  case False
  then obtain sz ty m where "d = RADV_ADD_UD_ARG sz ty m k" by (cases d) auto
  with assms show ?thesis
    by (cases "k < length (as_shader_data st)") (simp_all add: add_ud_arg_def Let_def list_update_beyond)
qed (simp add: run_decl_slot)

lemma run_slot:
  "list_all (slot_free k) ds \<Longrightarrow> as_shader_data (fold run_decl ds st) ! k = as_shader_data st ! k"
  "length (as_shader_data (fold run_decl ds st)) = length (as_shader_data st)"
  "ud_sgpr_idx (as_shader_data st ! k) \<noteq> -1 \<Longrightarrow>
     ud_sgpr_idx (as_shader_data (fold run_decl ds st) ! k) = ud_sgpr_idx (as_shader_data st ! k)"
  by (induction ds arbitrary: st) (simp_all add: run_decl_slot run_decl_slots run_decl_set_slot)

lemma run_member: "list_all (member_free m) ds \<Longrightarrow> as_member (fold run_decl ds st) m = as_member st m"
proof (induction ds arbitrary: st)
  case (Cons d ds)
  have "as_member (run_decl d st) m = as_member st m" using Cons.prems
    by (cases d) (auto simp: add_defs split: prod.split)
  with Cons show ?case by simp
qed simp

lemma run_offset:
  "list_all not_compact ds \<Longrightarrow> i < length (as_args st) \<Longrightarrow>
     i < length (as_args (fold run_decl ds st)) \<and> aa_offset (as_args (fold run_decl ds st) ! i) = aa_offset (as_args st ! i)"
proof (induction ds arbitrary: st)
  case (Cons d ds)
  have grow: "i < length (as_args (ac_add_arg f sz ty mo st)) \<and>
      aa_offset (as_args (ac_add_arg f sz ty mo st) ! i) = aa_offset (as_args st ! i)" for f sz ty mo
    using ac_add_arg_args [of f sz ty mo st] Cons.prems(2) by (auto simp: nth_append)
  have mark: "aa_offset ((as_args st)[j := x] ! i) = aa_offset (as_args st ! i)" if "aa_offset x = aa_offset (as_args st ! j)" for j x
    using that by (cases "j < length (as_args st)") (auto simp: nth_list_update list_update_beyond)
  have "i < length (as_args (run_decl d st)) \<and> aa_offset (as_args (run_decl d st) ! i) = aa_offset (as_args st ! i)"
    using Cons.prems by (cases d) (auto simp: add_ud_arg_def add_descriptor_set_def add_descriptor_heap_def
        ac_add_preserved_def Let_def not_compact_def grow mark)
  with Cons show ?case by simp
qed simp

text \<open>A user-data argument of a merged program: its register is eight above its user-data dword, if no
  register is filled by the hardware behind the first eight.\<close>

locale window_state =
  fixes st :: radv_args_state
  assumes eight: "as_num_sgprs_used st = 8" "as_num_user_sgprs st = 0"
    and slots: "length (as_shader_data st) = AC_UD_MAX_UD"
    and unset: "k < AC_UD_MAX_UD \<Longrightarrow> k \<noteq> AC_UD_SCRATCH_RING_OFFSETS \<Longrightarrow> ud_sgpr_idx (as_shader_data st ! k) = -1"
begin

lemma user_offset:
  assumes ds: "ds = pre @ RADV_ADD_UD_ARG sz ty m k # post"
    and pre: "decl_total hw_size pre = 0" "decl_total user_size pre \<le> 32"
    and post: "list_all (member_free m) post" "list_all not_compact post"
  defines "st' \<equiv> fold run_decl ds st"
  shows "arg_used (as_member st' m)" "arg_index (as_member st' m) < length (as_args st')"
    "unat (aa_offset (as_args st' ! arg_index (as_member st' m))) = 8 + decl_total user_size pre"
proof -
  define st1 where "st1 = fold run_decl pre st"
  define st2 where "st2 = run_decl (RADV_ADD_UD_ARG sz ty m k) st1"
  have st': "st' = fold run_decl post st2" by (simp add: st'_def ds st1_def st2_def)
  have "as_num_sgprs_used st1 = of_nat (8 + decl_total user_size pre)"
    using pre(1) by (simp add: st1_def run_sgprs sgpr_size eight)
  then have "unat (as_num_sgprs_used st1) = 8 + decl_total user_size pre"
    using pre(2) by (simp only:) (rule unat_of_nat_small, simp)
  then have off: "unat (ucast (as_num_sgprs_used st1) :: u8) = 8 + decl_total user_size pre"
    using pre(2) by (subst unat_ucast_small) simp_all
  obtain a where a: "as_args st2 = as_args st1 @ [a]" "aa_offset a = ucast (as_num_sgprs_used st1)"
    using ac_add_arg_args [of AC_ARG_SGPR sz ty "Some m" st1] by (auto simp: st2_def add_ud_arg_def Let_def)
  have "as_member st' m = \<lparr>arg_index = length (as_args st1), arg_used = True\<rparr>"
    unfolding st' run_member [OF post(1)] by (simp add: st2_def add_ud_arg_def Let_def)
  with run_offset [OF post(2), of "length (as_args st1)" st2] a off
  show "arg_used (as_member st' m)" "arg_index (as_member st' m) < length (as_args st')"
    "unat (aa_offset (as_args st' ! arg_index (as_member st' m))) = 8 + decl_total user_size pre"
    by (simp_all add: st' nth_append)
qed

lemma user_slot:
  assumes ds: "ds = pre @ RADV_ADD_UD_ARG sz ty m k # post"
    and pre: "list_all (slot_free k) pre" "decl_total user_size pre \<le> 32" "Restart_user_sgprs \<notin> set pre"
    and k: "k < AC_UD_MAX_UD" "k \<noteq> AC_UD_SCRATCH_RING_OFFSETS"
  shows "ud_sgpr_idx (as_shader_data (fold run_decl ds st) ! k) = of_nat (decl_total user_size pre)"
proof -
  define st1 where "st1 = fold run_decl pre st"
  define st2 where "st2 = run_decl (RADV_ADD_UD_ARG sz ty m k) st1"
  have "as_num_user_sgprs st1 = of_nat (decl_total user_size pre)" by (simp add: st1_def run_user [OF pre(3)] eight)
  then have "ucast (as_num_user_sgprs st1) = (of_nat (decl_total user_size pre) :: u8)" using small_words(1) [OF pre(2)] by simp
  moreover have "ud_sgpr_idx (as_shader_data st1 ! k) = -1" "k < length (as_shader_data st1)"
    using unset [OF k] slots k(1) by (simp_all add: st1_def run_slot(1) [OF pre(1)] run_slot(2))
  ultimately have st2: "ud_sgpr_idx (as_shader_data st2 ! k) = of_nat (decl_total user_size pre)"
    by (simp add: st2_def add_ud_arg_def Let_def)
  have "unat (of_nat (decl_total user_size pre) :: u8) \<le> 32" using small_words(2) [OF pre(2)] pre(2) by simp
  moreover have "unat (-1 :: u8) = 255" by (simp add: unsigned_minus_1_eq_mask mask_eq_exp_minus_1)
  ultimately have "of_nat (decl_total user_size pre) \<noteq> (-1 :: u8)" by auto
  moreover have "fold run_decl ds st = fold run_decl post st2" by (simp add: ds st1_def st2_def)
  ultimately show ?thesis using run_slot(3) [of st2 k post] by (simp add: st2)
qed

end

subsection \<open>Merged programs\<close>

text \<open>The registers in front of the user data of a merged program: the ring offsets, and six that the hardware
  fills.\<close>

definition merged_start :: "arg_decl list \<Rightarrow> radv_args_state" where
  "merged_start system = fold run_decl ([ud_addr 2 (Ac ring_offsets) AC_UD_SCRATCH_RING_OFFSETS, Restart_user_sgprs] @ system)
     radv_init_shader_args"

definition geometry_system_sgprs :: "args_compiler_info \<Rightarrow> args_info \<Rightarrow> arg_decl list" where
  "geometry_system_sgprs ci info =
     [if ri_is_ngg info then sgpr gs_tg_info else sgpr gs2vs_offset, sgpr merged_wave_info,
      sgpr tess_offchip_offset, if gfx_level ci \<ge> GFX11 then sgpr gs_attr_offset else sgpr scratch_offset,
      null_sgpr, null_sgpr]"

definition hull_system_sgprs :: "args_compiler_info \<Rightarrow> arg_decl list" where
  "hull_system_sgprs ci =
     [sgpr tess_offchip_offset, sgpr merged_wave_info, sgpr tcs_factor_offset,
      if gfx_level ci \<ge> GFX11 then sgpr tcs_wave_id else sgpr scratch_offset, null_sgpr, null_sgpr]"

lemma merged_start_window:
  assumes "decl_total hw_size system = 6" "decl_total user_size system = 0" "Restart_user_sgprs \<notin> set system"
    "\<And>k. list_all (slot_free k) system"
  shows "window_state (merged_start system)"
proof
  define s where "s = fold run_decl [ud_addr 2 (Ac ring_offsets) AC_UD_SCRATCH_RING_OFFSETS, Restart_user_sgprs] radv_init_shader_args"
  have start: "merged_start system = fold run_decl system s" by (simp add: merged_start_def s_def)
  have s: "as_num_sgprs_used s = 2" "as_num_user_sgprs s = 0" "length (as_shader_data s) = AC_UD_MAX_UD"
    by (simp_all add: s_def radv_init_shader_args_def add_ud_arg_def Let_def)
  show "as_num_sgprs_used (merged_start system) = 8"
    unfolding start run_sgprs sgpr_size assms(1,2) s by simp
  show "as_num_user_sgprs (merged_start system) = 0"
    unfolding start run_user [OF assms(3)] assms(2) s by simp
  show "length (as_shader_data (merged_start system)) = AC_UD_MAX_UD"
    unfolding start run_slot(2) s ..
  show "ud_sgpr_idx (as_shader_data (merged_start system) ! k) = -1" if "k < AC_UD_MAX_UD" "k \<noteq> AC_UD_SCRATCH_RING_OFFSETS" for k
    unfolding start run_slot(1) [OF assms(4)] using that
    by (simp add: s_def radv_init_shader_args_def add_ud_arg_def Let_def)
qed

interpretation ngg_window: window_state "merged_start (geometry_system_sgprs ci info)" for ci info
  by (rule merged_start_window) (simp_all add: geometry_system_sgprs_def)

interpretation hull_window: window_state "merged_start (hull_system_sgprs ci)" for ci
  by (rule merged_start_window) (simp_all add: hull_system_sgprs_def)

text \<open>The second halves of such programs, behind those registers.\<close>

lemma merged_geometry:
  assumes "p \<noteq> MESA_SHADER_NONE" "\<not> ri_merged_shader_compiled_separately info"
  shows "fold run_decl (head_decls ci MESA_SHADER_GEOMETRY p @ geometry_decls ci info p q v us) radv_init_shader_args =
    fold run_decl (merged_geometry_decls ci info p q v us @
      (if p = MESA_SHADER_VERTEX then declare_vs_input_vgprs ci info False
       else if p = MESA_SHADER_TESS_EVAL then declare_tes_input_vgprs
       else if p = MESA_SHADER_MESH then declare_ms_input_vgprs ci else []))
      (merged_start (geometry_system_sgprs ci info))"
  using assms by (simp add: merged_start_def geometry_system_sgprs_def geometry_decls_def head_decls_def only_if_def)

lemma merged_hull:
  assumes "p \<noteq> MESA_SHADER_NONE" "\<not> ri_merged_shader_compiled_separately info"
  shows "fold run_decl (head_decls ci MESA_SHADER_TESS_CTRL p @ tess_ctrl_decls ci gfx_state info p us) radv_init_shader_args =
    fold run_decl (declare_vs_specific_input_sgprs info @ declare_global_input_sgprs ci info us @
        only_if (ai_uses_view_index info) [ud_value 1 (Ac view_index) AC_UD_VIEW_INDEX] @
        only_if (radv_tcs_needs_state_sgpr info gfx_state) [ud_value 1 (Ac tcs_offchip_layout) AC_UD_TCS_OFFCHIP_LAYOUT] @
        [vgpr 1 tcs_patch_id, vgpr 1 tcs_rel_ids] @ declare_vs_input_vgprs ci info True)
      (merged_start (hull_system_sgprs ci))"
  using assms by (simp add: merged_start_def hull_system_sgprs_def tess_ctrl_decls_def head_decls_def only_if_def Let_def)

lemma inputs_member_free:
  assumes "m = ngg_lds_layout \<or> m = ps5_ring_table \<or> m = Ac base_vertex \<or> m = Ac start_instance \<or> m = Ac draw_id"
  shows "list_all (member_free m) (declare_vs_input_vgprs ci info b)" "list_all (member_free m) declare_tes_input_vgprs"
    "list_all (member_free m) (declare_ms_input_vgprs ci)" "list_all (member_free m) (gs_input_vgprs ci)"
    "m \<noteq> ps5_ring_table \<Longrightarrow> list_all (member_free m) (declare_global_input_sgprs ci info us)"
    "m \<noteq> ngg_lds_layout \<Longrightarrow> list_all (member_free m) (declare_ngg_sgprs info c)"
  using assms
  by (auto simp: declare_vs_input_vgprs_def vs_hardware_vgprs_def all_map all_concat declare_tes_input_vgprs_def
      declare_ms_input_vgprs_def gs_input_vgprs_def declare_global_input_sgprs_def resource_decls_def
      descriptor_decls_def declare_ngg_sgprs_def Let_def split: option.split)

text \<open>The user-data arguments of an NGG program that the metadata publishes.\<close>

context window_state
begin

lemma user_pair:
  assumes ds: "ds = pre @ RADV_ADD_UD_ARG sz ty m k # post"
    and pre: "decl_total hw_size pre = 0" "decl_total user_size ds \<le> 32" "list_all (slot_free k) pre" "Restart_user_sgprs \<notin> set ds"
    and post: "list_all (member_free m) post" "list_all not_compact post"
    and k: "k < AC_UD_MAX_UD" "k \<noteq> AC_UD_SCRATCH_RING_OFFSETS"
  defines "st' \<equiv> fold run_decl ds st"
  shows "arg_used (as_member st' m) \<and> arg_index (as_member st' m) < length (as_args st') \<and>
    unat (aa_offset (as_args st' ! arg_index (as_member st' m))) = 8 + unat (ud_sgpr_idx (as_shader_data st' ! k)) \<and>
    unat (ud_sgpr_idx (as_shader_data st' ! k)) \<le> 32"
proof -
  have n: "decl_total user_size pre \<le> 32" using pre(2) by (simp add: ds)
  have "ud_sgpr_idx (as_shader_data st' ! k) = of_nat (decl_total user_size pre)"
    unfolding st'_def by (rule user_slot [OF ds pre(3) n _ k]) (use pre(4) in \<open>simp add: ds\<close>)
  then have "unat (ud_sgpr_idx (as_shader_data st' ! k)) = decl_total user_size pre" using small_words(2) [OF n] by simp
  then show ?thesis using user_offset [OF ds pre(1) n post] n unfolding st'_def by simp
qed

end

text \<open>The declarations of an NGG program between its first half's user data and the end.\<close>

definition ngg_tail :: "args_compiler_info \<Rightarrow> args_info \<Rightarrow> mesa_shader_stage \<Rightarrow> bool \<Rightarrow> arg_decl list" where
  "ngg_tail ci info p query =
     only_if (gfx_level ci \<ge> GFX11 \<and> query) [ud_value 1 ngg_query_buf_va AC_UD_NGG_QUERY_BUF_VA] @
     gs_input_vgprs ci @ (if p = MESA_SHADER_VERTEX then declare_vs_input_vgprs ci info False else declare_tes_input_vgprs)"

definition ngg_middle :: "args_compiler_info \<Rightarrow> args_info \<Rightarrow> mesa_shader_stage \<Rightarrow> user_sgpr_info option \<Rightarrow> arg_decl list" where
  "ngg_middle ci info p us =
     declare_global_input_sgprs ci info us @
     only_if (ai_uses_view_index info) [ud_value 1 (Ac view_index) AC_UD_VIEW_INDEX] @
     only_if (p = MESA_SHADER_TESS_EVAL \<and> radv_tes_needs_state_sgpr info)
       [ud_value 1 (Ac tcs_offchip_layout) AC_UD_TCS_OFFCHIP_LAYOUT] @
     only_if (ai_force_vrs_per_vertex info) [ud_value 1 (Ac force_vrs_rates) AC_UD_FORCE_VRS_RATES]"

lemma ngg_program:
  assumes "ri_is_ngg info" "p = MESA_SHADER_VERTEX \<or> p = MESA_SHADER_TESS_EVAL" "\<not> ri_merged_shader_compiled_separately info"
  shows "\<exists>c. fold run_decl (head_decls ci MESA_SHADER_GEOMETRY p @ geometry_decls ci info p q v us) radv_init_shader_args =
    fold run_decl (only_if (p = MESA_SHADER_VERTEX) (declare_vs_specific_input_sgprs info) @ ngg_middle ci info p us @
      declare_ngg_sgprs info c @ ngg_tail ci info p q) (merged_start (geometry_system_sgprs ci info)) \<and>
    decl_total user_size (geometry_decls ci info p q v us) =
      decl_total user_size (only_if (p = MESA_SHADER_VERTEX) (declare_vs_specific_input_sgprs info) @ ngg_middle ci info p us @
        declare_ngg_sgprs info c @ ngg_tail ci info p q)"
proof -
  have p: "p \<noteq> MESA_SHADER_NONE" using assms(2) by auto
  have "decl_total user_size (geometry_decls ci info p q v us) = decl_total user_size (merged_geometry_decls ci info p q v us)"
    using assms(2,3) p by (auto simp: geometry_decls_def user_zero)
  with assms show ?thesis
    unfolding merged_geometry [OF p assms(3)]
    by (intro exI [of _ "v \<or> q \<or> p = MESA_SHADER_VERTEX \<and> ai_vs_dynamic_num_verts_per_prim info"])
      (auto simp: merged_geometry_decls_def ngg_middle_def ngg_tail_def only_if_def user_zero)
qed

lemma ngg_parts_free:
  assumes "m = ngg_lds_layout \<or> m = Ac base_vertex \<or> m = Ac start_instance \<or> m = Ac draw_id"
  shows "list_all (member_free m) (ngg_middle ci info p us)" "list_all (member_free m) (ngg_tail ci info p q)"
  using assms inputs_member_free [of m] by (auto simp: ngg_middle_def ngg_tail_def)

lemma ngg_parts_sound:
  "list_all not_compact (ngg_middle ci info p us)" "list_all not_compact (ngg_tail ci info p q)"
  "Restart_user_sgprs \<notin> set (ngg_middle ci info p us)" "Restart_user_sgprs \<notin> set (ngg_tail ci info p q)"
  "decl_total hw_size (ngg_middle ci info p us) = 0" "list_all (slot_free AC_UD_NGG_LDS_LAYOUT) (ngg_middle ci info p us)"
proof -
  have c: "list_all not_compact (declare_global_input_sgprs ci info us)"
    by (rule uncompacted.global) (simp add: not_compact_def)
  then show "list_all not_compact (ngg_middle ci info p us)" "list_all not_compact (ngg_tail ci info p q)"
    using uncompacted.parts by (simp_all add: ngg_middle_def ngg_tail_def not_compact_def)
  have r: "list_all (\<lambda>d. d \<noteq> Restart_user_sgprs) (declare_global_input_sgprs ci info us)"
    by (rule no_restart.global) simp
  have "list_all (\<lambda>d. d \<noteq> Restart_user_sgprs) (ngg_middle ci info p us)" "list_all (\<lambda>d. d \<noteq> Restart_user_sgprs) (ngg_tail ci info p q)"
    using no_restart.parts r by (simp_all add: ngg_middle_def ngg_tail_def)
  then show "Restart_user_sgprs \<notin> set (ngg_middle ci info p us)" "Restart_user_sgprs \<notin> set (ngg_tail ci info p q)"
    by (auto simp: list_all_iff)
  show "decl_total hw_size (ngg_middle ci info p us) = 0" by (simp add: ngg_middle_def hw_parts decl_total_only_if)
  show "list_all (slot_free AC_UD_NGG_LDS_LAYOUT) (ngg_middle ci info p us)"
    by (simp add: ngg_middle_def declare_global_input_sgprs_def resource_decls_def descriptor_decls_def all_map Let_def
        split: option.split)
qed

definition in_window :: "radv_args_state \<Rightarrow> arg_member \<Rightarrow> nat \<Rightarrow> bool" where
  "in_window st m k \<longleftrightarrow> arg_used (as_member st m) \<and> arg_index (as_member st m) < length (as_args st) \<and>
     unat (aa_offset (as_args st ! arg_index (as_member st m))) = 8 + unat (ud_sgpr_idx (as_shader_data st ! k)) \<and>
     unat (ud_sgpr_idx (as_shader_data st ! k)) \<le> 32"

definition above_window_base :: "radv_args_state \<Rightarrow> arg_member \<Rightarrow> bool" where
  "above_window_base st m \<longleftrightarrow> arg_index (as_member st m) < length (as_args st) \<and>
     8 \<le> unat (aa_offset (as_args st ! arg_index (as_member st m)))"

definition ngg_decls ::
  "args_compiler_info \<Rightarrow> args_info \<Rightarrow> mesa_shader_stage \<Rightarrow> user_sgpr_info option \<Rightarrow> bool \<Rightarrow> bool \<Rightarrow> arg_decl list" where
  "ngg_decls ci info p us c q =
     only_if (p = MESA_SHADER_VERTEX) (declare_vs_specific_input_sgprs info) @ ngg_middle ci info p us @
     declare_ngg_sgprs info c @ ngg_tail ci info p q"

abbreviation (input) ngg_args ::
  "args_compiler_info \<Rightarrow> args_info \<Rightarrow> mesa_shader_stage \<Rightarrow> user_sgpr_info option \<Rightarrow> bool \<Rightarrow> bool \<Rightarrow> radv_args_state" where
  "ngg_args ci info p us c q \<equiv> fold run_decl (ngg_decls ci info p us c q) (merged_start (geometry_system_sgprs ci info))"

lemma ngg_decls_no_restart: "Restart_user_sgprs \<notin> set (ngg_decls ci info p us c q)"
proof -
  have "list_all (\<lambda>d. d \<noteq> Restart_user_sgprs) (only_if b (declare_vs_specific_input_sgprs info) @ declare_ngg_sgprs info c)" for b
    using no_restart.parts by simp
  then show ?thesis using ngg_parts_sound(3,4) by (fastforce simp: ngg_decls_def list_all_iff)
qed

lemma ngg_lds_layout_window:
  assumes "decl_total user_size (ngg_decls ci info p us c q) \<le> 32"
  shows "in_window (ngg_args ci info p us c q) ngg_lds_layout AC_UD_NGG_LDS_LAYOUT"
proof -
  let ?pre = "only_if (p = MESA_SHADER_VERTEX) (declare_vs_specific_input_sgprs info) @ ngg_middle ci info p us"
  obtain post where post: "declare_ngg_sgprs info c = ud_value 1 ngg_lds_layout AC_UD_NGG_LDS_LAYOUT # post"
    "list_all (member_free ngg_lds_layout) post" "list_all not_compact post"
    by (rule that, unfold declare_ngg_sgprs_def append.simps, rule refl) (simp_all add: not_compact_def)
  show ?thesis
    unfolding in_window_def
    by (rule ngg_window.user_pair [where pre = ?pre and post = "post @ ngg_tail ci info p q"])
      (use assms post ngg_parts_sound [of ci info p] ngg_parts_free [of ngg_lds_layout ci info p] ngg_decls_no_restart [of ci info p us c q] in
        \<open>simp_all add: ngg_decls_def hw_parts decl_total_only_if declare_vs_specific_input_sgprs_def\<close>)
qed

text \<open>The arguments of the vertex half.\<close>

lemma base_vertex_window:
  assumes "decl_total user_size (ngg_decls ci info MESA_SHADER_VERTEX us c q) \<le> 32" "ai_type info \<noteq> RADV_SHADER_TYPE_GS_COPY"
  shows "in_window (ngg_args ci info MESA_SHADER_VERTEX us c q) (Ac base_vertex) AC_UD_VS_BASE_VERTEX_START_INSTANCE"
    "ai_vs_needs_draw_id info \<Longrightarrow> above_window_base (ngg_args ci info MESA_SHADER_VERTEX us c q) (Ac draw_id)"
    "ai_vs_needs_base_instance info \<Longrightarrow> above_window_base (ngg_args ci info MESA_SHADER_VERTEX us c q) (Ac start_instance)"
proof -
  let ?p = "MESA_SHADER_VERTEX"
  let ?pre = "only_if (vs_has_prolog (ri_vs info)) [ud_value 2 prolog_inputs AC_UD_VS_PROLOG_INPUTS] @
    only_if (vs_vb_desc_usage_mask (ri_vs info) \<noteq> 0) [ud_addr 1 (Ac vertex_buffers) AC_UD_VS_VERTEX_BUFFERS]"
  let ?bv = "[ud_value 1 (Ac base_vertex) AC_UD_VS_BASE_VERTEX_START_INSTANCE]"
  let ?did = "only_if (ai_vs_needs_draw_id info) [ud_value 1 (Ac draw_id) AC_UD_VS_BASE_VERTEX_START_INSTANCE]"
  let ?si = "only_if (ai_vs_needs_base_instance info) [ud_value 1 (Ac start_instance) AC_UD_VS_BASE_VERTEX_START_INSTANCE]"
  let ?post = "ngg_middle ci info ?p us @ declare_ngg_sgprs info c @ ngg_tail ci info ?p q"
  have ds: "ngg_decls ci info ?p us c q = ?pre @ ?bv @ ?did @ ?si @ ?post"
    using assms(2) by (simp add: ngg_decls_def declare_vs_specific_input_sgprs_def only_if_def)
  have small: "decl_total user_size ?pre + 2 \<le> 32" by (simp add: decl_total_only_if)
  have post: "list_all (member_free m) ?post" if "m = Ac base_vertex \<or> m = Ac start_instance \<or> m = Ac draw_id" for m
    using that ngg_parts_free [of m] inputs_member_free(6) [of m] by auto
  have compact: "list_all not_compact ?post" using ngg_parts_sound(1,2) uncompacted.parts by simp
  show "in_window (ngg_args ci info ?p us c q) (Ac base_vertex) AC_UD_VS_BASE_VERTEX_START_INSTANCE"
    unfolding in_window_def
    by (rule ngg_window.user_pair [where pre = ?pre and post = "?did @ ?si @ ?post"])
      (use assms(1) post compact ngg_decls_no_restart [of ci info ?p us c q] in \<open>simp_all add: ds decl_total_only_if not_compact_def\<close>)
  show "above_window_base (ngg_args ci info ?p us c q) (Ac draw_id)" if "ai_vs_needs_draw_id info"
    using ngg_window.user_offset [where ds = "ngg_decls ci info ?p us c q" and pre = "?pre @ ?bv" and m = "Ac draw_id" and
        sz = 1 and ty = AC_ARG_VALUE and k = AC_UD_VS_BASE_VERTEX_START_INSTANCE and post = "?si @ ?post" and ci = ci and info = info]
      small post compact that
    by (simp add: ds only_if_def above_window_base_def not_compact_def)
  show "above_window_base (ngg_args ci info ?p us c q) (Ac start_instance)" if "ai_vs_needs_base_instance info"
    using ngg_window.user_offset [where ds = "ngg_decls ci info ?p us c q" and pre = "?pre @ ?bv @ ?did" and m = "Ac start_instance" and
        sz = 1 and ty = AC_ARG_VALUE and k = AC_UD_VS_BASE_VERTEX_START_INSTANCE and post = "?post" and ci = ci and info = info]
      small post compact that
    by (simp add: ds only_if_def above_window_base_def not_compact_def)
qed

text \<open>The view of the arguments that the metadata is filled from.\<close>

definition args_view :: "radv_args_state \<Rightarrow> radv_shader_args" where
  "args_view st =
     (let rest = AC_MAX_ARGS - length (as_args st) in
      \<lparr>sa_arg_offset = map aa_offset (as_args st) @ replicate rest 0,
       sa_arg_size = map aa_size (as_args st) @ replicate rest 0,
       sa_push_constants = as_member st (Ac push_constants),
       sa_vertex_buffers = as_member st (Ac vertex_buffers),
       sa_base_vertex = as_member st (Ac base_vertex),
       sa_draw_id = as_member st (Ac draw_id),
       sa_start_instance = as_member st (Ac start_instance),
       sa_view_index = as_member st (Ac view_index),
       sa_streamout_config = as_member st (Ac streamout_config),
       sa_streamout_write_index = as_member st (Ac streamout_write_index),
       sa_streamout_offset = map (\<lambda>i. as_member st (Ac (streamout_offset i))) [0..<4],
       sa_gs_tg_info = as_member st (Ac gs_tg_info),
       sa_merged_wave_info = as_member st (Ac merged_wave_info),
       sa_descriptors = map (\<lambda>i. as_member st (descriptors i)) [0..<MAX_SETS],
       sa_streamout_buffers = as_member st streamout_buffers,
       sa_ngg_lds_layout = as_member st ngg_lds_layout,
       sa_ps5_ring_table = as_member st ps5_ring_table,
       sa_prolog_inputs = as_member st prolog_inputs,
       sa_vs_inputs = map (\<lambda>i. as_member st (vs_inputs i)) [0..<32],
       sa_shader_data = map ud_sgpr_idx (as_shader_data st),
       sa_descriptor_sets = map ud_sgpr_idx (as_descriptor_sets st),
       sa_num_user_sgprs = as_num_user_sgprs st,
       sa_inline_push_const_mask = as_inline_push_const_mask st\<rparr>)"

text \<open>What the arguments of an NGG program give the metadata.\<close>

definition ngg_args_wf :: "radv_args_state \<Rightarrow> bool" where
  "ngg_args_wf st \<longleftrightarrow> length (as_shader_data st) = AC_UD_MAX_UD \<and>
     in_window st ngg_lds_layout AC_UD_NGG_LDS_LAYOUT \<and>
     (arg_used (as_member st (Ac base_vertex)) \<longrightarrow> in_window st (Ac base_vertex) AC_UD_VS_BASE_VERTEX_START_INSTANCE) \<and>
     (\<forall>m. (m = Ac start_instance \<or> m = Ac draw_id) \<and> arg_used (as_member st m) \<longrightarrow>
        arg_used (as_member st (Ac base_vertex)) \<and> above_window_base st m)"

lemma merged_start_unused:
  assumes "m = Ac base_vertex \<or> m = Ac start_instance \<or> m = Ac draw_id"
  shows "\<not> arg_used (as_member (merged_start (geometry_system_sgprs ci info)) m)"
  using assms by (auto simp: merged_start_def geometry_system_sgprs_def radv_init_shader_args_def add_ud_arg_def zero_arg_def Let_def)

lemma ngg_args_wf:
  assumes room: "decl_total user_size (ngg_decls ci info p us c q) \<le> 32" and p: "p = MESA_SHADER_VERTEX \<or> p = MESA_SHADER_TESS_EVAL"
  shows "ngg_args_wf (ngg_args ci info p us c q)"
proof -
  let ?st = "ngg_args ci info p us c q"
  let ?ms = "{Ac base_vertex, Ac start_instance, Ac draw_id}"
  have slots: "length (as_shader_data ?st) = AC_UD_MAX_UD" by (simp add: run_slot(2) ngg_window.slots)
  have unused: "\<not> arg_used (as_member ?st m)" if "list_all (member_free m) (only_if (p = MESA_SHADER_VERTEX) (declare_vs_specific_input_sgprs info))"
    "m \<in> ?ms" for m
  proof -
    have "list_all (member_free m) (ngg_decls ci info p us c q)"
      using that ngg_parts_free [of m] inputs_member_free(6) [of m] by (auto simp: ngg_decls_def)
    then show ?thesis using run_member merged_start_unused [of m ci info] that(2) by auto
  qed
  note lds = ngg_lds_layout_window [OF room]
  show ?thesis
  proof (cases "p = MESA_SHADER_VERTEX \<and> ai_type info \<noteq> RADV_SHADER_TYPE_GS_COPY")
    case True
    have "\<not> arg_used (as_member ?st (Ac draw_id))" if "\<not> ai_vs_needs_draw_id info"
      using that True by (intro unused) (simp_all add: declare_vs_specific_input_sgprs_def)
    moreover have "\<not> arg_used (as_member ?st (Ac start_instance))" if "\<not> ai_vs_needs_base_instance info"
      using that True by (intro unused) (simp_all add: declare_vs_specific_input_sgprs_def)
    moreover have "arg_used (as_member ?st (Ac base_vertex))"
      using base_vertex_window(1) [of ci info us c q] room True by (simp add: in_window_def)
    ultimately show ?thesis
      using base_vertex_window [of ci info us c q] room True lds slots by (auto simp: ngg_args_wf_def)
  next
    case False
    then have "list_all (member_free m) (only_if (p = MESA_SHADER_VERTEX) (declare_vs_specific_input_sgprs info))" if "m \<in> ?ms" for m
      using that p by (auto simp: declare_vs_specific_input_sgprs_def)
    with unused have "\<not> arg_used (as_member ?st m)" if "m \<in> ?ms" for m using that by blast
    then show ?thesis using lds slots by (auto simp: ngg_args_wf_def)
  qed
qed

lemma declared_ngg_args_wf:
  assumes "args_wf ci info stage" "radv_declare_shader_args ci gfx_state info stage previous_stage = Some st" "ri_is_ngg info"
    "stage = MESA_SHADER_VERTEX \<or> stage = MESA_SHADER_TESS_EVAL \<or>
     stage = MESA_SHADER_GEOMETRY \<and> (previous_stage = MESA_SHADER_VERTEX \<or> previous_stage = MESA_SHADER_TESS_EVAL)"
  shows "ngg_args_wf st"
proof -
  obtain s p q v body0 us body where
    eff: "effective_stages ci info stage previous_stage = (s, p)"
    and body: "stage_decls ci gfx_state info s p q v (Some us) = Some body"
    and st: "st = fold run_decl (head_decls ci s p @ body) radv_init_shader_args"
    and fits: "head_user ci s p + decl_total user_size body \<le> unat (available_sgprs ci stage)"
    by (rule declared_fits [OF assms(1,2)])
  have sep: "\<not> ri_merged_shader_compiled_separately info" and gfx: "gfx_level ci \<ge> GFX10"
    using assms(1,3) by (simp_all add: args_wf_def)
  have s: "s = MESA_SHADER_GEOMETRY" and p: "p = MESA_SHADER_VERTEX \<or> p = MESA_SHADER_TESS_EVAL"
    using eff sep gfx assms(3,4) by (auto simp: effective_stages_def)
  have b: "body = geometry_decls ci info p q v (Some us)" using body by (simp add: s stage_decls_def)
  obtain c where "st = ngg_args ci info p (Some us) c q"
    "decl_total user_size body = decl_total user_size (ngg_decls ci info p (Some us) c q)"
    using ngg_program [OF assms(3) p sep, of ci q v "Some us"] by (auto simp: st s b ngg_decls_def)
  moreover have "unat (available_sgprs ci stage) \<le> 32" by (simp add: unat_available)
  ultimately show ?thesis using ngg_args_wf [OF _ p, of ci info "Some us" c q] fits by simp
qed

lemma small_dword:
  assumes "unat (w :: u8) \<le> 32"
  shows "(scast w :: u32) = ucast w"
proof -
  have "nat (uint w) \<le> 32" using assms by (simp only: unat_eq_nat_uint)
  then have "uint w < 2 ^ 7" by (simp only: nat_le_iff) simp
  then have "signed_take_bit 7 (uint w) = uint w"
    using uint_ge_0 [of w] by (intro signed_take_bit_int_eq_self) linarith+
  then have "sint w = uint w" by (simp add: sint_uint)
  then show ?thesis by (simp only: scast_eq ucast_eq)
qed

lemma window_arg:
  assumes "in_window st m k" "bc_rargs ctx = args_view st" "k < length (as_shader_data st)"
  shows "arg_offset ctx (as_member st m) = user_data ctx k + 8" "unat (user_data ctx k) \<le> 32"
proof -
  let ?d = "ud_sgpr_idx (as_shader_data st ! k)" and ?a = "aa_offset (as_args st ! arg_index (as_member st m))"
  have st: "arg_index (as_member st m) < length (as_args st)" "unat ?a = 8 + unat ?d" "unat ?d \<le> 32"
    using assms(1) by (simp_all add: in_window_def)
  have d: "user_data ctx k = ucast ?d"
    using assms(3) small_dword [OF st(3)] by (simp add: user_data_def assms(2) args_view_def Let_def)
  have a: "arg_offset ctx (as_member st m) = ucast ?a"
    using st(1) by (simp add: arg_offset_def assms(2) args_view_def Let_def nth_append)
  show "unat (user_data ctx k) \<le> 32" using st(3) by (simp add: d unat_ucast_u8)
  have "unat (ucast ?d + 8 :: u32) = unat ?d + 8"
    using st(3) by (subst unat_add_small) (simp_all add: unat_ucast_u8)
  then show "arg_offset ctx (as_member st m) = user_data ctx k + 8"
    unfolding a d word_unat_eq_iff unat_ucast_u8 using st(2) by simp
qed

lemma above_arg:
  assumes "above_window_base st m" "bc_rargs ctx = args_view st"
  shows "8 \<le> arg_offset ctx (as_member st m)"
proof -
  have "arg_offset ctx (as_member st m) = ucast (aa_offset (as_args st ! arg_index (as_member st m)))"
    using assms by (simp add: arg_offset_def args_view_def Let_def nth_append above_window_base_def)
  then show ?thesis using assms(1) by (simp add: above_window_base_def word_le_nat_alt unat_ucast_u8)
qed


lemma relative_dword:
  fixes off :: u32
  assumes "base = d + 8" "8 \<le> off"
  shows "unat off = unat (d + off - base) + 8"
proof -
  have d: "d + off - base = off - 8" by (simp add: assms(1))
  have "8 \<le> unat off" using assms(2) by (simp add: word_le_nat_alt)
  then show ?thesis unfolding d using assms(2) by (simp add: unat_sub)
qed

lemma ngg_window_pairs:
  "ngg_stage ctx \<Longrightarrow> window_pairs ctx (fill_shader_metadata ctx) = window_pairs ctx (meta_common ctx)"
  by (simp add: fill_shader_metadata_def ngg_stage_cases meta_ngg_def meta_simps Let_def window_pairs_def)

lemma meta_common_window:
  fixes ctx :: BuildContext
  defines "md \<equiv> meta_common ctx"
  shows "md_base_vertex_valid md \<longleftrightarrow> reads_vertices ctx \<and> arg_used (sa_base_vertex (bc_rargs ctx))"
    "md_base_vertex_valid md \<Longrightarrow> md_base_vertex_user_data_dword md = user_data ctx AC_UD_VS_BASE_VERTEX_START_INSTANCE"
    "md_start_instance_valid md \<Longrightarrow> md_start_instance_user_data_dword md = md_base_vertex_user_data_dword md +
       arg_offset ctx (sa_start_instance (bc_rargs ctx)) - arg_offset ctx (sa_base_vertex (bc_rargs ctx))"
    "md_start_instance_valid md \<Longrightarrow> reads_vertices ctx"
    "md_draw_id_valid md \<Longrightarrow> md_draw_id_user_data_dword md = md_base_vertex_user_data_dword md +
       arg_offset ctx (sa_draw_id (bc_rargs ctx)) - arg_offset ctx (sa_base_vertex (bc_rargs ctx))"
    "md_draw_id_valid md \<Longrightarrow> reads_vertices ctx"
    "bc_ngg ctx \<Longrightarrow> arg_used (sa_ngg_lds_layout (bc_rargs ctx)) \<Longrightarrow> md_ngg_lds_layout_valid md"
    "bc_ngg ctx \<Longrightarrow> arg_used (sa_ngg_lds_layout (bc_rargs ctx)) \<Longrightarrow>
       md_ngg_lds_layout_user_data_dword md = user_data ctx AC_UD_NGG_LDS_LAYOUT"
  by (simp_all add: md_def meta_common_def meta_simps meta_base_vertex_def meta_draw_id_def
        meta_start_instance_def meta_lds_layout_def meta_header_def zero_metadata_def split: if_splits)

lemma ngg_pairs_agree:
  assumes wf: "ngg_args_wf st" and args: "bc_rargs ctx = args_view st" and ngg: "ngg_stage ctx"
  shows "list_all (window_agrees 8) (window_pairs ctx (meta_common ctx))" "list_ex fst (window_pairs ctx (meta_common ctx))"
proof -
  let ?md = "meta_common ctx" and ?d = "user_data ctx AC_UD_VS_BASE_VERTEX_START_INSTANCE"
  let ?bv = "as_member st (Ac base_vertex)" and ?si = "as_member st (Ac start_instance)" and
    ?did = "as_member st (Ac draw_id)" and ?lds = "as_member st ngg_lds_layout"
  have v: "sa_base_vertex (bc_rargs ctx) = ?bv" "sa_start_instance (bc_rargs ctx) = ?si" "sa_draw_id (bc_rargs ctx) = ?did"
    "sa_ngg_lds_layout (bc_rargs ctx) = ?lds"
    by (simp_all add: args args_view_def Let_def)
  note fields = meta_common_window [of ctx, unfolded v]
  have n: "bc_ngg ctx" using ngg by (simp add: ngg_stage_def)
  have slots: "length (as_shader_data st) = AC_UD_MAX_UD" and w: "in_window st ngg_lds_layout AC_UD_NGG_LDS_LAYOUT"
    using wf by (simp_all add: ngg_args_wf_def)
  have bv: "arg_offset ctx ?bv = ?d + 8" "unat (arg_offset ctx ?bv) = unat ?d + 8" if "arg_used ?bv"
    using that wf window_arg [OF _ args, of "Ac base_vertex" AC_UD_VS_BASE_VERTEX_START_INSTANCE]
    by (simp_all add: ngg_args_wf_def unat_add_small)
  have lds: "arg_used ?lds" "unat (arg_offset ctx ?lds) = unat (user_data ctx AC_UD_NGG_LDS_LAYOUT) + 8"
    using w window_arg [OF w args] by (simp_all add: slots in_window_def unat_add_small)
  have rel: "unat (arg_offset ctx (as_member st m)) =
      unat (md_base_vertex_user_data_dword ?md + arg_offset ctx (as_member st m) - arg_offset ctx ?bv) + 8"
    if "m = Ac start_instance \<or> m = Ac draw_id" "arg_used (as_member st m)" "reads_vertices ctx" for m
  proof -
    have m: "arg_used ?bv" "8 \<le> arg_offset ctx (as_member st m)"
      using that wf above_arg [OF _ args, of m] by (auto simp: ngg_args_wf_def)
    have "md_base_vertex_user_data_dword ?md = ?d" using m(1) that(3) fields(1,2) by simp
    then show ?thesis using relative_dword [OF bv(1) [OF m(1)] m(2)] by simp
  qed
  have "window_agrees 8 (md_base_vertex_valid ?md \<and> arg_used ?bv, arg_offset ctx ?bv, md_base_vertex_user_data_dword ?md)"
    using fields(2) bv(2) by (simp add: window_agrees_unat)
  moreover have "window_agrees 8 (md_start_instance_valid ?md \<and> arg_used ?si, arg_offset ctx ?si, md_start_instance_user_data_dword ?md)"
    using fields(3,4) rel [of "Ac start_instance"] unfolding window_agrees_unat by simp
  moreover have "window_agrees 8 (md_draw_id_valid ?md \<and> arg_used ?did, arg_offset ctx ?did, md_draw_id_user_data_dword ?md)"
    using fields(5,6) rel [of "Ac draw_id"] unfolding window_agrees_unat by simp
  moreover have "window_agrees 8 (md_ngg_lds_layout_valid ?md \<and> arg_used ?lds, arg_offset ctx ?lds, md_ngg_lds_layout_user_data_dword ?md)"
    using lds fields(8) n by (simp add: window_agrees_unat)
  ultimately show "list_all (window_agrees 8) (window_pairs ctx ?md)" "list_ex fst (window_pairs ctx ?md)"
    using lds(1) fields(7) n by (simp_all add: window_pairs_def v Let_def)
qed



lemma hull_ring_window:
  assumes "decl_total user_size (declare_vs_specific_input_sgprs info @ declare_global_input_sgprs ci info us @ tail) \<le> 32"
    "ci_ps5_tess_ring_table ci" "ri_stage info = MESA_SHADER_TESS_CTRL"
    "list_all (member_free ps5_ring_table) tail" "list_all not_compact tail" "Restart_user_sgprs \<notin> set tail"
  defines "st \<equiv> fold run_decl (declare_vs_specific_input_sgprs info @ declare_global_input_sgprs ci info us @ tail)
    (merged_start (hull_system_sgprs ci))"
  shows "in_window st ps5_ring_table AC_UD_PS5_RING_TABLE" "length (as_shader_data st) = AC_UD_MAX_UD"
proof -
  obtain global where g: "declare_global_input_sgprs ci info us = ud_addr 2 ps5_ring_table AC_UD_PS5_RING_TABLE # global"
    using assms(2,3) by (simp add: declare_global_input_sgprs_def only_if_def)
  have free: "list_all (member_free ps5_ring_table) global"
    using assms(2,3) g
    by (simp add: declare_global_input_sgprs_def only_if_def resource_decls_def descriptor_decls_def all_map Let_def split: option.splits)
       (auto simp: all_map)
  have "list_all not_compact (declare_global_input_sgprs ci info us)" by (rule uncompacted.global) (simp add: not_compact_def)
  then have compact: "list_all not_compact global" by (simp add: g)
  have "list_all (\<lambda>d. d \<noteq> Restart_user_sgprs) (declare_vs_specific_input_sgprs info @ declare_global_input_sgprs ci info us)"
    using no_restart.parts no_restart.global by simp
  then have restart: "Restart_user_sgprs \<notin> set (declare_vs_specific_input_sgprs info @ declare_global_input_sgprs ci info us @ tail)"
    using assms(6) by (auto simp: list_all_iff)
  show "in_window st ps5_ring_table AC_UD_PS5_RING_TABLE"
    unfolding in_window_def st_def
    by (rule hull_window.user_pair [where pre = "declare_vs_specific_input_sgprs info" and post = "global @ tail"])
      (use assms(1,4,5) free compact restart in \<open>simp_all add: g declare_vs_specific_input_sgprs_def decl_total_only_if\<close>)
  show "length (as_shader_data st) = AC_UD_MAX_UD" by (simp add: st_def run_slot(2) hull_window.slots)
qed

lemma declared_hull_window:
  assumes "args_wf ci info MESA_SHADER_TESS_CTRL" "ci_ps5_tess_ring_table ci" "\<not> ri_is_ngg info" "previous_stage \<noteq> MESA_SHADER_NONE"
    "radv_declare_shader_args ci gfx_state info MESA_SHADER_TESS_CTRL previous_stage = Some st"
  shows "in_window st ps5_ring_table AC_UD_PS5_RING_TABLE" "length (as_shader_data st) = AC_UD_MAX_UD"
proof -
  obtain s p q v body0 us body where
    eff: "effective_stages ci info MESA_SHADER_TESS_CTRL previous_stage = (s, p)"
    and body: "stage_decls ci gfx_state info s p q v (Some us) = Some body"
    and st: "st = fold run_decl (head_decls ci s p @ body) radv_init_shader_args"
    and fits: "head_user ci s p + decl_total user_size body \<le> unat (available_sgprs ci MESA_SHADER_TESS_CTRL)"
    by (rule declared_fits [OF assms(1,5)])
  have sep: "\<not> ri_merged_shader_compiled_separately info" and stage: "ri_stage info = MESA_SHADER_TESS_CTRL"
    using assms(1) by (simp_all add: args_wf_def)
  have s: "s = MESA_SHADER_TESS_CTRL" "p = previous_stage" using eff sep assms(3) by (auto simp: effective_stages_def)
  have b: "body = tess_ctrl_decls ci gfx_state info p (Some us)" using body by (simp add: s stage_decls_def)
  let ?tail = "only_if (ai_uses_view_index info) [ud_value 1 (Ac view_index) AC_UD_VIEW_INDEX] @
    only_if (radv_tcs_needs_state_sgpr info gfx_state) [ud_value 1 (Ac tcs_offchip_layout) AC_UD_TCS_OFFCHIP_LAYOUT] @
    [vgpr 1 tcs_patch_id, vgpr 1 tcs_rel_ids] @ declare_vs_input_vgprs ci info True"
  have "decl_total user_size body = decl_total user_size (declare_vs_specific_input_sgprs info @ declare_global_input_sgprs ci info (Some us) @ ?tail)"
    using sep assms(4) by (simp add: b s(2) tess_ctrl_decls_def user_zero Let_def)
  moreover have "unat (available_sgprs ci MESA_SHADER_TESS_CTRL) \<le> 32" by (simp add: unat_available)
  ultimately have room: "decl_total user_size (declare_vs_specific_input_sgprs info @ declare_global_input_sgprs ci info (Some us) @ ?tail) \<le> 32"
    using fits by simp
  have tail: "list_all (member_free ps5_ring_table) ?tail" "list_all not_compact ?tail"
    using inputs_member_free(1) [of ps5_ring_table] uncompacted.parts by (simp_all add: not_compact_def)
  have "list_all (\<lambda>d. d \<noteq> Restart_user_sgprs) ?tail" using no_restart.parts by simp
  then have "Restart_user_sgprs \<notin> set ?tail" by (auto simp: list_all_iff)
  note window = hull_ring_window [OF room assms(2) stage tail this]
  have "st = fold run_decl (declare_vs_specific_input_sgprs info @ declare_global_input_sgprs ci info (Some us) @ ?tail)
      (merged_start (hull_system_sgprs ci))"
    unfolding st b s merged_hull [OF assms(4) sep] ..
  with window show "in_window st ps5_ring_table AC_UD_PS5_RING_TABLE" "length (as_shader_data st) = AC_UD_MAX_UD" by simp_all
qed

definition ring_fields :: "PsbcShaderMetadata \<Rightarrow> bool \<times> u32" where
  "ring_fields md = (md_ps5_ring_table_valid md, md_ps5_ring_table_user_data_dword md)"

lemma keep_ring_fields:
  "ring_fields (meta_lds_layout ctx md) = ring_fields md"
  "ring_fields (meta_scratch ctx md) = ring_fields md"
  "ring_fields (meta_descriptor_sets ctx md) = ring_fields md"
  "ring_fields (meta_vertex_buffers ctx md) = ring_fields md"
  "ring_fields (meta_base_vertex ctx md) = ring_fields md"
  "ring_fields (meta_draw_id ctx md) = ring_fields md"
  "ring_fields (meta_start_instance ctx md) = ring_fields md"
  "ring_fields (meta_view_index ctx md) = ring_fields md"
  "ring_fields (meta_streamout ctx md) = ring_fields md"
  "ring_fields (meta_descriptor_bindings ctx md) = ring_fields md"
  "ring_fields (meta_used_bindings ctx md) = ring_fields md"
  by (simp_all add: ring_fields_def meta_block_defs Let_def)

lemma common_ring_fields:
  assumes "arg_used (sa_ps5_ring_table (bc_rargs ctx))"
  shows "md_ps5_ring_table_valid (meta_common ctx)"
    "md_ps5_ring_table_user_data_dword (meta_common ctx) = user_data ctx AC_UD_PS5_RING_TABLE"
proof -
  have "ring_fields (meta_common ctx) = (True, user_data ctx AC_UD_PS5_RING_TABLE)"
    unfolding meta_common_def comp_def keep_ring_fields using assms by (simp add: ring_fields_def meta_ring_table_def)
  then show "md_ps5_ring_table_valid (meta_common ctx)"
    "md_ps5_ring_table_user_data_dword (meta_common ctx) = user_data ctx AC_UD_PS5_RING_TABLE"
    by (simp_all add: ring_fields_def)
qed

text \<open>C27. A merged hull program of the PS5 is given its ring table in the user data, and the metadata publishes
  the window of that table: its base is 8, as for NGG programs, and the published dword plus the base is
  the register in which the shader finds the table.\<close>
theorem hull_user_data_window:
  assumes "args_wf ci info MESA_SHADER_TESS_CTRL" "ci_ps5_tess_ring_table ci" "\<not> ri_is_ngg info" "previous_stage \<noteq> MESA_SHADER_NONE"
    "radv_declare_shader_args ci gfx_state info MESA_SHADER_TESS_CTRL previous_stage = Some st"
    "bc_rargs ctx = args_view st" "bc_stage ctx = MESA_SHADER_TESS_CTRL" "vs_as_ls (ri_vs (bc_rinfo ctx))"
  defines "md \<equiv> fill_shader_metadata ctx"
  shows "md_user_data_window_base md = 8 \<and> md_ps5_ring_table_valid md \<and>
    unat (arg_offset ctx (sa_ps5_ring_table (bc_rargs ctx))) =
      unat (md_ps5_ring_table_user_data_dword md) + unat (md_user_data_window_base md)"
proof -
  note window = declared_hull_window [OF assms(1-5)]
  have v: "sa_ps5_ring_table (bc_rargs ctx) = as_member st ps5_ring_table" by (simp add: assms(6) args_view_def Let_def)
  have used: "arg_used (sa_ps5_ring_table (bc_rargs ctx))" using window(1) by (simp add: v in_window_def)
  let ?d = "user_data ctx AC_UD_PS5_RING_TABLE"
  have off: "arg_offset ctx (sa_ps5_ring_table (bc_rargs ctx)) = ?d + 8" "unat ?d \<le> 32"
    using window_arg [OF window(1) assms(6)] window(2) by (simp_all add: v)
  then have sum: "unat (?d + 8) = unat ?d + 8" by (simp add: unat_add_small)
  then have ge: "?d \<le> ?d + 8" by (simp add: word_le_nat_alt)
  have half: "has_vertex_half ctx" using assms(7,8) by (simp add: has_vertex_half_def)
  have md: "md_user_data_window_base md = 8" "md_ps5_ring_table_user_data_dword md = ?d" "md_ps5_ring_table_valid md"
    using assms(7) half used off(1) ge common_ring_fields [OF used]
    by (simp_all add: md_def fill_shader_metadata_def ngg_stage_def meta_hull_def hull_window_base_def hull_workgroup_def
        add_context_registers_def add_shader_registers_def Let_def)
  then show ?thesis using off(1) sum by simp
qed

definition hull_context :: "radv_args_state \<Rightarrow> BuildContext" where
  "hull_context st = zero_context\<lparr>bc_rargs := args_view st, bc_stage := MESA_SHADER_TESS_CTRL,
     bc_rinfo := zero_info\<lparr>ri_vs := zero_vs\<lparr>vs_as_ls := True\<rparr>\<rparr>\<rparr>"

theorem hull_user_data_window_witness:
  "\<exists>st. radv_declare_shader_args sample_args_ci sample_args_key sample_hull_info MESA_SHADER_TESS_CTRL MESA_SHADER_VERTEX = Some st \<and>
     md_user_data_window_base (fill_shader_metadata (hull_context st)) = 8"
proof -
  have "declaring_stage MESA_SHADER_TESS_CTRL" by (simp add: declaring_stage_def)
  then obtain st where st: "radv_declare_shader_args sample_args_ci sample_args_key sample_hull_info MESA_SHADER_TESS_CTRL MESA_SHADER_VERTEX = Some st"
    using declares [OF sample_hull_args(1,4)] by blast
  have "md_user_data_window_base (fill_shader_metadata (hull_context st)) = 8"
    using hull_user_data_window [OF sample_hull_args(1-3) _ st, of "hull_context st"] by (simp add: hull_context_def)
  with st show ?thesis by blast
qed

end
