(* ===== verification/Subgroup_Info.thy ===== *)
theory Subgroup_Info
  imports Ac_Util Target_Setup
begin

text \<open>
  The sizes of NGG workgroups, \<^verbatim>\<open>ac_ngg_compute_subgroup_info\<close> of \<^verbatim>\<open>src/src/amd/common/ac_shader_util.c\<close> and its
  caller \<^verbatim>\<open>gfx10_get_ngg_info\<close> of \<^verbatim>\<open>src/src/amd/vulkan/radv_shader_info.c\<close>, which the library calls for every NGG
  program and whose result it publishes.  The sizes are 32-bit words that wrap as in the source; the
  loop that rounds them up is a partial function, so that it ends is a theorem.  A failed assertion
  of the source is the value \<open>Asserted\<close>.
\<close>

section \<open>Definitions\<close>

subsection \<open>Primitives\<close>

fun mesa_vertices_per_prim :: "mesa_prim \<Rightarrow> u32" where
  "mesa_vertices_per_prim MESA_PRIM_POINTS = 1"
| "mesa_vertices_per_prim MESA_PRIM_LINES = 2"
| "mesa_vertices_per_prim MESA_PRIM_LINE_LOOP = 2"
| "mesa_vertices_per_prim MESA_PRIM_LINE_STRIP = 2"
| "mesa_vertices_per_prim MESA_PRIM_TRIANGLES = 3"
| "mesa_vertices_per_prim MESA_PRIM_TRIANGLE_STRIP = 3"
| "mesa_vertices_per_prim MESA_PRIM_TRIANGLE_FAN = 3"
| "mesa_vertices_per_prim MESA_PRIM_LINES_ADJACENCY = 4"
| "mesa_vertices_per_prim MESA_PRIM_LINE_STRIP_ADJACENCY = 4"
| "mesa_vertices_per_prim MESA_PRIM_TRIANGLES_ADJACENCY = 6"
| "mesa_vertices_per_prim MESA_PRIM_TRIANGLE_STRIP_ADJACENCY = 6"
| "mesa_vertices_per_prim MESA_PRIM_QUADS = 4"
| "mesa_vertices_per_prim MESA_PRIM_QUAD_STRIP = 4"
| "mesa_vertices_per_prim _ = 3"

definition mesa_prim_has_adjacency :: "mesa_prim \<Rightarrow> bool" where
  "mesa_prim_has_adjacency prim \<longleftrightarrow>
     prim \<in> {MESA_PRIM_LINES_ADJACENCY, MESA_PRIM_LINE_STRIP_ADJACENCY, MESA_PRIM_TRIANGLES_ADJACENCY,
       MESA_PRIM_TRIANGLE_STRIP_ADJACENCY}"

definition align_pot :: "u32 \<Rightarrow> u32 \<Rightarrow> u32" where
  "align_pot x pot_align = (x + pot_align - 1) AND NOT (pot_align - 1)"

subsection \<open>Sizes of a subgroup\<close>

text \<open>The local variables that the last loop reads, as words in the source and as numbers in the proofs.\<close>

record 'n ngg_limits =
  nl_wave_size :: 'n
  nl_max_esverts_base :: 'n
  nl_max_gsprims_base :: 'n
  nl_esvert_lds_size :: 'n
  nl_gsprim_lds_size :: 'n
  nl_max_lds_size :: 'n
  nl_max_verts_per_prim :: 'n
  nl_min_verts_per_prim :: 'n
  nl_min_esverts :: 'n
  nl_use_adjacency :: bool

definition clamp_gsprims_to_esverts :: "u32 \<Rightarrow> u32 \<Rightarrow> u32 \<Rightarrow> bool \<Rightarrow> u32" where
  "clamp_gsprims_to_esverts max_gsprims max_esverts min_verts_per_prim use_adjacency =
     (let max_reuse = max_esverts - min_verts_per_prim;
          max_reuse = (if use_adjacency then max_reuse div 2 else max_reuse)
      in min max_gsprims (1 + max_reuse))"

text \<open>One round of the loop.\<close>

definition ngg_round :: "u32 ngg_limits \<Rightarrow> u32 \<Rightarrow> u32 \<Rightarrow> u32 \<times> u32" where
  "ngg_round l max_esverts max_gsprims =
     (let max_esverts = align_pot max_esverts (nl_wave_size l);
          max_esverts = min max_esverts (nl_max_esverts_base l);
          max_esverts = (if nl_esvert_lds_size l \<noteq> 0
            then min max_esverts ((nl_max_lds_size l - max_gsprims * nl_gsprim_lds_size l) div nl_esvert_lds_size l)
            else max_esverts);
          max_esverts = min max_esverts (max_gsprims * nl_max_verts_per_prim l);
          max_esverts = max max_esverts (nl_min_esverts l);
          max_gsprims = align_pot max_gsprims (nl_wave_size l);
          max_gsprims = min max_gsprims (nl_max_gsprims_base l);
          max_gsprims = (if nl_gsprim_lds_size l \<noteq> 0
            then (let usable_esverts = min max_esverts (max_gsprims * nl_max_verts_per_prim l)
                  in min max_gsprims
                       ((nl_max_lds_size l - usable_esverts * nl_esvert_lds_size l) div nl_gsprim_lds_size l))
            else max_gsprims)
      in (max_esverts, clamp_gsprims_to_esverts max_gsprims max_esverts (nl_min_verts_per_prim l) (nl_use_adjacency l)))"

datatype 'a checked = Asserted | Checked 'a

definition sizes_ok :: "u32 ngg_limits \<Rightarrow> u32 \<times> u32 \<Rightarrow> bool" where
  "sizes_ok l s \<longleftrightarrow> fst s \<ge> nl_max_verts_per_prim l \<and> snd s \<ge> 1"

partial_function (option) ngg_rounds :: "u32 ngg_limits \<Rightarrow> u32 \<times> u32 \<Rightarrow> (u32 \<times> u32) checked option" where
  "ngg_rounds l s =
     (let s' = ngg_round l (fst s) (snd s)
      in if \<not> sizes_ok l s' then Some Asserted
         else if s' = s then Some (Checked s') else ngg_rounds l s')"

declare ngg_rounds.simps [code]

text \<open>One pass over the mode of a geometry shader: whether every instance gets its own subgroup, the most
  primitives, and the most vertices that a primitive emits.\<close>

definition mode_pass :: "u32 \<Rightarrow> u32 \<Rightarrow> bool \<Rightarrow> bool \<times> u32 \<times> u32 \<Rightarrow> bool \<times> u32 \<times> u32" where
  "mode_pass max_workgroup_size vertices_out force_multi_cycling = (\<lambda>(multi, max_gsprims_base, max_out_verts_per_gsprim).
     if max_out_verts_per_gsprim \<le> max_workgroup_size \<and> \<not> force_multi_cycling
     then (multi, if max_out_verts_per_gsprim \<noteq> 0
                  then min max_gsprims_base (max_workgroup_size div max_out_verts_per_gsprim) else max_gsprims_base,
           max_out_verts_per_gsprim)
     else (True, 1, vertices_out))"

text \<open>The mode, the most primitives and the size of a primitive in LDS, after at most one retry.\<close>

definition select_mode ::
  "u32 \<Rightarrow> u32 \<Rightarrow> u32 \<Rightarrow> u32 \<Rightarrow> u32 \<Rightarrow> u32 \<Rightarrow> bool \<Rightarrow> bool \<times> u32 \<times> u32" where
  "select_mode target_workgroup_size max_workgroup_size vertices_out gs_num_invocations ngg_lds_vertex_size
     target_lds_size may_force =
     (let first = mode_pass max_workgroup_size vertices_out False
            (False, target_workgroup_size, vertices_out * gs_num_invocations);
          lds = (\<lambda>mode. (ngg_lds_vertex_size div 4) * snd (snd mode));
          mode = (if lds first > target_lds_size \<and> may_force
                  then mode_pass max_workgroup_size vertices_out True first else first)
      in (fst mode, fst (snd mode), lds mode))"

record ac_ngg_subgroup_info =
  ns_esgs_lds_size :: u16
  ns_ngg_out_lds_size :: u16
  ns_hw_max_esverts :: u16
  ns_max_gsprims :: u16
  ns_max_out_verts :: u16
  ns_max_vert_out_per_gs_instance :: bool

definition start_sizes :: "u32 ngg_limits \<Rightarrow> u32 \<times> u32" where
  "start_sizes l =
     (let max_gsprims = nl_max_gsprims_base l; max_esverts = nl_max_esverts_base l;
          max_esverts = (if nl_esvert_lds_size l \<noteq> 0
                         then min max_esverts (nl_max_lds_size l div nl_esvert_lds_size l) else max_esverts);
          max_gsprims = (if nl_gsprim_lds_size l \<noteq> 0
                         then min max_gsprims (nl_max_lds_size l div nl_gsprim_lds_size l) else max_gsprims);
          max_esverts = min max_esverts (max_gsprims * nl_max_verts_per_prim l)
      in (max_esverts, clamp_gsprims_to_esverts max_gsprims max_esverts (nl_min_verts_per_prim l) (nl_use_adjacency l)))"

text \<open>Both sizes scaled down to the LDS; the second component tells whether they changed.\<close>

definition scale_sizes :: "u32 ngg_limits \<Rightarrow> u32 \<times> u32 \<Rightarrow> u32 \<times> u32" where
  "scale_sizes l s =
     (let lds_total = fst s * nl_esvert_lds_size l + snd s * nl_gsprim_lds_size l in
      if (nl_esvert_lds_size l \<noteq> 0 \<or> nl_gsprim_lds_size l \<noteq> 0) \<and> lds_total > nl_max_lds_size l
      then (let max_esverts = fst s * nl_max_lds_size l div lds_total;
                max_gsprims = snd s * nl_max_lds_size l div lds_total;
                max_esverts = min max_esverts (max_gsprims * nl_max_verts_per_prim l)
            in (max_esverts, clamp_gsprims_to_esverts max_gsprims max_esverts (nl_min_verts_per_prim l) (nl_use_adjacency l)))
      else s)"

definition ngg_min_esverts :: "amd_gfx_level \<Rightarrow> u32 \<Rightarrow> u32" where
  "ngg_min_esverts gfx_level max_verts_per_prim =
     (if gfx_level \<ge> GFX11 then max_verts_per_prim
      else if gfx_level \<ge> GFX10_3 then 29 else 24 - 1 + max_verts_per_prim)"

record ngg_inputs =
  ni_gfx_level :: amd_gfx_level
  ni_es_stage :: mesa_shader_stage
  ni_is_gs :: bool
  ni_input_prim :: mesa_prim
  ni_gs_vertices_out :: u32
  ni_gs_invocations :: u32
  ni_target_workgroup_size :: u32
  ni_max_workgroup_size :: u32
  ni_wave_size :: u32
  ni_esgs_vertex_stride :: u32
  ni_ngg_lds_vertex_size :: u32
  ni_ngg_lds_scratch_size :: u32
  ni_tess_turns_off_ngg :: bool
  ni_max_esgs_lds_padding :: u32

definition ngg_max_lds_size :: "ngg_inputs \<Rightarrow> u32" where
  "ngg_max_lds_size i = 16 * 1024 - ni_ngg_lds_scratch_size i div 4 - ni_max_esgs_lds_padding i div 4"

definition ngg_num_invocations :: "ngg_inputs \<Rightarrow> u32" where
  "ngg_num_invocations i = max (ni_gs_invocations i) 1"

definition ngg_mode :: "ngg_inputs \<Rightarrow> bool \<times> u32 \<times> u32" where
  "ngg_mode i =
     (if ni_is_gs i
      then select_mode (ni_target_workgroup_size i) (ni_max_workgroup_size i) (ni_gs_vertices_out i) (ngg_num_invocations i)
             (ni_ngg_lds_vertex_size i) (ngg_max_lds_size i) (ni_tess_turns_off_ngg i \<or> ni_es_stage i \<noteq> MESA_SHADER_TESS_EVAL)
      else (False, ni_target_workgroup_size i, 0))"

definition ngg_limits_of :: "ngg_inputs \<Rightarrow> u32 ngg_limits" where
  "ngg_limits_of i =
     (let v = mesa_vertices_per_prim (ni_input_prim i); (multi, base, gsprim_lds_size) = ngg_mode i in
      \<lparr>nl_wave_size = ni_wave_size i, nl_max_esverts_base = ni_target_workgroup_size i, nl_max_gsprims_base = base,
       nl_esvert_lds_size = (if ni_is_gs i then ni_esgs_vertex_stride i div 4 else ni_ngg_lds_vertex_size i div 4),
       nl_gsprim_lds_size = gsprim_lds_size, nl_max_lds_size = ngg_max_lds_size i, nl_max_verts_per_prim = v,
       nl_min_verts_per_prim = (if ni_is_gs i then v else 1), nl_min_esverts = ngg_min_esverts (ni_gfx_level i) v,
       nl_use_adjacency = mesa_prim_has_adjacency (ni_input_prim i)\<rparr>)"

text \<open>The end of the function: the result and the value it returns.\<close>

definition ngg_result :: "ngg_inputs \<Rightarrow> u32 \<times> u32 \<Rightarrow> (ac_ngg_subgroup_info \<times> bool) checked" where
  "ngg_result i s =
     (let l = ngg_limits_of i; multi = fst (ngg_mode i); max_esverts = fst s; max_gsprims = snd s;
          max_out_vertices = (if multi then ni_gs_vertices_out i
            else if ni_is_gs i then max_gsprims * ngg_num_invocations i * ni_gs_vertices_out i else max_esverts);
          scratch = ni_ngg_lds_scratch_size i div 4;
          esgs = ucast (min max_esverts (max_gsprims * nl_max_verts_per_prim l) * nl_esvert_lds_size l);
          ngg_out = ucast (max_gsprims * nl_gsprim_lds_size l);
          hw_max_esverts = ucast max_esverts
      in if \<not> max_out_vertices \<le> ni_max_workgroup_size i \<or> \<not> ucast hw_max_esverts \<ge> nl_min_esverts l then Asserted
         else Checked
           (\<lparr>ns_esgs_lds_size = (if ni_is_gs i then esgs else esgs + ucast scratch),
             ns_ngg_out_lds_size = (if ni_is_gs i then ngg_out + ucast scratch else ngg_out),
             ns_hw_max_esverts = hw_max_esverts, ns_max_gsprims = ucast max_gsprims,
             ns_max_out_verts = ucast max_out_vertices, ns_max_vert_out_per_gs_instance = multi\<rparr>,
            max_esverts \<ge> nl_max_verts_per_prim l \<and> max_gsprims \<ge> 1 \<and>
            max_out_vertices \<le> ni_max_workgroup_size i \<and> ucast hw_max_esverts \<ge> nl_min_esverts l))"

definition ac_ngg_compute_subgroup_info :: "ngg_inputs \<Rightarrow> (ac_ngg_subgroup_info \<times> bool) checked option" where
  "ac_ngg_compute_subgroup_info i =
     (let l = ngg_limits_of i; s = start_sizes l; s' = scale_sizes l s in
      if ni_is_gs i \<and> \<not> ni_gs_vertices_out i \<le> ni_max_workgroup_size i \<or> \<not> sizes_ok l s \<or> \<not> sizes_ok l s' then Some Asserted
      else if fst (ngg_mode i) then Some (ngg_result i (max (fst s') (nl_min_esverts l), snd s'))
      else (case ngg_rounds l s' of
              None \<Rightarrow> None
            | Some Asserted \<Rightarrow> Some Asserted
            | Some (Checked s) \<Rightarrow> if \<not> fst s \<ge> nl_min_esverts l then Some Asserted else Some (ngg_result i s)))"

subsection \<open>NGG information of a program\<close>

text \<open>The members of \<^verbatim>\<open>radv_shader_info\<close> and \<^verbatim>\<open>gfx10_ngg_info\<close> that only this computation reads or writes.\<close>

record ngg_shader_info = radv_shader_info +
  sn_ngg_lds_vertex_size :: u32
  sn_ngg_lds_scratch_size :: u8
  sn_gs_input_prim :: mesa_prim
  sn_tes_point_mode :: bool

record ngg_sizes_info = gfx10_ngg_info +
  nz_ngg_emit_size :: u16

definition radv_compute_esgs_itemsize :: "amd_gfx_level \<Rightarrow> u32 \<Rightarrow> u32" where
  "radv_compute_esgs_itemsize gfx_level num_varyings =
     (let esgs_itemsize = num_varyings * 16
      in if gfx_level \<ge> GFX9 \<and> esgs_itemsize \<noteq> 0 then esgs_itemsize + 4 else esgs_itemsize)"

text \<open>The bytes at the start of the LDS that the lowered program itself uses; \<open>None\<close> is the assertion on the stage.\<close>

definition ac_ngg_get_scratch_lds_size ::
  "mesa_shader_stage \<Rightarrow> u32 \<Rightarrow> u32 \<Rightarrow> bool \<Rightarrow> bool \<Rightarrow> bool \<Rightarrow> u32 option" where
  "ac_ngg_get_scratch_lds_size stage workgroup_size wave_size streamout_enabled can_cull compact_primitives =
     (let max_num_waves = (workgroup_size + wave_size - 1) div wave_size; per_wave = align_pot max_num_waves 4 in
      if stage = MESA_SHADER_VERTEX \<or> stage = MESA_SHADER_TESS_EVAL
      then Some (if streamout_enabled then 20
                 else if can_cull then per_wave * (if compact_primitives then 2 else 1) else 0)
      else if stage \<noteq> MESA_SHADER_GEOMETRY then None
      else Some (if streamout_enabled then per_wave + (4 * per_wave + 4 * 4 + 4 * 4) else per_wave))"

definition radv_get_pre_rast_input_topology :: "ngg_shader_info \<Rightarrow> ngg_shader_info option \<Rightarrow> mesa_prim" where
  "radv_get_pre_rast_input_topology es_info gs_info =
     (case gs_info of
        Some gs \<Rightarrow> sn_gs_input_prim gs
      | None \<Rightarrow>
          if ri_stage es_info = MESA_SHADER_TESS_EVAL
          then (if sn_tes_point_mode es_info then MESA_PRIM_POINTS
                else if te_primitive_mode (ri_tes es_info) = TESS_PRIMITIVE_ISOLINES then MESA_PRIM_LINES
                else MESA_PRIM_TRIANGLES)
          else MESA_PRIM_TRIANGLES)"

definition gfx10_get_ngg_vert_prim_lds_size ::
  "ngg_shader_info \<Rightarrow> ngg_shader_info option \<Rightarrow> ngg_sizes_info \<Rightarrow> u32 checked" where
  "gfx10_get_ngg_vert_prim_lds_size es_info gs_info ngg_info =
     (case gs_info of
        Some gs \<Rightarrow> Checked (ng_esgs_ring_size ngg_info + ucast (nz_ngg_emit_size ngg_info) * 4)
      | None \<Rightarrow>
          if \<not> ng_hw_max_esverts ngg_info \<le> 256 then Asserted
          else Checked (sn_ngg_lds_vertex_size es_info * ng_hw_max_esverts ngg_info))"

definition ngg_inputs_of :: "amd_gfx_level \<Rightarrow> ngg_shader_info \<Rightarrow> ngg_shader_info option \<Rightarrow> ngg_inputs" where
  "ngg_inputs_of gfx_level es_info gs_info =
     (let stage_info = (case gs_info of Some gs \<Rightarrow> gs | None \<Rightarrow> es_info) in
      \<lparr>ni_gfx_level = gfx_level, ni_es_stage = ri_stage es_info, ni_is_gs = gs_info \<noteq> None,
       ni_input_prim = radv_get_pre_rast_input_topology es_info gs_info,
       ni_gs_vertices_out = (case gs_info of Some gs \<Rightarrow> gs_vertices_out (ri_gs gs) | None \<Rightarrow> 0),
       ni_gs_invocations = (case gs_info of Some gs \<Rightarrow> max (gs_invocations (ri_gs gs)) 1 | None \<Rightarrow> 1),
       ni_target_workgroup_size = 128, ni_max_workgroup_size = 256, ni_wave_size = ucast (ri_wave_size stage_info),
       ni_esgs_vertex_stride = ri_esgs_itemsize es_info, ni_ngg_lds_vertex_size = sn_ngg_lds_vertex_size stage_info,
       ni_ngg_lds_scratch_size = ucast (sn_ngg_lds_scratch_size stage_info), ni_tess_turns_off_ngg = False,
       ni_max_esgs_lds_padding = 0\<rparr>)"

text \<open>The sizes and the size of the workgroup, which the source writes to both programs' information.\<close>

definition ngg_info_of ::
  "ngg_shader_info \<Rightarrow> ngg_shader_info option \<Rightarrow> ac_ngg_subgroup_info \<Rightarrow> ngg_sizes_info \<Rightarrow> (ngg_sizes_info \<times> u32) checked" where
  "ngg_info_of es_info gs_info info out =
     (let gs_num_invocations = (case gs_info of Some gs \<Rightarrow> max (gs_invocations (ri_gs gs)) 1 | None \<Rightarrow> 1);
          rinfo = (case gs_info of Some gs \<Rightarrow> gs | None \<Rightarrow> es_info);
          out = out\<lparr>ng_hw_max_esverts := ucast (ns_hw_max_esverts info), ng_max_gsprims := ucast (ns_max_gsprims info),
            ng_max_out_verts := ucast (ns_max_out_verts info),
            ng_max_vert_out_per_gs_instance := ns_max_vert_out_per_gs_instance info,
            nz_ngg_emit_size := ns_ngg_out_lds_size info, ng_esgs_ring_size := ucast (ns_esgs_lds_size info) * 4,
            ng_prim_amp_factor := (case gs_info of Some gs \<Rightarrow> gs_vertices_out (ri_gs gs) | None \<Rightarrow> 1)\<rparr>
      in case gfx10_get_ngg_vert_prim_lds_size es_info gs_info out of
           Asserted \<Rightarrow> Asserted
         | Checked lds \<Rightarrow>
             Checked (out\<lparr>ng_lds_size := ucast (sn_ngg_lds_scratch_size rinfo) + lds\<rparr>,
               ac_compute_ngg_workgroup_size (ucast (ns_hw_max_esverts info))
                 (ucast (ns_max_gsprims info) * gs_num_invocations) (ucast (ns_max_out_verts info)) (ng_prim_amp_factor out)))"

definition gfx10_get_ngg_info ::
  "amd_gfx_level \<Rightarrow> ngg_shader_info \<Rightarrow> ngg_shader_info option \<Rightarrow> ngg_sizes_info \<Rightarrow> (ngg_sizes_info \<times> u32) checked option" where
  "gfx10_get_ngg_info gfx_level es_info gs_info out =
     (case ac_ngg_compute_subgroup_info (ngg_inputs_of gfx_level es_info gs_info) of
        None \<Rightarrow> None
      | Some Asserted \<Rightarrow> Some Asserted
      | Some (Checked (info, ok)) \<Rightarrow> Some (ngg_info_of es_info gs_info info out))"

definition gfx10_ngg_set_esgs_ring_itemsize ::
  "ngg_shader_info \<Rightarrow> ngg_shader_info option \<Rightarrow> ngg_sizes_info \<Rightarrow> ngg_sizes_info" where
  "gfx10_ngg_set_esgs_ring_itemsize es_info gs_info out =
     out\<lparr>ng_vgt_esgs_ring_itemsize := (if gs_info \<noteq> None then ri_esgs_itemsize es_info div 4 else 1)\<rparr>"

end
