(* ===== verification/Subgroup_Rounds.thy ===== *)
theory Subgroup_Rounds
  imports Subgroup_Info
begin

text \<open>
  The loop of \<^verbatim>\<open>ac_ngg_compute_subgroup_info\<close> that rounds the sizes of an NGG workgroup up to whole waves.  A
  round is restated over natural numbers; there the sizes keep an invariant and never shrink, so the
  loop ends; a round of the 32-bit words is then shown to be a round of the numbers, without
  wrap-around, and the sizes before the loop to be a start of it.
\<close>

section \<open>The loop in numbers\<close>

definition align_num :: "nat \<Rightarrow> nat \<Rightarrow> nat" where
  "align_num w x = (x + w - 1) div w * w"

lemma align_num_le: "0 < w \<Longrightarrow> x \<le> align_num w x"
proof -
  assume "0 < w"
  then have "(x + w - 1) div w * w + (x + w - 1) mod w = x + w - 1" "(x + w - 1) mod w < w" by simp_all
  then show ?thesis unfolding align_num_def by linarith
qed

lemma align_num_mono: "x \<le> y \<Longrightarrow> align_num w x \<le> align_num w y"
  by (simp add: align_num_def div_le_mono)

lemma align_num_mult: "0 < w \<Longrightarrow> align_num w (k * w) = k * w"
proof -
  assume w: "0 < w"
  then have "k * w + w - 1 = (w - 1) + k * w" by simp
  moreover have "(w - 1 + k * w) div w = k + (w - 1) div w" using w by (intro div_mult_self1) simp
  ultimately have "(k * w + w - 1) div w = k" using w by simp
  then show ?thesis by (simp only: align_num_def)
qed

lemma align_num_between: "0 < w \<Longrightarrow> x \<le> y \<Longrightarrow> y \<le> align_num w x \<Longrightarrow> align_num w y = align_num w x"
  using align_num_mono [of x y w] align_num_mono [of y "align_num w x" w] align_num_mult [of w "(x + w - 1) div w"]
  by (simp add: align_num_def)

text \<open>A size that must fit \<open>room\<close> in pieces of \<open>piece\<close>.\<close>

definition fit :: "nat \<Rightarrow> nat \<Rightarrow> nat \<Rightarrow> nat" where
  "fit room piece x = (if piece = 0 then x else min x (room div piece))"

lemma fit_le: "fit room piece x \<le> x"
  by (simp add: fit_def)

lemma fit_room: "fit room piece x * piece \<le> room"
proof (cases "piece = 0")
  case False
  have "min x (room div piece) * piece \<le> room div piece * piece" by (rule mult_le_mono1) simp
  also have "\<dots> \<le> room" by simp
  finally show ?thesis using False by (simp add: fit_def)
qed (simp add: fit_def)

lemma fit_ge: "y \<le> x \<Longrightarrow> y * piece \<le> room \<Longrightarrow> y \<le> fit room piece x"
  by (auto simp: fit_def less_eq_div_iff_mult_less_eq)

definition reuse :: "nat ngg_limits \<Rightarrow> nat \<Rightarrow> nat" where
  "reuse l E = (if nl_use_adjacency l then (E - nl_min_verts_per_prim l) div 2 else E - nl_min_verts_per_prim l)"

lemma reuse_mono: "E \<le> F \<Longrightarrow> reuse l E \<le> reuse l F"
  by (simp add: reuse_def div_le_mono diff_le_mono)

definition top_prims :: "nat ngg_limits \<Rightarrow> nat \<Rightarrow> nat" where
  "top_prims l P = min (align_num (nl_wave_size l) P) (nl_max_gsprims_base l)"

definition next_esverts :: "nat ngg_limits \<Rightarrow> nat \<Rightarrow> nat \<Rightarrow> nat" where
  "next_esverts l E P =
     max (min (fit (nl_max_lds_size l - P * nl_gsprim_lds_size l) (nl_esvert_lds_size l)
                (min (align_num (nl_wave_size l) E) (nl_max_esverts_base l)))
           (P * nl_max_verts_per_prim l)) (nl_min_esverts l)"

definition next_gsprims :: "nat ngg_limits \<Rightarrow> nat \<Rightarrow> nat \<Rightarrow> nat" where
  "next_gsprims l E P =
     min (fit (nl_max_lds_size l - min E (top_prims l P * nl_max_verts_per_prim l) * nl_esvert_lds_size l)
           (nl_gsprim_lds_size l) (top_prims l P)) (1 + reuse l E)"

definition limits_wf :: "nat ngg_limits \<Rightarrow> bool" where
  "limits_wf l \<longleftrightarrow> 0 < nl_wave_size l \<and> nl_min_verts_per_prim l \<le> nl_max_verts_per_prim l \<and>
     1 \<le> nl_max_verts_per_prim l \<and> (nl_use_adjacency l \<longrightarrow> 2 \<le> nl_max_verts_per_prim l) \<and>
     nl_max_verts_per_prim l \<le> nl_min_esverts l \<and> nl_min_esverts l * nl_esvert_lds_size l \<le> nl_max_lds_size l"

text \<open>What holds after every round: the sizes fit the LDS, also when the primitives are rounded up, and
  there are no more vertices than the hardware requires or the primitives use.\<close>

definition round_inv :: "nat ngg_limits \<Rightarrow> nat \<Rightarrow> nat \<Rightarrow> bool" where
  "round_inv l E P \<longleftrightarrow>
     P * nl_gsprim_lds_size l + min E (top_prims l P * nl_max_verts_per_prim l) * nl_esvert_lds_size l \<le> nl_max_lds_size l \<and>
     P \<le> nl_max_gsprims_base l \<and> P \<le> 1 + reuse l E \<and>
     (E = nl_min_esverts l \<or>
      nl_min_esverts l < E \<and> E \<le> nl_max_esverts_base l \<and> E \<le> P * nl_max_verts_per_prim l)"

text \<open>What holds before the first round.\<close>

definition start_inv :: "nat ngg_limits \<Rightarrow> nat \<Rightarrow> nat \<Rightarrow> bool" where
  "start_inv l E P \<longleftrightarrow> P * nl_gsprim_lds_size l + E * nl_esvert_lds_size l \<le> nl_max_lds_size l \<and>
     P \<le> nl_max_gsprims_base l \<and> E \<le> nl_max_esverts_base l \<and> P \<le> 1 + reuse l E"

lemma top_prims:
  assumes "limits_wf l" "P \<le> nl_max_gsprims_base l"
  shows "P \<le> top_prims l P" "top_prims l P \<le> nl_max_gsprims_base l"
    "P \<le> Q \<Longrightarrow> Q \<le> top_prims l P \<Longrightarrow> top_prims l Q = top_prims l P"
    "Q \<le> P \<Longrightarrow> top_prims l Q \<le> top_prims l P"
  using assms align_num_le [of "nl_wave_size l" P] align_num_between [of "nl_wave_size l" P Q]
    align_num_mono [of Q P "nl_wave_size l"]
  by (auto simp: top_prims_def limits_wf_def)

lemma next_esverts_cases:
  "next_esverts l E P = nl_min_esverts l \<or>
   nl_min_esverts l < next_esverts l E P \<and> next_esverts l E P \<le> nl_max_esverts_base l \<and>
   next_esverts l E P \<le> P * nl_max_verts_per_prim l \<and>
   next_esverts l E P * nl_esvert_lds_size l \<le> nl_max_lds_size l - P * nl_gsprim_lds_size l"
proof -
  define room where "room = nl_max_lds_size l - P * nl_gsprim_lds_size l"
  define m where "m = min (fit room (nl_esvert_lds_size l) (min (align_num (nl_wave_size l) E) (nl_max_esverts_base l)))
    (P * nl_max_verts_per_prim l)"
  have "m * nl_esvert_lds_size l \<le> room"
    unfolding m_def by (rule order.trans [OF mult_le_mono1 [OF min.cobounded1] fit_room])
  moreover have "m \<le> nl_max_esverts_base l" "m \<le> P * nl_max_verts_per_prim l"
    using fit_le [of room "nl_esvert_lds_size l" "min (align_num (nl_wave_size l) E) (nl_max_esverts_base l)"] by (auto simp: m_def)
  moreover have "next_esverts l E P = max m (nl_min_esverts l)" by (simp add: next_esverts_def m_def room_def)
  ultimately show ?thesis by (cases "m \<le> nl_min_esverts l") (simp_all add: room_def max_def)
qed

lemma next_esverts_ge:
  assumes "limits_wf l" "E \<le> nl_max_esverts_base l"
    "P * nl_gsprim_lds_size l + E * nl_esvert_lds_size l \<le> nl_max_lds_size l"
  shows "min E (P * nl_max_verts_per_prim l) \<le> next_esverts l E P"
proof -
  have "E \<le> min (align_num (nl_wave_size l) E) (nl_max_esverts_base l)"
    using assms(1,2) align_num_le [of "nl_wave_size l" E] by (simp add: limits_wf_def)
  then have "E \<le> fit (nl_max_lds_size l - P * nl_gsprim_lds_size l) (nl_esvert_lds_size l)
      (min (align_num (nl_wave_size l) E) (nl_max_esverts_base l))"
    using assms(3) by (intro fit_ge) simp_all
  then have "min E (P * nl_max_verts_per_prim l) \<le> min (fit (nl_max_lds_size l - P * nl_gsprim_lds_size l) (nl_esvert_lds_size l)
      (min (align_num (nl_wave_size l) E) (nl_max_esverts_base l))) (P * nl_max_verts_per_prim l)"
    by (rule min.mono) simp
  then show ?thesis unfolding next_esverts_def by (rule max.coboundedI1)
qed

text \<open>The vertices of \<open>P\<close> primitives are enough for them.\<close>

lemma reuse_of_prims:
  assumes "limits_wf l" "P * nl_max_verts_per_prim l \<le> E"
  shows "P \<le> 1 + reuse l E"
proof (cases P)
  case (Suc k)
  let ?v = "nl_max_verts_per_prim l"
  have "nl_min_verts_per_prim l \<le> ?v" "?v + k * ?v \<le> E" using assms Suc by (simp_all add: limits_wf_def)
  then have kv: "k * ?v \<le> E - nl_min_verts_per_prim l" by linarith
  show ?thesis
  proof (cases "nl_use_adjacency l")
    case True
    then have "k * 2 \<le> k * ?v" using assms(1) by (intro mult_le_mono2) (simp add: limits_wf_def)
    then have "k \<le> (E - nl_min_verts_per_prim l) div 2" using kv by linarith
    with True Suc show ?thesis by (simp add: reuse_def)
  next
    case False
    have "k * 1 \<le> k * ?v" using assms(1) by (intro mult_le_mono2) (simp add: limits_wf_def)
    then have "k \<le> E - nl_min_verts_per_prim l" using kv by linarith
    with False Suc show ?thesis by (simp add: reuse_def)
  qed
qed simp

text \<open>The primitives of a round that may use \<open>E\<close> vertices.\<close>

lemma next_gsprims_ge:
  assumes "limits_wf l" "P \<le> nl_max_gsprims_base l" "P \<le> 1 + reuse l E"
    "P * nl_gsprim_lds_size l + min E (top_prims l P * nl_max_verts_per_prim l) * nl_esvert_lds_size l \<le> nl_max_lds_size l"
  shows "P \<le> next_gsprims l E P"
  unfolding next_gsprims_def
  using assms(3,4) top_prims(1) [OF assms(1,2)] by (simp add: fit_ge)

lemma next_gsprims_inv:
  assumes "limits_wf l" "P \<le> nl_max_gsprims_base l"
    "min E (top_prims l P * nl_max_verts_per_prim l) * nl_esvert_lds_size l \<le> nl_max_lds_size l"
  defines "P' \<equiv> next_gsprims l E P"
  shows "P' * nl_gsprim_lds_size l + min E (top_prims l P' * nl_max_verts_per_prim l) * nl_esvert_lds_size l \<le> nl_max_lds_size l"
    "P' \<le> nl_max_gsprims_base l" "P' \<le> 1 + reuse l E"
proof -
  let ?room = "nl_max_lds_size l - min E (top_prims l P * nl_max_verts_per_prim l) * nl_esvert_lds_size l"
  let ?f = "fit ?room (nl_gsprim_lds_size l) (top_prims l P)"
  have le: "P' \<le> ?f" "P' \<le> 1 + reuse l E" by (simp_all add: P'_def next_gsprims_def)
  have "P' * nl_gsprim_lds_size l \<le> ?room"
    by (rule order.trans [OF mult_le_mono1 [OF le(1)] fit_room])
  moreover have P': "P' \<le> top_prims l P" by (rule order.trans [OF le(1) fit_le])
  have "top_prims l P' \<le> top_prims l P"
  proof (cases "P \<le> P'")
    case True
    show ?thesis using top_prims(3) [OF assms(1,2) True P'] by (rule eq_refl)
  next
    case False
    then show ?thesis by (intro top_prims(4) [OF assms(1,2)]) simp
  qed
  then have "min E (top_prims l P' * nl_max_verts_per_prim l) * nl_esvert_lds_size l \<le>
      min E (top_prims l P * nl_max_verts_per_prim l) * nl_esvert_lds_size l"
    by (intro mult_le_mono1 min.mono) simp_all
  ultimately show "P' * nl_gsprim_lds_size l + min E (top_prims l P' * nl_max_verts_per_prim l) * nl_esvert_lds_size l \<le> nl_max_lds_size l"
    using assms(3) by linarith
  show "P' \<le> nl_max_gsprims_base l" using P' top_prims(2) [OF assms(1,2)] by linarith
  show "P' \<le> 1 + reuse l E" by (rule le)
qed

text \<open>Vertices that the primitives can use fit the LDS: either the hardware's minimum or what the round left.\<close>

lemma usable_fits:
  assumes "limits_wf l" "P * nl_gsprim_lds_size l \<le> nl_max_lds_size l"
  shows "min (next_esverts l E P) n * nl_esvert_lds_size l \<le> nl_max_lds_size l"
proof -
  have "next_esverts l E P * nl_esvert_lds_size l \<le> nl_max_lds_size l"
    using next_esverts_cases [of l E P] assms by (auto simp: limits_wf_def)
  moreover have "min (next_esverts l E P) n * nl_esvert_lds_size l \<le> next_esverts l E P * nl_esvert_lds_size l" by simp
  ultimately show ?thesis by linarith
qed

lemma round_grows:
  assumes "limits_wf l" "round_inv l E P"
  defines "E' \<equiv> next_esverts l E P"
  defines "P' \<equiv> next_gsprims l E' P"
  shows "E \<le> E' \<and> P \<le> P' \<and> round_inv l E' P'"
proof -
  let ?e = "nl_esvert_lds_size l" and ?g = "nl_gsprim_lds_size l" and ?v = "nl_max_verts_per_prim l" and ?L = "nl_max_lds_size l"
  have inv: "P * ?g + min E (top_prims l P * ?v) * ?e \<le> ?L" "P \<le> nl_max_gsprims_base l" "P \<le> 1 + reuse l E"
    "E = nl_min_esverts l \<or> nl_min_esverts l < E \<and> E \<le> nl_max_esverts_base l \<and> E \<le> P * ?v"
    using assms(2) by (simp_all add: round_inv_def)
  note top = top_prims [OF assms(1) inv(2)]
  have Pg: "P * ?g \<le> ?L" using inv(1) by linarith
  have E: "E \<le> E'"
  proof (cases "E = nl_min_esverts l")
    case False
    with inv(4) have "E \<le> P * ?v" "E \<le> nl_max_esverts_base l" by auto
    moreover have "P * ?v \<le> top_prims l P * ?v" by (rule mult_le_mono1 [OF top(1)])
    ultimately have "min E (top_prims l P * ?v) = E" by (intro min.absorb1) (rule order.trans)
    with inv(1) have "P * ?g + E * ?e \<le> ?L" by simp
    then show ?thesis
      using next_esverts_ge [OF assms(1) \<open>E \<le> nl_max_esverts_base l\<close>, of P] \<open>E \<le> P * ?v\<close> by (simp add: E'_def)
  qed (simp add: E'_def next_esverts_def)
  have fits: "P * ?g + min E' (top_prims l P * ?v) * ?e \<le> ?L"
  proof (cases "E' = nl_min_esverts l")
    case True
    then have "E' = E" using E inv(4) by auto
    then show ?thesis using inv(1) by simp
  next
    case False
    then have "E' * ?e \<le> ?L - P * ?g" using next_esverts_cases [of l E P] by (simp add: E'_def)
    moreover have "min E' (top_prims l P * ?v) * ?e \<le> E' * ?e" by simp
    ultimately show ?thesis using Pg by linarith
  qed
  have "P \<le> 1 + reuse l E'" using inv(3) reuse_mono [OF E, of l] by linarith
  then have P: "P \<le> P'" unfolding P'_def by (rule next_gsprims_ge [OF assms(1) inv(2) _ fits])
  have "min E' (top_prims l P * ?v) * ?e \<le> ?L" using fits by linarith
  note inv' = next_gsprims_inv [OF assms(1) inv(2) this, folded P'_def]
  have "E' = nl_min_esverts l \<or> nl_min_esverts l < E' \<and> E' \<le> nl_max_esverts_base l \<and> E' \<le> P' * ?v"
    using next_esverts_cases [of l E P] mult_le_mono1 [OF P, of ?v] unfolding E'_def by linarith
  with E P inv' show ?thesis unfolding round_inv_def by blast
qed

text \<open>The first round may take primitives away, when the hardware's minimum of vertices needs their LDS.\<close>

lemma first_round:
  assumes "limits_wf l" "start_inv l E P"
  defines "E' \<equiv> next_esverts l E P"
  defines "P' \<equiv> next_gsprims l E' P"
  shows "round_inv l E' P'"
proof -
  let ?e = "nl_esvert_lds_size l" and ?g = "nl_gsprim_lds_size l" and ?v = "nl_max_verts_per_prim l" and ?L = "nl_max_lds_size l"
  have inv: "P * ?g + E * ?e \<le> ?L" "P \<le> nl_max_gsprims_base l" "E \<le> nl_max_esverts_base l" "P \<le> 1 + reuse l E"
    using assms(2) by (simp_all add: start_inv_def)
  have Pg: "P * ?g \<le> ?L" using inv(1) by linarith
  note inv' = next_gsprims_inv [OF assms(1) inv(2) usable_fits [OF assms(1) Pg], of E, folded E'_def, folded P'_def]
  have "E' = nl_min_esverts l \<or> nl_min_esverts l < E' \<and> E' \<le> nl_max_esverts_base l \<and> E' \<le> P' * ?v"
  proof (cases "E' = nl_min_esverts l")
    case False
    then have c: "nl_min_esverts l < E'" "E' \<le> nl_max_esverts_base l" "E' \<le> P * ?v" "E' * ?e \<le> ?L - P * ?g"
      using next_esverts_cases [of l E P] by (auto simp: E'_def)
    have ge: "min E (P * ?v) \<le> E'" unfolding E'_def by (rule next_esverts_ge [OF assms(1) inv(3,1)])
    have "P \<le> 1 + reuse l E'"
    proof (cases "E \<le> P * ?v")
      case True
      then show ?thesis using ge inv(4) reuse_mono [of E E' l] by simp
    next
      case False
      then show ?thesis using ge by (intro reuse_of_prims [OF assms(1)]) simp
    qed
    moreover have "P * ?g + min E' (top_prims l P * ?v) * ?e \<le> ?L"
      using c(4) Pg mult_le_mono1 [OF min.cobounded1, of E' "top_prims l P * ?v" ?e] by linarith
    ultimately have "P \<le> P'" unfolding P'_def by (intro next_gsprims_ge [OF assms(1) inv(2)])
    then show ?thesis using c mult_le_mono1 [of P P' ?v] by linarith
  qed simp
  with inv' show ?thesis unfolding round_inv_def by blast
qed

section \<open>Words as numbers\<close>

lemma unat_minus: "unat (b :: u32) \<le> unat a \<Longrightarrow> unat (a - b) = unat a - unat b"
  by (rule unat_sub) (simp add: word_le_nat_alt)

lemma unat_and_not_mask: "unat (a AND NOT (mask n) :: u32) = unat a div 2 ^ n * 2 ^ n"
proof -
  have "a AND NOT (mask n) = a - take_bit n a" 
  proof -
    have "a - take_bit n a = a AND NOT (take_bit n a)"
      by (rule disjunctive_diff_eq_and_not) (rule bit_eqI, simp add: bit_simps)
    also have "\<dots> = a AND NOT (mask n)" by (rule bit_eqI) (auto simp: bit_simps)
    finally show ?thesis by simp
  qed
  moreover have "unat (take_bit n a) = unat a mod 2 ^ n" by (simp only: unsigned_take_bit_eq) (rule take_bit_eq_mod)
  moreover have "unat a mod 2 ^ n \<le> unat a" by simp
  ultimately have "unat (a AND NOT (mask n)) = unat a - unat a mod 2 ^ n" using unat_minus [of "take_bit n a" a] by simp
  then show ?thesis by (simp add: minus_mod_eq_div_mult)
qed

lemma unat_align_pot_exp:
  assumes "unat x + 2 ^ k < 2 ^ 32"
  shows "unat (align_pot x (2 ^ k)) = align_num (2 ^ k) (unat x)"
proof -
  have p: "unat (2 ^ k :: u32) = 2 ^ k" using unat_of_nat_small [of "2 ^ k", where 'a = 32] assms by simp
  then have "unat (x + 2 ^ k) = unat x + 2 ^ k" using assms by (subst unat_add_small) simp_all
  moreover then have "unat (1 :: u32) \<le> unat (x + 2 ^ k)" using trans_le_add2 [OF one_le_power [of "2 :: nat" k]] by simp
  ultimately have "unat (x + 2 ^ k - 1) = unat x + 2 ^ k - 1" using unat_minus [of 1 "x + 2 ^ k"] by simp
  then show ?thesis by (simp add: align_pot_def align_num_def unat_and_not_mask flip: mask_eq_exp_minus_1)
qed

lemma unat_align_pot:
  assumes "w = 32 \<or> w = 64" "unat x \<le> 2 ^ 16"
  shows "unat (align_pot x w) = align_num (unat w) (unat x)"
  using assms unat_align_pot_exp [of x 5] unat_align_pot_exp [of x 6] by auto

text \<open>The limits as numbers.\<close>

definition nums :: "u32 ngg_limits \<Rightarrow> nat ngg_limits" where
  "nums l = \<lparr>nl_wave_size = unat (nl_wave_size l), nl_max_esverts_base = unat (nl_max_esverts_base l),
     nl_max_gsprims_base = unat (nl_max_gsprims_base l), nl_esvert_lds_size = unat (nl_esvert_lds_size l),
     nl_gsprim_lds_size = unat (nl_gsprim_lds_size l), nl_max_lds_size = unat (nl_max_lds_size l),
     nl_max_verts_per_prim = unat (nl_max_verts_per_prim l), nl_min_verts_per_prim = unat (nl_min_verts_per_prim l),
     nl_min_esverts = unat (nl_min_esverts l), nl_use_adjacency = nl_use_adjacency l\<rparr>"

lemma nums_simps [simp]:
  "nl_wave_size (nums l) = unat (nl_wave_size l)" "nl_max_esverts_base (nums l) = unat (nl_max_esverts_base l)"
  "nl_max_gsprims_base (nums l) = unat (nl_max_gsprims_base l)" "nl_esvert_lds_size (nums l) = unat (nl_esvert_lds_size l)"
  "nl_gsprim_lds_size (nums l) = unat (nl_gsprim_lds_size l)" "nl_max_lds_size (nums l) = unat (nl_max_lds_size l)"
  "nl_max_verts_per_prim (nums l) = unat (nl_max_verts_per_prim l)"
  "nl_min_verts_per_prim (nums l) = unat (nl_min_verts_per_prim l)"
  "nl_min_esverts (nums l) = unat (nl_min_esverts l)" "nl_use_adjacency (nums l) = nl_use_adjacency l"
  by (simp_all add: nums_def)

definition small :: "u32 ngg_limits \<Rightarrow> bool" where
  "small l \<longleftrightarrow> (nl_wave_size l = 32 \<or> nl_wave_size l = 64) \<and> unat (nl_max_esverts_base l) \<le> 256 \<and>
     unat (nl_max_gsprims_base l) \<le> 256 \<and> unat (nl_max_lds_size l) \<le> 2 ^ 14 \<and> unat (nl_max_verts_per_prim l) \<le> 6 \<and>
     unat (nl_min_esverts l) \<le> 29"

lemma unat_fit:
  "unat (if d \<noteq> 0 then min x (room div d) else x) = fit (unat (room :: u32)) (unat d) (unat x)"
  by (simp add: fit_def unat_min unat_div_distrib unat_eq_0)

lemma unat_clamp_gsprims:
  assumes "unat (nl_min_verts_per_prim l) \<le> unat E" "unat E \<le> 2 ^ 16"
  shows "unat (clamp_gsprims_to_esverts P E (nl_min_verts_per_prim l) (nl_use_adjacency l)) =
    min (unat P) (1 + reuse (nums l) (unat E))"
proof -
  define r where "r = (if nl_use_adjacency l then (E - nl_min_verts_per_prim l) div 2 else E - nl_min_verts_per_prim l)"
  have r: "unat r = reuse (nums l) (unat E)"
    using assms by (simp add: r_def reuse_def unat_minus unat_div_distrib)
  have "reuse (nums l) (unat E) \<le> 2 ^ 16" using assms(2) by (auto simp: reuse_def)
  then have "unat (1 + r) = 1 + reuse (nums l) (unat E)" using r by (simp add: unat_add_small)
  then show ?thesis by (simp add: clamp_gsprims_to_esverts_def r_def [symmetric] unat_min)
qed

lemma limits_wf_nums:
  "limits_wf (nums l) \<Longrightarrow> unat (nl_min_verts_per_prim l) \<le> unat (nl_max_verts_per_prim l) \<and>
     unat (nl_max_verts_per_prim l) \<le> unat (nl_min_esverts l)"
  by (simp add: limits_wf_def)

lemma next_esverts_le: "next_esverts l E P \<le> max (nl_max_esverts_base l) (nl_min_esverts l)"
  using next_esverts_cases [of l E P] by auto

text \<open>One round of the words is one round of the numbers.\<close>

lemma unat_ngg_round:
  assumes "limits_wf (nums l)" "small l" "unat E \<le> 256" "unat P \<le> unat (nl_max_gsprims_base l)"
    "unat P * unat (nl_gsprim_lds_size l) \<le> unat (nl_max_lds_size l)"
  defines "E' \<equiv> next_esverts (nums l) (unat E) (unat P)"
  shows "unat (fst (ngg_round l E P)) = E'" "unat (snd (ngg_round l E P)) = next_gsprims (nums l) E' (unat P)"
proof -
  let ?g = "nl_gsprim_lds_size l" and ?e = "nl_esvert_lds_size l" and ?L = "nl_max_lds_size l" and ?v = "nl_max_verts_per_prim l"
  note sm = assms(2) [unfolded small_def]
  define F where "F = (let x = min (align_pot E (nl_wave_size l)) (nl_max_esverts_base l) in
    if ?e \<noteq> 0 then min x ((?L - P * ?g) div ?e) else x)"
  define G where "G = max (min F (P * ?v)) (nl_min_esverts l)"
  define T where "T = min (align_pot P (nl_wave_size l)) (nl_max_gsprims_base l)"
  define H where "H = (if ?g \<noteq> 0 then min T ((?L - min G (T * ?v) * ?e) div ?g) else T)"
  have Pg: "unat (P * ?g) = unat P * unat ?g" using assms(5) sm by (intro unat_mult_small) simp
  have v: "unat x \<le> 256 \<Longrightarrow> unat (x * ?v) = unat x * unat ?v" for x
  proof -
    assume "unat x \<le> 256"
    then have "unat x * unat ?v \<le> 256 * 6" using sm by (intro mult_le_mono) simp_all
    then show ?thesis by (intro unat_mult_small) simp
  qed
  have F: "unat F = fit (unat ?L - unat P * unat ?g) (unat ?e) (min (align_num (unat (nl_wave_size l)) (unat E)) (unat (nl_max_esverts_base l)))"
    using sm assms(3,5) by (simp add: F_def Let_def unat_fit unat_min unat_align_pot unat_minus Pg)
  have G: "unat G = E'"
    using sm assms(4) by (simp add: G_def E'_def next_esverts_def unat_max unat_min F v)
  have T: "unat T = top_prims (nums l) (unat P)"
    using sm assms(4) by (simp add: T_def top_prims_def unat_min unat_align_pot)
  have T256: "unat T \<le> 256" using sm unfolding T_def unat_min by (intro min.coboundedI2) simp
  define U where "U = min G (T * ?v)"
  have U: "unat U = min E' (top_prims (nums l) (unat P) * unat ?v)" by (simp add: U_def unat_min G v [OF T256] T)
  have Ue: "unat U * unat ?e \<le> unat ?L"
    using usable_fits [OF assms(1), of "unat P" "unat E"] assms(5) unfolding U E'_def by simp
  then have "unat (U * ?e) = unat U * unat ?e" using sm by (intro unat_mult_small) simp
  then have "unat (?L - U * ?e) = unat ?L - unat U * unat ?e" using Ue by (simp add: unat_minus)
  moreover have "unat H = fit (unat (?L - U * ?e)) (unat ?g) (unat T)" unfolding H_def U_def [symmetric] by (rule unat_fit)
  ultimately have H: "unat H = fit (unat ?L - min E' (top_prims (nums l) (unat P) * unat ?v) * unat ?e) (unat ?g) (top_prims (nums l) (unat P))"
    by (simp only: U T)
  have "E' \<le> 256" "unat (nl_min_verts_per_prim l) \<le> E'"
    using next_esverts_le [of "nums l" "unat E" "unat P"] sm limits_wf_nums [OF assms(1)]
    by (auto simp: E'_def next_esverts_def)
  then have "unat (clamp_gsprims_to_esverts H G (nl_min_verts_per_prim l) (nl_use_adjacency l)) = next_gsprims (nums l) E' (unat P)"
    by (subst unat_clamp_gsprims) (simp_all add: G H next_gsprims_def)
  moreover have "ngg_round l E P = (G, clamp_gsprims_to_esverts H G (nl_min_verts_per_prim l) (nl_use_adjacency l))"
    by (simp only: ngg_round_def F_def G_def T_def H_def Let_def)
  ultimately show "unat (fst (ngg_round l E P)) = E'" "unat (snd (ngg_round l E P)) = next_gsprims (nums l) E' (unat P)"
    using G by simp_all
qed

section \<open>The loop ends\<close>

lemma sizes_ok_nums: "sizes_ok l s \<longleftrightarrow> unat (nl_max_verts_per_prim l) \<le> unat (fst s) \<and> 1 \<le> unat (snd s)"
  by (simp add: sizes_ok_def word_le_nat_alt)

definition sizes_inv :: "u32 ngg_limits \<Rightarrow> u32 \<times> u32 \<Rightarrow> bool" where
  "sizes_inv l s \<longleftrightarrow> round_inv (nums l) (unat (fst s)) (unat (snd s)) \<and> sizes_ok l s"

lemma round_inv_bounds:
  assumes "round_inv (nums l) E P" "small l"
  shows "E \<le> 256" "P \<le> unat (nl_max_gsprims_base l)" "P * unat (nl_gsprim_lds_size l) \<le> unat (nl_max_lds_size l)" "P \<le> 256"
  using assms by (auto simp: round_inv_def small_def)

lemma unat_round_of_inv:
  assumes "limits_wf (nums l)" "small l" "round_inv (nums l) (unat E) (unat P)"
  defines "E' \<equiv> next_esverts (nums l) (unat E) (unat P)"
  shows "unat (fst (ngg_round l E P)) = E'" "unat (snd (ngg_round l E P)) = next_gsprims (nums l) E' (unat P)"
  unfolding E'_def using unat_ngg_round [OF assms(1,2) round_inv_bounds(1-3) [OF assms(3,2)]] by blast+

text \<open>From sizes with the invariant a round only grows them, within their bounds; so the rounds end.\<close>

lemma round_keeps:
  assumes "limits_wf (nums l)" "small l" "sizes_inv l s"
  defines "s' \<equiv> ngg_round l (fst s) (snd s)"
  shows "unat (fst s) \<le> unat (fst s')" "unat (snd s) \<le> unat (snd s')" "sizes_inv l s'"
proof -
  have inv: "round_inv (nums l) (unat (fst s)) (unat (snd s))" "sizes_ok l s" using assms(3) by (simp_all add: sizes_inv_def)
  note u = unat_round_of_inv [OF assms(1,2) inv(1), folded s'_def]
  note g = round_grows [OF assms(1) inv(1), folded u]
  show "unat (fst s) \<le> unat (fst s')" "unat (snd s) \<le> unat (snd s')" using g by blast+
  then have "sizes_ok l s'" using inv(2) by (simp add: sizes_ok_nums)
  then show "sizes_inv l s'" using g by (simp add: sizes_inv_def)
qed

lemma rounds_end:
  assumes "limits_wf (nums l)" "small l"
  shows "sizes_inv l s \<Longrightarrow> \<exists>s'. ngg_rounds l s = Some (Checked s') \<and> sizes_inv l s'"
proof (induction "(256 - unat (fst s)) + (256 - unat (snd s))" arbitrary: s rule: less_induct)
  case less
  define s' where "s' = ngg_round l (fst s) (snd s)"
  note k = round_keeps [OF assms less.prems, folded s'_def]
  have ok: "sizes_ok l s'" using k(3) by (simp add: sizes_inv_def)
  have step: "ngg_rounds l s = (if s' = s then Some (Checked s') else ngg_rounds l s')"
    using ok by (subst ngg_rounds.simps) (simp add: s'_def Let_def)
  show ?case
  proof (cases "s' = s")
    case True
    then show ?thesis using step k(3) by auto
  next
    case False
    then have "unat (fst s') \<noteq> unat (fst s) \<or> unat (snd s') \<noteq> unat (snd s)"
      by (metis prod_eqI word_unat_eq_iff)
    moreover have "unat (fst s') \<le> 256" "unat (snd s') \<le> 256"
      using k(3) round_inv_bounds(1,4) [OF _ assms(2)] unfolding sizes_inv_def by blast+
    ultimately have "(256 - unat (fst s')) + (256 - unat (snd s')) < (256 - unat (fst s)) + (256 - unat (snd s))"
      using k(1,2) by linarith
    then show ?thesis using less.hyps [OF _ k(3)] step False by simp
  qed
qed

lemma next_esverts_min: "nl_min_esverts l \<le> next_esverts l E P"
  by (simp add: next_esverts_def)

lemma rounds_from_start:
  assumes "limits_wf (nums l)" "small l" "start_inv (nums l) (unat (fst s)) (unat (snd s))"
  shows "ngg_rounds l s = Some Asserted \<or> (\<exists>s'. ngg_rounds l s = Some (Checked s') \<and> sizes_inv l s')"
    "nl_gsprim_lds_size l = 0 \<Longrightarrow> 1 \<le> unat (snd s) \<Longrightarrow> ngg_rounds l s \<noteq> Some Asserted"
proof -
  define s' where "s' = ngg_round l (fst s) (snd s)"
  have b: "unat (fst s) \<le> 256" "unat (snd s) \<le> unat (nl_max_gsprims_base l)"
    "unat (snd s) * unat (nl_gsprim_lds_size l) \<le> unat (nl_max_lds_size l)"
    using assms(2,3) by (auto simp: start_inv_def small_def)
  note u = unat_ngg_round [OF assms(1,2) b, folded s'_def]
  note inv = first_round [OF assms(1,3), folded u]
  have v: "unat (nl_max_verts_per_prim l) \<le> unat (fst s')"
    using limits_wf_nums [OF assms(1)] next_esverts_min [of "nums l" "unat (fst s)" "unat (snd s)"] by (simp add: u)
  have step: "ngg_rounds l s = (if \<not> sizes_ok l s' then Some Asserted else if s' = s then Some (Checked s') else ngg_rounds l s')"
    by (subst ngg_rounds.simps) (simp add: s'_def Let_def)
  have sinv: "sizes_ok l s' \<Longrightarrow> sizes_inv l s'" using inv by (simp add: sizes_inv_def)
  have ok: "sizes_ok l s' \<Longrightarrow> \<exists>s'. ngg_rounds l s = Some (Checked s') \<and> sizes_inv l s'"
    using step sinv rounds_end [OF assms(1,2), of s'] by (cases "s' = s") auto
  then show "ngg_rounds l s = Some Asserted \<or> (\<exists>s'. ngg_rounds l s = Some (Checked s') \<and> sizes_inv l s')"
    using step by (cases "sizes_ok l s'") auto
  assume g: "nl_gsprim_lds_size l = 0" and P: "1 \<le> unat (snd s)"
  have "1 \<le> top_prims (nums l) (unat (snd s))" using top_prims(1) [OF assms(1), of "unat (snd s)"] P b(2) by simp
  then have "1 \<le> unat (snd s')" using g unfolding u next_gsprims_def by (simp add: fit_def)
  then have "sizes_ok l s'" using v by (simp add: sizes_ok_nums)
  then show "ngg_rounds l s \<noteq> Some Asserted" using ok by auto
qed


lemma clamp_words:
  assumes "limits_wf (nums l)" "small l" "unat E \<le> 256" "unat P \<le> 256"
  defines "F \<equiv> min E (P * nl_max_verts_per_prim l)"
  defines "s \<equiv> (F, clamp_gsprims_to_esverts P F (nl_min_verts_per_prim l) (nl_use_adjacency l))"
  assumes "sizes_ok l s"
  shows "unat (fst s) \<le> unat E" "unat (snd s) \<le> unat P" "unat (snd s) \<le> 1 + reuse (nums l) (unat (fst s))"
proof -
  have F: "unat F \<le> unat E" by (simp add: F_def unat_min)
  have "unat (nl_min_verts_per_prim l) \<le> unat F"
    using assms(7) limits_wf_nums [OF assms(1)] by (simp add: sizes_ok_nums s_def)
  then have "unat (snd s) = min (unat P) (1 + reuse (nums l) (unat F))"
    using F assms(3) by (simp add: s_def unat_clamp_gsprims)
  then show "unat (fst s) \<le> unat E" "unat (snd s) \<le> unat P" "unat (snd s) \<le> 1 + reuse (nums l) (unat (fst s))"
    using F by (simp_all add: s_def)
qed

lemma start_sizes_fit:
  assumes "limits_wf (nums l)" "small l" "sizes_ok l (start_sizes l)"
  shows "unat (fst (start_sizes l)) \<le> unat (nl_max_esverts_base l)" "unat (snd (start_sizes l)) \<le> unat (nl_max_gsprims_base l)"
    "unat (fst (start_sizes l)) * unat (nl_esvert_lds_size l) \<le> unat (nl_max_lds_size l)"
    "unat (snd (start_sizes l)) * unat (nl_gsprim_lds_size l) \<le> unat (nl_max_lds_size l)"
    "unat (snd (start_sizes l)) \<le> 1 + reuse (nums l) (unat (fst (start_sizes l)))"
proof -
  let ?L = "nl_max_lds_size l"
  define E where "E = (if nl_esvert_lds_size l \<noteq> 0 then min (nl_max_esverts_base l) (?L div nl_esvert_lds_size l) else nl_max_esverts_base l)"
  define P where "P = (if nl_gsprim_lds_size l \<noteq> 0 then min (nl_max_gsprims_base l) (?L div nl_gsprim_lds_size l) else nl_max_gsprims_base l)"
  have s: "start_sizes l = (min E (P * nl_max_verts_per_prim l),
      clamp_gsprims_to_esverts P (min E (P * nl_max_verts_per_prim l)) (nl_min_verts_per_prim l) (nl_use_adjacency l))"
    by (simp only: start_sizes_def E_def P_def Let_def)
  have E: "unat E = fit (unat ?L) (unat (nl_esvert_lds_size l)) (unat (nl_max_esverts_base l))" unfolding E_def by (rule unat_fit)
  have P: "unat P = fit (unat ?L) (unat (nl_gsprim_lds_size l)) (unat (nl_max_gsprims_base l))" unfolding P_def by (rule unat_fit)
  have le: "unat E \<le> unat (nl_max_esverts_base l)" "unat P \<le> unat (nl_max_gsprims_base l)"
    by (simp_all only: E P fit_le)
  then have "unat E \<le> 256" "unat P \<le> 256" using assms(2) by (auto simp: small_def)
  note c = clamp_words [OF assms(1,2) this, folded s, OF assms(3)]
  show "unat (fst (start_sizes l)) \<le> unat (nl_max_esverts_base l)" "unat (snd (start_sizes l)) \<le> unat (nl_max_gsprims_base l)"
    using c(1,2) le by linarith+
  show "unat (fst (start_sizes l)) * unat (nl_esvert_lds_size l) \<le> unat ?L"
    by (rule order.trans [OF mult_le_mono1 [OF c(1)]]) (simp only: E fit_room)
  show "unat (snd (start_sizes l)) * unat (nl_gsprim_lds_size l) \<le> unat ?L"
    by (rule order.trans [OF mult_le_mono1 [OF c(2)]]) (simp only: P fit_room)
  show "unat (snd (start_sizes l)) \<le> 1 + reuse (nums l) (unat (fst (start_sizes l)))" by (rule c(3))
qed

text \<open>Two sizes scaled down in proportion share the room.\<close>

lemma scaled_share:
  fixes E P e g L :: nat
  defines "T \<equiv> E * e + P * g"
  assumes "L < T"
  shows "E * L div T * e + P * L div T * g \<le> L" "E * L div T \<le> E" "P * L div T \<le> P"
proof -
  have "E * L div T * T \<le> E * L" "P * L div T * T \<le> P * L" by simp_all
  then have "E * L div T * T * e + P * L div T * T * g \<le> E * L * e + P * L * g" by (intro add_mono mult_le_mono1)
  also have "\<dots> = L * T" by (simp add: T_def algebra_simps)
  finally have "(E * L div T * e + P * L div T * g) * T \<le> L * T" by (simp add: algebra_simps)
  then show "E * L div T * e + P * L div T * g \<le> L" using assms(2) by simp
  have "x * L div T \<le> x" for x
  proof -
    have "x * L div T \<le> x * T div T" using assms(2) by (intro div_le_mono mult_le_mono2) simp
    also have "\<dots> \<le> x" by simp
    finally show ?thesis .
  qed
  then show "E * L div T \<le> E" "P * L div T \<le> P" by blast+
qed

lemma scale_sizes_fit:
  assumes "limits_wf (nums l)" "small l" "sizes_ok l (start_sizes l)" "sizes_ok l (scale_sizes l (start_sizes l))"
  shows "start_inv (nums l) (unat (fst (scale_sizes l (start_sizes l)))) (unat (snd (scale_sizes l (start_sizes l))))"
proof -
  define s where "s = start_sizes l"
  define T where "T = fst s * nl_esvert_lds_size l + snd s * nl_gsprim_lds_size l"
  let ?L = "nl_max_lds_size l" and ?e = "nl_esvert_lds_size l" and ?g = "nl_gsprim_lds_size l"
  note st = start_sizes_fit [OF assms(1-3), folded s_def]
  have L: "unat ?L \<le> 2 ^ 14" "unat (fst s) \<le> 256" "unat (snd s) \<le> 256" using assms(2) st(1,2) by (auto simp: small_def)
  have T: "unat T = unat (fst s) * unat ?e + unat (snd s) * unat ?g"
    using st(3,4) L(1) by (simp add: T_def unat_add_small unat_mult_small)
  show ?thesis
  proof (cases "(?e \<noteq> 0 \<or> ?g \<noteq> 0) \<and> T > ?L")
    case False
    then have "unat T \<le> unat ?L" using T by (auto simp: word_less_nat_alt)
    moreover have "scale_sizes l s = s" using False unfolding scale_sizes_def Let_def T_def [symmetric] by (rule if_not_P)
    ultimately show ?thesis using st T by (simp add: start_inv_def s_def [symmetric] add.commute)
  next
    case True
    define E where "E = fst s * ?L div T"
    define P where "P = snd s * ?L div T"
    have sc: "scale_sizes l s = (min E (P * nl_max_verts_per_prim l),
        clamp_gsprims_to_esverts P (min E (P * nl_max_verts_per_prim l)) (nl_min_verts_per_prim l) (nl_use_adjacency l))"
      using True by (simp only: scale_sizes_def E_def P_def T_def [symmetric] Let_def if_True simp_thms)
    have m: "unat x \<le> 256 \<Longrightarrow> unat (x * ?L) = unat x * unat ?L" for x
    proof -
      assume "unat x \<le> 256"
      then have "unat x * unat ?L \<le> 256 * 2 ^ 14" using L(1) by (intro mult_le_mono)
      then show ?thesis by (intro unat_mult_small) simp
    qed
    have E: "unat E = unat (fst s) * unat ?L div unat T" and P: "unat P = unat (snd s) * unat ?L div unat T"
      by (simp_all add: E_def P_def unat_div_distrib m L)
    have "unat ?L < unat T" using True by (simp add: word_less_nat_alt)
    note sh = scaled_share [OF this [unfolded T], folded T, folded E P]
    have "unat E \<le> 256" "unat P \<le> 256" using sh(2,3) L by linarith+
    note c = clamp_words [OF assms(1,2) this, folded sc, OF assms(4) [folded s_def]]
    have "unat (fst (scale_sizes l s)) * unat ?e \<le> unat E * unat ?e" "unat (snd (scale_sizes l s)) * unat ?g \<le> unat P * unat ?g"
      using c(1,2) by (simp_all only: mult_le_mono1)
    then have "unat (snd (scale_sizes l s)) * unat ?g + unat (fst (scale_sizes l s)) * unat ?e \<le> unat ?L" using sh(1) by linarith
    moreover have "unat (fst (scale_sizes l s)) \<le> unat (nl_max_esverts_base l)" "unat (snd (scale_sizes l s)) \<le> unat (nl_max_gsprims_base l)"
      using c(1,2) sh(2,3) st(1,2) by linarith+
    ultimately show ?thesis using c(3) by (simp add: start_inv_def s_def)
  qed
qed

end
