(* ===== verification/Subgroup_Sizes.thy ===== *)
theory Subgroup_Sizes
  imports Subgroup_Rounds
begin

text \<open>
  What the sizes of an NGG workgroup promise: \<^verbatim>\<open>ac_ngg_compute_subgroup_info\<close> and \<^verbatim>\<open>gfx10_get_ngg_info\<close> return, the
  sizes respect the minimum of the hardware and fit the LDS, and every vertex of a workgroup has a
  thread.  A geometry program's LDS is over-counted by the scratch area, shown on a concrete program.
\<close>

section \<open>The inputs of a compiled program\<close>

lemma vertices_of_prim:
  "1 \<le> unat (mesa_vertices_per_prim p)" "unat (mesa_vertices_per_prim p) \<le> 6"
  "mesa_prim_has_adjacency p \<Longrightarrow> 2 \<le> unat (mesa_vertices_per_prim p)"
  by (cases p; simp add: mesa_prim_has_adjacency_def)+

lemma min_esverts_bounds:
  assumes "1 \<le> unat v" "unat v \<le> 6"
  shows "unat v \<le> unat (ngg_min_esverts g v)" "unat (ngg_min_esverts g v) \<le> 29"
  using assms by (simp_all add: ngg_min_esverts_def unat_add_small)

definition ngg_inputs_wf :: "ngg_inputs \<Rightarrow> bool" where
  "ngg_inputs_wf i \<longleftrightarrow> ni_wave_size i \<in> {32, 64} \<and> 6 \<le> unat (ni_target_workgroup_size i) \<and>
     ni_target_workgroup_size i \<le> ni_max_workgroup_size i \<and> 29 \<le> unat (ni_max_workgroup_size i) \<and>
     unat (ni_max_workgroup_size i) \<le> 256 \<and> unat (ni_gs_invocations i) \<le> 2 ^ 16 \<and>
     unat (nl_min_esverts (ngg_limits_of i)) * unat (nl_esvert_lds_size (ngg_limits_of i)) +
       unat (ni_ngg_lds_scratch_size i) div 4 + unat (ni_max_esgs_lds_padding i) div 4 \<le> 16 * 1024"

lemma limits_of_simps [simp]:
  "nl_wave_size (ngg_limits_of i) = ni_wave_size i" "nl_max_esverts_base (ngg_limits_of i) = ni_target_workgroup_size i"
  "nl_max_gsprims_base (ngg_limits_of i) = fst (snd (ngg_mode i))" "nl_gsprim_lds_size (ngg_limits_of i) = snd (snd (ngg_mode i))"
  "nl_max_lds_size (ngg_limits_of i) = ngg_max_lds_size i"
  "nl_max_verts_per_prim (ngg_limits_of i) = mesa_vertices_per_prim (ni_input_prim i)"
  "nl_min_verts_per_prim (ngg_limits_of i) = (if ni_is_gs i then mesa_vertices_per_prim (ni_input_prim i) else 1)"
  "nl_min_esverts (ngg_limits_of i) = ngg_min_esverts (ni_gfx_level i) (mesa_vertices_per_prim (ni_input_prim i))"
  "nl_use_adjacency (ngg_limits_of i) = mesa_prim_has_adjacency (ni_input_prim i)"
  by (simp_all add: ngg_limits_of_def Let_def split: prod.split)

lemma unat_max_lds_size:
  assumes "ngg_inputs_wf i"
  shows "unat (ngg_max_lds_size i) = 16 * 1024 - unat (ni_ngg_lds_scratch_size i) div 4 - unat (ni_max_esgs_lds_padding i) div 4"
proof -
  define a where "a = ni_ngg_lds_scratch_size i div 4"
  define b where "b = ni_max_esgs_lds_padding i div 4"
  have ab: "unat a = unat (ni_ngg_lds_scratch_size i) div 4" "unat b = unat (ni_max_esgs_lds_padding i) div 4"
    by (simp_all add: a_def b_def unat_div_distrib)
  then have le: "unat a + unat b \<le> 16 * 1024" using assms unfolding ngg_inputs_wf_def by linarith
  then have "unat (16 * 1024 - a) = 16 * 1024 - unat a" by (simp add: unat_minus)
  moreover then have "unat (16 * 1024 - a - b) = 16 * 1024 - unat a - unat b" using le by (subst unat_minus) simp_all
  ultimately show ?thesis by (simp only: ngg_max_lds_size_def a_def [symmetric] b_def [symmetric] ab)
qed

text \<open>The mode of a geometry shader.\<close>

lemma select_mode_cases:
  "\<exists>lds. select_mode t m vo n sz room force =
     (if vo * n \<le> m \<and> \<not> (sz div 4 * (vo * n) > room \<and> force)
      then (False, if vo * n \<noteq> 0 then min t (m div (vo * n)) else t, lds) else (True, 1, lds))"
  by (simp add: select_mode_def mode_pass_def Let_def)

lemma ngg_mode_bounds:
  assumes "ngg_inputs_wf i" "ni_is_gs i" "ni_gs_vertices_out i \<le> ni_max_workgroup_size i"
  shows "unat (fst (snd (ngg_mode i))) \<le> unat (ni_target_workgroup_size i)"
    "fst (ngg_mode i) \<Longrightarrow> fst (snd (ngg_mode i)) = 1"
    "\<not> fst (ngg_mode i) \<Longrightarrow> unat (fst (snd (ngg_mode i))) * (unat (ngg_num_invocations i) * unat (ni_gs_vertices_out i)) \<le>
       unat (ni_max_workgroup_size i)"
proof -
  define prod where "prod = ni_gs_vertices_out i * ngg_num_invocations i"
  define single where "single \<longleftrightarrow> prod \<le> ni_max_workgroup_size i \<and> \<not> (ni_ngg_lds_vertex_size i div 4 * prod > ngg_max_lds_size i \<and>
    (ni_tess_turns_off_ngg i \<or> ni_es_stage i \<noteq> MESA_SHADER_TESS_EVAL))"
  obtain lds where mode: "ngg_mode i =
     (if single then (False, if prod \<noteq> 0 then min (ni_target_workgroup_size i) (ni_max_workgroup_size i div prod)
        else ni_target_workgroup_size i, lds) else (True, 1, lds))"
    using select_mode_cases [of "ni_target_workgroup_size i" "ni_max_workgroup_size i" "ni_gs_vertices_out i"
      "ngg_num_invocations i" "ni_ngg_lds_vertex_size i" "ngg_max_lds_size i"
      "ni_tess_turns_off_ngg i \<or> ni_es_stage i \<noteq> MESA_SHADER_TESS_EVAL"] assms(2)
    unfolding ngg_mode_def single_def prod_def if_P [OF assms(2)] by blast
  have wf: "6 \<le> unat (ni_target_workgroup_size i)" "unat (ni_gs_vertices_out i) \<le> 256" "unat (ngg_num_invocations i) \<le> 2 ^ 16"
    using assms by (auto simp: ngg_inputs_wf_def ngg_num_invocations_def unat_max word_le_nat_alt)
  have "unat (ni_gs_vertices_out i) * unat (ngg_num_invocations i) \<le> 256 * 2 ^ 16" using wf(2,3) by (intro mult_le_mono)
  then have prod: "unat prod = unat (ni_gs_vertices_out i) * unat (ngg_num_invocations i)"
    unfolding prod_def by (intro unat_mult_small) simp
  show "unat (fst (snd (ngg_mode i))) \<le> unat (ni_target_workgroup_size i)" using wf(1) by (simp add: mode unat_min)
  show "fst (ngg_mode i) \<Longrightarrow> fst (snd (ngg_mode i)) = 1" by (cases single) (simp_all add: mode)
  show "unat (fst (snd (ngg_mode i))) * (unat (ngg_num_invocations i) * unat (ni_gs_vertices_out i)) \<le>
       unat (ni_max_workgroup_size i)" if "\<not> fst (ngg_mode i)"
  proof (cases "prod = 0")
    case True
    then have "unat (ngg_num_invocations i) * unat (ni_gs_vertices_out i) = 0" using prod by (simp add: mult.commute)
    then show ?thesis by (simp only: mult_0_right le0)
  next
    case False
    have "unat (fst (snd (ngg_mode i))) \<le> unat (ni_max_workgroup_size i) div unat prod"
      using that False by (simp add: mode unat_min unat_div_distrib split: if_splits)
    then have "unat (fst (snd (ngg_mode i))) * unat prod \<le> unat (ni_max_workgroup_size i) div unat prod * unat prod" by (rule mult_le_mono1)
    also have "\<dots> \<le> unat (ni_max_workgroup_size i)" by simp
    finally show ?thesis by (simp add: prod mult.commute)
  qed
qed

lemma limits_of_wf:
  assumes "ngg_inputs_wf i" "ni_is_gs i \<longrightarrow> ni_gs_vertices_out i \<le> ni_max_workgroup_size i"
  shows "limits_wf (nums (ngg_limits_of i))" "small (ngg_limits_of i)"
proof -
  note v = vertices_of_prim [of "ni_input_prim i"]
  note m = min_esverts_bounds [OF v(1,2), of "ni_gfx_level i"]
  have L: "unat (ngg_max_lds_size i) \<le> 2 ^ 14" by (simp add: unat_max_lds_size [OF assms(1)])
  have e: "unat (nl_min_esverts (ngg_limits_of i)) * unat (nl_esvert_lds_size (ngg_limits_of i)) \<le> unat (ngg_max_lds_size i)"
    using assms(1) unfolding unat_max_lds_size [OF assms(1)] ngg_inputs_wf_def by linarith
  have wf: "ni_wave_size i = 32 \<or> ni_wave_size i = 64" "unat (ni_target_workgroup_size i) \<le> 256"
    using assms(1) by (auto simp: ngg_inputs_wf_def word_le_nat_alt)
  show "limits_wf (nums (ngg_limits_of i))" using wf(1) v m(1) e by (auto simp: limits_wf_def)
  have "unat (fst (snd (ngg_mode i))) \<le> 256"
  proof (cases "ni_is_gs i")
    case True
    then show ?thesis using ngg_mode_bounds(1) [OF assms(1) True] assms(2) wf(2) by auto
  next
    case False
    then show ?thesis using wf(2) by (simp add: ngg_mode_def)
  qed
  then show "small (ngg_limits_of i)" using wf v(2) m(2) L by (simp add: small_def)
qed

text \<open>Sizes that fit give a result that fits.\<close>

lemma out_vertices_word:
  assumes wf: "ngg_inputs_wf i" and P: "unat P \<le> 256"
    and out: "unat P * (unat (ngg_num_invocations i) * unat (ni_gs_vertices_out i)) \<le> unat (ni_max_workgroup_size i)"
  shows "unat (P * ngg_num_invocations i * ni_gs_vertices_out i) =
    unat P * (unat (ngg_num_invocations i) * unat (ni_gs_vertices_out i))"
proof -
  have "unat (ngg_num_invocations i) \<le> 2 ^ 16" using wf by (simp add: ngg_num_invocations_def ngg_inputs_wf_def unat_max)
  then have "unat P * unat (ngg_num_invocations i) \<le> 256 * 2 ^ 16" using P by (intro mult_le_mono)
  then have "unat (P * ngg_num_invocations i) = unat P * unat (ngg_num_invocations i)" by (intro unat_mult_small) simp
  moreover have "unat P * unat (ngg_num_invocations i) * unat (ni_gs_vertices_out i) \<le> 256"
    using out wf by (simp add: ngg_inputs_wf_def mult.assoc)
  ultimately have "unat (P * ngg_num_invocations i * ni_gs_vertices_out i) =
      unat P * unat (ngg_num_invocations i) * unat (ni_gs_vertices_out i)"
    by (subst unat_mult_small) simp_all
  then show ?thesis by (simp add: mult.assoc)
qed

lemma lds_words:
  fixes i :: ngg_inputs and E P :: u32
  defines "l \<equiv> ngg_limits_of i"
  defines "U \<equiv> min E (P * nl_max_verts_per_prim l) * nl_esvert_lds_size l" and "G \<equiv> P * nl_gsprim_lds_size l"
    and "S \<equiv> ni_ngg_lds_scratch_size i div 4"
  assumes wf: "ngg_inputs_wf i" and sm: "small l" and P: "unat P \<le> 256"
    and lds: "unat P * unat (nl_gsprim_lds_size l) + min (unat E) (unat P * unat (nl_max_verts_per_prim l)) * unat (nl_esvert_lds_size l) \<le>
      unat (nl_max_lds_size l)"
  shows "unat U + unat G + unat S + unat (ni_max_esgs_lds_padding i) div 4 \<le> 16 * 1024"
proof -
  have S: "unat S = unat (ni_ngg_lds_scratch_size i) div 4" by (simp add: S_def unat_div_distrib)
  have L: "unat (nl_max_lds_size l) \<le> 2 ^ 14" using sm by (simp add: small_def)
  have "unat P * unat (nl_max_verts_per_prim l) \<le> 256 * 6" using P sm by (intro mult_le_mono) (simp_all add: small_def)
  then have v: "unat (P * nl_max_verts_per_prim l) = unat P * unat (nl_max_verts_per_prim l)" by (intro unat_mult_small) simp
  have "unat U = min (unat E) (unat P * unat (nl_max_verts_per_prim l)) * unat (nl_esvert_lds_size l)"
    unfolding U_def using lds L by (subst unat_mult_small) (simp_all only: unat_min v, simp)
  moreover have "unat G = unat P * unat (nl_gsprim_lds_size l)"
    unfolding G_def using lds L by (intro unat_mult_small) simp
  moreover have "unat S + unat (ni_max_esgs_lds_padding i) div 4 \<le> 16 * 1024"
    using wf unfolding S ngg_inputs_wf_def by linarith
  moreover have "unat (nl_max_lds_size l) = 16 * 1024 - unat S - unat (ni_max_esgs_lds_padding i) div 4"
    unfolding S l_def using unat_max_lds_size [OF wf] by simp
  ultimately show ?thesis using lds by linarith
qed

lemma unat_u16_sum:
  assumes "unat (a :: u32) + unat b \<le> 16 * 1024"
  shows "unat (ucast a :: u16) = unat a" "unat (ucast a + ucast b :: u16) = unat a + unat b"
proof -
  have "unat (ucast a :: u16) = unat a" "unat (ucast b :: u16) = unat b" using assms by (intro unat_ucast_small; simp)+
  with assms show "unat (ucast a :: u16) = unat a" "unat (ucast a + ucast b :: u16) = unat a + unat b"
    by (simp_all add: unat_add_small)
qed

lemma ngg_result_fits:
  fixes i :: ngg_inputs and E P :: u32
  defines "l \<equiv> ngg_limits_of i"
  defines "out \<equiv> (if fst (ngg_mode i) then unat (ni_gs_vertices_out i)
    else if ni_is_gs i then unat P * (unat (ngg_num_invocations i) * unat (ni_gs_vertices_out i)) else unat E)"
  assumes wf: "ngg_inputs_wf i" and sm: "small l"
    and ok: "sizes_ok l (E, P)" "unat (nl_min_esverts l) \<le> unat E" "unat E \<le> 256" "unat P \<le> 256"
    and lds: "unat P * unat (nl_gsprim_lds_size l) + min (unat E) (unat P * unat (nl_max_verts_per_prim l)) * unat (nl_esvert_lds_size l) \<le>
      unat (nl_max_lds_size l)"
    and out: "out \<le> unat (ni_max_workgroup_size i)"
  shows "\<exists>info. ngg_result i (E, P) = Checked (info, True) \<and> unat (ns_hw_max_esverts info) = unat E \<and>
    unat (ns_max_gsprims info) = unat P \<and> unat (ns_max_out_verts info) = out \<and>
    unat (ns_esgs_lds_size info) + unat (ns_ngg_out_lds_size info) + unat (ni_max_esgs_lds_padding i) div 4 \<le> 16 * 1024"
proof -
  define O' where "O' = (if fst (ngg_mode i) then ni_gs_vertices_out i
    else if ni_is_gs i then P * ngg_num_invocations i * ni_gs_vertices_out i else E)"
  define U where "U = min E (P * nl_max_verts_per_prim l) * nl_esvert_lds_size l"
  define G where "G = P * nl_gsprim_lds_size l"
  define S where "S = ni_ngg_lds_scratch_size i div 4"
  have O': "unat O' = out"
    using out_vertices_word [OF wf ok(4)] out unfolding O'_def out_def by (simp split: if_splits)
  have room: "unat U + unat G + unat S + unat (ni_max_esgs_lds_padding i) div 4 \<le> 16 * 1024"
    unfolding U_def G_def S_def l_def by (rule lds_words [OF wf sm [unfolded l_def] ok(4) lds [unfolded l_def]])
  note u16 = unat_u16_sum [of U S] unat_u16_sum [of G S]
  have c: "unat (ucast E :: u16) = unat E" "unat (ucast P :: u16) = unat P" "unat (ucast O' :: u16) = out"
    using ok wf out by (simp_all add: unat_ucast_small O' ngg_inputs_wf_def)
  have "unat (ucast (ucast E :: u16) :: u32) = unat E" using c by (simp add: unat_ucast_wider)
  then have E: "ucast (ucast E :: u16) = E" by (simp add: word_unat_eq_iff)
  have "ngg_result i (E, P) = Checked
      (\<lparr>ns_esgs_lds_size = (if ni_is_gs i then ucast U else ucast U + ucast S),
        ns_ngg_out_lds_size = (if ni_is_gs i then ucast G + ucast S else ucast G),
        ns_hw_max_esverts = ucast E, ns_max_gsprims = ucast P,
        ns_max_out_verts = ucast O', ns_max_vert_out_per_gs_instance = fst (ngg_mode i)\<rparr>, True)"
    using ok out unfolding ngg_result_def Let_def fst_conv snd_conv l_def [symmetric] O'_def [symmetric] U_def [symmetric]
      G_def [symmetric] S_def [symmetric] E by (simp add: word_le_nat_alt O' sizes_ok_nums)
  moreover have "unat U + unat S \<le> 16 * 1024" "unat G + unat S \<le> 16 * 1024" using room by linarith+
  ultimately show ?thesis using room u16 by (auto simp: c)
qed

section \<open>The computation returns\<close>

definition ngg_sizes_fit :: "ngg_inputs \<Rightarrow> ac_ngg_subgroup_info \<Rightarrow> bool" where
  "ngg_sizes_fit i info \<longleftrightarrow>
     ngg_min_esverts (ni_gfx_level i) (mesa_vertices_per_prim (ni_input_prim i)) \<le> ucast (ns_hw_max_esverts info) \<and>
     unat (ns_hw_max_esverts info) \<le> max (unat (ni_target_workgroup_size i)) 29 \<and>
     1 \<le> unat (ns_max_gsprims info) \<and> unat (ns_max_gsprims info) \<le> unat (ni_target_workgroup_size i) \<and>
     unat (ns_max_out_verts info) \<le> unat (ni_max_workgroup_size i) \<and>
     unat (ns_hw_max_esverts info) * unat (nl_esvert_lds_size (ngg_limits_of i)) + unat (ni_ngg_lds_scratch_size i) div 4 \<le> 16 * 1024 \<and>
     unat (ns_esgs_lds_size info) + unat (ns_ngg_out_lds_size info) + unat (ni_max_esgs_lds_padding i) div 4 \<le> 16 * 1024"

text \<open>The sizes at the end of the computation, in either mode, give a result that fits.\<close>

lemma final_sizes_fit:
  assumes "ngg_inputs_wf i" "ni_is_gs i \<longrightarrow> ni_gs_vertices_out i \<le> ni_max_workgroup_size i"
  defines "l \<equiv> ngg_limits_of i"
  assumes "sizes_ok l (E, P)" "unat (nl_min_esverts l) \<le> unat E"
    "unat E \<le> max (unat (nl_max_esverts_base l)) (unat (nl_min_esverts l))" "unat P \<le> unat (nl_max_gsprims_base l)"
    "unat P * unat (nl_gsprim_lds_size l) + min (unat E) (unat P * unat (nl_max_verts_per_prim l)) * unat (nl_esvert_lds_size l) \<le>
      unat (nl_max_lds_size l)"
    "unat E * unat (nl_esvert_lds_size l) \<le> unat (nl_max_lds_size l)"
  shows "\<exists>info. ngg_result i (E, P) = Checked (info, True) \<and> ngg_sizes_fit i info"
proof -
  note wf = limits_of_wf [OF assms(1,2), folded l_def]
  have t: "unat (ni_target_workgroup_size i) \<le> unat (ni_max_workgroup_size i)" "29 \<le> unat (ni_max_workgroup_size i)"
    "6 \<le> unat (ni_target_workgroup_size i)" using assms(1) by (auto simp: ngg_inputs_wf_def word_le_nat_alt)
  have m: "unat (nl_min_esverts l) \<le> 29" using wf(2) by (simp add: small_def)
  have P: "unat P \<le> unat (ni_target_workgroup_size i)"
    using assms(7) ngg_mode_bounds(1) [OF assms(1)] assms(2) by (cases "ni_is_gs i") (auto simp: l_def ngg_mode_def)
  have E: "unat E \<le> max (unat (ni_target_workgroup_size i)) 29" using assms(6) m by (simp add: l_def)
  have b: "unat E \<le> 256" "unat P \<le> 256" using assms(6,7) wf(2) by (auto simp: small_def)
  define out where "out = (if fst (ngg_mode i) then unat (ni_gs_vertices_out i)
    else if ni_is_gs i then unat P * (unat (ngg_num_invocations i) * unat (ni_gs_vertices_out i)) else unat E)"
  have out: "out \<le> unat (ni_max_workgroup_size i)"
  proof (cases "ni_is_gs i")
    case True
    then have vo: "ni_gs_vertices_out i \<le> ni_max_workgroup_size i" using assms(2) by blast
    show ?thesis
    proof (cases "fst (ngg_mode i)")
      case False
      have "out \<le> unat (fst (snd (ngg_mode i))) * (unat (ngg_num_invocations i) * unat (ni_gs_vertices_out i))"
        using assms(7) False True by (simp add: out_def l_def)
      also have "\<dots> \<le> unat (ni_max_workgroup_size i)" by (rule ngg_mode_bounds(3) [OF assms(1) True vo False])
      finally show ?thesis .
    qed (use vo in \<open>simp add: out_def word_le_nat_alt\<close>)
  next
    case False
    then have "out = unat E" by (simp add: out_def ngg_mode_def)
    then show ?thesis using E t by linarith
  qed
  obtain info where info: "ngg_result i (E, P) = Checked (info, True)" "unat (ns_hw_max_esverts info) = unat E"
    "unat (ns_max_gsprims info) = unat P" "unat (ns_max_out_verts info) = out"
    "unat (ns_esgs_lds_size info) + unat (ns_ngg_out_lds_size info) + unat (ni_max_esgs_lds_padding i) div 4 \<le> 16 * 1024"
    using ngg_result_fits [OF assms(1), folded l_def, OF wf(2) assms(4,5) b assms(8)] out unfolding out_def by blast
  have "unat (ni_ngg_lds_scratch_size i) div 4 \<le> 16 * 1024" using assms(1) unfolding ngg_inputs_wf_def by linarith
  then have "unat E * unat (nl_esvert_lds_size (ngg_limits_of i)) + unat (ni_ngg_lds_scratch_size i) div 4 \<le> 16 * 1024"
    using assms(9) unfolding l_def limits_of_simps unat_max_lds_size [OF assms(1)] by linarith
  then have "ngg_sizes_fit i info"
    using info E P out assms(4,5) unfolding ngg_sizes_fit_def
    by (simp add: word_le_nat_alt unat_ucast_wider sizes_ok_nums l_def)
  with info(1) show ?thesis by blast
qed

lemma multi_sizes:
  assumes "limits_wf (nums l)" "start_inv (nums l) (unat (fst s)) (unat (snd s))" "sizes_ok l s" "nl_max_gsprims_base l = 1"
  defines "E \<equiv> max (fst s) (nl_min_esverts l)"
  shows "unat (snd s) * unat (nl_gsprim_lds_size l) + min (unat E) (unat (snd s) * unat (nl_max_verts_per_prim l)) * unat (nl_esvert_lds_size l) \<le>
    unat (nl_max_lds_size l)"
proof -
  have P: "unat (snd s) = 1" using assms(2-4) by (simp add: start_inv_def sizes_ok_nums)
  have "min (unat E) (unat (nl_max_verts_per_prim l)) * unat (nl_esvert_lds_size l) \<le> unat (fst s) * unat (nl_esvert_lds_size l)"
    using assms(3) by (intro mult_le_mono1 min.coboundedI2) (simp add: sizes_ok_nums)
  moreover have "1 * unat (nl_gsprim_lds_size l) + unat (fst s) * unat (nl_esvert_lds_size l) \<le> unat (nl_max_lds_size l)"
    using assms(2) by (simp add: P start_inv_def)
  ultimately show ?thesis unfolding P mult_1 by linarith
qed

lemma round_inv_vertices:
  assumes "limits_wf l" "round_inv l E P"
  shows "E * nl_esvert_lds_size l \<le> nl_max_lds_size l"
proof (cases "E = nl_min_esverts l")
  case True
  then show ?thesis using assms(1) by (simp add: limits_wf_def)
next
  case False
  then have "E \<le> P * nl_max_verts_per_prim l" "P \<le> nl_max_gsprims_base l" using assms(2) by (auto simp: round_inv_def)
  moreover have "P * nl_max_verts_per_prim l \<le> top_prims l P * nl_max_verts_per_prim l"
    by (rule mult_le_mono1 [OF top_prims(1) [OF assms(1) \<open>P \<le> nl_max_gsprims_base l\<close>]])
  ultimately have "min E (top_prims l P * nl_max_verts_per_prim l) = E" by (intro min.absorb1) (rule order.trans)
  then show ?thesis using assms(2) by (simp add: round_inv_def)
qed

lemma sizes_inv_final:
  assumes "ngg_inputs_wf i" "ni_is_gs i \<longrightarrow> ni_gs_vertices_out i \<le> ni_max_workgroup_size i"
  defines "l \<equiv> ngg_limits_of i"
  assumes "sizes_inv l s"
  shows "nl_min_esverts l \<le> fst s" "\<exists>info. ngg_result i s = Checked (info, True) \<and> ngg_sizes_fit i info"
proof -
  note wf = limits_of_wf [OF assms(1,2), folded l_def]
  have inv: "round_inv (nums l) (unat (fst s)) (unat (snd s))" "sizes_ok l s" using assms(4) by (simp_all add: sizes_inv_def)
  have E: "unat (nl_min_esverts l) \<le> unat (fst s)"
    "unat (fst s) \<le> max (unat (nl_max_esverts_base l)) (unat (nl_min_esverts l))" using inv(1) by (auto simp: round_inv_def)
  then show "nl_min_esverts l \<le> fst s" by (simp add: word_le_nat_alt)
  have P: "unat (snd s) \<le> unat (nl_max_gsprims_base l)" by (rule round_inv_bounds(2) [OF inv(1) wf(2)])
  have "unat (snd s) \<le> top_prims (nums l) (unat (snd s))" using top_prims(1) [OF wf(1)] P by simp
  then have "min (unat (fst s)) (unat (snd s) * unat (nl_max_verts_per_prim l)) * unat (nl_esvert_lds_size l) \<le>
      min (unat (fst s)) (top_prims (nums l) (unat (snd s)) * unat (nl_max_verts_per_prim l)) * unat (nl_esvert_lds_size l)"
    by (intro mult_le_mono1 min.mono order_refl)
  moreover have "unat (snd s) * unat (nl_gsprim_lds_size l) +
      min (unat (fst s)) (top_prims (nums l) (unat (snd s)) * unat (nl_max_verts_per_prim l)) * unat (nl_esvert_lds_size l) \<le>
      unat (nl_max_lds_size l)" using inv(1) by (simp add: round_inv_def)
  ultimately have "unat (snd s) * unat (nl_gsprim_lds_size l) +
      min (unat (fst s)) (unat (snd s) * unat (nl_max_verts_per_prim l)) * unat (nl_esvert_lds_size l) \<le> unat (nl_max_lds_size l)"
    by linarith
  moreover have "unat (fst s) * unat (nl_esvert_lds_size l) \<le> unat (nl_max_lds_size l)"
    using round_inv_vertices [OF wf(1) inv(1)] by simp
  ultimately show "\<exists>info. ngg_result i s = Checked (info, True) \<and> ngg_sizes_fit i info"
    using final_sizes_fit [OF assms(1,2), folded l_def, of "fst s" "snd s"] inv(2) E P by simp
qed

lemma multi_vertices:
  assumes "limits_wf (nums l)" "start_inv (nums l) (unat (fst s)) (unat (snd s))"
  shows "unat (max (fst s) (nl_min_esverts l)) * unat (nl_esvert_lds_size l) \<le> unat (nl_max_lds_size l)"
  using assms by (cases "fst s \<le> nl_min_esverts l") (simp_all add: max_def limits_wf_def start_inv_def)

lemma vertex_start:
  assumes "ngg_inputs_wf i" "\<not> ni_is_gs i"
  defines "l \<equiv> ngg_limits_of i"
  shows "sizes_ok l (start_sizes l)" "scale_sizes l (start_sizes l) = start_sizes l"
proof -
  let ?v = "mesa_vertices_per_prim (ni_input_prim i)" and ?t = "ni_target_workgroup_size i" and ?L = "ngg_max_lds_size i"
  let ?e = "nl_esvert_lds_size l"
  have mode: "ngg_mode i = (False, ?t, 0)" using assms(2) by (simp add: ngg_mode_def)
  note wf = limits_of_wf [OF assms(1), folded l_def]
  have t: "6 \<le> unat ?t" "unat ?t \<le> 256" using assms(1) by (auto simp: ngg_inputs_wf_def word_le_nat_alt)
  note v = vertices_of_prim(1,2) [of "ni_input_prim i"]
  define E where "E = (if ?e \<noteq> 0 then min ?t (?L div ?e) else ?t)"
  have E: "unat E = fit (unat ?L) (unat ?e) (unat ?t)" unfolding E_def by (rule unat_fit)
  have "unat ?v * unat ?e \<le> unat (nl_min_esverts l) * unat ?e"
    using limits_wf_nums [OF wf(1)] assms(2) by (intro mult_le_mono1) (simp add: l_def)
  also have "\<dots> \<le> unat ?L" using wf(1) assms(2) by (simp add: limits_wf_def l_def)
  finally have vE: "unat ?v \<le> unat E" unfolding E using v t by (intro fit_ge) linarith+
  have Ee: "unat E * unat ?e \<le> unat ?L" unfolding E by (rule fit_room)
  have Et: "unat E \<le> unat ?t" unfolding E by (rule fit_le)
  have "unat ?t * 1 \<le> unat ?t * unat ?v" using v by (intro mult_le_mono2)
  moreover have "unat ?t * unat ?v \<le> 256 * 6" using t v by (intro mult_le_mono)
  ultimately have tv: "unat ?t \<le> unat (?t * ?v)" by (simp add: unat_mult_small)
  then have min: "min E (?t * ?v) = E" using Et by (intro min.absorb1) (simp add: word_le_nat_alt)
  note ls = limits_of_simps [of i, folded l_def]
  have s: "start_sizes l = (E, clamp_gsprims_to_esverts ?t E 1 (mesa_prim_has_adjacency (ni_input_prim i)))"
    by (simp only: start_sizes_def Let_def ls mode fst_conv snd_conv simp_thms if_False
        E_def [symmetric] min assms(2))
  have "unat (snd (start_sizes l)) = min (unat ?t) (1 + reuse (nums l) (unat E))"
    using unat_clamp_gsprims [of l E ?t] vE v Et t assms(2) by (simp add: s ls)
  then show ok: "sizes_ok l (start_sizes l)" using vE t by (simp add: sizes_ok_nums s ls)
  have "unat (E * ?e) = unat E * unat ?e" using Ee unat_max_lds_size [OF assms(1)] by (intro unat_mult_small) simp
  then have "\<not> ?L < fst (start_sizes l) * ?e + snd (start_sizes l) * nl_gsprim_lds_size l"
    using Ee by (simp add: s ls mode word_less_nat_alt)
  then show "scale_sizes l (start_sizes l) = start_sizes l" by (simp add: scale_sizes_def Let_def ls)
qed

lemma subgroup_sizes:
  assumes "ngg_inputs_wf i"
  shows "\<exists>r. ac_ngg_compute_subgroup_info i = Some r \<and> (\<not> ni_is_gs i \<longrightarrow> r \<noteq> Asserted) \<and>
    (\<forall>info ok. r = Checked (info, ok) \<longrightarrow> ok \<and> ngg_sizes_fit i info)"
proof -
  define l where "l = ngg_limits_of i"
  define s where "s = scale_sizes l (start_sizes l)"
  have vs: "\<not> ni_is_gs i \<Longrightarrow> sizes_ok l (start_sizes l) \<and> sizes_ok l s \<and> \<not> fst (ngg_mode i)"
    using vertex_start [OF assms] by (simp add: l_def s_def ngg_mode_def)
  define bad where "bad \<longleftrightarrow> ni_is_gs i \<and> \<not> ni_gs_vertices_out i \<le> ni_max_workgroup_size i \<or> \<not> sizes_ok l (start_sizes l) \<or> \<not> sizes_ok l s"
  have run: "ac_ngg_compute_subgroup_info i =
     (if bad then Some Asserted
      else if fst (ngg_mode i) then Some (ngg_result i (max (fst s) (nl_min_esverts l), snd s))
      else (case ngg_rounds l s of None \<Rightarrow> None | Some Asserted \<Rightarrow> Some Asserted
            | Some (Checked s) \<Rightarrow> if \<not> fst s \<ge> nl_min_esverts l then Some Asserted else Some (ngg_result i s)))"
    by (simp only: ac_ngg_compute_subgroup_info_def bad_def s_def l_def Let_def)
  show ?thesis
  proof (cases bad)
    case True
    then show ?thesis using vs by (auto simp: run bad_def)
  next
    case False
    then have ok: "ni_is_gs i \<longrightarrow> ni_gs_vertices_out i \<le> ni_max_workgroup_size i" "sizes_ok l (start_sizes l)" "sizes_ok l s"
      by (auto simp: bad_def)
    note wf = limits_of_wf [OF assms ok(1), folded l_def]
    note st = scale_sizes_fit [OF wf ok(2), folded s_def, OF ok(3)]
    show ?thesis
    proof (cases "fst (ngg_mode i)")
      case True
      then have gs: "ni_is_gs i" using vs by blast
      have base: "nl_max_gsprims_base l = 1" using ngg_mode_bounds(2) [OF assms gs _ True] ok(1) gs by (simp add: l_def)
      let ?E = "max (fst s) (nl_min_esverts l)"
      have "\<exists>info. ngg_result i (?E, snd s) = Checked (info, True) \<and> ngg_sizes_fit i info"
        using multi_sizes [OF wf(1) st ok(3) base] multi_vertices [OF wf(1) st] ok(3) st
        by (intro final_sizes_fit [OF assms ok(1), folded l_def]) (auto simp: sizes_ok_nums unat_max start_inv_def)
      then show ?thesis using False True by (auto simp: run)
    next
      case single: False
      show ?thesis
      proof (cases "ngg_rounds l s = Some Asserted")
        case True
        have "nl_gsprim_lds_size l \<noteq> 0" using rounds_from_start(2) [OF wf st] ok(3) True by (auto simp: sizes_ok_nums)
        then have "ni_is_gs i" by (auto simp: l_def ngg_mode_def split: if_splits)
        with False single True show ?thesis by (simp add: run)
      next
        case ends: False
        then obtain s' where "ngg_rounds l s = Some (Checked s')" "sizes_inv l s'" using rounds_from_start(1) [OF wf st] by blast
        with sizes_inv_final [OF assms ok(1), folded l_def] show ?thesis using False single by (fastforce simp: run)
      qed
    qed
  qed
qed

section \<open>The information of a program\<close>

definition ngg_program_wf :: "amd_gfx_level \<Rightarrow> ngg_shader_info \<Rightarrow> ngg_shader_info option \<Rightarrow> bool" where
  "ngg_program_wf gfx_level es_info gs_info \<longleftrightarrow>
     ngg_inputs_wf (ngg_inputs_of gfx_level es_info gs_info) \<and>
     unat (sn_ngg_lds_vertex_size es_info) mod 4 = 0 \<and> unat (sn_ngg_lds_scratch_size es_info) mod 4 = 0"

lemma workgroup_covers:
  assumes "unat es_verts \<le> 128" "unat max_vtx_out \<le> 256"
  shows "es_verts \<le> ac_compute_ngg_workgroup_size es_verts g max_vtx_out a"
    "max_vtx_out \<le> ac_compute_ngg_workgroup_size es_verts g max_vtx_out a"
proof -
  have "es_verts < 256" "max_vtx_out \<le> 256" using assms by (simp_all add: word_le_nat_alt word_less_nat_alt)
  then show "es_verts \<le> ac_compute_ngg_workgroup_size es_verts g max_vtx_out a"
    "max_vtx_out \<le> ac_compute_ngg_workgroup_size es_verts g max_vtx_out a"
    by (auto simp: ac_compute_ngg_workgroup_size_def Let_def max_def min_def)
qed

text \<open>The bytes of LDS, from the vertices of a vertex program and from the two rings of a geometry program.\<close>

lemma vertex_lds_bytes:
  assumes "ngg_sizes_fit (ngg_inputs_of g es None) info" "ngg_program_wf g es None"
  shows "unat (ucast (sn_ngg_lds_scratch_size es) + sn_ngg_lds_vertex_size es * ucast (ns_hw_max_esverts info)) \<le> 64 * 1024"
proof -
  let ?s = "sn_ngg_lds_vertex_size es" and ?h = "ns_hw_max_esverts info" and ?c = "sn_ngg_lds_scratch_size es"
  have "unat ?h * (unat ?s div 4) + unat ?c div 4 \<le> 16 * 1024"
    using assms(1) by (simp add: ngg_sizes_fit_def ngg_inputs_of_def ngg_limits_of_def ngg_mode_def Let_def unat_div_distrib unat_ucast_wider)
  moreover have "unat ?s = 4 * (unat ?s div 4)" "unat ?c = 4 * (unat ?c div 4)"
    using assms(2) by (auto simp: ngg_program_wf_def)
  then have "unat ?s * unat ?h = 4 * (unat ?h * (unat ?s div 4))" by (metis mult.commute mult.left_commute)
  ultimately have b: "unat ?c + unat ?s * unat ?h \<le> 64 * 1024" using \<open>unat ?c = 4 * (unat ?c div 4)\<close> by linarith
  then have "unat (?s * ucast ?h) = unat ?s * unat ?h" by (subst unat_mult_small) (simp_all add: unat_ucast_wider)
  with b show ?thesis by (subst unat_add_small) (simp_all add: unat_ucast_wider)
qed

lemma geometry_lds_bytes:
  assumes "ngg_sizes_fit i info"
  shows "unat (ucast (c :: u8) + (ucast (ns_esgs_lds_size info) * 4 + ucast (ns_ngg_out_lds_size info) * 4) :: u32) \<le>
    64 * 1024 + unat c"
proof -
  have b: "unat (ns_esgs_lds_size info) + unat (ns_ngg_out_lds_size info) \<le> 16 * 1024"
    using assms by (simp add: ngg_sizes_fit_def)
  have c: "unat c < 256" using unsigned_less [of c] by simp
  have "unat (ucast (x :: u16) * 4 :: u32) = unat x * 4" if "unat x \<le> 16 * 1024" for x
    using that by (subst unat_mult_small) (simp_all add: unat_ucast_wider)
  then have "unat (ucast (ns_esgs_lds_size info) * 4 :: u32) = unat (ns_esgs_lds_size info) * 4"
    "unat (ucast (ns_ngg_out_lds_size info) * 4 :: u32) = unat (ns_ngg_out_lds_size info) * 4" using b by simp_all
  with b c show ?thesis by (simp add: unat_add_small unat_ucast_wider)
qed

lemma ngg_info_of_fits:
  assumes "ngg_sizes_fit (ngg_inputs_of g es gs) info" "ngg_program_wf g es gs"
  shows "\<exists>ngg workgroup_size. ngg_info_of es gs info out = Checked (ngg, workgroup_size) \<and>
    unat (ng_hw_max_esverts ngg) \<le> 128 \<and> 1 \<le> unat (ng_max_gsprims ngg) \<and> unat (ng_max_gsprims ngg) \<le> 128 \<and>
    unat (ng_max_out_verts ngg) \<le> 256 \<and> ng_hw_max_esverts ngg \<le> workgroup_size \<and>
    ng_max_out_verts ngg \<le> workgroup_size \<and> unat workgroup_size \<le> 256 \<and>
    unat (ng_lds_size ngg) \<le> 64 * 1024 + (case gs of None \<Rightarrow> 0 | Some gs \<Rightarrow> unat (sn_ngg_lds_scratch_size gs))"
proof -
  have s: "unat (ns_hw_max_esverts info) \<le> 128" "1 \<le> unat (ns_max_gsprims info)" "unat (ns_max_gsprims info) \<le> 128"
    "unat (ns_max_out_verts info) \<le> 256"
    using assms(1) by (simp_all add: ngg_sizes_fit_def ngg_inputs_of_def Let_def)
  have wg: "unat (ac_compute_ngg_workgroup_size a b c d) \<le> 256" for a b c d
    using ac_compute_ngg_workgroup_size_range [of a b c d] by (simp add: word_le_nat_alt)
  note cov = workgroup_covers [of "ucast (ns_hw_max_esverts info)" "ucast (ns_max_out_verts info)"]
  have le: "(ucast (ns_hw_max_esverts info) :: u32) \<le> 256" using s(1) by (simp add: word_le_nat_alt unat_ucast_wider)
  show ?thesis
  proof (cases gs)
    case None
    then show ?thesis using s wg cov le vertex_lds_bytes [OF assms [unfolded None]]
      by (simp add: ngg_info_of_def gfx10_get_ngg_vert_prim_lds_size_def Let_def unat_ucast_wider)
  next
    case (Some gs)
    then show ?thesis using s wg cov geometry_lds_bytes [OF assms(1), of "sn_ngg_lds_scratch_size gs"]
      by (simp add: ngg_info_of_def gfx10_get_ngg_vert_prim_lds_size_def Let_def unat_ucast_wider)
  qed
qed

text \<open>C15. Every computation of the sizes of an NGG workgroup ends, for wave sizes 32 and 64 and a least number of
  vertices that fits the LDS: the rounding loop terminates, a program without a geometry shader fails no
  assertion, and a result that is returned is reported as valid, has at least the hardware's minimum of vertices and
  one primitive, emits no more vertices than a workgroup may have, and fits 16K dwords of LDS with its scratch
  area and its padding.
\<close>

theorem ngg_subgroup_sizes:
  assumes "ngg_inputs_wf i"
  shows "\<exists>r. ac_ngg_compute_subgroup_info i = Some r \<and> (\<not> ni_is_gs i \<longrightarrow> r \<noteq> Asserted) \<and>
    (\<forall>info ok. r = Checked (info, ok) \<longrightarrow> ok \<and> ngg_sizes_fit i info)"
  by (rule subgroup_sizes [OF assms])


definition ngg_sample_info :: "radv_shader_info \<Rightarrow> u32 \<Rightarrow> u8 \<Rightarrow> ngg_shader_info" where
  "ngg_sample_info info vertex_size scratch_size = radv_shader_info.extend info
    \<lparr>sn_ngg_lds_vertex_size = vertex_size, sn_ngg_lds_scratch_size = scratch_size,
     sn_gs_input_prim = MESA_PRIM_TRIANGLES, sn_tes_point_mode = False\<rparr>"

definition sample_es :: ngg_shader_info where
  "sample_es = ngg_sample_info (zero_info\<lparr>ri_wave_size := 64, ri_esgs_itemsize := radv_compute_esgs_itemsize GFX10_3 12\<rparr>) 0 0"

definition sample_gs :: ngg_shader_info where
  "sample_gs = ngg_sample_info (zero_info\<lparr>ri_stage := MESA_SHADER_GEOMETRY, ri_wave_size := 64,
     ri_gs := zero_gs\<lparr>gs_vertices_out := 3, gs_invocations := 1\<rparr>\<rparr>) 164 4"

definition ngg_zero_sizes :: ngg_sizes_info where
  "ngg_zero_sizes = gfx10_ngg_info.extend zero_ngg \<lparr>nz_ngg_emit_size = 0\<rparr>"

lemmas sample_defs = sample_es_def sample_gs_def ngg_sample_info_def zero_info_def zero_gs_def radv_shader_info.defs
  radv_compute_esgs_itemsize_def


lemma sample_program_wf: "ngg_program_wf GFX10_3 (sample_es\<lparr>sn_ngg_lds_vertex_size := 20\<rparr>) None"
  by (simp add: ngg_program_wf_def ngg_inputs_wf_def ngg_inputs_of_def sample_defs radv_get_pre_rast_input_topology_def
      ngg_limits_of_def ngg_mode_def ngg_min_esverts_def less_eq_amd_gfx_level_def)

theorem ngg_subgroup_sizes_witness:
  "\<exists>info. ac_ngg_compute_subgroup_info (ngg_inputs_of GFX10_3 (sample_es\<lparr>sn_ngg_lds_vertex_size := 20\<rparr>) None) = Some (Checked (info, True)) \<and>
     ngg_sizes_fit (ngg_inputs_of GFX10_3 (sample_es\<lparr>sn_ngg_lds_vertex_size := 20\<rparr>) None) info"
proof -
  let ?i = "ngg_inputs_of GFX10_3 (sample_es\<lparr>sn_ngg_lds_vertex_size := 20\<rparr>) None"
  have "ngg_inputs_wf ?i" using sample_program_wf by (simp add: ngg_program_wf_def)
  then obtain r where "ac_ngg_compute_subgroup_info ?i = Some r" "r \<noteq> Asserted"
    "\<forall>info ok. r = Checked (info, ok) \<longrightarrow> ok \<and> ngg_sizes_fit ?i info"
    using ngg_subgroup_sizes [of ?i] by (auto simp: ngg_inputs_of_def Let_def)
  then show ?thesis by (cases r) auto
qed


end
