(* ===== verification/Tess_Patches.thy ===== *)
theory Tess_Patches
  imports Subgroup_Rounds
begin

text \<open>
  The workgroups of tessellation control programs: \<^verbatim>\<open>ac_compute_num_tess_patches\<close> and \<^verbatim>\<open>ac_compute_lshs_workgroup_size\<close>
  of \<^verbatim>\<open>src/src/amd/common/ac_shader_util.c\<close>, their caller \<^verbatim>\<open>ac_nir_compute_tess_wg_info\<close>, and RADV's
  \<^verbatim>\<open>radv_get_tess_wg_info\<close>, whose results the library publishes for the hull stage.  The search for the number of
  patches is a partial function, so that it ends is a theorem.  \<open>Asserted\<close> is a failed assertion or a
  division by zero.
\<close>

section \<open>Definitions\<close>

text \<open>The members of \<^verbatim>\<open>ac_compiler_info\<close> that only this computation reads; the library starts from a zeroed
  structure and sets none of them.\<close>

record tess_compiler_info = ac_compiler_info +
  at_hs_offchip_workgroup_dw_size :: u32
  at_smaller_tcs_workgroups :: bool
  at_has_primid_instancing_bug :: bool

definition tess_setup_ac_info :: "amd_gfx_level \<Rightarrow> tess_compiler_info" where
  "tess_setup_ac_info gfxlevel = ac_compiler_info.extend (setup_ac_info gfxlevel)
     \<lparr>at_hs_offchip_workgroup_dw_size = 0, at_smaller_tcs_workgroups = False, at_has_primid_instancing_bug = False\<rparr>"

definition ac_compute_lshs_workgroup_size ::
  "amd_gfx_level \<Rightarrow> mesa_shader_stage \<Rightarrow> u32 \<Rightarrow> u32 \<Rightarrow> u32 \<Rightarrow> u32 option" where
  "ac_compute_lshs_workgroup_size gfx_level stage tess_num_patches tess_patch_in_vtx tess_patch_out_vtx =
     (let ls = tess_num_patches * tess_patch_in_vtx; hs = tess_num_patches * tess_patch_out_vtx in
      if gfx_level \<ge> GFX9 then Some (max ls hs)
      else if stage = MESA_SHADER_VERTEX then Some ls
      else if stage = MESA_SHADER_TESS_CTRL then Some hs
      else None)"

definition get_tcs_wg_output_mem_size :: "u32 \<Rightarrow> u32 \<Rightarrow> u32 \<Rightarrow> u32 \<Rightarrow> u32" where
  "get_tcs_wg_output_mem_size num_tcs_output_cp num_mem_tcs_outputs num_mem_tcs_patch_outputs num_patches =
     align_pot (16 * num_tcs_output_cp * num_patches) 256 * num_mem_tcs_outputs +
     align_pot (16 * num_patches) 256 * num_mem_tcs_patch_outputs"

partial_function (option) more_patches :: "(u32 \<Rightarrow> u32) \<Rightarrow> u32 \<Rightarrow> u32 \<Rightarrow> u32 option" where
  "more_patches mem limit num_patches =
     (if mem (num_patches + 1) \<le> limit then more_patches mem limit (num_patches + 1) else Some num_patches)"

declare more_patches.simps [code]

text \<open>The number of patches whose outputs fit the off-chip buffer.\<close>

definition offchip_patches :: "(u32 \<Rightarrow> u32) \<Rightarrow> u32 \<Rightarrow> u32 \<Rightarrow> u32 checked option" where
  "offchip_patches mem limit num_patches =
     (if \<not> mem num_patches > limit then Some (Checked num_patches)
      else if mem 1 = 0 \<or> \<not> mem (limit div mem 1) \<le> limit then Some Asserted
      else map_option Checked (more_patches mem limit (limit div mem 1)))"

definition first_patches :: "tess_compiler_info \<Rightarrow> u32 \<Rightarrow> u32" where
  "first_patches info num_threads_per_patch =
     (let num_patches = min (192 div num_threads_per_patch) 127
      in if at_smaller_tcs_workgroups info then min num_patches 16 else num_patches)"

definition tess_max_lds_size :: u32 where
  "tess_max_lds_size = 32 * 1024 - 16"

text \<open>The patches that fit the LDS, and no partly filled last wave.\<close>

definition finish_patches :: "amd_gfx_level \<Rightarrow> u32 \<Rightarrow> u32 \<Rightarrow> u32 \<Rightarrow> u32 \<Rightarrow> u32 checked" where
  "finish_patches gfx_level num_threads_per_patch lds_per_patch wave_size num_patches =
     (let num_patches = (if lds_per_patch \<noteq> 0 then min num_patches (tess_max_lds_size div lds_per_patch) else num_patches) in
      if lds_per_patch \<noteq> 0 \<and> \<not> num_patches * lds_per_patch \<le> tess_max_lds_size then Asserted
      else (let num_patches = max num_patches 1;
                threads_per_tg = num_patches * num_threads_per_patch;
                num_patches =
                  (if threads_per_tg > wave_size \<and>
                      wave_size - threads_per_tg mod wave_size \<ge> max num_threads_per_patch 8
                   then (threads_per_tg AND NOT (wave_size - 1)) div num_threads_per_patch else num_patches);
                num_patches =
                  (if gfx_level = GFX6 then min num_patches (wave_size div num_threads_per_patch) else num_patches)
            in if num_patches \<le> 127 then Checked num_patches else Asserted))"

definition ac_compute_num_tess_patches ::
  "tess_compiler_info \<Rightarrow> u32 \<Rightarrow> u32 \<Rightarrow> u32 \<Rightarrow> u32 \<Rightarrow> u32 \<Rightarrow> u32 \<Rightarrow> bool \<Rightarrow> u32 checked option" where
  "ac_compute_num_tess_patches info num_tcs_input_cp num_tcs_output_cp num_mem_tcs_outputs num_mem_tcs_patch_outputs
     lds_per_patch wave_size tess_uses_primid =
     (if at_has_primid_instancing_bug info \<and> tess_uses_primid then Some (Checked 1)
      else (let num_threads_per_patch = max num_tcs_input_cp num_tcs_output_cp in
        if num_threads_per_patch = 0 then Some Asserted
        else (case offchip_patches (get_tcs_wg_output_mem_size num_tcs_output_cp num_mem_tcs_outputs num_mem_tcs_patch_outputs)
                (at_hs_offchip_workgroup_dw_size info * 4) (first_patches info num_threads_per_patch) of
                None \<Rightarrow> None
              | Some Asserted \<Rightarrow> Some Asserted
              | Some (Checked num_patches) \<Rightarrow>
                  Some (finish_patches (ac_gfx_level info) num_threads_per_patch lds_per_patch wave_size num_patches))))"

record ac_nir_tess_io_info =
  tio_lds_output_mask :: u64
  tio_lds_patch_output_mask :: u32
  tio_highest_remapped_vram_output :: u8
  tio_highest_remapped_vram_patch_output :: u8

definition TESS_LVL_MASK :: u64 where
  "TESS_LVL_MASK = push_bit 26 1 OR push_bit 27 1"

definition get_lds_output_vertex_size :: "ac_nir_tess_io_info \<Rightarrow> u32" where
  "get_lds_output_vertex_size io_info = of_nat (util_bitcount (tio_lds_output_mask io_info AND NOT TESS_LVL_MASK)) * 16"

definition get_lds_pervertex_output_patch_size :: "ac_nir_tess_io_info \<Rightarrow> u32 \<Rightarrow> u32" where
  "get_lds_pervertex_output_patch_size io_info tcs_vertices_out = tcs_vertices_out * get_lds_output_vertex_size io_info"

definition get_lds_output_patch_stride :: "ac_nir_tess_io_info \<Rightarrow> u32 \<Rightarrow> u32" where
  "get_lds_output_patch_stride io_info tcs_vertices_out =
     (let lds_perpatch_output_patch_size =
            (of_nat (util_bitcount (tio_lds_output_mask io_info AND TESS_LVL_MASK)) +
             of_nat (util_bitcount (tio_lds_patch_output_mask io_info))) * 16
      in get_lds_pervertex_output_patch_size io_info tcs_vertices_out + lds_perpatch_output_patch_size + 4)"

text \<open>The number of patches and the bytes of LDS of a workgroup.\<close>

definition ac_nir_compute_tess_wg_info ::
  "tess_compiler_info \<Rightarrow> ac_nir_tess_io_info \<Rightarrow> u32 \<Rightarrow> u32 \<Rightarrow> bool \<Rightarrow> u32 \<Rightarrow> u32 \<Rightarrow> u32 \<Rightarrow> (u32 \<times> u32) checked option" where
  "ac_nir_compute_tess_wg_info info io_info tcs_vertices_out wave_size tess_uses_primid num_tcs_input_cp
     lds_input_vertex_size num_remapped_tess_level_outputs =
     (let lds_per_patch = num_tcs_input_cp * lds_input_vertex_size + get_lds_output_patch_stride io_info tcs_vertices_out in
      case ac_compute_num_tess_patches info num_tcs_input_cp tcs_vertices_out
             (ucast (tio_highest_remapped_vram_output io_info))
             (max (ucast (tio_highest_remapped_vram_patch_output io_info)) num_remapped_tess_level_outputs)
             lds_per_patch wave_size tess_uses_primid of
        None \<Rightarrow> None
      | Some Asserted \<Rightarrow> Some Asserted
      | Some (Checked num_patches) \<Rightarrow>
          (let lds_size = lds_per_patch * num_patches + 16
           in if lds_size \<le> (if ac_gfx_level info \<ge> GFX9 then 65536 else 32768) then Some (Checked (num_patches, lds_size))
              else Some Asserted))"

definition get_tcs_input_vertex_stride :: "u32 \<Rightarrow> u32" where
  "get_tcs_input_vertex_stride tcs_num_inputs =
     (let stride = tcs_num_inputs * 16 in if stride \<noteq> 0 then stride + 4 else stride)"

definition radv_get_tess_wg_info ::
  "tess_compiler_info \<Rightarrow> u32 \<Rightarrow> ac_nir_tess_io_info \<Rightarrow> u32 \<Rightarrow> u32 \<Rightarrow> u32 \<Rightarrow> (u32 \<times> u32) checked option" where
  "radv_get_tess_wg_info ac ge_wave_size io_info tcs_vertices_out tcs_num_input_vertices tcs_num_lds_inputs =
     ac_nir_compute_tess_wg_info ac io_info tcs_vertices_out ge_wave_size False tcs_num_input_vertices
       (get_tcs_input_vertex_stride tcs_num_lds_inputs) 0"

section \<open>The memory of the outputs\<close>

definition output_mem :: "nat \<Rightarrow> nat \<Rightarrow> nat \<Rightarrow> nat \<Rightarrow> nat" where
  "output_mem cp outs pouts n = align_num 256 (16 * cp * n) * outs + align_num 256 (16 * n) * pouts"

lemma output_mem_mono: "m \<le> n \<Longrightarrow> output_mem cp outs pouts m \<le> output_mem cp outs pouts n"
  unfolding output_mem_def by (intro add_mono mult_le_mono1 align_num_mono mult_le_mono2)

lemma align_num_times: "0 < w \<Longrightarrow> align_num w (k * x) \<le> k * align_num w x"
proof -
  assume w: "0 < w"
  have "align_num w (k * x) \<le> align_num w (k * align_num w x)"
    by (intro align_num_mono mult_le_mono2 align_num_le w)
  also have "\<dots> = k * align_num w x" using align_num_mult [OF w, of "k * ((x + w - 1) div w)"] by (simp add: align_num_def mult.assoc)
  finally show ?thesis .
qed

text \<open>Every output is aligned by itself, so patches together need no more than each alone.\<close>

lemma output_mem_times: "output_mem cp outs pouts n \<le> n * output_mem cp outs pouts 1"
proof -
  have "align_num 256 (16 * cp * n) \<le> n * align_num 256 (16 * cp)" "align_num 256 (16 * n) \<le> n * align_num 256 16"
    using align_num_times [of 256 n "16 * cp"] align_num_times [of 256 n 16] by (simp_all add: mult.commute)
  then have "output_mem cp outs pouts n \<le> n * align_num 256 (16 * cp) * outs + n * align_num 256 16 * pouts"
    unfolding output_mem_def by (intro add_mono mult_le_mono1)
  also have "\<dots> = n * output_mem cp outs pouts 1" by (simp add: output_mem_def algebra_simps)
  finally show ?thesis .
qed

lemma unat_output_mem:
  assumes "unat cp \<le> 32" "unat outs \<le> 255" "unat pouts \<le> 255" "unat n \<le> 128"
  shows "unat (get_tcs_wg_output_mem_size cp outs pouts n) = output_mem (unat cp) (unat outs) (unat pouts) (unat n)"
proof -
  have "16 * unat cp * unat n \<le> 16 * 32 * 128" using assms by (intro mult_le_mono) simp_all
  then have a: "unat (16 * cp * n) = 16 * unat cp * unat n" "16 * unat cp * unat n \<le> 65536"
    using assms by (simp_all add: unat_mult_small)
  have b: "unat (16 * n) = 16 * unat n" using assms by (simp add: unat_mult_small)
  have le: "align_num 256 x \<le> 65536" if "x \<le> 65536" for x
    using align_num_mono [OF that, of 256] by (simp add: align_num_def)
  have al: "unat (align_pot x 256) = align_num 256 (unat x)" if "unat x \<le> 65536" for x
    using unat_align_pot_exp [of x 8] that by simp
  have m: "align_num 256 x * y \<le> 65536 * 255" if "x \<le> 65536" "y \<le> 255" for x y
    by (intro mult_le_mono le that)
  have "align_num 256 (16 * unat cp * unat n) * unat outs \<le> 65536 * 255" "align_num 256 (16 * unat n) * unat pouts \<le> 65536 * 255"
    using assms a(2) by (intro m; simp)+
  then show ?thesis using assms a b unfolding get_tcs_wg_output_mem_size_def output_mem_def
    by (simp add: unat_add_small unat_mult_small al)
qed

section \<open>The search ends\<close>

text \<open>A memory function of words, monotone up to a first number of patches that does not fit.\<close>

lemma more_patches_end:
  assumes fits: "mem n \<le> limit" and big: "\<not> mem m \<le> limit" and "unat n \<le> unat m"
  shows "\<exists>k. more_patches mem limit n = Some k \<and> n \<le> k \<and> k < m \<and> mem k \<le> limit \<and> \<not> mem (k + 1) \<le> limit"
  using fits assms(3)
proof (induction "unat m - unat n" arbitrary: n rule: less_induct)
  case less
  have "n \<noteq> m" using less.prems(1) big by blast
  then have lt: "unat n < unat m" using less.prems(2) by (simp add: word_unat_eq_iff)
  then have s: "unat (n + 1) = unat n + 1" using unsigned_less [of m, where 'a = nat] by (subst unat_add_small) simp_all
  show ?case
  proof (cases "mem (n + 1) \<le> limit")
    case False
    then show ?thesis using less.prems(1) lt by (subst more_patches.simps) (simp add: word_less_nat_alt)
  next
    case True
    have "unat m - unat (n + 1) < unat m - unat n" "unat (n + 1) \<le> unat m" using lt s by linarith+
    from less.hyps [OF this(1) True this(2)] obtain k where
      "more_patches mem limit (n + 1) = Some k" "n + 1 \<le> k" "k < m" "mem k \<le> limit" "\<not> mem (k + 1) \<le> limit" by blast
    moreover have "n \<le> k" using \<open>n + 1 \<le> k\<close> s by (simp add: word_le_nat_alt)
    ultimately show ?thesis using True by (subst more_patches.simps) simp
  qed
qed

lemma offchip_patches_fit:
  assumes "unat cp \<le> 32" "unat outs \<le> 255" "unat pouts \<le> 255" "unat n \<le> 127"
  defines "mem \<equiv> get_tcs_wg_output_mem_size cp outs pouts"
  shows "\<exists>k. offchip_patches mem limit n = Some (Checked k) \<and> k \<le> n \<and> mem k \<le> limit \<and> (k < n \<longrightarrow> \<not> mem (k + 1) \<le> limit)"
proof (cases "mem n \<le> limit")
  case True
  then show ?thesis by (auto simp: offchip_patches_def)
next
  case False
  let ?M = "output_mem (unat cp) (unat outs) (unat pouts)"
  have u: "unat x \<le> 128 \<Longrightarrow> unat (mem x) = ?M (unat x)" for x unfolding mem_def by (rule unat_output_mem [OF assms(1-3)])
  have big: "unat limit < ?M (unat n)" using False u [of n] assms(4) by (simp add: word_le_nat_alt)
  have one: "unat (mem 1) = ?M 1" using u [of 1] by simp
  have "?M 1 \<noteq> 0" using big output_mem_times [of "unat cp" "unat outs" "unat pouts" "unat n"] by (cases "?M 1 = 0") auto
  then have nz: "mem 1 \<noteq> 0" using one by auto
  define k where "k = limit div mem 1"
  have k: "unat k = unat limit div ?M 1" by (simp add: k_def unat_div_distrib one)
  have "?M (unat k) \<le> unat k * ?M 1" by (rule output_mem_times)
  also have "\<dots> \<le> unat limit" unfolding k by simp
  finally have kl: "?M (unat k) \<le> unat limit" .
  have kn: "unat k < unat n"
  proof (rule ccontr)
    assume "\<not> unat k < unat n"
    then show False using output_mem_mono [of "unat n" "unat k"] kl big by (meson leD le_trans not_less)
  qed
  then have fit: "mem k \<le> limit" using u [of k] kl assms(4) by (simp add: word_le_nat_alt)
  obtain r where r: "more_patches mem limit k = Some r" "k \<le> r" "r < n" "mem r \<le> limit" "\<not> mem (r + 1) \<le> limit"
    using more_patches_end [where mem = mem, OF fit False] kn by auto
  then show ?thesis using False nz fit by (auto simp: offchip_patches_def k_def [symmetric])
qed


section \<open>The number of patches\<close>

lemma first_patches_bounds:
  assumes "1 \<le> unat threads" "unat threads \<le> 32"
  shows "1 \<le> unat (first_patches info threads)" "unat (first_patches info threads) \<le> 127"
    "unat (first_patches info threads) * unat threads \<le> 192"
proof -
  have d: "unat (192 div threads) = 192 div unat threads" by (simp add: unat_div_distrib)
  have "192 div 32 \<le> 192 div unat threads" using assms by (intro div_le_mono2) simp_all
  then have "6 \<le> 192 div unat threads" by simp
  then show "1 \<le> unat (first_patches info threads)" by (simp add: first_patches_def Let_def unat_min d)
  show "unat (first_patches info threads) \<le> 127" by (auto simp: first_patches_def Let_def unat_min)
  have "unat (first_patches info threads) \<le> 192 div unat threads" by (auto simp: first_patches_def Let_def unat_min d)
  then have "unat (first_patches info threads) * unat threads \<le> 192 div unat threads * unat threads" by (rule mult_le_mono1)
  also have "\<dots> \<le> 192" by simp
  finally show "unat (first_patches info threads) * unat threads \<le> 192" .
qed

text \<open>Cutting off a partly filled wave keeps at least one patch and adds none.\<close>

lemma full_waves:
  fixes threads wave n :: u32
  assumes "1 \<le> unat threads" "unat threads \<le> 32" "wave = 32 \<or> wave = 64" "1 \<le> unat n" "unat n * unat threads < 2 ^ 32"
  defines "tg \<equiv> n * threads"
  defines "m \<equiv> (if tg > wave \<and> wave - tg mod wave \<ge> max threads 8 then (tg AND NOT (wave - 1)) div threads else n)"
  shows "1 \<le> unat m" "unat m \<le> unat n"
proof -
  have tg: "unat tg = unat n * unat threads" unfolding tg_def by (rule unat_mult_small) (use assms(5) in simp)
  have "1 \<le> unat m \<and> unat m \<le> unat n"
  proof (cases "tg > wave \<and> wave - tg mod wave \<ge> max threads 8")
    case True
    define q where "q = unat tg div unat wave * unat wave"
    have "wave - 1 = mask (if wave = 32 then 5 else 6)" "unat wave = 2 ^ (if wave = 32 then 5 else 6)"
      using assms(3) by (auto simp: mask_eq_exp_minus_1)
    then have "unat (tg AND NOT (wave - 1)) = q" by (simp only: unat_and_not_mask q_def)
    then have m: "unat m = q div unat threads" using True by (simp add: m_def unat_div_distrib)
    have w: "32 \<le> unat wave" using assms(3) by auto
    have "1 \<le> unat tg div unat wave" using True w by (simp add: word_less_nat_alt less_eq_div_iff_mult_less_eq)
    then have "unat wave \<le> q" unfolding q_def by simp
    then have "unat threads \<le> q" using w assms(2) by linarith
    then have "1 \<le> q div unat threads" using assms(1) by (simp add: less_eq_div_iff_mult_less_eq)
    moreover have "q \<le> unat n * unat threads" unfolding q_def using tg by (metis div_times_less_eq_dividend)
    then have "q div unat threads \<le> unat n * unat threads div unat threads" by (rule div_le_mono)
    ultimately show ?thesis using m assms(1) by simp
  next
    case False
    then have "m = n" unfolding m_def by (rule if_not_P)
    then show ?thesis using assms(4) by simp
  qed
  then show "1 \<le> unat m" "unat m \<le> unat n" by blast+
qed

lemma finish_patches_fit:
  assumes "1 \<le> unat threads" "unat threads \<le> 32" "wave = 32 \<or> wave = 64" "unat n \<le> 127"
  shows "\<exists>k. finish_patches gfx threads lds wave n = Checked k \<and> 1 \<le> unat k \<and> unat k \<le> max 1 (unat n) \<and>
    (unat lds \<le> 32 * 1024 - 16 \<longrightarrow> unat k * unat lds \<le> 32 * 1024 - 16)"
proof -
  let ?L = "tess_max_lds_size"
  have L: "unat ?L = 32 * 1024 - 16" by (simp add: tess_max_lds_size_def)
  define a where "a = (if lds \<noteq> 0 then min n (?L div lds) else n)"
  have a: "unat a = fit (unat ?L) (unat lds) (unat n)" unfolding a_def by (rule unat_fit)
  have al: "unat a * unat lds \<le> unat ?L" "unat a \<le> unat n" unfolding a by (rule fit_room fit_le)+
  then have "unat (a * lds) = unat a * unat lds" using L by (subst unat_mult_small) simp_all
  then have ok: "a * lds \<le> ?L" using al by (simp add: word_le_nat_alt)
  define b where "b = max a 1"
  have b: "1 \<le> unat b" "unat b \<le> max 1 (unat n)" "unat b = max 1 (unat a)" using al by (auto simp: b_def unat_max)
  define c where "c = (if b * threads > wave \<and> wave - b * threads mod wave \<ge> max threads 8
    then (b * threads AND NOT (wave - 1)) div threads else b)"
  have "unat b * unat threads \<le> 127 * 32" using b(2) assms(2,4) by (intro mult_le_mono) simp_all
  then have c: "1 \<le> unat c" "unat c \<le> unat b"
    using full_waves [OF assms(1-3) b(1), folded c_def] by simp_all
  define d where "d = (if gfx = GFX6 then min c (wave div threads) else c)"
  have "1 \<le> unat wave div unat threads" using assms(1-3) by (auto simp: less_eq_div_iff_mult_less_eq)
  then have d: "1 \<le> unat d" "unat d \<le> unat c" using c(1) by (simp_all add: d_def unat_min unat_div_distrib)
  have "d \<le> 127" using d(2) c(2) b(2) assms(4) by (simp add: word_le_nat_alt)
  then have "finish_patches gfx threads lds wave n = Checked d"
    unfolding finish_patches_def Let_def a_def [symmetric] b_def [symmetric] c_def [symmetric] d_def [symmetric]
    using ok by simp
  moreover have "unat d * unat lds \<le> 32 * 1024 - 16" if "unat lds \<le> 32 * 1024 - 16"
  proof -
    have "unat d * unat lds \<le> max 1 (unat a) * unat lds" using d(2) c(2) b(3) by (intro mult_le_mono1) simp
    also have "\<dots> \<le> 32 * 1024 - 16" using that al(1) L by (cases "unat a \<le> 1") (auto simp: max_def)
    finally show ?thesis .
  qed
  ultimately show ?thesis using d c b by auto
qed

text \<open>The bounds under which the computation is used: patches of at most 32 vertices.\<close>

definition tess_wf :: "u32 \<Rightarrow> u32 \<Rightarrow> u32 \<Rightarrow> u32 \<Rightarrow> u32 \<Rightarrow> bool" where
  "tess_wf in_cp out_cp outs pouts wave_size \<longleftrightarrow> 1 \<le> unat in_cp \<and> unat in_cp \<le> 32 \<and> 1 \<le> unat out_cp \<and> unat out_cp \<le> 32 \<and>
     unat outs \<le> 255 \<and> unat pouts \<le> 255 \<and> (wave_size = 32 \<or> wave_size = 64)"

lemma threads_bounds:
  assumes "tess_wf in_cp out_cp outs pouts wave_size"
  shows "1 \<le> unat (max in_cp out_cp)" "unat (max in_cp out_cp) \<le> 32" "max in_cp out_cp \<noteq> 0"
proof -
  show "1 \<le> unat (max in_cp out_cp)" "unat (max in_cp out_cp) \<le> 32"
    using assms by (auto simp: tess_wf_def unat_max)
  then show "max in_cp out_cp \<noteq> 0" by auto
qed

text \<open>The computation is a search for \<open>k\<close> patches whose outputs fit the memory, then a cut to \<open>n\<close> of them, but at least one.\<close>

lemma num_tess_patches_run:
  fixes info :: tess_compiler_info
  assumes "tess_wf in_cp out_cp outs pouts wave_size" "\<not> (at_has_primid_instancing_bug info \<and> primid)"
  defines "mem \<equiv> get_tcs_wg_output_mem_size out_cp outs pouts"
  defines "limit \<equiv> at_hs_offchip_workgroup_dw_size info * 4"
  shows "\<exists>n k. ac_compute_num_tess_patches info in_cp out_cp outs pouts lds wave_size primid = Some (Checked n) \<and>
    1 \<le> unat n \<and> unat n \<le> max 1 (unat k) \<and> unat n \<le> unat (first_patches info (max in_cp out_cp)) \<and>
    unat k \<le> 127 \<and> mem k \<le> limit \<and> (unat lds \<le> 32 * 1024 - 16 \<longrightarrow> unat n * unat lds \<le> 32 * 1024 - 16)"
proof -
  let ?t = "max in_cp out_cp" and ?n = "first_patches info (max in_cp out_cp)"
  note t = threads_bounds [OF assms(1)]
  note f = first_patches_bounds [OF t(1,2), of info]
  have wf: "unat out_cp \<le> 32" "unat outs \<le> 255" "unat pouts \<le> 255" "wave_size = 32 \<or> wave_size = 64"
    using assms(1) by (auto simp: tess_wf_def)
  obtain k where k: "offchip_patches mem limit ?n = Some (Checked k)" "k \<le> ?n" "mem k \<le> limit"
    using offchip_patches_fit [OF wf(1-3) f(2)] unfolding mem_def by blast
  have kn: "unat k \<le> unat ?n" using k(2) by (simp add: word_le_nat_alt)
  then have k127: "unat k \<le> 127" using f(2) by linarith
  obtain d where d: "finish_patches (ac_gfx_level info) ?t lds wave_size k = Checked d" "1 \<le> unat d" "unat d \<le> max 1 (unat k)"
    "unat lds \<le> 32 * 1024 - 16 \<longrightarrow> unat d * unat lds \<le> 32 * 1024 - 16"
    using finish_patches_fit [OF t(1,2) wf(4) k127] by blast
  have "ac_compute_num_tess_patches info in_cp out_cp outs pouts lds wave_size primid = Some (Checked d)"
    unfolding ac_compute_num_tess_patches_def if_not_P [OF assms(2)] Let_def if_not_P [OF t(3)]
      mem_def [symmetric] limit_def [symmetric] k(1) by (simp add: d(1))
  moreover have "unat d \<le> unat ?n" using d(3) kn f(1) by simp
  ultimately show ?thesis using d(2-4) k127 k(3) by blast
qed

lemma num_tess_patches:
  fixes info :: tess_compiler_info
  assumes "tess_wf in_cp out_cp outs pouts wave_size"
  defines "mem \<equiv> get_tcs_wg_output_mem_size out_cp outs pouts"
  defines "limit \<equiv> at_hs_offchip_workgroup_dw_size info * 4"
  shows "\<exists>n. ac_compute_num_tess_patches info in_cp out_cp outs pouts lds wave_size primid = Some (Checked n) \<and>
    1 \<le> unat n \<and> unat n \<le> 127 \<and> unat n * unat (max in_cp out_cp) \<le> 192 \<and>
    (unat lds \<le> 32 * 1024 - 16 \<longrightarrow> unat n * unat lds \<le> 32 * 1024 - 16) \<and> (mem 1 \<le> limit \<longrightarrow> mem n \<le> limit)"
proof (cases "at_has_primid_instancing_bug info \<and> primid")
  case True
  then show ?thesis using threads_bounds(2) [OF assms(1)] by (auto simp: ac_compute_num_tess_patches_def)
next
  case False
  note f = first_patches_bounds [OF threads_bounds(1,2) [OF assms(1)], of info]
  obtain n k where n: "ac_compute_num_tess_patches info in_cp out_cp outs pouts lds wave_size primid = Some (Checked n)" "1 \<le> unat n"
    "unat n \<le> max 1 (unat k)" "unat n \<le> unat (first_patches info (max in_cp out_cp))" "unat k \<le> 127" "mem k \<le> limit"
    "unat lds \<le> 32 * 1024 - 16 \<longrightarrow> unat n * unat lds \<le> 32 * 1024 - 16"
    using num_tess_patches_run [OF assms(1) False, of lds] unfolding mem_def limit_def by blast
  have "unat n * unat (max in_cp out_cp) \<le> 192" by (rule order.trans [OF mult_le_mono1 [OF n(4)] f(3)])
  moreover have "mem n \<le> limit" if "mem 1 \<le> limit"
  proof (cases "unat k \<le> 1")
    case True
    then have "n = 1" using n(2,3) by (intro word_unat_eq_iff [THEN iffD2]) simp
    then show ?thesis using that by simp
  next
    case False
    then have nk: "unat n \<le> unat k" using n(3) by simp
    have "unat x \<le> 128 \<Longrightarrow> unat (mem x) = output_mem (unat out_cp) (unat outs) (unat pouts) (unat x)" for x
      using unat_output_mem assms(1) unfolding mem_def tess_wf_def by blast
    then have "unat (mem n) \<le> unat (mem k)" using output_mem_mono [OF nk] nk n(5) by simp
    then show ?thesis using n(6) by (simp add: word_le_nat_alt)
  qed
  moreover have "unat n \<le> 127" using n(4) f(2) by linarith
  ultimately show ?thesis using n(1,2,7) by blast
qed

section \<open>The workgroup of a program\<close>

definition tess_lds_per_patch :: "ac_nir_tess_io_info \<Rightarrow> u32 \<Rightarrow> u32 \<Rightarrow> u32 \<Rightarrow> u32" where
  "tess_lds_per_patch io_info out_cp in_cp lds_inputs =
     in_cp * get_tcs_input_vertex_stride lds_inputs + get_lds_output_patch_stride io_info out_cp"

definition tess_program_wf :: "u32 \<Rightarrow> ac_nir_tess_io_info \<Rightarrow> u32 \<Rightarrow> u32 \<Rightarrow> u32 \<Rightarrow> bool" where
  "tess_program_wf wave_size io_info out_cp in_cp lds_inputs \<longleftrightarrow>
     1 \<le> unat in_cp \<and> unat in_cp \<le> 32 \<and> 1 \<le> unat out_cp \<and> unat out_cp \<le> 32 \<and> (wave_size = 32 \<or> wave_size = 64) \<and>
     unat (tess_lds_per_patch io_info out_cp in_cp lds_inputs) \<le> 32 * 1024 - 16"

lemma tess_wf_program:
  "tess_program_wf wave_size io_info out_cp in_cp lds_inputs \<Longrightarrow>
   tess_wf in_cp out_cp (ucast (tio_highest_remapped_vram_output io_info))
     (ucast (tio_highest_remapped_vram_patch_output io_info)) wave_size"
  using unsigned_less [of "tio_highest_remapped_vram_output io_info", where 'a = nat]
    unsigned_less [of "tio_highest_remapped_vram_patch_output io_info", where 'a = nat]
  by (simp add: tess_program_wf_def tess_wf_def unat_ucast_wider)

lemma tess_wg_of_patches:
  assumes "tess_program_wf wave_size io_info out_cp in_cp lds_inputs"
    and n: "ac_compute_num_tess_patches info in_cp out_cp (ucast (tio_highest_remapped_vram_output io_info))
      (ucast (tio_highest_remapped_vram_patch_output io_info)) (tess_lds_per_patch io_info out_cp in_cp lds_inputs) wave_size False =
      Some (Checked n)"
    and fit: "unat n * unat (tess_lds_per_patch io_info out_cp in_cp lds_inputs) \<le> 32 * 1024 - 16"
  shows "\<exists>lds_size. radv_get_tess_wg_info info wave_size io_info out_cp in_cp lds_inputs = Some (Checked (n, lds_size)) \<and>
    unat lds_size = unat n * unat (tess_lds_per_patch io_info out_cp in_cp lds_inputs) + 16"
proof -
  define l where "l = tess_lds_per_patch io_info out_cp in_cp lds_inputs"
  have "unat (l * n) = unat n * unat l" using fit by (subst unat_mult_small) (simp_all add: l_def mult.commute)
  then have s: "unat (l * n + 16) = unat n * unat l + 16" using fit by (subst unat_add_small) (simp_all add: l_def)
  then have "l * n + 16 \<le> (if ac_gfx_level info \<ge> GFX9 then 65536 else 32768)"
    using fit by (simp add: word_le_nat_alt l_def)
  moreover have "max (ucast (tio_highest_remapped_vram_patch_output io_info)) (0 :: u32) = ucast (tio_highest_remapped_vram_patch_output io_info)"
    by (simp add: max_def)
  ultimately have "radv_get_tess_wg_info info wave_size io_info out_cp in_cp lds_inputs = Some (Checked (n, l * n + 16))"
    using n unfolding radv_get_tess_wg_info_def ac_nir_compute_tess_wg_info_def tess_lds_per_patch_def [symmetric] l_def [symmetric]
      Let_def by simp
  then show ?thesis using s by (simp add: l_def)
qed

text \<open>C16. For every tessellation control program with patches of at most 32 vertices and at most 32752 bytes of LDS per
  patch, the computation of its workgroup returns without a failed assertion: the search for the number of
  patches ends, there are between 1 and 127 patches and at most 192 threads, the workgroup takes at most 32 KiB of
  LDS, and its outputs fit the off-chip buffer if those of one patch do.
\<close>

theorem tess_workgroup_fits:
  assumes "tess_program_wf wave_size io_info out_cp in_cp lds_inputs"
  shows "\<exists>n lds_size workgroup_size.
    radv_get_tess_wg_info info wave_size io_info out_cp in_cp lds_inputs = Some (Checked (n, lds_size)) \<and>
    1 \<le> unat n \<and> unat n \<le> 127 \<and> unat lds_size \<le> 32 * 1024 \<and>
    ac_compute_lshs_workgroup_size gfx_level MESA_SHADER_TESS_CTRL n in_cp out_cp = Some workgroup_size \<and>
    unat workgroup_size \<le> 192 \<and>
    (let mem = get_tcs_wg_output_mem_size out_cp (ucast (tio_highest_remapped_vram_output io_info))
           (ucast (tio_highest_remapped_vram_patch_output io_info));
         limit = at_hs_offchip_workgroup_dw_size info * 4
     in mem 1 \<le> limit \<longrightarrow> mem n \<le> limit)"
proof -
  let ?l = "tess_lds_per_patch io_info out_cp in_cp lds_inputs"
  have l: "unat ?l \<le> 32 * 1024 - 16" using assms by (simp add: tess_program_wf_def)
  from num_tess_patches [OF tess_wf_program [OF assms], of info ?l False] l obtain n where n:
    "ac_compute_num_tess_patches info in_cp out_cp (ucast (tio_highest_remapped_vram_output io_info))
      (ucast (tio_highest_remapped_vram_patch_output io_info)) ?l wave_size False = Some (Checked n)"
    "1 \<le> unat n" "unat n \<le> 127" "unat n * unat (max in_cp out_cp) \<le> 192" "unat n * unat ?l \<le> 32 * 1024 - 16"
    "get_tcs_wg_output_mem_size out_cp (ucast (tio_highest_remapped_vram_output io_info))
       (ucast (tio_highest_remapped_vram_patch_output io_info)) 1 \<le> at_hs_offchip_workgroup_dw_size info * 4 \<longrightarrow>
     get_tcs_wg_output_mem_size out_cp (ucast (tio_highest_remapped_vram_output io_info))
       (ucast (tio_highest_remapped_vram_patch_output io_info)) n \<le> at_hs_offchip_workgroup_dw_size info * 4" by blast
  obtain lds_size where r: "radv_get_tess_wg_info info wave_size io_info out_cp in_cp lds_inputs = Some (Checked (n, lds_size))"
    "unat lds_size = unat n * unat ?l + 16" using tess_wg_of_patches [OF assms n(1,5)] by blast
  have "unat n * unat in_cp \<le> unat n * unat (max in_cp out_cp)" "unat n * unat out_cp \<le> unat n * unat (max in_cp out_cp)"
    by (simp_all add: unat_max)
  then have "unat n * unat in_cp \<le> 192" "unat n * unat out_cp \<le> 192" using n(4) by linarith+
  then have "unat (n * in_cp) \<le> 192" "unat (n * out_cp) \<le> 192" by (simp_all add: unat_mult_small)
  then obtain workgroup_size where "ac_compute_lshs_workgroup_size gfx_level MESA_SHADER_TESS_CTRL n in_cp out_cp = Some workgroup_size"
      "unat workgroup_size \<le> 192"
    by (cases "gfx_level \<ge> GFX9") (simp_all add: ac_compute_lshs_workgroup_size_def Let_def unat_max)
  moreover have "unat lds_size \<le> 32 * 1024" using r(2) n(5) by simp
  ultimately show ?thesis using r(1) n(2,3,6) unfolding Let_def by blast
qed

text \<open>Outputs of at least one patch need memory.\<close>

lemma output_mem_zero:
  assumes "output_mem cp outs pouts n = 0" "outs \<noteq> 0 \<or> pouts \<noteq> 0" "1 \<le> cp"
  shows "n = 0"
proof -
  have "16 * cp * n \<le> align_num 256 (16 * cp * n)" "16 * n \<le> align_num 256 (16 * n)" by (simp_all add: align_num_le)
  then show ?thesis using assms by (auto simp: output_mem_def)
qed

text \<open>C29. The library leaves the size of the off-chip buffer at zero, and so every such program that writes an output
  for the evaluation stage is given exactly one patch per workgroup, on every target.
\<close>

theorem library_one_patch:
  assumes "tess_program_wf wave_size io_info out_cp in_cp lds_inputs"
    "tio_highest_remapped_vram_output io_info \<noteq> 0 \<or> tio_highest_remapped_vram_patch_output io_info \<noteq> 0"
  shows "\<exists>lds_size. radv_get_tess_wg_info (tess_setup_ac_info gfx_level) wave_size io_info out_cp in_cp lds_inputs =
    Some (Checked (1, lds_size))"
proof -
  let ?i = "tess_setup_ac_info gfx_level" and ?l = "tess_lds_per_patch io_info out_cp in_cp lds_inputs"
  let ?o = "ucast (tio_highest_remapped_vram_output io_info) :: u32"
  let ?p = "ucast (tio_highest_remapped_vram_patch_output io_info) :: u32"
  note wf = tess_wf_program [OF assms(1)]
  have i: "at_hs_offchip_workgroup_dw_size ?i = 0" "\<not> (at_has_primid_instancing_bug ?i \<and> False)"
    by (simp_all add: tess_setup_ac_info_def ac_compiler_info.defs)
  obtain n k where n: "ac_compute_num_tess_patches ?i in_cp out_cp ?o ?p ?l wave_size False = Some (Checked n)" "1 \<le> unat n"
    "unat n \<le> max 1 (unat k)" "unat k \<le> 127" "get_tcs_wg_output_mem_size out_cp ?o ?p k \<le> at_hs_offchip_workgroup_dw_size ?i * 4"
    using num_tess_patches_run [OF wf i(2), of ?l] by blast
  have "unat (get_tcs_wg_output_mem_size out_cp ?o ?p k) = output_mem (unat out_cp) (unat ?o) (unat ?p) (unat k)"
    using wf n(4) by (intro unat_output_mem) (simp_all add: tess_wf_def)
  then have "output_mem (unat out_cp) (unat ?o) (unat ?p) (unat k) = 0" using n(5) i(1) by (simp add: word_le_nat_alt)
  moreover have "unat ?o \<noteq> 0 \<or> unat ?p \<noteq> 0" using assms(2) by (simp add: unat_ucast_wider unat_eq_0)
  moreover have "1 \<le> unat out_cp" using wf by (simp add: tess_wf_def)
  ultimately have "unat k = 0" by (rule output_mem_zero)
  then have "n = 1" using n(2,3) by (intro word_unat_eq_iff [THEN iffD2]) simp
  moreover have "unat (1 :: u32) * unat ?l \<le> 32 * 1024 - 16" using assms(1) by (simp add: tess_program_wf_def)
  ultimately show ?thesis using tess_wg_of_patches [OF assms(1), of ?i n] n(1) by auto
qed

definition sample_tess_io :: ac_nir_tess_io_info where
  "sample_tess_io = \<lparr>tio_lds_output_mask = 0, tio_lds_patch_output_mask = 0, tio_highest_remapped_vram_output = 2,
     tio_highest_remapped_vram_patch_output = 2\<rparr>"

lemma sample_tess_wf: "tess_program_wf 64 sample_tess_io 3 3 2"
  by (simp add: tess_program_wf_def tess_lds_per_patch_def sample_tess_io_def get_tcs_input_vertex_stride_def
      get_lds_output_patch_stride_def get_lds_pervertex_output_patch_size_def get_lds_output_vertex_size_def util_bitcount.simps)

theorem library_one_patch_witness:
  "\<exists>lds_size. radv_get_tess_wg_info (tess_setup_ac_info GFX10_3) 64 sample_tess_io 3 3 2 = Some (Checked (1, lds_size))"
  using library_one_patch [OF sample_tess_wf, of GFX10_3] by (simp add: sample_tess_io_def)

definition sample_tess_info :: tess_compiler_info where
  "sample_tess_info = (tess_setup_ac_info GFX10_3)\<lparr>at_hs_offchip_workgroup_dw_size := 8192\<rparr>"

theorem tess_workgroup_fits_witness:
  "\<exists>n lds_size. radv_get_tess_wg_info sample_tess_info 64 sample_tess_io 3 3 2 = Some (Checked (n, lds_size)) \<and>
     1 \<le> unat n \<and> unat lds_size \<le> 32 * 1024"
  using tess_workgroup_fits [OF sample_tess_wf, of sample_tess_info GFX10_3] by blast

text \<open>With a buffer of 32 KiB the same program has 64 patches.\<close>

lemma sample_tess_patches: "radv_get_tess_wg_info sample_tess_info 64 sample_tess_io 3 3 2 = Some (Checked (64, 7184))"
  by code_simp

end
