(* ===== verification/Spec2Isabelle.thy ===== *)
theory Spec2Isabelle
  imports Crc32 Cli_Main User_Window Subgroup_Sizes Tess_Patches
begin

text \<open>
  \<^bold>\<open>A verification development for the shader compiler library \<^verbatim>\<open>libpsbc\<close> and its command line tool.\<close>

  \<^bold>\<open>The program.\<close>  \<^verbatim>\<open>src/libpsbc/psbc_compile.c\<close> is a compiler library: it takes SPIR-V modules (or NIR shaders) and
  options, drives Mesa's SPIR-V reader, RADV and the ACO back end, and returns machine code, a wrapped
  shader binary and typed metadata for the runtime.  \<^verbatim>\<open>src/libpsbc/psbc_compile.h\<close> is its interface,
  \<^verbatim>\<open>src/include/pssl_types.h\<close> the container format of the binary, \<^verbatim>\<open>src/cmd/psbc/crc32_sb.c\<close> the checksum in it, and
  \<^verbatim>\<open>src/cmd/psbc/main.c\<close> a command line tool on top.  The rest of \<^verbatim>\<open>src\<close> is the part of Mesa that the library
  links.

  \<^bold>\<open>Foundations.\<close>
  \<^item> \<open>Psbc_Prelude\<close>: names of the C integer types as words of their width, little-endian encodings, slices of byte
    lists, the macros of \<^verbatim>\<open>macros.h\<close> and \<^verbatim>\<open>bitscan.h\<close>; the contract \<open>consistent_store\<close> of a table whose entries must
    not contradict each other.
  \<^item> \<open>Psbc_Types\<close>: the enumerations and structures of \<^verbatim>\<open>psbc_compile.h\<close>.  An array with its counter is a list, except
    in the options, which come from a caller and keep both.
  \<^item> \<open>Mesa_Types\<close>: the structures of Mesa, reduced to the members that the library reads or writes.  A shader is its
    information and the list of its instructions, with one constructor per kind the library inspects.
  \<^item> \<open>Hw_Regs\<close>: registers, field setters, getters and clear masks from the register database, and the combination
    of two resource words; the contracts \<open>reg_field\<close> and \<open>reg_field_pair\<close> are interpreted on the fields it touches.
  \<^item> \<open>C_Text\<close>: what the tool uses of \<^verbatim>\<open>printf\<close>, \<^verbatim>\<open>strtoul\<close> and \<^verbatim>\<open>sscanf\<close>.

  \<^bold>\<open>The library, in the order of the code.\<close>
  \<^item> \<open>Crc32\<close>: \<^verbatim>\<open>crc32_sb\<close>.  The table is the standard one; the contract \<open>byte_hash\<close> gives checksums of
    concatenations.
  \<^item> \<open>Ac_Util\<close> and \<open>Reg_Words\<close>: the helpers of \<^verbatim>\<open>ac_shader_util.c\<close> that the library calls, and the register words of a
    stage.  The words that describe the position exports agree with each other.
  \<^item> \<open>Io_Semantics\<close>: \<^verbatim>\<open>build_input_semantics\<close>, \<^verbatim>\<open>fill_output_semantics\<close>, \<^verbatim>\<open>split_ps5_mixed_inputs\<close> and their helpers.
    The published words are exactly those that the loads and exports of the shader require.
  \<^item> \<open>Nir_Passes\<close>: the analyses and rewrites the library runs itself.  Gathered masks are exact; rewrites change
    what they are meant to and nothing else.
  \<^item> \<open>Spirv_Check\<close>: \<^verbatim>\<open>validate_spirv_capabilities\<close> accepts exactly the encodings of modules without a disabled
    capability; the specialization map selects the bytes of each constant.
  \<^item> \<open>Target_Setup\<close>: \<^verbatim>\<open>psbc_init\<close> and \<^verbatim>\<open>psbc_shutdown\<close> with Mesa's reference-counted type cache, as a step relation
    with an invariant over all interleavings; GPU description and compiler information per target.
  \<^item> \<open>Compile_Setup\<close>: the guards of \<^verbatim>\<open>psbc_compile_impl\<close>, the descriptor layout and the graphics state.
  \<^item> \<open>Pipeline_Link\<close>: what the two halves of a pipeline share.
  \<^item> \<open>Shader_Meta\<close>: \<^verbatim>\<open>fill_shader_metadata\<close>, one definition per block.  The register lists never overflow, have no
    duplicates, and the mask of unresolved fields says exactly what is missing.
  \<^item> \<open>Pssl_Format\<close> and \<open>Shader_Binary\<close>: the readers of \<^verbatim>\<open>pssl_types.h\<close> and \<^verbatim>\<open>buildshaderbinary\<close>.  Emission stays inside its
    allocations for every shader, and the readers find what was written.
  \<^item> \<open>Compile_Driver\<close>: \<^verbatim>\<open>prepare_stage_nir\<close> and \<^verbatim>\<open>psbc_compile_impl\<close>.  Each call to Mesa is a member of the record
    \<open>mesa\<close>, applied in the order of the source.  A step goes on, stops with a result, or is undefined
    (\<open>Go\<close>, \<open>Stop\<close>, \<open>Fault\<close>); shaders and buffers are resources that are owned and released.
  \<^item> \<open>Entry_Points\<close>: the seven compile functions and \<^verbatim>\<open>psbc_free_output\<close>.  No call faults, every way out releases
    what was acquired, and a session of any length ends in the state it began with.

  \<^bold>\<open>The parts of RADV whose results the library publishes.\<close>
  \<^item> \<open>Shader_Args\<close>: \<^verbatim>\<open>radv_declare_shader_args\<close> of \<^verbatim>\<open>radv_shader_args.c\<close> and the argument array of \<^verbatim>\<open>ac_shader_args.c\<close>.  The
    declarations of a stage are a list of the macros that the source expands, run by one interpreter.
  \<^item> \<open>User_Sgprs\<close>, \<open>Arg_Layout\<close>, \<open>User_Window\<close>: the user data fits the registers of the hardware; no two arguments
    share a register; the published user-data window is where the compiled shader reads.  The contract
    \<open>every_argument\<close> carries a fact about single declarations to all stages, \<open>window_state\<close> the layout of a
    window to the NGG and the hull program.
  \<^item> \<open>Subgroup_Info\<close>, \<open>Subgroup_Rounds\<close>, \<open>Subgroup_Sizes\<close>: \<^verbatim>\<open>ac_ngg_compute_subgroup_info\<close> and \<^verbatim>\<open>gfx10_get_ngg_info\<close>.  The rounding
    loop ends because its sizes only grow within their bounds; the sizes fit the hardware and the LDS, up
    to the scratch area of a geometry program, which is counted twice.
  \<^item> \<open>Tess_Patches\<close>: \<^verbatim>\<open>radv_get_tess_wg_info\<close> and \<^verbatim>\<open>ac_compute_num_tess_patches\<close>.  The search for the number of patches
    ends, within the limits of threads, LDS and off-chip memory; with the description of the GPU that the
    library sets up it always gives one patch.

  \<^bold>\<open>The command line tool.\<close>
  \<^item> \<open>Cli_Options\<close>: \<^verbatim>\<open>parsecmdoptions\<close>.  Counters stay within their arrays; attributes and bindings that are written
    in the documented syntax come back unchanged.
  \<^item> \<open>Cli_Json\<close>: the text of \<^verbatim>\<open>write_metadata\<close>.  A JSON reader gets back every field.
  \<^item> \<open>Cli_Main\<close>: \<^verbatim>\<open>main\<close>.  Every run ends with an exit status; which files change, when, and what they hold.

  \<^bold>\<open>Parameters.\<close>  Mesa's passes (record \<open>mesa\<close>), the header structures of GNM (record of the ABI), the values of the
  generated enumeration \<^verbatim>\<open>pipe_format\<close>, \<^verbatim>\<open>malloc\<close> and the file system are arguments.  What the code relies on is in
  named hypotheses (\<open>compile_safe\<close>, \<open>env_safe\<close>, \<open>malloc_ok\<close> and the sizes of the ABI), and a sample environment
  satisfies all of them.

  \<^bold>\<open>Bounds and fuel.\<close>  The loops of the code are total functions; the walks over SPIR-V words, vertex attributes and
  arguments have explicit measures.  Two loops of Mesa that only end because of their arithmetic, the rounding of
  NGG sizes and the search for patches, are partial functions into \<open>option\<close>, and that they return is proved.  Only the JSON reader, which is specification, has fuel: the length of
  the text, which is enough because every nested call has consumed a character.  Sizes are natural numbers;
  where the source narrows a value the model converts to the width of the target.

  \<^bold>\<open>Not modelled.\<close>
  \<^item> The passes of Mesa, RADV and ACO: they work on the full NIR, of which the library sees a small part.  In the
    driver the argument declaration and the sizes of workgroups are members of the record \<open>mesa\<close> too; their
    models above read members of the shader information that only the passes set, and are proved for all of
    its values within stated bounds.
  \<^item> Of the argument declaration: ray-tracing stages, for which the source declares nothing, the names kept for
    debugging, and return values.
  \<^item> Debug printing (\<^verbatim>\<open>debug_stage\<close>, \<^verbatim>\<open>debug_shader_io\<close>, the \<^verbatim>\<open>PSBC_DEBUG\<close> switches): output on \<^verbatim>\<open>stderr\<close> only.
  \<^item> The mutex around the reference counter: operations on the library are atomic steps.
  \<^item> \<^verbatim>\<open>src/psbc_stubs.c\<close>: constant functions for symbols that the linked part of Mesa never reaches.
\<close>

end
